(* ===== verification/Boxy_Prelude.thy ===== *)
theory Boxy_Prelude
  imports Main "HOL-Library.State_Monad"
begin

text \<open>
  Prelude of the boxy development: the fact collections, the error values of the
  Go code, the generic lemmas on lists the components share, and the effect
  monad in which the stateful code is written.

  Stateful Go code is a computation of HOL-Library's state monad over a record
  that carries a \<^emph>\<open>trace\<close>: the list of calls made so far to code outside the
  repository (the Kubernetes API server, the operating system, the network, the
  clock), each with the answer it got.  What that outside code answers is a
  parameter of every definition that calls it: a function of the trace so far and
  of the arguments of the call, so it may depend on everything that happened
  before.  Theorems quantify over all such functions.
\<close>

named_theorems go_defs \<open>definitions of Go library functions, unfolded together\<close>
named_theorems wp_simps \<open>weakest preconditions of the primitive computations\<close>
named_theorems keeps_intros \<open>structural rules for the parts of the state a computation keeps\<close>
named_theorems returns_intros \<open>structural rules for the values a computation returns\<close>
named_theorems emits_intros \<open>structural rules for the events a computation emits\<close>

section \<open>Error values\<close>

text \<open>
  The values of Go's \<open>error\<close> interface that the code inspects, each with the
  data it inspects.  \<open>ErrWrap\<close> is the result of \<open>fmt.Errorf\<close> with a \<open>%w\<close> verb: the
  formatted text and the error it wraps; \<open>errors.As\<close> looks through it.
\<close>

datatype go_error =
    ErrText string
  | ErrStatus string string       \<comment> \<open>a Kubernetes StatusError: reason and message\<close>
  | ErrHTTP string string int string
      \<comment> \<open>controller.HTTPError: method, URL, status and message\<close>
  | ErrURL string go_error        \<comment> \<open>the \<open>*url.Error\<close> a failed HTTP round trip returns\<close>
  | ErrNet string                 \<comment> \<open>another value that implements \<open>net.Error\<close>\<close>
  | ErrAdapter int string         \<comment> \<open>nsjail.AdapterError: HTTP status and message\<close>
  | ErrExit int string            \<comment> \<open>exec.ExitError: exit code (-1 when killed by a signal), text\<close>
  | ErrDeadline                   \<comment> \<open>context.DeadlineExceeded\<close>
  | ErrCanceled                   \<comment> \<open>context.Canceled\<close>
  | ErrShortWrite                 \<comment> \<open>io.ErrShortWrite\<close>
  | ErrWrap string go_error

text \<open>The chain that \<open>errors.As\<close> and \<open>errors.Is\<close> walk, outermost error first.\<close>

fun err_chain :: "go_error \<Rightarrow> go_error list" where
  "err_chain (ErrWrap t e) = ErrWrap t e # err_chain e"
| "err_chain (ErrURL t e) = ErrURL t e # err_chain e"
| "err_chain e = [e]"

lemma err_chain_not_Nil [simp]: "err_chain e \<noteq> []"
  by (cases e) auto

section \<open>Lists\<close>

lemma take_append_drop_prefix:
  "take (length xs) ys = xs \<longleftrightarrow> (\<exists>zs. ys = xs @ zs)"
  by (metis append_take_drop_id append_eq_conv_conj)

lemma find_Some_in_set:
  "List.find P xs = Some x \<Longrightarrow> x \<in> set xs \<and> P x"
  by (auto simp: find_Some_iff)

lemma list_all_concat: "list_all P (concat xss) \<longleftrightarrow> list_all (list_all P) xss"
  by (induction xss) auto

section \<open>Weakest preconditions\<close>

text \<open>
  \<open>wp m Q s\<close>: running \<open>m\<close> in state \<open>s\<close> ends with a value and a state that satisfy \<open>Q\<close>.
  Every computation of the state monad ends, so this is total correctness.  The equations
  for the combinators turn a statement about a handler into one about its branches.
\<close>

definition wp :: "('s, 'a) state \<Rightarrow> ('a \<Rightarrow> 's \<Rightarrow> bool) \<Rightarrow> 's \<Rightarrow> bool" where
  "wp m Q s = (case run_state m s of (x, s') \<Rightarrow> Q x s')"

lemma wp_return [wp_simps]: "wp (State_Monad.return x) Q s = Q x s"
  by (simp add: wp_def)

lemma wp_bind [wp_simps]: "wp (State_Monad.bind m f) Q s = wp m (\<lambda>x. wp (f x) Q) s"
  by (simp add: wp_def split: prod.split)

lemma wp_get [wp_simps]: "wp State_Monad.get Q s = Q s s"
  by (simp add: wp_def)

lemma wp_update [wp_simps]: "wp (State_Monad.update f) Q s = Q () (f s)"
  by (simp add: wp_def State_Monad.update_def)

lemma wp_if [wp_simps]: "wp (if b then m else n) Q s = (if b then wp m Q s else wp n Q s)"
  by simp

lemma wp_case_option [wp_simps]:
  "wp (case x of None \<Rightarrow> m | Some y \<Rightarrow> f y) Q s =
     (case x of None \<Rightarrow> wp m Q s | Some y \<Rightarrow> wp (f y) Q s)"
  by (simp split: option.split)

lemma wp_case_sum [wp_simps]:
  "wp (case x of Inl a \<Rightarrow> f a | Inr b \<Rightarrow> g b) Q s =
     (case x of Inl a \<Rightarrow> wp (f a) Q s | Inr b \<Rightarrow> wp (g b) Q s)"
  by (simp split: sum.split)

lemma wp_case_prod [wp_simps]:
  "wp (case x of (a, b) \<Rightarrow> f a b) Q s = (case x of (a, b) \<Rightarrow> wp (f a b) Q s)"
  by (simp split: prod.split)

lemma wp_let [wp_simps]: "wp (let x = a in f x) Q s = (let x = a in wp (f x) Q s)"
  by simp

lemma wp_mono: "wp m P s \<Longrightarrow> (\<And>x s'. P x s' \<Longrightarrow> Q x s') \<Longrightarrow> wp m Q s"
  by (auto simp: wp_def split: prod.splits)

lemma wp_conj: "wp m P s \<Longrightarrow> wp m Q s \<Longrightarrow> wp m (\<lambda>x s'. P x s' \<and> Q x s') s"
  by (auto simp: wp_def split: prod.splits)

section \<open>Parts of the state that stay\<close>

definition keeps :: "('s \<Rightarrow> 'k) \<Rightarrow> ('s, 'a) state \<Rightarrow> bool" where
  "keeps f m \<longleftrightarrow> (\<forall>s. f (snd (run_state m s)) = f s)"

lemma keeps_return [keeps_intros]: "keeps f (State_Monad.return x)"
  by (simp add: keeps_def)

lemma keeps_get [keeps_intros]: "keeps f State_Monad.get"
  by (simp add: keeps_def)

lemma keeps_bind [keeps_intros]:
  "keeps f m \<Longrightarrow> (\<And>x. keeps f (g x)) \<Longrightarrow> keeps f (State_Monad.bind m g)"
  by (simp add: keeps_def case_prod_beta)

lemma keeps_cases [keeps_intros]:
  "\<lbrakk>b \<Longrightarrow> keeps f m; \<not> b \<Longrightarrow> keeps f n\<rbrakk> \<Longrightarrow> keeps f (if b then m else n)"
  "\<lbrakk>x = None \<Longrightarrow> keeps f m; \<And>y. x = Some y \<Longrightarrow> keeps f (h y)\<rbrakk> \<Longrightarrow>
     keeps f (case x of None \<Rightarrow> m | Some y \<Rightarrow> h y)"
  "\<lbrakk>\<And>a. z = Inl a \<Longrightarrow> keeps f (k a); \<And>c. z = Inr c \<Longrightarrow> keeps f (l c)\<rbrakk> \<Longrightarrow>
     keeps f (case z of Inl a \<Rightarrow> k a | Inr c \<Rightarrow> l c)"
  "(\<And>u v. w = (u, v) \<Longrightarrow> keeps f (j u v)) \<Longrightarrow> keeps f (case w of (u, v) \<Rightarrow> j u v)"
  by (auto split: option.split sum.split prod.split)

lemma wp_keeps: "keeps f m \<Longrightarrow> wp m (\<lambda>_ s'. f s' = f s) s"
  by (simp add: keeps_def wp_def case_prod_beta)

section \<open>Values a computation can return\<close>

definition returns :: "('a \<Rightarrow> bool) \<Rightarrow> ('s, 'a) state \<Rightarrow> bool" where
  "returns P m \<longleftrightarrow> (\<forall>s. P (fst (run_state m s)))"

lemma returns_return [returns_intros]: "P x \<Longrightarrow> returns P (State_Monad.return x)"
  by (simp add: returns_def)

lemma returns_bind [returns_intros]: "(\<And>x. returns P (f x)) \<Longrightarrow> returns P (State_Monad.bind m f)"
  by (simp add: returns_def case_prod_beta)

lemma returns_bind_value:
  "returns R m \<Longrightarrow> (\<And>x. R x \<Longrightarrow> returns P (f x)) \<Longrightarrow> returns P (State_Monad.bind m f)"
  by (simp add: returns_def case_prod_beta)

lemma returns_cases [returns_intros]:
  "\<lbrakk>b \<Longrightarrow> returns P m; \<not> b \<Longrightarrow> returns P n\<rbrakk> \<Longrightarrow> returns P (if b then m else n)"
  "\<lbrakk>x = None \<Longrightarrow> returns P m; \<And>y. x = Some y \<Longrightarrow> returns P (h y)\<rbrakk> \<Longrightarrow>
     returns P (case x of None \<Rightarrow> m | Some y \<Rightarrow> h y)"
  "\<lbrakk>\<And>a. z = Inl a \<Longrightarrow> returns P (k a); \<And>c. z = Inr c \<Longrightarrow> returns P (l c)\<rbrakk> \<Longrightarrow>
     returns P (case z of Inl a \<Rightarrow> k a | Inr c \<Rightarrow> l c)"
  "(\<And>u v. w = (u, v) \<Longrightarrow> returns P (j u v)) \<Longrightarrow> returns P (case w of (u, v) \<Rightarrow> j u v)"
  by (auto split: option.split sum.split prod.split)

lemma wp_returns: "returns P m \<Longrightarrow> wp m (\<lambda>x _. P x) s"
  by (simp add: returns_def wp_def case_prod_beta)

section \<open>Computations that emit events\<close>

text \<open>
  \<open>emits P m\<close> says that running \<open>m\<close> only appends events to the trace, that the
  events it appends satisfy \<open>P\<close> together with the value returned, whatever the
  state it starts in.  \<open>tr\<close> reads the trace of a state.
\<close>

definition emits ::
  "('w \<Rightarrow> 'e list) \<Rightarrow> ('e list \<Rightarrow> 'a \<Rightarrow> bool) \<Rightarrow> ('w, 'a) state \<Rightarrow> bool" where
  "emits tr P m \<longleftrightarrow>
     (\<forall>w. \<exists>es. tr (snd (run_state m w)) = tr w @ es \<and> P es (fst (run_state m w)))"

lemma emitsI:
  assumes "\<And>w. \<exists>es. tr (snd (run_state m w)) = tr w @ es \<and> P es (fst (run_state m w))"
  shows "emits tr P m"
  using assms by (simp add: emits_def)

lemma emitsE:
  assumes "emits tr P m" and "run_state m w = (x, w')"
  obtains es where "tr w' = tr w @ es" and "P es x"
  using assms unfolding emits_def by (metis fst_conv snd_conv)

lemma emits_mono:
  assumes "emits tr P m" and "\<And>es x. P es x \<Longrightarrow> Q es x"
  shows "emits tr Q m"
  using assms unfolding emits_def by blast

lemma emits_return [emits_intros]: "P [] x \<Longrightarrow> emits tr P (State_Monad.return x)"
  by (rule emitsI) simp

text \<open>
  The rule for sequencing fits predicates that are closed under appending: every
  event satisfies \<open>p\<close>.
\<close>

abbreviation emits_all :: "('w \<Rightarrow> 'e list) \<Rightarrow> ('e \<Rightarrow> bool) \<Rightarrow> ('w, 'a) state \<Rightarrow> bool" where
  "emits_all tr p m \<equiv> emits tr (\<lambda>es _. list_all p es) m"

lemma emits_bind:
  assumes "emits tr P m"
    and "\<And>x es. P es x \<Longrightarrow> emits tr (Q es x) (f x)"
    and "\<And>es x es' y. P es x \<Longrightarrow> Q es x es' y \<Longrightarrow> R (es @ es') y"
  shows "emits tr R (State_Monad.bind m f)"
proof (rule emitsI)
  fix w
  obtain x w1 where m: "run_state m w = (x, w1)" by fastforce
  from assms(1) m obtain es where 1: "tr w1 = tr w @ es" "P es x" by (rule emitsE)
  obtain y w2 where f: "run_state (f x) w1 = (y, w2)" by fastforce
  from assms(2) [OF 1(2)] f obtain es' where 2: "tr w2 = tr w1 @ es'" "Q es x es' y"
    by (rule emitsE)
  from 1 2 assms(3) [OF 1(2) 2(2)] m f
  show "\<exists>es. tr (snd (run_state (State_Monad.bind m f) w)) = tr w @ es \<and>
          R es (fst (run_state (State_Monad.bind m f) w))"
    by auto
qed

lemma emits_all_bind [emits_intros]:
  assumes "emits_all tr p m" and "\<And>x. emits_all tr p (f x)"
  shows "emits_all tr p (State_Monad.bind m f)"
  by (rule emits_bind [OF assms(1)]) (use assms(2) in auto)

lemma emits_cases [emits_intros]:
  "\<lbrakk>b \<Longrightarrow> emits tr P m; \<not> b \<Longrightarrow> emits tr P n\<rbrakk> \<Longrightarrow> emits tr P (if b then m else n)"
  "\<lbrakk>x = None \<Longrightarrow> emits tr P m; \<And>y. x = Some y \<Longrightarrow> emits tr P (h y)\<rbrakk> \<Longrightarrow>
     emits tr P (case x of None \<Rightarrow> m | Some y \<Rightarrow> h y)"
  "\<lbrakk>\<And>a. z = Inl a \<Longrightarrow> emits tr P (k a); \<And>c. z = Inr c \<Longrightarrow> emits tr P (l c)\<rbrakk> \<Longrightarrow>
     emits tr P (case z of Inl a \<Rightarrow> k a | Inr c \<Rightarrow> l c)"
  "(\<And>u v. w = (u, v) \<Longrightarrow> emits tr P (j u v)) \<Longrightarrow> emits tr P (case w of (u, v) \<Rightarrow> j u v)"
  by (auto split: option.split sum.split prod.split)

end
