(* ===== verification/Go_Strings.thy ===== *)
theory Go_Strings
  imports Boxy_Prelude
begin

text \<open>
  The functions of Go's \<open>strings\<close>, \<open>strconv\<close>, \<open>unicode/utf8\<close> and \<open>fmt\<close> packages
  that the code calls, on byte strings: a Go string is a sequence of bytes and
  \<open>len\<close> counts bytes, and a \<open>char\<close> is a byte.
\<close>

type_synonym bytes = string

abbreviation byte :: "char \<Rightarrow> nat" where
  "byte c \<equiv> of_char c"

section \<open>White space\<close>

text \<open>
  The UTF-8 encodings of the runes for which \<open>unicode.IsSpace\<close> holds.
  \<open>strings.TrimSpace\<close> removes them from both ends.
\<close>

definition space_runes :: "bytes list" where
  "space_runes =
    [[CHR 0x09], [CHR 0x0A], [CHR 0x0B], [CHR 0x0C], [CHR 0x0D], [CHR 0x20],
     [CHR 0xC2, CHR 0x85], [CHR 0xC2, CHR 0xA0],
     [CHR 0xE1, CHR 0x9A, CHR 0x80],
     [CHR 0xE2, CHR 0x80, CHR 0x80], [CHR 0xE2, CHR 0x80, CHR 0x81],
     [CHR 0xE2, CHR 0x80, CHR 0x82], [CHR 0xE2, CHR 0x80, CHR 0x83],
     [CHR 0xE2, CHR 0x80, CHR 0x84], [CHR 0xE2, CHR 0x80, CHR 0x85],
     [CHR 0xE2, CHR 0x80, CHR 0x86], [CHR 0xE2, CHR 0x80, CHR 0x87],
     [CHR 0xE2, CHR 0x80, CHR 0x88], [CHR 0xE2, CHR 0x80, CHR 0x89],
     [CHR 0xE2, CHR 0x80, CHR 0x8A], [CHR 0xE2, CHR 0x80, CHR 0xA8],
     [CHR 0xE2, CHR 0x80, CHR 0xA9], [CHR 0xE2, CHR 0x80, CHR 0xAF],
     [CHR 0xE2, CHR 0x81, CHR 0x9F], [CHR 0xE3, CHR 0x80, CHR 0x80]]"

lemma space_runes_nonempty: "e \<in> set space_runes \<Longrightarrow> e \<noteq> []"
  by (auto simp: space_runes_def)

function trim_left_of :: "bytes list \<Rightarrow> bytes \<Rightarrow> bytes" where
  "trim_left_of encs s =
     (case List.find (\<lambda>e. e \<noteq> [] \<and> take (length e) s = e) encs of
        None \<Rightarrow> s
      | Some e \<Rightarrow> trim_left_of encs (drop (length e) s))"
  by pat_completeness auto
termination
proof (relation "measure (\<lambda>(encs, s). length s)")
  fix encs :: "bytes list" and s e
  assume "List.find (\<lambda>e. e \<noteq> [] \<and> take (length e) s = e) encs = Some e"
  then have "e \<noteq> []" and "take (length e) s = e" by (auto dest: find_Some_in_set)
  then have "length e \<noteq> 0" and "length e \<le> length s"
    by (auto simp: take_append_drop_prefix)
  then show "((encs, drop (length e) s), (encs, s)) \<in> measure (\<lambda>(encs, s). length s)"
    by (simp del: length_0_conv length_greater_0_conv)
qed simp

declare trim_left_of.simps [simp del]

definition TrimSpace :: "bytes \<Rightarrow> bytes" where
  "TrimSpace s = rev (trim_left_of (map rev space_runes) (rev (trim_left_of space_runes s)))"

text \<open>A string that starts and ends with a byte of no space rune is left as it is.\<close>

definition space_free_byte :: "char \<Rightarrow> bool" where
  "space_free_byte c \<longleftrightarrow> 0x20 < byte c \<and> byte c < (0x80::nat)"

lemma trim_left_of_id:
  assumes "\<And>e. e \<in> set encs \<Longrightarrow> e \<noteq> [] \<Longrightarrow> s = [] \<or> hd e \<noteq> hd s"
  shows "trim_left_of encs s = s"
proof -
  have "List.find (\<lambda>e. e \<noteq> [] \<and> take (length e) s = e) encs = None"
  proof (rule ccontr)
    assume "List.find (\<lambda>e. e \<noteq> [] \<and> take (length e) s = e) encs \<noteq> None"
    then obtain e where "e \<in> set encs" "e \<noteq> []" "take (length e) s = e"
      by (auto dest: find_Some_in_set)
    with assms [of e] show False
      by (auto simp: take_append_drop_prefix hd_append)
  qed
  then show ?thesis by (subst trim_left_of.simps) simp
qed

lemma space_runes_hd: "e \<in> set space_runes \<Longrightarrow> \<not> space_free_byte (hd e)"
  by (auto simp: space_runes_def space_free_byte_def)

lemma space_runes_last: "e \<in> set space_runes \<Longrightarrow> \<not> space_free_byte (last e)"
  by (auto simp: space_runes_def space_free_byte_def)

lemma TrimSpace_id:
  assumes "s \<noteq> []" and "space_free_byte (hd s)" and "space_free_byte (last s)"
  shows "TrimSpace s = s"
proof -
  have l: "trim_left_of space_runes s = s"
    by (rule trim_left_of_id) (use assms(2) space_runes_hd in metis)
  have r: "trim_left_of (map rev space_runes) (rev s) = rev s"
    by (rule trim_left_of_id)
       (use assms space_runes_last in \<open>auto simp: hd_rev, metis\<close>)
  from l r show ?thesis by (simp add: TrimSpace_def)
qed

lemma TrimSpace_Nil [simp]: "TrimSpace [] = []"
  by (simp add: TrimSpace_def trim_left_of_id)

section \<open>Prefixes, substrings and case\<close>

definition HasPrefix :: "bytes \<Rightarrow> bytes \<Rightarrow> bool" where
  "HasPrefix s p \<longleftrightarrow> take (length p) s = p"

definition TrimPrefix :: "bytes \<Rightarrow> bytes \<Rightarrow> bytes" where
  "TrimPrefix s p = (if HasPrefix s p then drop (length p) s else s)"

fun Contains :: "bytes \<Rightarrow> bytes \<Rightarrow> bool" where
  "Contains [] p \<longleftrightarrow> p = []"
| "Contains (c # s) p \<longleftrightarrow> HasPrefix (c # s) p \<or> Contains s p"

lemma HasPrefix_iff: "HasPrefix s p \<longleftrightarrow> (\<exists>t. s = p @ t)"
  by (simp add: HasPrefix_def take_append_drop_prefix)

lemma HasPrefix_append [simp]: "HasPrefix (p @ s) p"
  by (simp add: HasPrefix_def)

lemma HasPrefix_Nil [simp]: "HasPrefix s []"
  by (simp add: HasPrefix_def)

lemma Contains_iff: "Contains s p \<longleftrightarrow> (\<exists>a b. s = a @ p @ b)"
proof (induction s)
  case (Cons c s)
  have "(\<exists>a b. c # s = a @ p @ b) \<longleftrightarrow> (\<exists>b. c # s = p @ b) \<or> (\<exists>a b. s = a @ p @ b)"
    (is "?L \<longleftrightarrow> ?R")
  proof
    assume ?L
    then obtain a b where "c # s = a @ p @ b" by blast
    then show ?R by (cases a) auto
  next
    assume ?R
    then show ?L
    proof
      assume "\<exists>b. c # s = p @ b"
      then show ?L by (metis append_Nil)
    next
      assume "\<exists>a b. s = a @ p @ b"
      then show ?L by (metis append_Cons)
    qed
  qed
  then show ?case by (simp add: Cons.IH HasPrefix_iff)
qed simp

lemma Contains_single: "Contains s [c] \<longleftrightarrow> c \<in> set s"
  by (auto simp: Contains_iff in_set_conv_decomp)

text \<open>
  \<open>strings.ToUpper\<close> and \<open>strings.ToLower\<close> map runes.  The results are only compared
  with ASCII strings, so a rune whose image is outside ASCII is kept as it is; the
  non-ASCII runes with an ASCII image are U+017F and U+0131 (upper case S and I) and
  U+212A and U+0130 (lower case k and i).
\<close>

definition upper_byte :: "char \<Rightarrow> char" where
  "upper_byte c = (if 97 \<le> byte c \<and> byte c \<le> (122::nat) then char_of (byte c - 32 :: nat) else c)"

definition lower_byte :: "char \<Rightarrow> char" where
  "lower_byte c = (if 65 \<le> byte c \<and> byte c \<le> (90::nat) then char_of (byte c + 32 :: nat) else c)"

fun ToUpper :: "bytes \<Rightarrow> bytes" where
  "ToUpper [] = []"
| "ToUpper [c] = [upper_byte c]"
| "ToUpper (c # d # s) =
     (if c = CHR 0xC5 \<and> d = CHR 0xBF then CHR ''S'' # ToUpper s
      else if c = CHR 0xC4 \<and> d = CHR 0xB1 then CHR ''I'' # ToUpper s
      else upper_byte c # ToUpper (d # s))"

fun ToLower :: "bytes \<Rightarrow> bytes" where
  "ToLower [] = []"
| "ToLower [c] = [lower_byte c]"
| "ToLower (c # d # s) =
     (if c = CHR 0xC4 \<and> d = CHR 0xB0 then CHR ''i'' # ToLower s
      else if c = CHR 0xE2 \<and> take 2 (d # s) = [CHR 0x84, CHR 0xAA]
           then CHR ''k'' # ToLower (tl s)
      else lower_byte c # ToLower (d # s))"

section \<open>Counting and replacing substrings\<close>

text \<open>
  \<open>strings.Count\<close> and \<open>strings.Replace\<close> for a non-empty substring \<open>old\<close>, the only
  case the code reaches: occurrences are found from the left and do not overlap.
\<close>

function str_Count :: "bytes \<Rightarrow> bytes \<Rightarrow> nat" where
  "str_Count s old =
     (if s = [] \<or> old = [] then 0
      else if HasPrefix s old then Suc (str_Count (drop (length old) s) old)
      else str_Count (tl s) old)"
  by pat_completeness auto
termination
  by (relation "measure (\<lambda>(s, old). length s)") auto

function ReplaceAll :: "bytes \<Rightarrow> bytes \<Rightarrow> bytes \<Rightarrow> bytes" where
  "ReplaceAll s old new =
     (if s = [] \<or> old = [] then s
      else if HasPrefix s old then new @ ReplaceAll (drop (length old) s) old new
      else hd s # ReplaceAll (tl s) old new)"
  by pat_completeness auto
termination
  by (relation "measure (\<lambda>(s, old, new). length s)") auto

fun ReplaceFirst :: "bytes \<Rightarrow> bytes \<Rightarrow> bytes \<Rightarrow> bytes" where
  "ReplaceFirst [] old new = []"
| "ReplaceFirst (c # s) old new =
     (if HasPrefix (c # s) old then new @ drop (length old) (c # s)
      else c # ReplaceFirst s old new)"

declare str_Count.simps [simp del] ReplaceAll.simps [simp del]

lemma str_Count_eq_0: "old \<noteq> [] \<Longrightarrow> str_Count s old = 0 \<longleftrightarrow> \<not> Contains s old"
proof (induction s)
  case (Cons c s)
  then show ?case by (subst str_Count.simps) simp
qed (simp add: str_Count.simps)

text \<open>The parts between the occurrences of a separator, put together again.\<close>

fun glue :: "bytes \<Rightarrow> bytes list \<Rightarrow> bytes" where
  "glue sep [] = []"
| "glue sep [p] = p"
| "glue sep (p # q # ps) = p @ sep @ glue sep (q # ps)"

fun glue_first :: "bytes \<Rightarrow> bytes \<Rightarrow> bytes list \<Rightarrow> bytes" where
  "glue_first new old (p # q # ps) = p @ new @ glue old (q # ps)"
| "glue_first new old ps = glue old ps"

lemma glue_Cons: "ps \<noteq> [] \<Longrightarrow> glue sep (p # ps) = p @ sep @ glue sep ps"
  by (cases ps) auto

lemma glue_push: "glue sep ((c # p) # ps) = c # glue sep (p # ps)"
  "glue_first new old ((c # p) # ps) = c # glue_first new old (p # ps)"
  by (cases ps; simp)+

lemma glue_hd: "\<exists>t. glue sep (p # ps) = p @ t"
  by (cases ps) auto

text \<open>
  A string is cut at the occurrences that the functions find: counting counts the cuts,
  replacing glues with another separator, at all cuts or at the first one, and no part
  between the cuts holds another occurrence.
\<close>

lemma occurrences:
  assumes "old \<noteq> []"
  shows "\<exists>ps. length ps = Suc (str_Count s old) \<and> s = glue old ps \<and>
    ReplaceAll s old new = glue new ps \<and> ReplaceFirst s old new = glue_first new old ps \<and>
    list_all (\<lambda>p. \<not> Contains p old) ps"
proof (induction "length s" arbitrary: s rule: less_induct)
  case less
  consider (Nil) "s = []" | (hit) "s \<noteq> []" "HasPrefix s old" | (miss) "s \<noteq> []" "\<not> HasPrefix s old"
    by blast
  then show ?case
  proof cases
    case Nil
    then show ?thesis using assms
      by (intro exI [of _ "[[]]"]) (simp add: str_Count.simps ReplaceAll.simps HasPrefix_def)
  next
    case hit
    then obtain t where t: "s = old @ t" by (auto simp: HasPrefix_iff)
    have "length t < length s" using t assms by simp
    from less [OF this] obtain ps where ps: "length ps = Suc (str_Count t old)" "t = glue old ps"
      "ReplaceAll t old new = glue new ps" "list_all (\<lambda>p. \<not> Contains p old) ps" by blast
    have ne: "ps \<noteq> []" using ps(1) by auto
    have c: "str_Count s old = Suc (str_Count t old)" "ReplaceAll s old new = new @ ReplaceAll t old new"
      using assms t hit str_Count.simps [of s old] ReplaceAll.simps [of s old new] by simp_all
    have f: "ReplaceFirst s old new = new @ t"
    proof -
      have "ReplaceFirst s old new = new @ drop (length old) s" using hit by (cases s) simp_all
      then show ?thesis using t by simp
    qed
    have e: "\<not> Contains [] old" using assms by (simp add: HasPrefix_def)
    obtain q qs where "ps = q # qs" using ne by (cases ps) auto
    with ps c f t e ne show ?thesis
      by (intro exI [of _ "[] # ps"]) simp
  next
    case miss
    obtain c t where s: "s = c # t" using miss(1) by (cases s) auto
    from less [of t] s obtain ps where ps: "length ps = Suc (str_Count t old)" "t = glue old ps"
      "ReplaceAll t old new = glue new ps" "ReplaceFirst t old new = glue_first new old ps"
      "list_all (\<lambda>p. \<not> Contains p old) ps" by auto
    obtain q qs where q: "ps = q # qs" using ps(1) by (cases ps) auto
    have "str_Count s old = str_Count t old" "ReplaceAll s old new = c # ReplaceAll t old new"
      "ReplaceFirst s old new = c # ReplaceFirst t old new"
      using assms s miss str_Count.simps [of s old] ReplaceAll.simps [of s old new] by simp_all
    moreover have "\<not> HasPrefix (c # q) old"
    proof
      assume "HasPrefix (c # q) old"
      then obtain u where u: "c # q = old @ u" by (auto simp: HasPrefix_iff)
      obtain v where "t = q @ v" using ps(2) glue_hd [of old q qs] by (auto simp: q)
      then have "s = old @ u @ v" using s u by (metis append_Cons append_assoc)
      with miss(2) show False by (auto simp: HasPrefix_iff)
    qed
    ultimately show ?thesis
      using ps q s by (intro exI [of _ "(c # q) # qs"]) (simp add: glue_push)
  qed
qed

section \<open>Numbers\<close>

definition digit_char :: "nat \<Rightarrow> char" where
  "digit_char d = char_of (48 + d)"

definition is_digit :: "char \<Rightarrow> bool" where
  "is_digit c \<longleftrightarrow> 48 \<le> byte c \<and> byte c \<le> (57::nat)"

fun fmt_nat :: "nat \<Rightarrow> bytes" where
  "fmt_nat n = (if n < 10 then [digit_char n] else fmt_nat (n div 10) @ [digit_char (n mod 10)])"

declare fmt_nat.simps [simp del]

text \<open>The verb \<open>%d\<close> of \<open>fmt\<close>.\<close>

definition fmt_int :: "int \<Rightarrow> bytes" where
  "fmt_int i = (if i < 0 then CHR ''-'' # fmt_nat (nat (- i)) else fmt_nat (nat i))"

fun digits_value :: "nat \<Rightarrow> bytes \<Rightarrow> nat option" where
  "digits_value acc [] = Some acc"
| "digits_value acc (c # s) =
     (if is_digit c then digits_value (10 * acc + (byte c - 48)) s else None)"

text \<open>\<open>strconv.ParseUint(s, 10, 64)\<close> and \<open>strconv.Atoi\<close>; \<open>None\<close> is an error.\<close>

definition ParseUint :: "bytes \<Rightarrow> nat option" where
  "ParseUint s =
     (if s = [] then None
      else case digits_value 0 s of
             None \<Rightarrow> None
           | Some n \<Rightarrow> if n < 2 ^ 64 then Some n else None)"

definition Atoi :: "bytes \<Rightarrow> int option" where
  "Atoi s =
     (let neg = (s \<noteq> [] \<and> hd s = CHR ''-'');
          t = (if s \<noteq> [] \<and> (hd s = CHR ''-'' \<or> hd s = CHR ''+'') then tl s else s)
      in if t = [] then None
         else case digits_value 0 t of
                None \<Rightarrow> None
              | Some n \<Rightarrow>
                  (let i = (if neg then - int n else int n)
                   in if - (2 ^ 63) \<le> i \<and> i < 2 ^ 63 then Some i else None))"

lemma byte_digit_char [simp]: "d < 10 \<Longrightarrow> byte (digit_char d) = 48 + d"
  by (simp add: digit_char_def)

lemma is_digit_digit_char [simp]: "d < 10 \<Longrightarrow> is_digit (digit_char d)"
  by (simp add: is_digit_def)

lemma digits_value_append:
  "digits_value a (s @ t) =
     (case digits_value a s of None \<Rightarrow> None | Some b \<Rightarrow> digits_value b t)"
  by (induction s arbitrary: a) auto

lemma digits_value_fmt_nat: "digits_value 0 (fmt_nat n) = Some n"
proof (induction n rule: fmt_nat.induct)
  case (1 n)
  show ?case
  proof (cases "n < 10")
    case True
    then show ?thesis by (simp add: fmt_nat.simps)
  next
    case False
    with 1 show ?thesis
      by (subst fmt_nat.simps) (simp add: digits_value_append)
  qed
qed

lemma fmt_nat_digits: "list_all is_digit (fmt_nat n)"
proof (induction n rule: fmt_nat.induct)
  case (1 n)
  then show ?case by (cases "n < 10") (subst fmt_nat.simps, simp)+
qed

lemma fmt_nat_nonempty [simp]: "fmt_nat n \<noteq> []"
  by (subst fmt_nat.simps) simp

lemma fmt_nat_inj [simp]: "fmt_nat m = fmt_nat n \<longleftrightarrow> m = n"
  by (metis digits_value_fmt_nat option.inject)

lemma ParseUint_fmt_nat: "n < 2 ^ 64 \<Longrightarrow> ParseUint (fmt_nat n) = Some n"
  by (simp add: ParseUint_def digits_value_fmt_nat)

section \<open>Error texts\<close>

text \<open>The text that the method \<open>Error\<close> returns, which the verb \<open>%v\<close> prints.\<close>

fun err_msg :: "go_error \<Rightarrow> string" where
  "err_msg (ErrText t) = t"
| "err_msg (ErrStatus r t) = t"
| "err_msg (ErrHTTP meth url st t) =
     (if t \<noteq> [] then t
      else ''controller returned '' @ fmt_int st @ '' for '' @ meth @ '' '' @ url)"
| "err_msg (ErrURL t e) = t"
| "err_msg (ErrNet t) = t"
| "err_msg (ErrAdapter c t) = t"
| "err_msg (ErrExit c t) = t"
| "err_msg ErrDeadline = ''context deadline exceeded''"
| "err_msg ErrCanceled = ''context canceled''"
| "err_msg ErrShortWrite = ''short write''"
| "err_msg (ErrWrap t e) = t"

definition wrap_err :: "string \<Rightarrow> go_error \<Rightarrow> string \<Rightarrow> go_error" where
  "wrap_err before e after = ErrWrap (before @ err_msg e @ after) e"

end
