(* ===== verification/Api_Types.thy ===== *)
theory Api_Types
  imports Go_Strings "HOL-Library.Word"
begin

text \<open>
  The request and response bodies of \<^verbatim>\<open>internal/api/types.go\<close>, one record per struct.
  A nil slice or map behaves as an empty one everywhere in the code, so slices and maps
  are lists; a map is the list of its entries in the order in which a \<open>range\<close> loop
  visits them (Go leaves that order open), with distinct keys.  A pointer to a struct
  is an option.
\<close>

type_synonym str_map = "(bytes \<times> bytes) list"

definition map_ok :: "str_map \<Rightarrow> bool" where
  "map_ok m \<longleftrightarrow> distinct (map fst m)"

record ExecRequestBody =
  er_SandboxID :: bytes
  er_SessionID :: bytes
  er_Owner :: bytes
  er_Command :: bytes
  er_Args :: "bytes list"
  er_Env :: str_map
  er_TimeoutSeconds :: int
  er_PTY :: bool

record ExecResponseBody =
  xr_ExitCode :: int
  xr_Stdout :: bytes
  xr_Stderr :: bytes
  xr_TimedOut :: bool

record VMRlimit =
  rl_Resource :: bytes
  rl_Soft :: "64 word"
  rl_Hard :: "64 word"

record VMScript =
  vs_Name :: bytes
  vs_Content :: bytes

record VMConfig =
  vm_Image :: bytes
  vm_MemoryMB :: int
  vm_VCPUs :: int
  vm_Workdir :: bytes
  vm_Shell :: bytes
  vm_Hostname :: bytes
  vm_User :: bytes
  vm_MaxDurationSec :: int
  vm_IdleTimeoutSec :: int
  vm_Rlimits :: "VMRlimit list"
  vm_Scripts :: "VMScript list"
  vm_SeccompString :: bytes
  vm_CloneNewTime :: bool

record MacvlanConfig =
  mv_Interface :: bytes
  mv_IP :: bytes
  mv_Netmask :: bytes
  mv_Gateway :: bytes
  mv_MAC :: bytes

record SandboxNetworkConfig =
  net_Enabled :: "bool option"
  net_AllowInternetAccess :: bool
  net_Macvlan :: "MacvlanConfig option"
  net_UsePasta :: bool

record VolumeMount =
  vol_GuestPath :: bytes
  vol_Type :: bytes
  vol_HostPath :: bytes
  vol_Name :: bytes
  vol_SizeMB :: int
  vol_Readonly :: bool

record SandboxPatch =
  pa_Type :: bytes
  pa_Path :: bytes
  pa_Content :: bytes
  pa_Bytes :: bytes
  pa_HostPath :: bytes
  pa_Target :: bytes
  pa_Mode :: int
  pa_Replace :: bool

record SandboxCreateBody =
  sb_SandboxID :: bytes
  sb_TTLSeconds :: int
  sb_Env :: str_map
  sb_AllowedBinaries :: "bytes list"
  sb_VM :: "VMConfig option"
  sb_Network :: "SandboxNetworkConfig option"
  sb_Volumes :: "VolumeMount list"
  sb_Patches :: "SandboxPatch list"
  sb_SetupScript :: bytes
  sb_TeardownScript :: bytes
  sb_ScriptEnv :: str_map

record ErrorBody =
  eb_Error :: bytes
  eb_Code :: bytes

record SessionCreateBody =
  sc_SandboxID :: bytes
  sc_SessionID :: bytes
  sc_Owner :: bytes

record SessionResponseBody =
  sr_SessionID :: bytes
  sr_SandboxID :: bytes
  sr_Owner :: bytes
  sr_Phase :: bytes
  sr_Ready :: bool
  sr_ControllerPod :: bytes
  sr_ControllerAddress :: bytes
  sr_Port :: int
  sr_CreatedAt :: bytes
  sr_ExpiresAt :: bytes
  sr_LastExecAt :: bytes

record SandboxConfigResponse =
  cr_SandboxID :: bytes
  cr_TTLSeconds :: int
  cr_ActiveSessions :: int

record SandboxEvictResponse =
  ev_EvictedSessions :: int
  ev_Message :: bytes

text \<open>The zero value of a create body, as Go's composite literals start from.\<close>

definition zero_SandboxCreateBody :: SandboxCreateBody where
  "zero_SandboxCreateBody =
     \<lparr>sb_SandboxID = [], sb_TTLSeconds = 0, sb_Env = [], sb_AllowedBinaries = [],
      sb_VM = None, sb_Network = None, sb_Volumes = [], sb_Patches = [],
      sb_SetupScript = [], sb_TeardownScript = [], sb_ScriptEnv = []\<rparr>"

definition zero_VMConfig :: VMConfig where
  "zero_VMConfig =
     \<lparr>vm_Image = [], vm_MemoryMB = 0, vm_VCPUs = 0, vm_Workdir = [], vm_Shell = [],
      vm_Hostname = [], vm_User = [], vm_MaxDurationSec = 0, vm_IdleTimeoutSec = 0,
      vm_Rlimits = [], vm_Scripts = [], vm_SeccompString = [], vm_CloneNewTime = False\<rparr>"

end
