(* ===== verification/Go_Regexp.thy ===== *)
theory Go_Regexp
  imports Go_Strings
begin

text \<open>
  The part of Go's \<open>regexp\<close> that the validation code uses: anchored patterns built from
  character classes, concatenation, repetition and options.  \<open>MatchString\<close> of a pattern
  \<^verbatim>\<open>^r$\<close> is membership in the language of \<open>r\<close>; it is computed by derivatives, and
  \<open>regex_match_iff\<close> relates the two.
\<close>

datatype regex =
    RZero
  | REps
  | RClass "(char \<times> char) list"    \<comment> \<open>ranges, each with its first and last byte\<close>
  | RSeq regex regex
  | RAlt regex regex
  | RStar regex

abbreviation ROpt :: "regex \<Rightarrow> regex" where
  "ROpt r \<equiv> RAlt r REps"

definition in_class :: "(char \<times> char) list \<Rightarrow> char \<Rightarrow> bool" where
  "in_class rs c \<longleftrightarrow> list_ex (\<lambda>(lo, hi). byte lo \<le> (byte c :: nat) \<and> byte c \<le> (byte hi :: nat)) rs"

fun nullable :: "regex \<Rightarrow> bool" where
  "nullable RZero = False"
| "nullable REps = True"
| "nullable (RClass _) = False"
| "nullable (RSeq a b) = (nullable a \<and> nullable b)"
| "nullable (RAlt a b) = (nullable a \<or> nullable b)"
| "nullable (RStar _) = True"

fun deriv :: "char \<Rightarrow> regex \<Rightarrow> regex" where
  "deriv c RZero = RZero"
| "deriv c REps = RZero"
| "deriv c (RClass rs) = (if in_class rs c then REps else RZero)"
| "deriv c (RSeq a b) =
     (let d = RSeq (deriv c a) b in if nullable a then RAlt d (deriv c b) else d)"
| "deriv c (RAlt a b) = RAlt (deriv c a) (deriv c b)"
| "deriv c (RStar a) = RSeq (deriv c a) (RStar a)"

definition regex_match :: "regex \<Rightarrow> bytes \<Rightarrow> bool" where
  "regex_match r s \<longleftrightarrow> nullable (fold deriv s r)"

inductive_set star_lang :: "bytes set \<Rightarrow> bytes set" for L :: "bytes set" where
  star_Nil: "[] \<in> star_lang L"
| star_step: "u \<in> L \<Longrightarrow> v \<in> star_lang L \<Longrightarrow> u @ v \<in> star_lang L"

fun rlang :: "regex \<Rightarrow> bytes set" where
  "rlang RZero = {}"
| "rlang REps = {[]}"
| "rlang (RClass rs) = {[c] | c. in_class rs c}"
| "rlang (RSeq a b) = {u @ v | u v. u \<in> rlang a \<and> v \<in> rlang b}"
| "rlang (RAlt a b) = rlang a \<union> rlang b"
| "rlang (RStar a) = star_lang (rlang a)"

lemma nullable_iff: "nullable r \<longleftrightarrow> [] \<in> rlang r"
  by (induction r) (auto intro: star_Nil)

lemma star_lang_Cons:
  "c # s \<in> star_lang L \<longleftrightarrow> (\<exists>u v. s = u @ v \<and> c # u \<in> L \<and> v \<in> star_lang L)"
proof
  assume "c # s \<in> star_lang L"
  then show "\<exists>u v. s = u @ v \<and> c # u \<in> L \<and> v \<in> star_lang L"
  proof (induction "c # s" arbitrary: s rule: star_lang.induct)
    case (star_step u v)
    then show ?case by (cases u) auto
  qed
next
  assume "\<exists>u v. s = u @ v \<and> c # u \<in> L \<and> v \<in> star_lang L"
  then show "c # s \<in> star_lang L" using star_step by fastforce
qed

lemma rlang_deriv: "s \<in> rlang (deriv c r) \<longleftrightarrow> c # s \<in> rlang r"
proof (induction r arbitrary: s)
  case (RSeq a b)
  have "c # s \<in> rlang (RSeq a b) \<longleftrightarrow>
          (\<exists>u v. s = u @ v \<and> c # u \<in> rlang a \<and> v \<in> rlang b) \<or>
          [] \<in> rlang a \<and> c # s \<in> rlang b"
    by (auto simp: Cons_eq_append_conv)
  then show ?case by (auto simp: RSeq Let_def nullable_iff)
next
  case (RStar a)
  then show ?case by (auto simp: star_lang_Cons)
qed auto

lemma regex_match_iff: "regex_match r s \<longleftrightarrow> s \<in> rlang r"
  unfolding regex_match_def
  by (induction s arbitrary: r) (auto simp: nullable_iff rlang_deriv)

lemma star_class: "s \<in> rlang (RStar (RClass rs)) \<longleftrightarrow> list_all (in_class rs) s"
  by (induction s) (auto simp: star_lang_Cons intro: star_Nil)

lemma class_seq:
  "s \<in> rlang (RSeq (RClass rs) r) \<longleftrightarrow> (\<exists>c t. s = c # t \<and> in_class rs c \<and> t \<in> rlang r)"
  by (auto intro: exI [of _ "[_]"])

lemma seq_class:
  "s \<in> rlang (RSeq r (RClass rs)) \<longleftrightarrow> (\<exists>t c. s = t @ [c] \<and> t \<in> rlang r \<and> in_class rs c)"
  by auto

lemma opt_iff: "s \<in> rlang (ROpt r) \<longleftrightarrow> s \<in> rlang r \<or> s = []"
  by auto

lemmas rlang_iffs = star_class class_seq seq_class opt_iff

end
