(* ===== verification/Go_Utf8.thy ===== *)
theory Go_Utf8
  imports Go_Strings
begin

text \<open>
  Go's \<open>unicode/utf8\<close>: the size of the valid encoding at the head of a byte string,
  \<open>Valid\<close> and \<open>RuneCountInString\<close>, and the lemmas on how a byte-wise cut of a valid
  string falls: at most three bytes of an incomplete rune are left at its end.
\<close>

definition byte_in :: "nat \<Rightarrow> nat \<Rightarrow> char \<Rightarrow> bool" where
  "byte_in lo hi c \<longleftrightarrow> lo \<le> byte c \<and> byte c \<le> hi"

abbreviation cont_byte :: "char \<Rightarrow> bool" where
  "cont_byte \<equiv> byte_in 0x80 0xBF"

text \<open>The acceptance range of the second byte, for a first byte of a longer encoding.\<close>

definition second_byte_ok :: "char \<Rightarrow> char \<Rightarrow> bool" where
  "second_byte_ok c0 c1 \<longleftrightarrow>
     (if byte c0 = (0xE0::nat) then byte_in 0xA0 0xBF c1
      else if byte c0 = (0xED::nat) then byte_in 0x80 0x9F c1
      else if byte c0 = (0xF0::nat) then byte_in 0x90 0xBF c1
      else if byte c0 = (0xF4::nat) then byte_in 0x80 0x8F c1
      else cont_byte c1)"

text \<open>The length an encoding has by its first byte; 0 for a byte that starts none.\<close>

definition lead_size :: "char \<Rightarrow> nat" where
  "lead_size c =
     (if byte c < (0x80::nat) then 1
      else if byte_in 0xC2 0xDF c then 2
      else if byte_in 0xE0 0xEF c then 3
      else if byte_in 0xF0 0xF4 c then 4
      else 0)"

definition rune_size :: "bytes \<Rightarrow> nat option" where
  "rune_size s =
     (case s of
        [] \<Rightarrow> None
      | c0 # t \<Rightarrow>
          let n = lead_size c0
          in if n = 0 \<or> length s < n then None
             else if n = 1 then Some 1
             else if second_byte_ok c0 (hd t) \<and> list_all cont_byte (take (n - 2) (tl t))
                  then Some n else None)"

lemma lead_size_le_4: "lead_size c \<le> 4"
  by (simp add: lead_size_def)

lemma rune_size_bounds: "rune_size s = Some n \<Longrightarrow> 1 \<le> n \<and> n \<le> 4 \<and> n \<le> length s"
  using lead_size_le_4
  by (auto simp: rune_size_def Let_def split: list.splits if_splits)

function utf8_Valid :: "bytes \<Rightarrow> bool" where
  "utf8_Valid s =
     (case rune_size s of
        None \<Rightarrow> s = []
      | Some n \<Rightarrow> utf8_Valid (drop n s))"
  by pat_completeness auto
termination
  by (relation "measure length") (auto dest!: rune_size_bounds)

function RuneCountInString :: "bytes \<Rightarrow> nat" where
  "RuneCountInString s =
     (if s = [] then 0
      else case rune_size s of
             None \<Rightarrow> Suc (RuneCountInString (tl s))
           | Some n \<Rightarrow> Suc (RuneCountInString (drop n s)))"
  by pat_completeness auto
termination
  by (relation "measure length") (auto dest!: rune_size_bounds)

declare utf8_Valid.simps [simp del] RuneCountInString.simps [simp del]

section \<open>Valid strings as concatenations of runes\<close>

text \<open>\<open>is_rune r\<close>: \<open>r\<close> is exactly one valid encoding.\<close>

definition is_rune :: "bytes \<Rightarrow> bool" where
  "is_rune r \<longleftrightarrow> rune_size r = Some (length r)"

lemma utf8_Valid_Nil [simp]: "utf8_Valid []"
  by (simp add: utf8_Valid.simps rune_size_def)

lemma rune_size_take:
  assumes "rune_size s = Some n"
  shows "is_rune (take n s)"
  using assms
  by (auto simp: is_rune_def rune_size_def Let_def take_Cons' take_tl split: list.splits if_splits)

lemma rune_size_append:
  assumes "is_rune r"
  shows "rune_size (r @ s) = Some (length r)"
  using assms
  by (auto simp: is_rune_def rune_size_def Let_def hd_append split: list.splits if_splits)

lemma is_rune_length: "is_rune r \<Longrightarrow> 1 \<le> length r \<and> length r \<le> 4"
  by (auto simp: is_rune_def dest: rune_size_bounds)

lemma utf8_Valid_rune_append:
  assumes "is_rune r"
  shows "utf8_Valid (r @ s) = utf8_Valid s"
  using rune_size_append [OF assms, of s] by (subst utf8_Valid.simps) simp

lemma utf8_Valid_concat: "list_all is_rune rs \<Longrightarrow> utf8_Valid (concat rs @ s) = utf8_Valid s"
  by (induction rs) (simp_all add: utf8_Valid_rune_append)

lemma utf8_Valid_iff_runes: "utf8_Valid s \<longleftrightarrow> (\<exists>rs. list_all is_rune rs \<and> s = concat rs)"
proof
  assume "utf8_Valid s"
  then show "\<exists>rs. list_all is_rune rs \<and> s = concat rs"
  proof (induction s rule: utf8_Valid.induct)
    case (1 s)
    show ?case
    proof (cases "rune_size s")
      case None
      with 1 have "s = []" by (simp add: utf8_Valid.simps)
      then show ?thesis by (intro exI [of _ "[]"]) simp
    next
      case (Some n)
      with 1 have "utf8_Valid (drop n s)" by (simp add: utf8_Valid.simps [of s])
      with 1 Some obtain rs where "list_all is_rune rs" "drop n s = concat rs" by blast
      moreover have "s = take n s @ drop n s" by simp
      ultimately show ?thesis using rune_size_take [OF Some]
        by (intro exI [of _ "take n s # rs"]) simp
    qed
  qed
next
  assume "\<exists>rs. list_all is_rune rs \<and> s = concat rs"
  then show "utf8_Valid s" using utf8_Valid_concat [of _ "[]"] by auto
qed

text \<open>No proper non-empty prefix of a rune is valid.\<close>

lemma rune_prefix_invalid:
  assumes "is_rune r" and "0 < k" and "k < length r"
  shows "\<not> utf8_Valid (take k r)"
proof -
  from assms have "rune_size (take k r) = None"
    by (auto simp: is_rune_def rune_size_def Let_def take_Cons' split: list.splits if_splits)
  then show ?thesis using assms by (subst utf8_Valid.simps) auto
qed

text \<open>
  A byte-wise cut of a valid string: whole runes followed by a proper prefix of one rune.
\<close>

lemma utf8_Valid_take:
  assumes "list_all is_rune rs"
  shows "\<exists>ws p k r. list_all is_rune ws \<and> take n (concat rs) = concat ws @ p \<and>
           (p = [] \<or> is_rune r \<and> 0 < k \<and> k < length r \<and> p = take k r)"
  using assms
proof (induction rs arbitrary: n)
  case Nil
  then show ?case by (intro exI [of _ "[]"]) simp
next
  case (Cons r rs)
  show ?case
  proof (cases "length r \<le> n")
    case True
    from Cons.prems have "list_all is_rune rs" by simp
    from Cons.IH [OF this, of "n - length r"] obtain ws p k q where *: "list_all is_rune ws"
      "take (n - length r) (concat rs) = concat ws @ p"
      "p = [] \<or> is_rune q \<and> 0 < k \<and> k < length q \<and> p = take k q"
      by blast
    from True have "take n (concat (r # rs)) = concat (r # ws) @ p"
      by (simp add: *(2))
    with * Cons.prems show ?thesis
      by (intro exI [of _ "r # ws"] exI [of _ p] exI [of _ k] exI [of _ q]) simp
  next
    case False
    then have "take n (concat (r # rs)) = concat [] @ take n r" by simp
    with False Cons.prems show ?thesis
      by (intro exI [of _ "[]"] exI [of _ "take n r"] exI [of _ n] exI [of _ r]) auto
  qed
qed

section \<open>Strings in JSON\<close>

text \<open>
  What a string becomes when \<open>encoding/json\<close> writes it and reads it back: every byte that is
  not part of a valid encoding is replaced by the replacement character U+FFFD.
\<close>

function json_text :: "bytes \<Rightarrow> bytes" where
  "json_text s =
     (if s = [] then []
      else case rune_size s of
             None \<Rightarrow> [CHR 0xEF, CHR 0xBF, CHR 0xBD] @ json_text (tl s)
           | Some n \<Rightarrow> take n s @ json_text (drop n s))"
  by pat_completeness auto
termination
  by (relation "measure length") (auto dest!: rune_size_bounds)

declare json_text.simps [simp del]

lemma json_text_Nil [simp]: "json_text [] = []"
  by (simp add: json_text.simps)

lemma json_text_rune: "is_rune r \<Longrightarrow> json_text (r @ s) = r @ json_text s"
  using rune_size_append [of r s] is_rune_length [of r]
  by (subst json_text.simps) (auto simp: is_rune_def)

lemma json_text_valid: "utf8_Valid s \<Longrightarrow> json_text s = s"
proof -
  have "list_all is_rune rs \<Longrightarrow> json_text (concat rs) = concat rs" for rs
    by (induction rs) (simp_all add: json_text_rune)
  then show "utf8_Valid s \<Longrightarrow> json_text s = s" by (auto simp: utf8_Valid_iff_runes)
qed

lemma utf8_Valid_json_text: "utf8_Valid (json_text s)"
proof (induction s rule: json_text.induct)
  case (1 s)
  have r: "is_rune [CHR 0xEF, CHR 0xBF, CHR 0xBD]"
    by (simp add: is_rune_def rune_size_def lead_size_def second_byte_ok_def byte_in_def)
  show ?case
    using 1 utf8_Valid_rune_append [OF r] utf8_Valid_rune_append [OF rune_size_take]
    by (subst json_text.simps) (auto split: option.split)
qed

lemma json_text_id_iff: "json_text s = s \<longleftrightarrow> utf8_Valid s"
  using json_text_valid utf8_Valid_json_text by metis

end
