(* ===== verification/Api_Validate.thy ===== *)
theory Api_Validate
  imports Api_Types Go_Regexp Go_Utf8
begin

text \<open>
  Request validation, \<^verbatim>\<open>internal/api/validate.go\<close>.  A validation function returns
  \<open>None\<close> for Go's nil error.  Each is a sequence of checks with early returns:
  \<open>first_err\<close> is the first check that fails, in the order of the source.
\<close>

fun first_err :: "go_error option list \<Rightarrow> go_error option" where
  "first_err [] = None"
| "first_err (e # es) = (case e of Some x \<Rightarrow> Some x | None \<Rightarrow> first_err es)"

definition fail_if :: "bool \<Rightarrow> bytes \<Rightarrow> go_error option" where
  "fail_if b msg = (if b then Some (ErrText msg) else None)"

lemma first_err_None [simp]: "first_err es = None \<longleftrightarrow> list_all (\<lambda>e. e = None) es"
  by (induction es) (auto split: option.splits)

declare first_err.simps [simp del]

lemma fail_if_None [simp]: "fail_if b msg = None \<longleftrightarrow> \<not> b"
  by (simp add: fail_if_def)

text \<open>
  The verb \<open>%q\<close> on the bytes below 0x80; bytes of longer runes are copied, as
  \<open>strconv.Quote\<close> does for printable runes.
\<close>

definition hex_char :: "nat \<Rightarrow> char" where
  "hex_char d = (if d < 10 then char_of (48 + d) else char_of (87 + d))"

definition quote_byte :: "char \<Rightarrow> bytes" where
  "quote_byte c =
     (if c = CHR 0x22 \<or> c = CHR 0x5C then [CHR 0x5C, c]
      else if c = CHR 0x07 then [CHR 0x5C, CHR ''a'']
      else if c = CHR 0x08 then [CHR 0x5C, CHR ''b'']
      else if c = CHR 0x0C then [CHR 0x5C, CHR ''f'']
      else if c = CHR 0x0A then [CHR 0x5C, CHR ''n'']
      else if c = CHR 0x0D then [CHR 0x5C, CHR ''r'']
      else if c = CHR 0x09 then [CHR 0x5C, CHR ''t'']
      else if c = CHR 0x0B then [CHR 0x5C, CHR ''v'']
      else if byte c < (0x20::nat) \<or> c = CHR 0x7F
        then [CHR 0x5C, CHR ''x'', hex_char (byte c div 16), hex_char (byte c mod 16)]
      else [c])"

definition fmt_q :: "bytes \<Rightarrow> bytes" where
  "fmt_q s = [CHR 0x22] @ concat (map quote_byte s) @ [CHR 0x22]"

section \<open>Names and label values\<close>

definition alnum_lower :: "(char \<times> char) list" where
  "alnum_lower = [(CHR ''a'', CHR ''z''), (CHR ''0'', CHR ''9'')]"

definition name_middle :: "(char \<times> char) list" where
  "name_middle = alnum_lower @ [(CHR ''.'', CHR ''.''), (CHR ''-'', CHR ''-'')]"

definition alnum :: "(char \<times> char) list" where
  "alnum = (CHR ''A'', CHR ''Z'') # alnum_lower"

definition label_middle :: "(char \<times> char) list" where
  "label_middle =
     [(CHR ''-'', CHR ''-''), (CHR ''A'', CHR ''Z''), (CHR ''a'', CHR ''z''),
      (CHR ''0'', CHR ''9''), (CHR ''_'', CHR ''_''), (CHR ''.'', CHR ''.'')]"

definition K8sNameRegex :: regex where
  "K8sNameRegex =
     RSeq (RClass alnum_lower) (ROpt (RSeq (RStar (RClass name_middle)) (RClass alnum_lower)))"

definition K8sLabelValueRegex :: regex where
  "K8sLabelValueRegex =
     ROpt (RSeq (ROpt (RSeq (RClass alnum) (RStar (RClass label_middle)))) (RClass alnum))"

abbreviation LabelSessionID :: bytes where
  "LabelSessionID \<equiv> ''boxy.dev/session-id''"

abbreviation LabelOwner :: bytes where
  "LabelOwner \<equiv> ''boxy.dev/owner''"

definition validateLabelBackedName :: "bytes \<Rightarrow> bytes \<Rightarrow> go_error option" where
  "validateLabelBackedName field val =
     first_err
       [fail_if (63 < length val) (field @ '' too long: max 63 characters''),
        fail_if (\<not> regex_match K8sNameRegex val)
          (field @ '' must be a valid K8s label-backed name (lowercase alphanumeric, '' @
           [CHR 0x27] @ ''-'' @ [CHR 0x27] @ '', '' @ [CHR 0x27] @ ''.'' @ [CHR 0x27] @
           '', max 63 chars)'')]"

definition ValidateSandboxID :: "bytes \<Rightarrow> go_error option" where
  "ValidateSandboxID i = validateLabelBackedName ''sandboxId'' i"

definition ValidateSessionID :: "bytes \<Rightarrow> go_error option" where
  "ValidateSessionID i = validateLabelBackedName ''sessionId'' i"

definition validateOptionalLabelValue :: "bytes \<Rightarrow> bytes \<Rightarrow> go_error option" where
  "validateOptionalLabelValue field val =
     (if val = [] then None
      else first_err
        [fail_if (63 < length val) (field @ '' too long: max 63 characters''),
         fail_if (\<not> regex_match K8sLabelValueRegex val)
           (field @ '' must be a valid K8s label value'')])"

definition ValidateOwner :: "bytes \<Rightarrow> go_error option" where
  "ValidateOwner owner = validateOptionalLabelValue ''owner'' owner"

definition blockedSandboxEnvKey :: "bytes \<Rightarrow> bool" where
  "blockedSandboxEnvKey k =
     (let lk = ToUpper (TrimSpace k)
      in if HasPrefix lk ''KUBERNETES_'' then True
         else if HasPrefix lk ''BOXY_'' then True
         else False)"

section \<open>Requests\<close>

definition ValidateExecRequest ::
  "ExecRequestBody option \<Rightarrow> int \<Rightarrow> int \<Rightarrow> int \<Rightarrow> go_error option" where
  "ValidateExecRequest ro maxTimeoutSec maxArgs maxEnvKeys =
     (case ro of
        None \<Rightarrow> Some (ErrText ''request is nil'')
      | Some r \<Rightarrow> first_err (
          [fail_if (TrimSpace (er_SandboxID r) = []) ''sandboxId is required'',
           ValidateSandboxID (er_SandboxID r),
           (if TrimSpace (er_SessionID r) \<noteq> [] then ValidateSessionID (er_SessionID r) else None),
           validateOptionalLabelValue ''owner'' (er_Owner r),
           fail_if (TrimSpace (er_Command r) = []) ''command is required'',
           fail_if (maxArgs > 0 \<and> int (length (er_Args r)) > maxArgs)
             (''too many args: max '' @ fmt_int maxArgs),
           fail_if (maxEnvKeys > 0 \<and> int (length (er_Env r)) > maxEnvKeys)
             (''too many env keys: max '' @ fmt_int maxEnvKeys)] @
          concat (map (\<lambda>(k, v).
             [fail_if (Contains k ''='' \<or> TrimSpace k = []) (''invalid env key: '' @ fmt_q k),
              fail_if (blockedSandboxEnvKey k) (''exec env key not allowed: '' @ fmt_q k)])
            (er_Env r)) @
          [fail_if (er_TimeoutSeconds r \<le> 0) ''timeoutSeconds must be positive'',
           fail_if (maxTimeoutSec > 0 \<and> er_TimeoutSeconds r > maxTimeoutSec)
             (''timeoutSeconds exceeds max '' @ fmt_int maxTimeoutSec)]))"

definition ValidateSandboxCreate :: "SandboxCreateBody option \<Rightarrow> int \<Rightarrow> go_error option" where
  "ValidateSandboxCreate bo maxTTL =
     (case bo of
        None \<Rightarrow> Some (ErrText ''request is nil'')
      | Some b \<Rightarrow> first_err (
          [fail_if (TrimSpace (sb_SandboxID b) = []) ''sandboxId is required'',
           ValidateSandboxID (sb_SandboxID b),
           fail_if (sb_TTLSeconds b < 0) ''ttlSeconds must be non-negative'',
           fail_if (maxTTL > 0 \<and> sb_TTLSeconds b > maxTTL)
             (''ttlSeconds exceeds max '' @ fmt_int maxTTL),
           fail_if (length (sb_Env b) > 64) ''too many sandbox env keys''] @
          concat (map (\<lambda>(k, v).
             [fail_if (TrimSpace k = [] \<or> Contains k ''='') ''invalid sandbox env key'',
              fail_if (blockedSandboxEnvKey k) ''sandbox env key not allowed'',
              fail_if (RuneCountInString v > 16384) ''sandbox env value too long''])
            (sb_Env b))))"

definition ValidateSessionCreate :: "SessionCreateBody option \<Rightarrow> go_error option" where
  "ValidateSessionCreate bo =
     (case bo of
        None \<Rightarrow> Some (ErrText ''request is nil'')
      | Some b \<Rightarrow> first_err
          [fail_if (TrimSpace (sc_SandboxID b) = []) ''sandboxId is required'',
           ValidateSandboxID (sc_SandboxID b),
           (if sc_SessionID b \<noteq> [] then ValidateSessionID (sc_SessionID b) else None),
           validateOptionalLabelValue ''owner'' (sc_Owner b)])"

abbreviation maxFilePathLen :: nat where
  "maxFilePathLen \<equiv> 4096"

definition ValidateFilePath :: "bytes \<Rightarrow> go_error option" where
  "ValidateFilePath path =
     (let p = TrimSpace path
      in first_err
          [fail_if (p = []) ''path is required'',
           fail_if (length p > maxFilePathLen)
             (''path too long: max '' @ fmt_nat maxFilePathLen @ '' characters''),
           fail_if (CHR 0x00 \<in> set p) ''path must not contain NUL''])"

definition ValidateFileEncoding :: "bytes \<Rightarrow> go_error option" where
  "ValidateFileEncoding enc =
     (if ToLower (TrimSpace enc) \<in> set [[], ''utf-8'', ''utf8'', ''base64''] then None
      else Some (ErrText (''encoding must be '' @ [CHR 0x27] @ ''utf-8'' @ [CHR 0x27] @
             '' or '' @ [CHR 0x27] @ ''base64'' @ [CHR 0x27])))"

section \<open>What accepted values look like\<close>

text \<open>The shape of an accepted sandbox or session id, without regular expressions.\<close>

definition lower_alnum :: "char \<Rightarrow> bool" where
  "lower_alnum c \<longleftrightarrow> byte_in 97 122 c \<or> byte_in 48 57 c"

definition valid_name :: "bytes \<Rightarrow> bool" where
  "valid_name s \<longleftrightarrow>
     s \<noteq> [] \<and> length s \<le> 63 \<and> lower_alnum (hd s) \<and> lower_alnum (last s) \<and>
     list_all (\<lambda>c. lower_alnum c \<or> c = CHR ''.'' \<or> c = CHR ''-'') s"

definition ascii_alnum :: "char \<Rightarrow> bool" where
  "ascii_alnum c \<longleftrightarrow> byte_in 65 90 c \<or> lower_alnum c"

definition valid_label_value :: "bytes \<Rightarrow> bool" where
  "valid_label_value s \<longleftrightarrow>
     length s \<le> 63 \<and>
     (s = [] \<or> ascii_alnum (hd s) \<and> ascii_alnum (last s) \<and>
       list_all (\<lambda>c. ascii_alnum c \<or> c = CHR ''-'' \<or> c = CHR ''_'' \<or> c = CHR ''.'') s)"


lemma byte_eq_iff: "byte c = (byte d :: nat) \<longleftrightarrow> c = d"
  by (metis char_of_char)

lemma in_class_singleton: "byte d \<le> (byte c :: nat) \<and> byte c \<le> (byte d :: nat) \<longleftrightarrow> c = d"
  using byte_eq_iff [of c d] by auto

lemma in_class_alnum_lower: "in_class alnum_lower = lower_alnum"
  by (auto simp: in_class_def alnum_lower_def lower_alnum_def byte_in_def fun_eq_iff)

lemma in_class_name_middle:
  "in_class name_middle = (\<lambda>c. lower_alnum c \<or> c = CHR ''.'' \<or> c = CHR ''-'')"
  unfolding name_middle_def in_class_alnum_lower [symmetric] in_class_def
  by (simp only: list_ex_append list_ex_Nil_iff list_ex_Cons_iff prod.case in_class_singleton simp_thms)

lemma in_class_alnum: "in_class alnum = ascii_alnum"
  by (auto simp: in_class_def alnum_def alnum_lower_def ascii_alnum_def lower_alnum_def
        byte_in_def fun_eq_iff)

lemma in_class_label_middle:
  "in_class label_middle = (\<lambda>c. ascii_alnum c \<or> c = CHR ''-'' \<or> c = CHR ''_'' \<or> c = CHR ''.'')"
proof
  fix c
  have "in_class label_middle c \<longleftrightarrow> in_class alnum c \<or> c = CHR ''-'' \<or> c = CHR ''_'' \<or> c = CHR ''.''"
    unfolding label_middle_def alnum_def alnum_lower_def in_class_def
    by (simp only: list_ex_append list_ex_Nil_iff list_ex_Cons_iff prod.case in_class_singleton simp_thms) blast
  then show "in_class label_middle c \<longleftrightarrow>
      ascii_alnum c \<or> c = CHR ''-'' \<or> c = CHR ''_'' \<or> c = CHR ''.''"
    by (simp only: in_class_alnum)
qed

lemmas in_class_eqs =
  in_class_alnum_lower in_class_name_middle in_class_alnum in_class_label_middle

text \<open>Two patterns of the same kind: a first byte, any middle, a last byte.\<close>

lemma head_middle_last:
  assumes "\<And>c. P c \<Longrightarrow> M c"
  shows "(\<exists>c m d. s = c # m @ [d] \<and> P c \<and> list_all M m \<and> P d) \<or> (\<exists>c. s = [c] \<and> P c) \<longleftrightarrow>
         s \<noteq> [] \<and> P (hd s) \<and> P (last s) \<and> list_all M s"
proof (cases s)
  case (Cons c t)
  then show ?thesis using assms
    by (cases t rule: rev_cases) auto
qed simp

lemma K8sNameRegex_iff:
  "regex_match K8sNameRegex s \<longleftrightarrow>
     s \<noteq> [] \<and> lower_alnum (hd s) \<and> lower_alnum (last s) \<and>
     list_all (\<lambda>c. lower_alnum c \<or> c = CHR ''.'' \<or> c = CHR ''-'') s"
proof -
  have "regex_match K8sNameRegex s \<longleftrightarrow>
          (\<exists>c m d. s = c # m @ [d] \<and> lower_alnum c \<and>
             list_all (\<lambda>c. lower_alnum c \<or> c = CHR ''.'' \<or> c = CHR ''-'') m \<and> lower_alnum d) \<or>
          (\<exists>c. s = [c] \<and> lower_alnum c)"
    by (simp only: regex_match_iff K8sNameRegex_def rlang_iffs in_class_eqs) auto
  then show ?thesis
    by (subst (asm) head_middle_last) auto
qed

lemma K8sLabelValueRegex_iff:
  "regex_match K8sLabelValueRegex s \<longleftrightarrow>
     s = [] \<or> ascii_alnum (hd s) \<and> ascii_alnum (last s) \<and>
     list_all (\<lambda>c. ascii_alnum c \<or> c = CHR ''-'' \<or> c = CHR ''_'' \<or> c = CHR ''.'') s"
proof -
  have "regex_match K8sLabelValueRegex s \<longleftrightarrow>
          s = [] \<or>
          (\<exists>c m d. s = c # m @ [d] \<and> ascii_alnum c \<and>
             list_all (\<lambda>c. ascii_alnum c \<or> c = CHR ''-'' \<or> c = CHR ''_'' \<or> c = CHR ''.'') m \<and>
             ascii_alnum d) \<or>
          (\<exists>c. s = [c] \<and> ascii_alnum c)"
    by (simp only: regex_match_iff K8sLabelValueRegex_def rlang_iffs in_class_eqs) auto
  then show ?thesis
    by (subst (asm) head_middle_last) auto
qed

lemma validateLabelBackedName_None:
  "validateLabelBackedName field s = None \<longleftrightarrow> valid_name s"
  by (auto simp: validateLabelBackedName_def valid_name_def K8sNameRegex_iff)

lemma validateOptionalLabelValue_None:
  "validateOptionalLabelValue field s = None \<longleftrightarrow> valid_label_value s"
  by (auto simp: validateOptionalLabelValue_def valid_label_value_def K8sLabelValueRegex_iff)

section \<open>Reserved environment keys\<close>

text \<open>
  A key is reserved when some initial part of it, after trimming white space, spells a
  reserved prefix in any letter case.
\<close>

definition reserved_key :: "bytes \<Rightarrow> bool" where
  "reserved_key k \<longleftrightarrow>
     (\<exists>a b. TrimSpace k = a @ b \<and> (ToUpper a = ''KUBERNETES_'' \<or> ToUpper a = ''BOXY_''))"

definition env_key_ok :: "bytes \<Rightarrow> bool" where
  "env_key_ok k \<longleftrightarrow> TrimSpace k \<noteq> [] \<and> CHR ''='' \<notin> set k \<and> \<not> reserved_key k"

lemma upper_byte_non_ascii: "(128::nat) \<le> byte c \<Longrightarrow> upper_byte c = c"
  by (simp add: upper_byte_def)

lemma ToUpper_Cons:
  assumes "\<not> (c = CHR 0xC5 \<and> HasPrefix s [CHR 0xBF])"
    and "\<not> (c = CHR 0xC4 \<and> HasPrefix s [CHR 0xB1])"
  shows "ToUpper (c # s) = upper_byte c # ToUpper s"
  using assms by (cases s) (auto simp: HasPrefix_def)

lemma ToUpper_Cons_hd:
  "(\<exists>t. ToUpper (c # s) = upper_byte c # t) \<or> c = CHR 0xC5 \<or> c = CHR 0xC4"
  using ToUpper_Cons by blast

lemma ToUpper_prefix_imp:
  assumes "HasPrefix (ToUpper s) p"
  shows "\<exists>a b. s = a @ b \<and> ToUpper a = p"
  using assms
proof (induction s arbitrary: p rule: ToUpper.induct)
  case 1
  then show ?case by (auto simp: HasPrefix_iff)
next
  case (2 c)
  then have "p = [] \<or> p = ToUpper [c]"
    by (cases p) (auto simp: HasPrefix_def)
  then show ?case by (metis ToUpper.simps(1) append_Nil append_Nil2)
next
  case (3 c d s)
  show ?case
  proof (cases p)
    case Nil
    then show ?thesis by - (rule exI [of _ "[]"], simp)
  next
    case (Cons x q)
    consider (S) "c = CHR 0xC5 \<and> d = CHR 0xBF" | (I) "c = CHR 0xC4 \<and> d = CHR 0xB1"
      | (U) "\<not> (c = CHR 0xC5 \<and> d = CHR 0xBF)" "\<not> (c = CHR 0xC4 \<and> d = CHR 0xB1)"
      by blast
    then show ?thesis
    proof cases
      case S
      with "3.prems" Cons have "HasPrefix (ToUpper s) q" and x: "x = CHR ''S''"
        by (auto simp: HasPrefix_def)
      from "3.IH"(1) [OF S this(1)] obtain a b where "s = a @ b" "ToUpper a = q" by blast
      with S Cons x show ?thesis by - (rule exI [of _ "c # d # a"], simp)
    next
      case I
      with "3.prems" Cons have "HasPrefix (ToUpper s) q" and x: "x = CHR ''I''"
        by (auto simp: HasPrefix_def)
      from I have "\<not> (c = CHR 0xC5 \<and> d = CHR 0xBF)" by simp
      from "3.IH"(2) [OF this I \<open>HasPrefix (ToUpper s) q\<close>]
      obtain a b where "s = a @ b" "ToUpper a = q" by blast
      with I Cons x show ?thesis by - (rule exI [of _ "c # d # a"], simp)
    next
      case U
      with "3.prems" Cons have "HasPrefix (ToUpper (d # s)) q" and x: "x = upper_byte c"
        by (auto simp: HasPrefix_def)
      from "3.IH"(3) [OF U this(1)] obtain a b where ab: "d # s = a @ b" "ToUpper a = q" by blast
      from U ab(1) have "ToUpper (c # a) = upper_byte c # ToUpper a"
        by (intro ToUpper_Cons) (auto simp: HasPrefix_def Cons_eq_append_conv)
      with ab x Cons show ?thesis by - (rule exI [of _ "c # a"], simp)
    qed
  qed
qed

lemma ToUpper_append_prefix:
  assumes "list_all (\<lambda>c. byte c < (128::nat)) (ToUpper a)"
  shows "HasPrefix (ToUpper (a @ b)) (ToUpper a)"
  using assms
proof (induction a rule: ToUpper.induct)
  case (2 c)
  then have "byte c < (128::nat)"
    by (auto simp: upper_byte_def split: if_splits)
  then have "ToUpper (c # b) = upper_byte c # ToUpper b"
    by (intro ToUpper_Cons) auto
  then show ?case by (simp add: HasPrefix_def)
next
  case (3 c d s)
  then show ?case by (auto simp: HasPrefix_def)
qed (simp add: HasPrefix_def)

lemma HasPrefix_ToUpper:
  assumes "list_all (\<lambda>c. byte c < (128::nat)) p"
  shows "HasPrefix (ToUpper s) p \<longleftrightarrow> (\<exists>a b. s = a @ b \<and> ToUpper a = p)"
  using ToUpper_prefix_imp ToUpper_append_prefix assms by metis

lemma blockedSandboxEnvKey_iff: "blockedSandboxEnvKey k \<longleftrightarrow> reserved_key k"
  by (auto simp: blockedSandboxEnvKey_def reserved_key_def Let_def HasPrefix_ToUpper)

lemma valid_name_TrimSpace: "valid_name s \<Longrightarrow> TrimSpace s = s"
  by (rule TrimSpace_id)
     (auto simp: valid_name_def lower_alnum_def byte_in_def space_free_byte_def)

lemma valid_name_nonempty: "valid_name s \<Longrightarrow> s \<noteq> []"
  by (simp add: valid_name_def)

lemma if_None_iff: "(if c then x else None) = None \<longleftrightarrow> \<not> c \<or> x = None"
  by simp

text \<open>
  Turns "no check fails" into the conjunction of the negated conditions, without looking
  into the messages.
\<close>

lemmas no_check_fails =
  option.case first_err_None list_all_append list_all_Cons_iff list_all_Nil_iff fail_if_None
  if_None_iff ValidateSandboxID_def ValidateSessionID_def validateLabelBackedName_None
  validateOptionalLabelValue_None simp_thms not_not not_less not_le de_Morgan_conj

lemma env_checks_iff:
  assumes "\<And>k v. (list_all (\<lambda>e. e = None) (f (k, v))) \<longleftrightarrow> P (k, v)"
  shows "list_all (\<lambda>e. e = None) (concat (map f m)) \<longleftrightarrow> list_all P m"
  using assms by (induction m) auto

section \<open>Properties\<close>



lemma accepted_sandbox_body:
  "ValidateSandboxCreate (Some b) maxTTL = None \<longleftrightarrow>
     valid_name (sb_SandboxID b) \<and>
     0 \<le> sb_TTLSeconds b \<and> (maxTTL \<le> 0 \<or> sb_TTLSeconds b \<le> maxTTL) \<and>
     length (sb_Env b) \<le> 64 \<and>
     list_all (\<lambda>(k, v). env_key_ok k \<and> RuneCountInString v \<le> 16384) (sb_Env b)"
proof -
  have env: "list_all (\<lambda>e. e = None)
      (concat (map (\<lambda>(k, v).
         [fail_if (TrimSpace k = [] \<or> Contains k ''='') ''invalid sandbox env key'',
          fail_if (blockedSandboxEnvKey k) ''sandbox env key not allowed'',
          fail_if (RuneCountInString v > 16384) ''sandbox env value too long'']) m)) \<longleftrightarrow>
      list_all (\<lambda>(k, v). env_key_ok k \<and> RuneCountInString v \<le> 16384) m" for m :: str_map
    by (rule env_checks_iff)
       (simp only: prod.case no_check_fails env_key_ok_def Contains_single
          blockedSandboxEnvKey_iff de_Morgan_disj, blast)
  show ?thesis
    unfolding ValidateSandboxCreate_def no_check_fails env
    using valid_name_TrimSpace [of "sb_SandboxID b"] valid_name_nonempty [of "sb_SandboxID b"]
    by metis
qed

text \<open>The ids of accepted requests, for the code that uses them.\<close>

lemma accepted_exec_ids:
  assumes "ValidateExecRequest (Some r) maxTimeoutSec maxArgs maxEnvKeys = None"
  shows "valid_name (er_SandboxID r)" and "TrimSpace (er_SessionID r) = [] \<or> valid_name (er_SessionID r)"
    and "valid_label_value (er_Owner r)"
  using assms by (auto simp: ValidateExecRequest_def ValidateSandboxID_def ValidateSessionID_def
      validateLabelBackedName_None validateOptionalLabelValue_None split: if_splits)

lemma accepted_session_ids:
  assumes "ValidateSessionCreate (Some b) = None"
  shows "valid_name (sc_SandboxID b)" and "sc_SessionID b = [] \<or> valid_name (sc_SessionID b)"
    and "valid_label_value (sc_Owner b)"
  using assms by (auto simp: ValidateSessionCreate_def ValidateSandboxID_def ValidateSessionID_def
      validateLabelBackedName_None validateOptionalLabelValue_None split: if_splits)


end
