(* ===== verification/Controller_Api.thy ===== *)
theory Controller_Api
  imports Api_Types Go_Utf8
begin

text \<open>
  The bodies of the controller's internal HTTP API.  The client (\<open>internal/controller/client.go\<close>)
  and the server (\<open>cmd/boxy-controller/server.go\<close>) each declare them, with the same fields
  and the same JSON names; here they are declared once.
\<close>

record CreateSandboxReq =
  cq_SandboxID :: bytes
  cq_Env :: str_map
  cq_AllowedBinaries :: "bytes list"
  cq_VM :: "VMConfig option"
  cq_Network :: "SandboxNetworkConfig option"
  cq_Volumes :: "VolumeMount list"
  cq_Patches :: "SandboxPatch list"
  cq_TTLSeconds :: int
  cq_SetupScript :: bytes
  cq_TeardownScript :: bytes
  cq_ScriptEnv :: str_map

record ExecReq =
  xq_SandboxID :: bytes
  xq_Command :: bytes
  xq_Args :: "bytes list"
  xq_Env :: str_map
  xq_TimeoutSeconds :: int
  xq_PTY :: bool

record ExecResult =
  xs_Stdout :: bytes
  xs_Stderr :: bytes
  xs_ExitCode :: int
  xs_TimedOut :: bool

record FileReadReq =
  fr_SandboxID :: bytes
  fr_Path :: bytes

record FileReadResult =
  frr_Path :: bytes
  frr_Content :: bytes

record FileWriteReq =
  fw_SandboxID :: bytes
  fw_Path :: bytes
  fw_Content :: bytes
  fw_Encoding :: bytes

record FileWriteResult =
  fwr_Path :: bytes
  fwr_BytesWritten :: int

record FileEditReq =
  fe_SandboxID :: bytes
  fe_Path :: bytes
  fe_OldString :: bytes
  fe_NewString :: bytes
  fe_ReplaceAll :: bool

record FileEditResult =
  fer_Path :: bytes
  fer_Replacements :: int

record DeleteSandboxReq =
  dq_SandboxID :: bytes

text \<open>
  The controller declares structs of its own (\<open>cmd/boxy-controller/server.go\<close>) with the same fields under
  the same JSON names.
\<close>

type_synonym createSandboxReq = CreateSandboxReq
type_synonym execReq = ExecReq
type_synonym execResp = ExecResult
type_synonym fileReadReq = FileReadReq
type_synonym fileReadResp = FileReadResult
type_synonym fileWriteReq = FileWriteReq
type_synonym fileWriteResp = FileWriteResult
type_synonym fileEditReq = FileEditReq
type_synonym fileEditResp = FileEditResult
type_synonym deleteSandboxReq = DeleteSandboxReq

text \<open>
  The lines of the execution stream: an event with its data, or the final exit line.  The
  encoder passes every string through \<open>json_text\<close>.
\<close>

datatype stream_line = LineEvent bytes bytes | LineExit int bool

datatype ctl_body =
    BodyNone
  | BodyText bytes
  | BodyError bytes
  | BodyCreated bytes
  | BodyList "bytes list"
  | BodyExec ExecResult
  | BodyFileRead FileReadResult
  | BodyFileWrite FileWriteResult
  | BodyFileEdit FileEditResult
  | BodyStream "stream_line list"

record ctl_resp =
  rs_Status :: int
  rs_Body :: ctl_body

end
