(* ===== verification/Go_Base64.thy ===== *)
theory Go_Base64
  imports Go_Strings
begin

text \<open>
  \<open>base64.StdEncoding\<close>: decoding, as the controller uses it for binary file contents, and
  encoding, against which decoding is checked.
\<close>

definition b64_char :: "nat \<Rightarrow> char" where
  "b64_char n =
     (if n < 26 then char_of (65 + n) else if n < 52 then char_of (71 + n)
      else if n < 62 then char_of (n - 4) else if n = 62 then CHR ''+'' else CHR ''/'')"

definition b64_value :: "char \<Rightarrow> nat option" where
  "b64_value c =
     (if 65 \<le> (byte c :: nat) \<and> (byte c :: nat) \<le> 90 then Some (byte c - 65)
      else if 97 \<le> (byte c :: nat) \<and> (byte c :: nat) \<le> 122 then Some (byte c - 71)
      else if 48 \<le> (byte c :: nat) \<and> (byte c :: nat) \<le> 57 then Some (byte c + 4)
      else if c = CHR ''+'' then Some 62
      else if c = CHR ''/'' then Some 63
      else None)"

fun b64_encode :: "bytes \<Rightarrow> bytes" where
  "b64_encode [] = []"
| "b64_encode [a] = [b64_char (byte a div 4), b64_char (byte a mod 4 * 16), CHR ''='', CHR ''='']"
| "b64_encode [a, b] =
     [b64_char (byte a div 4), b64_char (byte a mod 4 * 16 + byte b div 16),
      b64_char (byte b mod 16 * 4), CHR ''='']"
| "b64_encode (a # b # c # s) =
     b64_char (byte a div 4) # b64_char (byte a mod 4 * 16 + byte b div 16) #
     b64_char (byte b mod 16 * 4 + byte c div 64) # b64_char (byte c mod 64) # b64_encode s"

text \<open>
  The decoder drops line breaks, reads groups of four characters, and accepts padding in the
  last group only; the bits of the last group that no byte uses are ignored.
\<close>

fun b64_groups :: "bytes \<Rightarrow> bytes option" where
  "b64_groups [] = Some []"
| "b64_groups (p # q # r # t # s) =
     (case (b64_value p, b64_value q) of
        (Some v0, Some v1) \<Rightarrow>
          if r = CHR ''='' then
            (if t = CHR ''='' \<and> s = [] then Some [char_of (v0 * 4 + v1 div 16)] else None)
          else
            (case b64_value r of
               None \<Rightarrow> None
             | Some v2 \<Rightarrow>
                 if t = CHR ''='' then
                   (if s = [] then
                      Some [char_of (v0 * 4 + v1 div 16), char_of (v1 mod 16 * 16 + v2 div 4)]
                    else None)
                 else
                   (case (b64_value t, b64_groups s) of
                      (Some v3, Some rest) \<Rightarrow>
                        Some (char_of (v0 * 4 + v1 div 16) # char_of (v1 mod 16 * 16 + v2 div 4) #
                              char_of (v2 mod 4 * 64 + v3) # rest)
                    | _ \<Rightarrow> None))
      | _ \<Rightarrow> None)"
| "b64_groups _ = None"

definition DecodeString :: "bytes \<Rightarrow> bytes option" where
  "DecodeString s = b64_groups (filter (\<lambda>c. c \<noteq> CHR 0x0A \<and> c \<noteq> CHR 0x0D) s)"

lemma byte_char_of: "n < 256 \<Longrightarrow> byte (char_of n) = n"
  by simp

lemma b64_char_value:
  assumes "n < 64"
  shows "b64_value (b64_char n) = Some n" "b64_char n \<noteq> CHR ''=''" "b64_char n \<noteq> CHR 0x0A"
    "b64_char n \<noteq> CHR 0x0D"
proof -
  have b: "byte (b64_char n) = (if n < 26 then 65 + n else if n < 52 then 71 + n
      else if n < 62 then n - 4 else if n = 62 then 43 else 47 :: nat)"
    using assms by (simp add: b64_char_def)
  have ne: "b64_char n = c \<Longrightarrow> byte (b64_char n) = (byte c :: nat)" for c by simp
  show "b64_value (b64_char n) = Some n"
    unfolding b64_value_def b using assms by (auto simp: b64_char_def)
  show "b64_char n \<noteq> CHR ''=''" "b64_char n \<noteq> CHR 0x0A" "b64_char n \<noteq> CHR 0x0D"
    using ne [of "CHR ''=''"] ne [of "CHR 0x0A"] ne [of "CHR 0x0D"] assms unfolding b
    by (auto split: if_splits)
qed

lemma byte_less: "(byte c :: nat) < 256"
  by simp

text \<open>The six-bit groups of three bytes, and the bytes back from them.\<close>

lemma sextets:
  fixes a b c :: char
  defines "x \<equiv> byte a :: nat" and "y \<equiv> byte b :: nat" and "z \<equiv> byte c :: nat"
  shows "x div 4 < 64" "x mod 4 * 16 < 64" "x mod 4 * 16 + y div 16 < 64"
    "y mod 16 * 4 < 64" "y mod 16 * 4 + z div 64 < 64" "z mod 64 < 64"
    "x div 4 * 4 + (x mod 4 * 16) div 16 = x"
    "x div 4 * 4 + (x mod 4 * 16 + y div 16) div 16 = x"
    "(x mod 4 * 16 + y div 16) mod 16 * 16 + (y mod 16 * 4) div 4 = y"
    "(x mod 4 * 16 + y div 16) mod 16 * 16 + (y mod 16 * 4 + z div 64) div 4 = y"
    "(y mod 16 * 4 + z div 64) mod 4 * 64 + z mod 64 = z"
proof -
  have b: "x < 256" "y < 256" "z < 256" by (simp_all add: x_def y_def z_def)
  then have d: "x div 4 < 64" "y div 16 < 16" "z div 64 < 4"
    by (simp_all add: div_less_iff_less_mult)
  have m: "x mod 4 < 4" "y mod 16 < 16" by simp_all
  show "x div 4 < 64" by (rule d)
  show "x mod 4 * 16 < 64" "x mod 4 * 16 + y div 16 < 64"
    "y mod 16 * 4 < 64" "y mod 16 * 4 + z div 64 < 64" "z mod 64 < 64"
    using d m by simp_all
  show "x div 4 * 4 + (x mod 4 * 16) div 16 = x"
    "x div 4 * 4 + (x mod 4 * 16 + y div 16) div 16 = x"
    "(x mod 4 * 16 + y div 16) mod 16 * 16 + (y mod 16 * 4) div 4 = y"
    "(x mod 4 * 16 + y div 16) mod 16 * 16 + (y mod 16 * 4 + z div 64) div 4 = y"
    "(y mod 16 * 4 + z div 64) mod 4 * 64 + z mod 64 = z"
    using d by simp_all
qed

lemma b64_encode_chars: "list_all (\<lambda>c. c \<noteq> CHR 0x0A \<and> c \<noteq> CHR 0x0D) (b64_encode s)"
  by (induction s rule: b64_encode.induct) (simp_all add: b64_char_value sextets)

lemma b64_groups_encode: "b64_groups (b64_encode s) = Some s"
  by (induction s rule: b64_encode.induct)
     (simp_all only: b64_encode.simps b64_groups.simps b64_char_value sextets prod.case option.case
        if_False if_True simp_thms char_of_char)

lemma DecodeString_encode: "DecodeString (b64_encode s) = Some s"
proof -
  have "filter (\<lambda>c. c \<noteq> CHR 0x0A \<and> c \<noteq> CHR 0x0D) (b64_encode s) = b64_encode s"
    using b64_encode_chars [of s] by (simp add: list_all_iff filter_id_conv)
  then show ?thesis by (simp add: DecodeString_def b64_groups_encode)
qed

end
