(* ===== verification/Go_Filepath.thy ===== *)
theory Go_Filepath
  imports Go_Strings
begin

text \<open>
  Go's \<open>path/filepath\<close> on Unix, as far as the controller uses it: \<open>Clean\<close>, \<open>Join\<close>,
  \<open>Dir\<close> and \<open>Rel\<close>.  A path is processed as whether it is rooted and the list of its
  cleaned elements, \<open>path_parts\<close>.
\<close>

fun split_slash :: "bytes \<Rightarrow> bytes list" where
  "split_slash [] = [[]]"
| "split_slash (c # s) =
     (if c = CHR ''/'' then [] # split_slash s
      else (case split_slash s of [] \<Rightarrow> [[c]] | h # t \<Rightarrow> (c # h) # t))"

fun join_slash :: "bytes list \<Rightarrow> bytes" where
  "join_slash [] = []"
| "join_slash [p] = p"
| "join_slash (p # q # ps) = p @ CHR ''/'' # join_slash (q # ps)"

definition rooted :: "bytes \<Rightarrow> bool" where
  "rooted p \<longleftrightarrow> HasPrefix p ''/''"

text \<open>
  The loop of \<open>Clean\<close>: \<open>st\<close> holds the elements kept so far, last one first.
\<close>

fun clean_elems :: "bool \<Rightarrow> bytes list \<Rightarrow> bytes list \<Rightarrow> bytes list" where
  "clean_elems r st [] = rev st"
| "clean_elems r st (c # cs) =
     (if c = [] \<or> c = ''.'' then clean_elems r st cs
      else if c = ''..'' then
        (case st of
           [] \<Rightarrow> clean_elems r (if r then [] else [''..'']) cs
         | t # ts \<Rightarrow> clean_elems r (if t = ''..'' then ''..'' # st else ts) cs)
      else clean_elems r (c # st) cs)"

definition path_parts :: "bytes \<Rightarrow> bytes list" where
  "path_parts p = clean_elems (rooted p) [] (split_slash p)"

definition Clean :: "bytes \<Rightarrow> bytes" where
  "Clean p =
     (if rooted p then CHR ''/'' # join_slash (path_parts p)
      else if path_parts p = [] then ''.''
      else join_slash (path_parts p))"

definition Join :: "bytes list \<Rightarrow> bytes" where
  "Join elems =
     (case dropWhile (\<lambda>e. e = []) elems of
        [] \<Rightarrow> []
      | e # es \<Rightarrow> Clean (join_slash (e # es)))"

definition Dir :: "bytes \<Rightarrow> bytes" where
  "Dir p = Clean (rev (dropWhile (\<lambda>c. c \<noteq> CHR ''/'') (rev p)))"

text \<open>The elements of two paths after their longest common prefix.\<close>

fun strip_common :: "bytes list \<Rightarrow> bytes list \<Rightarrow> bytes list \<times> bytes list" where
  "strip_common (a # as) (b # bs) = (if a = b then strip_common as bs else (a # as, b # bs))"
| "strip_common as bs = (as, bs)"

definition Rel :: "bytes \<Rightarrow> bytes \<Rightarrow> bytes option" where
  "Rel basepath targpath =
     (if Clean basepath = Clean targpath then Some ''.''
      else if rooted basepath \<noteq> rooted targpath then None
      else case strip_common (path_parts basepath) (path_parts targpath) of
             (b, t) \<Rightarrow>
               if b \<noteq> [] \<and> hd b = ''..'' then None
               else Some (join_slash (replicate (length b) ''..'' @ t)))"

section \<open>Splitting and joining\<close>

definition no_slash :: "bytes \<Rightarrow> bool" where
  "no_slash s \<longleftrightarrow> CHR ''/'' \<notin> set s"

lemma split_slash_nonempty [simp]: "split_slash s \<noteq> []"
  by (cases s) (auto split: list.split)

lemma split_slash_no_slash: "list_all no_slash (split_slash s)"
proof (induction s)
  case (Cons c s)
  then show ?case by (cases "split_slash s") (auto simp: no_slash_def)
qed (simp add: no_slash_def)

lemma split_slash_append: "split_slash (a @ CHR ''/'' # b) = split_slash a @ split_slash b"
  by (induction a) (auto split: list.split)

lemma split_slash_single: "no_slash p \<Longrightarrow> split_slash p = [p]"
  by (induction p) (auto simp: no_slash_def)

lemma split_join:
  "ps \<noteq> [] \<Longrightarrow> list_all no_slash ps \<Longrightarrow> split_slash (join_slash ps) = ps"
  by (induction ps rule: join_slash.induct) (auto simp: split_slash_append split_slash_single)

lemma rooted_Cons [simp]: "rooted (c # s) \<longleftrightarrow> c = CHR ''/''"
  by (auto simp: rooted_def HasPrefix_def)

lemma rooted_Nil [simp]: "\<not> rooted []"
  by (simp add: rooted_def HasPrefix_def)

lemma rooted_append: "a \<noteq> [] \<Longrightarrow> rooted (a @ b) = rooted a"
  by (cases a) auto

section \<open>Cleaned elements\<close>

lemma clean_elems_append:
  "clean_elems r st (xs @ ys) = clean_elems r (rev (clean_elems r st xs)) ys"
  by (induction r st xs rule: clean_elems.induct) (auto split: list.splits)

text \<open>A proper element: not empty, no dot element, no slash inside.\<close>

definition proper_elem :: "bytes \<Rightarrow> bool" where
  "proper_elem e \<longleftrightarrow> e \<noteq> [] \<and> e \<noteq> ''.'' \<and> no_slash e"

definition plain_elem :: "bytes \<Rightarrow> bool" where
  "plain_elem e \<longleftrightarrow> proper_elem e \<and> e \<noteq> ''..''"

text \<open>
  What the loop leaves behind, as a stack: elements are proper, and a dot-dot element
  only stands at the bottom, in a path that is not rooted.
\<close>

fun clean_stack :: "bool \<Rightarrow> bytes list \<Rightarrow> bool" where
  "clean_stack r [] = True"
| "clean_stack r (e # st) =
     (proper_elem e \<and> clean_stack r st \<and>
      (e = ''..'' \<longrightarrow> \<not> r \<and> list_all (\<lambda>x. x = ''..'') st))"

lemma clean_stack_pop: "clean_stack r (e # st) \<Longrightarrow> clean_stack r st"
  by simp

lemma clean_stack_dotdot:
  "clean_stack r (e # st) \<Longrightarrow> e = ''..'' \<Longrightarrow> \<not> r \<and> list_all (\<lambda>x. x = ''..'') (e # st)"
  by simp

lemma clean_elems_stack:
  assumes "clean_stack r st" and "list_all no_slash cs"
  shows "clean_stack r (rev (clean_elems r st cs))"
  using assms
proof (induction r st cs rule: clean_elems.induct)
  case (2 r st c cs)
  have dd: "proper_elem ''..''" by (simp add: proper_elem_def no_slash_def)
  consider "c = [] \<or> c = ''.''" | "c = ''..''" | "c \<noteq> []" "c \<noteq> ''.''" "c \<noteq> ''..''" by blast
  then show ?case
  proof cases
    case 1
    with 2 show ?thesis by auto
  next
    case 2
    with "2.IH"(2,3) "2.prems" dd show ?thesis
      by (cases st) (auto simp: list_all_iff)
  next
    case 3
    with "2.IH"(4) "2.prems" show ?thesis by (auto simp: proper_elem_def)
  qed
qed simp

lemma clean_elems_id:
  assumes "clean_stack r (rev cs @ st)"
  shows "clean_elems r st cs = rev st @ cs"
  using assms
proof (induction cs arbitrary: st)
  case (Cons c cs)
  then have stk: "clean_stack r (rev cs @ c # st)" by simp
  have sub: "clean_stack r (xs @ ys) \<Longrightarrow> clean_stack r ys" for xs ys
    by (induction xs) auto
  from sub [OF stk] have c: "clean_stack r (c # st)" .
  then have "c \<noteq> []" "c \<noteq> ''.''" by (auto simp: proper_elem_def)
  moreover have "c = ''..'' \<Longrightarrow>
      clean_elems r st (c # cs) = clean_elems r (c # st) cs"
    using c by (cases st) auto
  ultimately have "clean_elems r st (c # cs) = clean_elems r (c # st) cs" by auto
  with Cons.IH [OF stk] show ?case by simp
qed simp

lemma clean_stack_parts: "clean_stack (rooted p) (rev (path_parts p))"
  unfolding path_parts_def by (rule clean_elems_stack) (simp_all add: split_slash_no_slash)

lemma clean_stack_all_proper: "clean_stack r st \<Longrightarrow> list_all proper_elem st"
  by (induction st) auto

lemma parts_proper: "list_all proper_elem (path_parts p)"
  using clean_stack_all_proper [OF clean_stack_parts [of p]] by simp

lemma parts_no_slash: "list_all no_slash (path_parts p)"
  using parts_proper [of p] by (auto simp: list_all_iff proper_elem_def)

lemma rooted_join: "list_all proper_elem ps \<Longrightarrow> \<not> rooted (join_slash ps)"
  by (cases ps rule: join_slash.cases)
     (auto simp: rooted_def HasPrefix_iff proper_elem_def no_slash_def append_eq_Cons_conv)

lemma rooted_Clean [simp]: "rooted (Clean p) = rooted p"
  using rooted_join [OF parts_proper [of p]] by (simp add: Clean_def)

lemma split_Clean:
  "split_slash (Clean p) =
     (if rooted p then [] # (if path_parts p = [] then [[]] else path_parts p)
      else if path_parts p = [] then [''.''] else path_parts p)"
  using parts_no_slash [of p] by (auto simp: Clean_def split_join)

lemma path_parts_Clean [simp]: "path_parts (Clean p) = path_parts p"
proof -
  have "clean_elems (rooted p) [] (path_parts p) = path_parts p"
    using clean_elems_id [of "rooted p" "path_parts p" "[]"] clean_stack_parts [of p] by simp
  then show ?thesis
    by (auto simp: path_parts_def [of "Clean p"] split_Clean)
qed

lemma Clean_eq_iff: "Clean p = Clean q \<longleftrightarrow> rooted p = rooted q \<and> path_parts p = path_parts q"
  by (metis Clean_def path_parts_Clean rooted_Clean)

lemma Clean_idem [simp]: "Clean (Clean p) = Clean p"
  by (simp add: Clean_eq_iff)

section \<open>Joining a plain name, and taking it off again\<close>

lemma Join_pair: "a \<noteq> [] \<Longrightarrow> Join [a, b] = Clean (a @ CHR ''/'' # b)"
  by (simp add: Join_def)

lemma path_parts_snoc:
  assumes "a \<noteq> []" and "plain_elem b"
  shows "path_parts (a @ CHR ''/'' # b) = path_parts a @ [b]"
  using assms
  by (simp add: path_parts_def rooted_append split_slash_append clean_elems_append
        split_slash_single plain_elem_def proper_elem_def)

lemma path_parts_slash: "a \<noteq> [] \<Longrightarrow> path_parts (a @ ''/'') = path_parts a"
  by (simp add: path_parts_def rooted_append split_slash_append clean_elems_append)

lemma path_parts_Nil: "path_parts [] = []"
  by (simp add: path_parts_def)

lemma path_parts_root: "path_parts ''/'' = []"
  by (simp add: path_parts_def)

lemma path_parts_Join:
  assumes "a \<noteq> []" and "plain_elem b"
  shows "path_parts (Join [a, b]) = path_parts a @ [b]"
  using assms by (simp add: Join_pair path_parts_snoc)

lemma rooted_Join: "a \<noteq> [] \<Longrightarrow> rooted (Join [a, b]) = rooted a"
  by (simp add: Join_pair rooted_append)

lemma Clean_nonempty [simp]: "Clean p \<noteq> []"
proof -
  have "path_parts p \<noteq> [] \<Longrightarrow> join_slash (path_parts p) \<noteq> []"
    using parts_proper [of p]
    by (cases "path_parts p" rule: join_slash.cases) (auto simp: proper_elem_def)
  then show ?thesis by (auto simp: Clean_def)
qed

lemma Join_nonempty [simp]: "a \<noteq> [] \<Longrightarrow> Join [a, b] \<noteq> []"
  by (simp add: Join_pair)

lemma Clean_Join [simp]: "a \<noteq> [] \<Longrightarrow> Clean (Join [a, b]) = Join [a, b]"
  by (simp add: Join_pair)

lemma join_slash_snoc: "ps \<noteq> [] \<Longrightarrow> join_slash (ps @ [b]) = join_slash ps @ CHR ''/'' # b"
proof (induction ps rule: join_slash.induct)
  case (3 p q ps)
  then show ?case by (cases ps) auto
qed auto

lemma dropWhile_no_slash:
  assumes "no_slash b"
  shows "dropWhile (\<lambda>c. c \<noteq> CHR ''/'') (rev b @ CHR ''/'' # s) = CHR ''/'' # s"
  using assms by (subst dropWhile_append2) (auto simp: no_slash_def)

lemma Dir_Join:
  assumes "a \<noteq> []" and "plain_elem b"
  shows "Dir (Join [a, b]) = Clean a"
proof -
  have b: "no_slash b" using assms(2) by (simp add: plain_elem_def proper_elem_def)
  have J: "Join [a, b] = Clean (a @ CHR ''/'' # b)" by (rule Join_pair) (rule assms(1))
  have parts: "path_parts (a @ CHR ''/'' # b) = path_parts a @ [b]"
    by (rule path_parts_snoc) (rule assms)+
  have r: "rooted (a @ CHR ''/'' # b) = rooted a" using assms(1) by (simp add: rooted_append)
  show ?thesis
  proof (cases "path_parts a = []")
    case True
    have d: "dropWhile (\<lambda>c. c \<noteq> CHR ''/'') (rev b) = []"
      using b by (auto simp: no_slash_def)
    then have "Dir (Join [a, b]) = Clean (if rooted a then ''/'' else [])"
      using dropWhile_no_slash [OF b, of "[]"] True
      by (simp add: Dir_def J Clean_def [of "a @ CHR ''/'' # b"] parts r d
            del: dropWhile_eq_Nil_conv)
    also have "\<dots> = Clean a"
      using True path_parts_Nil path_parts_root by (simp add: Clean_eq_iff)
    finally show ?thesis .
  next
    case False
    then have "join_slash (path_parts a @ [b]) = join_slash (path_parts a) @ CHR ''/'' # b"
      by (rule join_slash_snoc)
    then have "Dir (Join [a, b]) =
        Clean ((if rooted a then ''/'' else []) @ join_slash (path_parts a) @ ''/'')"
      using b by (simp add: Dir_def J Clean_def [of "a @ CHR ''/'' # b"] parts r dropWhile_no_slash
            False)
    also have "\<dots> = Clean (Clean a @ ''/'')"
      using False by (simp add: Clean_def [of a])
    also have "\<dots> = Clean a"
      by (simp add: Clean_eq_iff rooted_append path_parts_slash)
    finally show ?thesis .
  qed
qed

section \<open>Relative paths\<close>

lemma strip_common_parts:
  assumes "strip_common as bs = (x, y)"
  shows "\<exists>c. as = c @ x \<and> bs = c @ y"
  using assms
proof (induction as bs rule: strip_common.induct)
  case (1 a as b bs)
  then show ?case by (fastforce split: if_splits)
qed auto

lemma strip_common_prefix: "strip_common as (as @ t) = ([], t)"
proof (induction as)
  case Nil
  then show ?case by (cases t) auto
qed simp

text \<open>
  A relative path that does not start with two dots leads downwards: the elements of the
  target are those of the base followed by more.
\<close>

lemma Rel_downwards:
  assumes "Rel base targ = Some rel" and "\<not> HasPrefix rel ''..''"
  shows "rooted targ = rooted base \<and> (\<exists>t. path_parts targ = path_parts base @ t)"
proof (cases "Clean base = Clean targ")
  case True
  then show ?thesis by (auto simp: Clean_eq_iff)
next
  case False
  obtain b t where bt: "strip_common (path_parts base) (path_parts targ) = (b, t)"
    by fastforce
  with assms(1) False have r: "rooted targ = rooted base"
    and rel: "rel = join_slash (replicate (length b) ''..'' @ t)"
    by (auto simp: Rel_def split: if_splits)
  have "b = []"
  proof (rule ccontr)
    assume "b \<noteq> []"
    then obtain n where "length b = Suc n" by (cases b) auto
    with rel assms(2) show False
      by (cases "replicate n ''..'' @ t") (auto simp: HasPrefix_def)
  qed
  with strip_common_parts [OF bt] r show ?thesis by auto
qed

text \<open>
  A path without two consecutive dots has no element that starts with them, so for such a
  path the prefix of elements is also sufficient.
\<close>

lemma split_slash_factor: "e \<in> set (split_slash s) \<Longrightarrow> \<exists>a b. s = a @ e @ b"
proof (induction s arbitrary: e)
  case (Cons c s)
  obtain h t where ht: "split_slash s = h # t" by (cases "split_slash s") auto
  have h: "\<exists>b. s = h @ b"
    using ht
  proof (induction s arbitrary: h t)
    case (Cons d s)
    then show ?case by (cases "split_slash s") (auto split: if_splits)
  qed simp
  from Cons.prems ht consider "e = []" | "e = c # h" | "e \<in> set (split_slash s)"
    by (auto split: if_splits)
  then show ?case
  proof cases
    case 1
    then show ?thesis by (metis append_Nil)
  next
    case 2
    with h show ?thesis by (metis append_Cons append_Nil)
  next
    case 3
    from Cons.IH [OF this] show ?thesis by (metis append_Cons)
  qed
qed simp

lemma clean_elems_subset:
  "''..'' \<notin> set cs \<Longrightarrow> set (clean_elems r st cs) \<subseteq> set st \<union> set cs"
  by (induction r st cs rule: clean_elems.induct) auto

lemma parts_no_dots:
  assumes "\<not> Contains p ''..''" and "e \<in> set (path_parts p)"
  shows "\<not> Contains e ''..''"
proof -
  have sub: "\<not> Contains e ''..''" if "e \<in> set (split_slash p)" for e
    using split_slash_factor [OF that] assms(1) by (metis Contains_iff append.assoc)
  have "''..'' \<notin> set (split_slash p)" using sub [of "''..''"] by (auto simp: HasPrefix_def)
  then have "set (path_parts p) \<subseteq> set (split_slash p)"
    using clean_elems_subset [of "split_slash p" "rooted p" "[]"] by (simp add: path_parts_def)
  with assms(2) sub show ?thesis by blast
qed

lemma join_slash_dots:
  assumes "list_all proper_elem ps" and "HasPrefix (join_slash ps) ''..''"
  shows "\<exists>e \<in> set ps. Contains e ''..''"
proof (cases ps rule: join_slash.cases)
  case (3 p q qs)
  have p: "p \<noteq> []" "p \<noteq> ''.''" using assms(1) 3 by (auto simp: proper_elem_def)
  then obtain a p' where a: "p = a # p'" by (cases p) auto
  have "\<exists>t. p = ''..'' @ t"
    using assms(2) 3 a p(2) by (cases p') (auto simp: HasPrefix_iff)
  then have "Contains p ''..''" by (metis Contains_iff append_Nil)
  with 3 show ?thesis by auto
qed (use assms(2) in \<open>auto simp: HasPrefix_iff Contains_iff\<close>)

lemma Rel_prefix:
  assumes "rooted targ = rooted base" and "path_parts targ = path_parts base @ t"
  shows "Rel base targ = Some (if t = [] then ''.'' else join_slash t)"
  using assms by (auto simp: Rel_def Clean_eq_iff strip_common_prefix)

end
