(* ===== verification/Go_Time.thy ===== *)
theory Go_Time
  imports Go_Strings "HOL-Library.Word"
begin

text \<open>
  Time as Go has it: an instant is the number of nanoseconds since an epoch, a duration is a
  signed 64-bit number of nanoseconds.
\<close>

type_synonym time = int
type_synonym duration = int

text \<open>\<open>time.Duration(n) * time.Second\<close>: the product wraps around.\<close>

definition seconds :: "int \<Rightarrow> duration" where
  "seconds n = signed_take_bit 63 (n * 1000000000)"

definition dur_add :: "duration \<Rightarrow> duration \<Rightarrow> duration" where
  "dur_add d e = signed_take_bit 63 (d + e)"

text \<open>\<open>t.Sub(u)\<close> saturates.\<close>

definition time_Sub :: "time \<Rightarrow> time \<Rightarrow> duration" where
  "time_Sub t u = max (- (2 ^ 63)) (min (2 ^ 63 - 1) (t - u))"

abbreviation minute :: duration where
  "minute \<equiv> 60 * 1000000000"

lemma seconds_exact: "\<lbrakk>0 \<le> n; n \<le> 9223372036\<rbrakk> \<Longrightarrow> seconds n = n * 1000000000"
  unfolding seconds_def by (rule signed_take_bit_int_eq_self) simp_all

lemma seconds_less: "seconds n < 2 ^ 63"
  unfolding seconds_def using signed_take_bit_int_less_exp [of 63 "n * 1000000000"] by simp

lemma time_Sub_pos_iff: "0 < time_Sub t u \<longleftrightarrow> u < t"
  by (auto simp: time_Sub_def)

lemma time_Sub_less:
  assumes "- (2 ^ 63) < d" and "d < 2 ^ 63"
  shows "time_Sub t u < d \<longleftrightarrow> t - u < d"
  using assms by (auto simp: time_Sub_def min_def max_def)

section \<open>Formatting\<close>

text \<open>Year, month and day of the day with the given number, counted from 1 January 1970.\<close>

definition civil :: "int \<Rightarrow> int \<times> int \<times> int" where
  "civil z =
     (let z = z + 719468;
          era = z div 146097;
          doe = z mod 146097;
          yoe = (doe - doe div 1460 + doe div 36524 - doe div 146096) div 365;
          doy = doe - (365 * yoe + yoe div 4 - yoe div 100);
          mp = (5 * doy + 2) div 153;
          d = doy - (153 * mp + 2) div 5 + 1;
          m = (if mp < 10 then mp + 3 else mp - 9);
          y = yoe + era * 400 + (if m \<le> 2 then 1 else 0)
      in (y, m, d))"

definition pad_int :: "nat \<Rightarrow> int \<Rightarrow> bytes" where
  "pad_int w n = (let s = fmt_int n in replicate (w - length s) (CHR ''0'') @ s)"

text \<open>\<open>t.UTC().Format(time.RFC3339)\<close>\<close>

definition format_RFC3339 :: "time \<Rightarrow> bytes" where
  "format_RFC3339 t =
     (let secs = t div 1000000000;
          (y, m, d) = civil (secs div 86400);
          r = secs mod 86400
      in pad_int 4 y @ ''-'' @ pad_int 2 m @ ''-'' @ pad_int 2 d @ ''T'' @
         pad_int 2 (r div 3600) @ '':'' @ pad_int 2 (r div 60 mod 60) @ '':'' @ pad_int 2 (r mod 60) @ ''Z'')"

end
