(* ===== verification/Nsjail_Config.thy ===== *)
theory Nsjail_Config
  imports Go_Strings "HOL-Library.Word"
begin

text \<open>
  The nsjail configuration and its rendering in the protobuf text format
  (\<open>internal/nsjail/nsjail_config.go\<close>): the records, \<open>protoString\<close> and \<open>ToTextProto\<close>.
  Against them stands a small reader of the text format, lexer and parser.  The central fact
  is that the reader finds in the rendered text exactly the fields the configuration asks
  for, whatever bytes the strings of the configuration hold: a hostname, an environment
  value or a volume path cannot add, drop or change a field.
\<close>

section \<open>The configuration\<close>

datatype Mode = ModeOnce | ModeListen

record MountPt =
  mp_Src :: bytes
  mp_Dst :: bytes
  mp_Fstype :: bytes
  mp_Rw :: bool
  mp_IsBind :: bool

record NsMacvlanConfig =
  nv_Iface :: bytes
  nv_IP :: bytes
  nv_Netmask :: bytes
  nv_Gateway :: bytes
  nv_MAC :: bytes

record NsjailConfig =
  nc_Mode :: Mode
  nc_Chroot :: bytes
  nc_Log :: bytes
  nc_Hostname :: bytes
  nc_Cwd :: bytes
  nc_User :: bytes
  nc_TimeLimit :: "32 word"
  nc_DisableCloneNewUser :: bool
  nc_DisableCloneNewNet :: bool
  nc_CloneNewTime :: bool
  nc_CgroupMemMax :: "64 word"
  nc_RlimitAS :: "64 word"
  nc_RlimitCore :: "64 word"
  nc_RlimitCPU :: "64 word"
  nc_RlimitFsize :: "64 word"
  nc_RlimitNofile :: "64 word"
  nc_RlimitNproc :: "64 word"
  nc_RlimitStack :: "64 word"
  nc_Envar :: "bytes list"
  nc_Mounts :: "MountPt list"
  nc_SeccompString :: bytes
  nc_Macvlan :: "NsMacvlanConfig option"
  nc_UsePasta :: bool
  nc_ListenPort :: "16 word"

text \<open>The zero value of the struct, which a Go composite literal starts from.\<close>

definition zero_NsjailConfig :: NsjailConfig where
  "zero_NsjailConfig =
     \<lparr>nc_Mode = ModeOnce, nc_Chroot = [], nc_Log = [], nc_Hostname = [], nc_Cwd = [],
      nc_User = [], nc_TimeLimit = 0, nc_DisableCloneNewUser = False,
      nc_DisableCloneNewNet = False, nc_CloneNewTime = False, nc_CgroupMemMax = 0,
      nc_RlimitAS = 0, nc_RlimitCore = 0, nc_RlimitCPU = 0, nc_RlimitFsize = 0,
      nc_RlimitNofile = 0, nc_RlimitNproc = 0, nc_RlimitStack = 0, nc_Envar = [],
      nc_Mounts = [], nc_SeccompString = [], nc_Macvlan = None, nc_UsePasta = False,
      nc_ListenPort = 0\<rparr>"

section \<open>Rendering\<close>

abbreviation dq :: char where "dq \<equiv> CHR 0x22"
abbreviation nl :: char where "nl \<equiv> CHR 0x0A"
abbreviation backslash :: char where "backslash \<equiv> CHR 0x5C"

definition octal3 :: "char \<Rightarrow> bytes" where
  "octal3 c = [digit_char (byte c div 64), digit_char (byte c div 8 mod 8),
     digit_char (byte c mod 8)]"

definition proto_escape :: "char \<Rightarrow> bytes" where
  "proto_escape c =
     (if c = backslash then [backslash, backslash]
      else if c = dq then [backslash, dq]
      else if c = nl then [backslash, CHR ''n'']
      else if c = CHR 0x0D then [backslash, CHR ''r'']
      else if (byte c :: nat) < 0x20 \<or> (byte c :: nat) = 0x7F then backslash # octal3 c
      else [c])"

definition protoString :: "bytes \<Rightarrow> bytes" where
  "protoString s = dq # concat (map proto_escape s) @ [dq]"

text \<open>The three formats \<open>ToTextProto\<close> prints a field with.\<close>

definition str_line :: "bytes \<Rightarrow> bytes \<Rightarrow> bytes" where
  "str_line key v = key @ '': '' @ protoString v @ [nl]"

definition num_line :: "bytes \<Rightarrow> nat \<Rightarrow> bytes" where
  "num_line key n = key @ '': '' @ fmt_nat n @ [nl]"

definition id_line :: "bytes \<Rightarrow> bytes \<Rightarrow> bytes" where
  "id_line key v = key @ '': '' @ v @ [nl]"

definition opt_str :: "bytes \<Rightarrow> bytes \<Rightarrow> bytes" where
  "opt_str key v = (if v \<noteq> [] then str_line key v else [])"

definition opt_num :: "bytes \<Rightarrow> nat \<Rightarrow> bytes" where
  "opt_num key n = (if n > 0 then num_line key n else [])"

definition opt_id :: "bytes \<Rightarrow> bytes \<Rightarrow> bool \<Rightarrow> bytes" where
  "opt_id key v b = (if b then id_line key v else [])"

definition idmap_line :: "bytes \<Rightarrow> bytes \<Rightarrow> bytes" where
  "idmap_line key user =
     key @ '' { inside_id: '' @ protoString user @ '' outside_id: '' @ [dq, dq] @
     '' count: 1 }'' @ [nl]"

definition mount_open :: bytes where "mount_open = ''mount {'' @ [nl]"
definition mount_close :: bytes where "mount_close = ''}'' @ [nl]"

definition chroot_mount :: "bytes \<Rightarrow> bytes" where
  "chroot_mount chroot =
     mount_open @ str_line ''  src'' chroot @ str_line ''  dst'' ''/'' @
     id_line ''  is_bind'' ''true'' @ mount_close"

definition mount_text :: "MountPt \<Rightarrow> bytes" where
  "mount_text mt =
     mount_open @ opt_str ''  src'' (mp_Src mt) @ str_line ''  dst'' (mp_Dst mt) @
     opt_str ''  fstype'' (mp_Fstype mt) @ opt_id ''  rw'' ''true'' (mp_Rw mt) @
     opt_id ''  is_bind'' ''true'' (mp_IsBind mt) @ mount_close"

definition macvlan_text :: "NsMacvlanConfig \<Rightarrow> bytes" where
  "macvlan_text mv =
     str_line ''iface_vs'' (nv_Iface mv) @ opt_str ''iface_vs_ip'' (nv_IP mv) @
     opt_str ''iface_vs_nm'' (nv_Netmask mv) @ opt_str ''iface_vs_gw'' (nv_Gateway mv) @
     opt_str ''iface_vs_ma'' (nv_MAC mv)"

definition ToTextProto :: "NsjailConfig \<Rightarrow> bytes" where
  "ToTextProto c =
     (case nc_Mode c of ModeListen \<Rightarrow> id_line ''mode'' ''LISTEN''
                      | _ \<Rightarrow> id_line ''mode'' ''ONCE'') @
     str_line ''log_file'' (nc_Log c) @
     opt_str ''hostname'' (nc_Hostname c) @
     opt_str ''cwd'' (nc_Cwd c) @
     opt_num ''time_limit'' (unat (nc_TimeLimit c)) @
     opt_id ''clone_newuser'' ''false'' (nc_DisableCloneNewUser c) @
     opt_id ''clone_newnet'' ''false'' (nc_DisableCloneNewNet c) @
     opt_id ''clone_newtime'' ''true'' (nc_CloneNewTime c) @
     opt_num ''cgroup_mem_max'' (unat (nc_CgroupMemMax c)) @
     opt_num ''rlimit_as'' (unat (nc_RlimitAS c)) @
     opt_num ''rlimit_core'' (unat (nc_RlimitCore c)) @
     opt_num ''rlimit_cpu'' (unat (nc_RlimitCPU c)) @
     opt_num ''rlimit_fsize'' (unat (nc_RlimitFsize c)) @
     opt_num ''rlimit_nofile'' (unat (nc_RlimitNofile c)) @
     opt_num ''rlimit_nproc'' (unat (nc_RlimitNproc c)) @
     opt_num ''rlimit_stack'' (unat (nc_RlimitStack c)) @
     (if nc_User c \<noteq> []
      then idmap_line ''uidmap'' (nc_User c) @ idmap_line ''gidmap'' (nc_User c) else []) @
     concat (map (str_line ''envar'') (nc_Envar c)) @
     (if nc_Chroot c \<noteq> [] then chroot_mount (nc_Chroot c) else []) @
     concat (map mount_text (nc_Mounts c)) @
     opt_str ''seccomp_string'' (nc_SeccompString c) @
     (case nc_Macvlan c of None \<Rightarrow> [] | Some mv \<Rightarrow> macvlan_text mv) @
     opt_id ''use_pasta'' ''true'' (nc_UsePasta c) @
     opt_num ''port'' (unat (nc_ListenPort c))"

section \<open>A reader of the text format\<close>

text \<open>
  The part of the protobuf text format that the renderer uses: words, numbers, quoted
  strings with the escapes for backslash, quote, line feed, carriage return and three octal
  digits, and nested messages in braces.  A raw line feed inside a quoted string is an error,
  as it is in the format.
\<close>

datatype tok = TokWord bytes | TokStr bytes | TokColon | TokLB | TokRB

definition is_octal :: "char \<Rightarrow> bool" where
  "is_octal c \<longleftrightarrow> 48 \<le> (byte c :: nat) \<and> (byte c :: nat) \<le> 55"

definition octal_value :: "char \<Rightarrow> nat" where
  "octal_value c = byte c - 48"

fun lex_str :: "bytes \<Rightarrow> (bytes \<times> bytes) option" where
  "lex_str [] = None"
| "lex_str (c # s) =
     (if c = dq then Some ([], s)
      else if c = nl then None
      else if c \<noteq> backslash then map_option (apfst ((#) c)) (lex_str s)
      else
        (case s of
           [] \<Rightarrow> None
         | d # s1 \<Rightarrow>
             if d = backslash \<or> d = dq then map_option (apfst ((#) d)) (lex_str s1)
             else if d = CHR ''n'' then map_option (apfst ((#) nl)) (lex_str s1)
             else if d = CHR ''r'' then map_option (apfst ((#) CHR 0x0D)) (lex_str s1)
             else
               (case s1 of
                  e # f # s2 \<Rightarrow>
                    if is_octal d \<and> is_octal e \<and> is_octal f
                    then map_option (apfst ((#) (char_of
                           (64 * octal_value d + 8 * octal_value e + octal_value f))))
                         (lex_str s2)
                    else None
                | _ \<Rightarrow> None)))"

definition word_char :: "char \<Rightarrow> bool" where
  "word_char c \<longleftrightarrow> is_digit c \<or> c = CHR ''_'' \<or>
     (65 \<le> (byte c :: nat) \<and> (byte c :: nat) \<le> 90) \<or>
     (97 \<le> (byte c :: nat) \<and> (byte c :: nat) \<le> 122)"

lemma lex_str_length:
  "lex_str s = Some (v, rest) \<Longrightarrow> length rest < length s"
proof (induction s arbitrary: v rest rule: lex_str.induct)
  case (2 c s)
  then show ?case
    by (fastforce split: if_splits list.splits simp: less_Suc_eq)
qed simp

function lex :: "bytes \<Rightarrow> tok list option" where
  "lex [] = Some []"
| "lex (c # s) =
     (if c = CHR '' '' \<or> c = nl then lex s
      else if c = CHR '':'' then map_option ((#) TokColon) (lex s)
      else if c = CHR ''{'' then map_option ((#) TokLB) (lex s)
      else if c = CHR ''}'' then map_option ((#) TokRB) (lex s)
      else if c = dq then
        (case lex_str s of
           None \<Rightarrow> None
         | Some (v, rest) \<Rightarrow> map_option ((#) (TokStr v)) (lex rest))
      else if word_char c then
        map_option ((#) (TokWord (c # takeWhile word_char s))) (lex (dropWhile word_char s))
      else None)"
  by pat_completeness auto
termination
  by (relation "measure length")
     (auto dest: lex_str_length simp: less_Suc_eq_le length_dropWhile_le less_imp_le)

datatype tf_value = TStr bytes | TWord bytes | TMsg "(bytes \<times> tf_value) list"

type_synonym tf_fields = "(bytes \<times> tf_value) list"

text \<open>
  The parser keeps the messages that are still open on a stack, each with its name and the
  fields before it; fields are collected last one first.
\<close>

fun tf_parse :: "tok list \<Rightarrow> (bytes \<times> tf_fields) list \<Rightarrow> tf_fields \<Rightarrow> tf_fields option" where
  "tf_parse [] st cur = (if st = [] then Some (rev cur) else None)"
| "tf_parse (t # ts) st cur =
     (case t of
        TokRB \<Rightarrow>
          (case st of
             [] \<Rightarrow> None
           | (k, outer) # st1 \<Rightarrow> tf_parse ts st1 ((k, TMsg (rev cur)) # outer))
      | TokWord k \<Rightarrow>
          (case ts of
             TokLB # ts1 \<Rightarrow> tf_parse ts1 ((k, cur) # st) []
           | TokColon # TokStr v # ts1 \<Rightarrow> tf_parse ts1 st ((k, TStr v) # cur)
           | TokColon # TokWord v # ts1 \<Rightarrow> tf_parse ts1 st ((k, TWord v) # cur)
           | _ \<Rightarrow> None)
      | _ \<Rightarrow> None)"

definition read_text :: "bytes \<Rightarrow> tf_fields option" where
  "read_text s = (case lex s of None \<Rightarrow> None | Some ts \<Rightarrow> tf_parse ts [] [])"

section \<open>The fields a configuration asks for\<close>

definition str_if :: "bytes \<Rightarrow> bytes \<Rightarrow> tf_fields" where
  "str_if k v = (if v \<noteq> [] then [(k, TStr v)] else [])"

definition num_if :: "bytes \<Rightarrow> nat \<Rightarrow> tf_fields" where
  "num_if k n = (if n > 0 then [(k, TWord (fmt_nat n))] else [])"

definition word_if :: "bytes \<Rightarrow> bytes \<Rightarrow> bool \<Rightarrow> tf_fields" where
  "word_if k v b = (if b then [(k, TWord v)] else [])"

definition idmap_fields :: "bytes \<Rightarrow> tf_fields" where
  "idmap_fields user =
     [(''inside_id'', TStr user), (''outside_id'', TStr []), (''count'', TWord ''1'')]"

definition mount_fields :: "MountPt \<Rightarrow> tf_fields" where
  "mount_fields mt =
     str_if ''src'' (mp_Src mt) @ [(''dst'', TStr (mp_Dst mt))] @
     str_if ''fstype'' (mp_Fstype mt) @ word_if ''rw'' ''true'' (mp_Rw mt) @
     word_if ''is_bind'' ''true'' (mp_IsBind mt)"

definition macvlan_fields :: "NsMacvlanConfig \<Rightarrow> tf_fields" where
  "macvlan_fields mv =
     [(''iface_vs'', TStr (nv_Iface mv))] @ str_if ''iface_vs_ip'' (nv_IP mv) @
     str_if ''iface_vs_nm'' (nv_Netmask mv) @ str_if ''iface_vs_gw'' (nv_Gateway mv) @
     str_if ''iface_vs_ma'' (nv_MAC mv)"

text \<open>The mounts nsjail performs: the root file system first, read-only, then the others.\<close>

definition all_mounts :: "NsjailConfig \<Rightarrow> MountPt list" where
  "all_mounts c =
     (if nc_Chroot c \<noteq> []
      then [\<lparr>mp_Src = nc_Chroot c, mp_Dst = ''/'', mp_Fstype = [], mp_Rw = False,
             mp_IsBind = True\<rparr>] else []) @ nc_Mounts c"

definition config_fields :: "NsjailConfig \<Rightarrow> tf_fields" where
  "config_fields c =
     [(''mode'', TWord (if nc_Mode c = ModeListen then ''LISTEN'' else ''ONCE''))] @
     [(''log_file'', TStr (nc_Log c))] @
     str_if ''hostname'' (nc_Hostname c) @ str_if ''cwd'' (nc_Cwd c) @
     num_if ''time_limit'' (unat (nc_TimeLimit c)) @
     word_if ''clone_newuser'' ''false'' (nc_DisableCloneNewUser c) @
     word_if ''clone_newnet'' ''false'' (nc_DisableCloneNewNet c) @
     word_if ''clone_newtime'' ''true'' (nc_CloneNewTime c) @
     num_if ''cgroup_mem_max'' (unat (nc_CgroupMemMax c)) @
     num_if ''rlimit_as'' (unat (nc_RlimitAS c)) @
     num_if ''rlimit_core'' (unat (nc_RlimitCore c)) @
     num_if ''rlimit_cpu'' (unat (nc_RlimitCPU c)) @
     num_if ''rlimit_fsize'' (unat (nc_RlimitFsize c)) @
     num_if ''rlimit_nofile'' (unat (nc_RlimitNofile c)) @
     num_if ''rlimit_nproc'' (unat (nc_RlimitNproc c)) @
     num_if ''rlimit_stack'' (unat (nc_RlimitStack c)) @
     (if nc_User c \<noteq> []
      then [(''uidmap'', TMsg (idmap_fields (nc_User c))),
            (''gidmap'', TMsg (idmap_fields (nc_User c)))] else []) @
     map (\<lambda>e. (''envar'', TStr e)) (nc_Envar c) @
     map (\<lambda>mt. (''mount'', TMsg (mount_fields mt))) (all_mounts c) @
     str_if ''seccomp_string'' (nc_SeccompString c) @
     (case nc_Macvlan c of None \<Rightarrow> [] | Some mv \<Rightarrow> macvlan_fields mv) @
     word_if ''use_pasta'' ''true'' (nc_UsePasta c) @
     num_if ''port'' (unat (nc_ListenPort c))"

section \<open>The lexer on rendered text\<close>

lemma octal_digit: "d < 8 \<Longrightarrow> is_octal (digit_char d) \<and> octal_value (digit_char d) = d"
  by (simp add: is_octal_def octal_value_def)

lemma octal3_value:
  "64 * (byte c div 64) + 8 * (byte c div 8 mod 8) + byte c mod 8 = (byte c :: nat)"
proof -
  have "(byte c :: nat) div 64 = byte c div 8 div 8"
    by (simp add: div_mult2_eq [symmetric])
  then show ?thesis
    using mult_div_mod_eq [of 8 "byte c :: nat"] mult_div_mod_eq [of 8 "byte c div 8 :: nat"]
    by linarith
qed

lemma digit_char_neq:
  assumes "d < 8"
  shows "digit_char d \<noteq> backslash" "digit_char d \<noteq> dq" "digit_char d \<noteq> CHR ''n''"
    "digit_char d \<noteq> CHR ''r''"
proof -
  have b: "digit_char d = c \<Longrightarrow> byte c = 48 + d" for c using assms by auto
  show "digit_char d \<noteq> backslash" "digit_char d \<noteq> dq" "digit_char d \<noteq> CHR ''n''"
    "digit_char d \<noteq> CHR ''r''"
    using b [of backslash] b [of dq] b [of "CHR ''n''"] b [of "CHR ''r''"] assms by auto
qed

lemma octal3_bounds:
  "(byte c :: nat) div 64 < 8" "(byte c :: nat) div 8 mod 8 < 8" "(byte c :: nat) mod 8 < 8"
  using less_trans [OF nat_of_char_less_256 [of c], of 512]
  by (simp_all add: div_less_iff_less_mult)

lemma lex_str_octal3:
  "lex_str (backslash # octal3 c @ rest) = map_option (apfst ((#) c)) (lex_str rest)"
  using octal3_value [of c]
  by (simp add: octal3_def octal_digit octal3_bounds digit_char_neq)

lemma lex_str_escape:
  "lex_str (proto_escape c @ rest) = map_option (apfst ((#) c)) (lex_str rest)"
  by (simp add: proto_escape_def lex_str_octal3 del: lex_str.simps)
     (simp add: lex_str.simps)

lemma lex_str_protoString: "lex_str (concat (map proto_escape s) @ dq # rest) = Some (s, rest)"
  by (induction s) (simp_all add: lex_str_escape)

text \<open>
  \<open>lexes s ts\<close>: in front of any text, \<open>s\<close> contributes exactly the tokens \<open>ts\<close>.
  \<open>parses ts fs\<close>: in front of any tokens, at any depth, \<open>ts\<close> contributes the fields \<open>fs\<close>.
  Both compose by concatenation, and so does \<open>reads\<close>, which combines them.
\<close>

definition lexes :: "bytes \<Rightarrow> tok list \<Rightarrow> bool" where
  "lexes s ts \<longleftrightarrow> (\<forall>rest ts'. lex rest = Some ts' \<longrightarrow> lex (s @ rest) = Some (ts @ ts'))"

definition parses :: "tok list \<Rightarrow> tf_fields \<Rightarrow> bool" where
  "parses ts fs \<longleftrightarrow>
     (\<forall>rest st cur. tf_parse (ts @ rest) st cur = tf_parse rest st (rev fs @ cur))"

definition reads :: "bytes \<Rightarrow> tf_fields \<Rightarrow> bool" where
  "reads s fs \<longleftrightarrow> (\<exists>ts. lexes s ts \<and> parses ts fs)"

lemma lexes_append: "lexes s ts \<Longrightarrow> lexes s' ts' \<Longrightarrow> lexes (s @ s') (ts @ ts')"
  by (simp add: lexes_def)

lemma lexes_Nil: "lexes [] []"
  by (simp add: lexes_def)

lemma lexes_protoString: "lexes (protoString v) [TokStr v]"
  by (simp add: lexes_def protoString_def lex_str_protoString)

lemma lex_word:
  assumes "w \<noteq> []" and "list_all word_char w" and "\<not> word_char c"
  shows "lex (w @ c # rest) = map_option ((#) (TokWord w)) (lex (c # rest))"
proof -
  obtain a w' where w: "w = a # w'" using assms(1) by (cases w) auto
  have a: "word_char a" using assms(2) w by simp
  have na: "a \<noteq> CHR '' ''" "a \<noteq> nl" "a \<noteq> CHR '':''" "a \<noteq> CHR ''{''" "a \<noteq> CHR ''}''"
      "a \<noteq> dq"
    using a by (auto simp: word_char_def is_digit_def)
  have "takeWhile word_char (w' @ c # rest) = w'" "dropWhile word_char (w' @ c # rest) = c # rest"
    using assms(2,3) w by (auto simp: list_all_iff takeWhile_append2 dropWhile_append2)
  with w a na show ?thesis by simp
qed

definition sep_char :: "char \<Rightarrow> bool" where
  "sep_char c \<longleftrightarrow> c = CHR '' '' \<or> c = nl"

lemma lex_sep: "sep_char c \<Longrightarrow> lex (c # s) = lex s"
  by (auto simp: sep_char_def)

lemma lex_punct:
  "lex (CHR '':'' # s) = map_option ((#) TokColon) (lex s)"
  "lex (CHR ''{'' # s) = map_option ((#) TokLB) (lex s)"
  "lex (CHR ''}'' # s) = map_option ((#) TokRB) (lex s)"
  by simp_all

lemma not_word_char:
  "sep_char c \<Longrightarrow> \<not> word_char c" "\<not> word_char (CHR '':'')"
  by (auto simp: sep_char_def word_char_def is_digit_def)

declare lex.simps [simp del]

lemma lexes_sep: "sep_char c \<Longrightarrow> lexes [c] []"
  by (simp add: lexes_def lex_sep)

lemma lexes_punct: "lexes ''{'' [TokLB]" "lexes ''}'' [TokRB]"
  by (simp_all add: lexes_def lex_punct)

lemma lexes_word_sep:
  assumes "w \<noteq> []" and "list_all word_char w" and "sep_char c"
  shows "lexes (w @ [c]) [TokWord w]"
  using assms by (simp add: lexes_def lex_word not_word_char lex_sep)

lemma lexes_word_colon:
  assumes "w \<noteq> []" and "list_all word_char w"
  shows "lexes (w @ '': '') [TokWord w, TokColon]"
  using assms by (simp add: lexes_def lex_word not_word_char lex_punct lex_sep sep_char_def)

lemma parses_append: "parses ts fs \<Longrightarrow> parses ts' fs' \<Longrightarrow> parses (ts @ ts') (fs @ fs')"
  by (simp add: parses_def)

lemma parses_Nil: "parses [] []"
  by (simp add: parses_def)

lemma parses_msg: "parses ts fs \<Longrightarrow> parses (TokWord k # TokLB # ts @ [TokRB]) [(k, TMsg fs)]"
  by (simp add: parses_def)

lemma reads_Nil: "reads [] []"
  using lexes_Nil parses_Nil by (auto simp: reads_def)

lemma reads_append: "reads s fs \<Longrightarrow> reads s' fs' \<Longrightarrow> reads (s @ s') (fs @ fs')"
  unfolding reads_def using lexes_append parses_append by blast

lemma reads_concat:
  assumes "\<And>x. reads (f x) [g x]"
  shows "reads (concat (map f xs)) (map g xs)"
proof (induction xs)
  case (Cons x xs)
  with reads_append [OF assms [of x]] show ?case by fastforce
qed (simp add: reads_Nil)

lemma read_text_reads: "reads s fs \<Longrightarrow> read_text s = Some fs"
proof -
  assume "reads s fs"
  then obtain ts where l: "lexes s ts" and p: "parses ts fs" by (auto simp: reads_def)
  have "lex s = Some ts"
    using l [unfolded lexes_def, rule_format, of "[]" "[]"] by (simp add: lex.simps)
  moreover have "tf_parse ts [] [] = Some fs"
    using p [unfolded parses_def, rule_format, of "[]" "[]" "[]"] by simp
  ultimately show ?thesis by (simp add: read_text_def)
qed

section \<open>Rendered fields\<close>

definition key_ok :: "bytes \<Rightarrow> bool" where
  "key_ok k \<longleftrightarrow> k \<noteq> [] \<and> list_all word_char k"

lemma reads_str:
  assumes "key_ok k"
  shows "reads (str_line k v) [(k, TStr v)]"
proof -
  have "lexes ((k @ '': '') @ protoString v @ [nl]) ([TokWord k, TokColon] @ [TokStr v] @ [])"
    using assms by (intro lexes_append lexes_word_colon lexes_protoString lexes_sep)
      (simp_all add: key_ok_def sep_char_def)
  moreover have "parses ([TokWord k, TokColon] @ [TokStr v] @ []) [(k, TStr v)]"
    by (simp add: parses_def)
  ultimately show ?thesis unfolding reads_def str_line_def by auto
qed

lemma reads_word:
  assumes "key_ok k" and "key_ok v"
  shows "reads (id_line k v) [(k, TWord v)]"
proof -
  have "lexes ((k @ '': '') @ (v @ [nl])) ([TokWord k, TokColon] @ [TokWord v])"
    using assms by (intro lexes_append lexes_word_colon lexes_word_sep)
      (simp_all add: key_ok_def sep_char_def)
  moreover have "parses ([TokWord k, TokColon] @ [TokWord v]) [(k, TWord v)]"
    by (simp add: parses_def)
  ultimately show ?thesis unfolding reads_def id_line_def by auto
qed

lemma key_ok_fmt_nat: "key_ok (fmt_nat n)"
  using fmt_nat_digits [of n] fmt_nat_nonempty [of n]
  by (auto simp: key_ok_def list_all_iff word_char_def)

lemma reads_num: "key_ok k \<Longrightarrow> reads (num_line k n) [(k, TWord (fmt_nat n))]"
  using reads_word [OF _ key_ok_fmt_nat] by (simp add: num_line_def id_line_def)

lemma reads_indent:
  assumes "reads s fs"
  shows "reads (CHR '' '' # CHR '' '' # s) fs"
proof -
  have sp: "reads ''  '' []"
    using lexes_append [OF lexes_sep lexes_sep, of "CHR '' ''" "CHR '' ''"] parses_Nil
    by (auto simp: reads_def sep_char_def)
  show ?thesis using reads_append [OF sp assms] by simp
qed

lemma reads_opt_str: "key_ok k \<Longrightarrow> reads (opt_str k v) (str_if k v)"
  by (simp add: opt_str_def str_if_def reads_str reads_Nil)

lemma reads_opt_num: "key_ok k \<Longrightarrow> reads (opt_num k n) (num_if k n)"
  by (simp add: opt_num_def num_if_def reads_num reads_Nil)

lemma reads_opt_id: "key_ok k \<Longrightarrow> key_ok v \<Longrightarrow> reads (opt_id k v b) (word_if k v b)"
  by (simp add: opt_id_def word_if_def reads_word reads_Nil)

lemma reads_in_str: "key_ok k \<Longrightarrow> reads (str_line (''  '' @ k) v) [(k, TStr v)]"
  using reads_indent [OF reads_str] by (simp add: str_line_def)

lemma reads_in_opt_str: "key_ok k \<Longrightarrow> reads (opt_str (''  '' @ k) v) (str_if k v)"
  using reads_in_str by (simp add: opt_str_def str_if_def reads_Nil)

lemma reads_in_opt_id:
  "key_ok k \<Longrightarrow> key_ok v \<Longrightarrow> reads (opt_id (''  '' @ k) v b) (word_if k v b)"
  using reads_indent [OF reads_word] by (simp add: opt_id_def word_if_def id_line_def reads_Nil)

lemma key_ok_literals:
  "key_ok ''mode''" "key_ok ''LISTEN''" "key_ok ''ONCE''" "key_ok ''log_file''"
  "key_ok ''hostname''" "key_ok ''cwd''" "key_ok ''time_limit''" "key_ok ''clone_newuser''"
  "key_ok ''clone_newnet''" "key_ok ''clone_newtime''" "key_ok ''true''" "key_ok ''false''"
  "key_ok ''cgroup_mem_max''" "key_ok ''rlimit_as''" "key_ok ''rlimit_core''"
  "key_ok ''rlimit_cpu''" "key_ok ''rlimit_fsize''" "key_ok ''rlimit_nofile''"
  "key_ok ''rlimit_nproc''" "key_ok ''rlimit_stack''" "key_ok ''uidmap''" "key_ok ''gidmap''"
  "key_ok ''inside_id''" "key_ok ''outside_id''" "key_ok ''count''" "key_ok ''1''"
  "key_ok ''envar''" "key_ok ''mount''" "key_ok ''src''" "key_ok ''dst''" "key_ok ''fstype''"
  "key_ok ''rw''" "key_ok ''is_bind''" "key_ok ''seccomp_string''" "key_ok ''iface_vs''"
  "key_ok ''iface_vs_ip''" "key_ok ''iface_vs_nm''" "key_ok ''iface_vs_gw''"
  "key_ok ''iface_vs_ma''" "key_ok ''use_pasta''" "key_ok ''port''"
  by (simp_all add: key_ok_def word_char_def is_digit_def)

text \<open>Messages in braces, one field per line or all in one line.\<close>

lemma reads_mount_block:
  assumes "reads body fs"
  shows "reads (mount_open @ body @ mount_close) [(''mount'', TMsg fs)]"
proof -
  obtain ts where l: "lexes body ts" and p: "parses ts fs"
    using assms by (auto simp: reads_def)
  have "lexes ((''mount'' @ '' '') @ ''{'' @ [nl] @ body @ ''}'' @ [nl])
      ([TokWord ''mount''] @ [TokLB] @ [] @ ts @ [TokRB] @ [])"
    using key_ok_literals
    by (intro lexes_append lexes_word_sep lexes_punct lexes_sep l)
       (simp_all add: key_ok_def sep_char_def)
  with parses_msg [OF p, of "''mount''"] show ?thesis
    unfolding reads_def mount_open_def mount_close_def by auto
qed

lemma reads_idmap:
  assumes "key_ok k"
  shows "reads (idmap_line k user) [(k, TMsg (idmap_fields user))]"
proof -
  let ?fields = "[TokWord ''inside_id'', TokColon, TokStr user, TokWord ''outside_id'', TokColon,
    TokStr [], TokWord ''count'', TokColon, TokWord ''1'']"
  have "lexes ((k @ '' '') @ ''{'' @ '' '' @ (''inside_id'' @ '': '') @ protoString user @ '' '' @
       (''outside_id'' @ '': '') @ protoString [] @ '' '' @ (''count'' @ '': '') @ (''1'' @ '' '') @
       ''}'' @ [nl])
      ([TokWord k] @ [TokLB] @ [] @ [TokWord ''inside_id'', TokColon] @ [TokStr user] @ [] @
       [TokWord ''outside_id'', TokColon] @ [TokStr []] @ [] @ [TokWord ''count'', TokColon] @
       [TokWord ''1''] @ [TokRB] @ [])"
    using key_ok_literals assms
    by (intro lexes_append lexes_word_sep lexes_word_colon lexes_punct lexes_sep lexes_protoString)
       (simp_all add: key_ok_def sep_char_def)
  then have "lexes (idmap_line k user) (TokWord k # TokLB # ?fields @ [TokRB])"
    by (simp add: idmap_line_def protoString_def)
  moreover have "parses ?fields (idmap_fields user)"
    by (simp add: parses_def idmap_fields_def)
  ultimately show ?thesis unfolding reads_def using parses_msg by blast
qed

lemma reads_mount: "reads (mount_text mt) [(''mount'', TMsg (mount_fields mt))]"
proof -
  have "reads (opt_str (''  '' @ ''src'') (mp_Src mt) @ str_line (''  '' @ ''dst'') (mp_Dst mt) @
      opt_str (''  '' @ ''fstype'') (mp_Fstype mt) @ opt_id (''  '' @ ''rw'') ''true'' (mp_Rw mt) @
      opt_id (''  '' @ ''is_bind'') ''true'' (mp_IsBind mt)) (mount_fields mt)"
    unfolding mount_fields_def
    by (intro reads_append reads_in_opt_str reads_in_str reads_in_opt_id key_ok_literals)
  from reads_mount_block [OF this] show ?thesis by (simp add: mount_text_def)
qed

lemma chroot_mount_text:
  "chroot \<noteq> [] \<Longrightarrow> chroot_mount chroot =
     mount_text \<lparr>mp_Src = chroot, mp_Dst = ''/'', mp_Fstype = [], mp_Rw = False, mp_IsBind = True\<rparr>"
  by (simp add: chroot_mount_def mount_text_def opt_str_def opt_id_def)

lemma reads_macvlan: "reads (macvlan_text mv) (macvlan_fields mv)"
  unfolding macvlan_text_def macvlan_fields_def
  by (intro reads_append reads_str reads_opt_str key_ok_literals)

lemma reads_ToTextProto: "reads (ToTextProto c) (config_fields c)"
proof -
  have mode: "reads (case nc_Mode c of ModeListen \<Rightarrow> id_line ''mode'' ''LISTEN''
      | _ \<Rightarrow> id_line ''mode'' ''ONCE'')
     [(''mode'', TWord (if nc_Mode c = ModeListen then ''LISTEN'' else ''ONCE''))]"
    by (cases "nc_Mode c") (simp_all add: reads_word key_ok_literals)
  have user: "reads (if nc_User c \<noteq> []
      then idmap_line ''uidmap'' (nc_User c) @ idmap_line ''gidmap'' (nc_User c) else [])
     (if nc_User c \<noteq> []
      then [(''uidmap'', TMsg (idmap_fields (nc_User c))),
            (''gidmap'', TMsg (idmap_fields (nc_User c)))] else [])"
    using reads_append [OF reads_idmap reads_idmap] key_ok_literals by (simp add: reads_Nil)
  have mac: "reads (case nc_Macvlan c of None \<Rightarrow> [] | Some mv \<Rightarrow> macvlan_text mv)
     (case nc_Macvlan c of None \<Rightarrow> [] | Some mv \<Rightarrow> macvlan_fields mv)"
    by (cases "nc_Macvlan c") (simp_all add: reads_Nil reads_macvlan)
  have env: "reads (concat (map (str_line ''envar'') (nc_Envar c)))
      (map (\<lambda>e. (''envar'', TStr e)) (nc_Envar c))"
    by (intro reads_concat reads_str key_ok_literals)
  have root: "reads (if nc_Chroot c \<noteq> [] then chroot_mount (nc_Chroot c) else [])
      (map (\<lambda>mt. (''mount'', TMsg (mount_fields mt)))
        (if nc_Chroot c \<noteq> []
         then [\<lparr>mp_Src = nc_Chroot c, mp_Dst = ''/'', mp_Fstype = [], mp_Rw = False,
                mp_IsBind = True\<rparr>] else []))"
    using reads_mount by (simp add: reads_Nil chroot_mount_text)
  have mounts: "reads (concat (map mount_text (nc_Mounts c)))
      (map (\<lambda>mt. (''mount'', TMsg (mount_fields mt))) (nc_Mounts c))"
    by (intro reads_concat reads_mount)
  show ?thesis
    unfolding ToTextProto_def config_fields_def all_mounts_def map_append append_assoc
    by (intro reads_append mode user mac env root mounts reads_str reads_opt_str reads_opt_num
          reads_opt_id key_ok_literals)
qed

section \<open>Properties\<close>

text \<open>
  A quoted string is read back as the string it was made from, whatever bytes it holds
  and whatever text follows, and the quoted form has no control character: it never ends the
  line or the literal early.
\<close>

theorem protoString_safe:
  "lex (protoString s @ rest) = map_option ((#) (TokStr s)) (lex rest) \<and>
   list_all (\<lambda>c. 0x20 \<le> (byte c :: nat) \<and> (byte c :: nat) \<noteq> 0x7F) (protoString s)"
proof
  show "lex (protoString s @ rest) = map_option ((#) (TokStr s)) (lex rest)"
    by (simp add: protoString_def lex.simps lex_str_protoString)
  have d: "d < 8 \<Longrightarrow> 0x20 \<le> (byte (digit_char d) :: nat) \<and> (byte (digit_char d) :: nat) \<noteq> 0x7F"
    for d by simp
  have "list_all (\<lambda>c. 0x20 \<le> (byte c :: nat) \<and> (byte c :: nat) \<noteq> 0x7F) (proto_escape c)" for c
    using d octal3_bounds [of c] by (auto simp: proto_escape_def octal3_def)
  then show "list_all (\<lambda>c. 0x20 \<le> (byte c :: nat) \<and> (byte c :: nat) \<noteq> 0x7F) (protoString s)"
    by (induction s) (auto simp: protoString_def)
qed

text \<open>
  C15.  The text given to nsjail reads back as exactly the fields the configuration asks for,
  in order, with the root file system as the first mount: no string of the configuration can
  inject, remove or alter a field.
\<close>

theorem ToTextProto_reads: "read_text (ToTextProto c) = Some (config_fields c)"
  by (rule read_text_reads) (rule reads_ToTextProto)

end
