(* ===== verification/Nsjail_Jail.thy ===== *)
theory Nsjail_Jail
  imports Api_Validate Go_Filepath Go_Time Nsjail_Config "HOL-Library.Sublist"
begin

text \<open>
  The pure part of the nsjail adapter (\<open>internal/nsjail/adapter.go\<close>): what a create request
  may ask for, the jail that is built for an execution, the writer that caps captured
  output, and how the end of a process becomes a response.
\<close>

section \<open>Configuration, errors and the sandbox record\<close>

record AdapterConfig =
  ac_NsjailPath :: bytes
  ac_DefaultRootfs :: bytes
  ac_SandboxRoot :: bytes
  ac_BinariesDir :: bytes
  ac_MaxOutputBytes :: int

record sandbox =
  sx_req :: SandboxCreateBody
  sx_workspace :: bytes
  sx_binDir :: bytes

definition errBadRequest :: "bytes \<Rightarrow> go_error" where
  "errBadRequest msg = ErrAdapter 400 msg"

definition errConflict :: "bytes \<Rightarrow> go_error" where
  "errConflict i = ErrAdapter 409 (''sandbox already exists: '' @ i)"

definition errNotFound :: "bytes \<Rightarrow> go_error" where
  "errNotFound i = ErrAdapter 404 (''sandbox not found: '' @ i)"

definition errInternal :: "bytes \<Rightarrow> go_error" where
  "errInternal msg = ErrAdapter 500 msg"

section \<open>Validation of create requests\<close>

definition isUnderPath :: "bytes \<Rightarrow> bytes \<Rightarrow> bool" where
  "isUnderPath child parent =
     (case Rel parent child of None \<Rightarrow> False | Some rel \<Rightarrow> \<not> HasPrefix rel ''..'')"

definition bad_if :: "bool \<Rightarrow> bytes \<Rightarrow> go_error option" where
  "bad_if b msg = (if b then Some (errBadRequest msg) else None)"

definition hostname_char :: "char \<Rightarrow> bool" where
  "hostname_char c \<longleftrightarrow>
     in_class [(CHR ''a'', CHR ''z''), (CHR ''A'', CHR ''Z''), (CHR ''0'', CHR ''9''),
       (CHR ''-'', CHR ''-'')] c"

definition validateVM :: "AdapterConfig \<Rightarrow> VMConfig \<Rightarrow> go_error option list" where
  "validateVM cfg vm =
     (let parent = Dir (ac_DefaultRootfs cfg) in
      [bad_if (vm_Image vm \<noteq> [] \<and>
               (Contains (vm_Image vm) ''..'' \<or> \<not> isUnderPath (vm_Image vm) parent))
         (''vm.image must be under '' @ parent),
       bad_if (vm_User vm = ''root'' \<or> vm_User vm = ''0'')
         (''vm.user '' @ [CHR 0x27] @ ''root'' @ [CHR 0x27] @ ''/'' @ [CHR 0x27] @ ''0'' @
          [CHR 0x27] @ '' is not permitted''),
       bad_if (vm_User vm \<noteq> [] \<and> ParseUint (vm_User vm) = Some 0)
         ''vm.user uid 0 is not permitted'',
       bad_if (vm_Workdir vm \<noteq> [] \<and>
               (\<not> HasPrefix (vm_Workdir vm) ''/'' \<or> Contains (vm_Workdir vm) ''..''))
         (''vm.workdir must be an absolute path without '' @ [CHR 0x27] @ ''..'' @ [CHR 0x27]),
       bad_if (\<not> list_all hostname_char (vm_Hostname vm))
         ''vm.hostname must contain only alphanumeric characters and hyphens''])"

definition validateCreateRequest ::
  "AdapterConfig \<Rightarrow> SandboxCreateBody \<Rightarrow> go_error option" where
  "validateCreateRequest cfg req =
     first_err
       ((case sb_VM req of None \<Rightarrow> [] | Some vm \<Rightarrow> validateVM cfg vm) @
        map (\<lambda>bin. bad_if (bin = [] \<or> Contains bin ''/'' \<or> Contains bin ''..'')
               (''allowed_binaries entry '' @ fmt_q bin @ '' must be a plain filename''))
          (sb_AllowedBinaries req) @
        map (\<lambda>(k, v). bad_if (Contains k ''='')
               (''scriptEnv key '' @ fmt_q k @ '' must not contain '' @ [CHR 0x27] @ ''='' @
                [CHR 0x27]))
          (sb_ScriptEnv req) @
        map (\<lambda>vol.
               if vol_Type vol = ''tmpfs'' then None
               else if vol_HostPath vol = [] then
                 Some (errBadRequest ''volume host_path is required for non-tmpfs volumes'')
               else bad_if (Contains (vol_HostPath vol) ''..'' \<or>
                            \<not> isUnderPath (vol_HostPath vol) (ac_SandboxRoot cfg))
                 (''volume host_path must be under '' @ ac_SandboxRoot cfg))
          (sb_Volumes req))"

section \<open>Building the jail\<close>

definition set_rlimit :: "VMRlimit \<Rightarrow> NsjailConfig \<Rightarrow> NsjailConfig" where
  "set_rlimit rl c =
     (if rl_Resource rl = ''as'' then c\<lparr>nc_RlimitAS := rl_Soft rl\<rparr>
      else if rl_Resource rl = ''core'' then c\<lparr>nc_RlimitCore := rl_Soft rl\<rparr>
      else if rl_Resource rl = ''cpu'' then c\<lparr>nc_RlimitCPU := rl_Soft rl\<rparr>
      else if rl_Resource rl = ''fsize'' then c\<lparr>nc_RlimitFsize := rl_Soft rl\<rparr>
      else if rl_Resource rl = ''nofile'' then c\<lparr>nc_RlimitNofile := rl_Soft rl\<rparr>
      else if rl_Resource rl = ''nproc'' then c\<lparr>nc_RlimitNproc := rl_Soft rl\<rparr>
      else if rl_Resource rl = ''stack'' then c\<lparr>nc_RlimitStack := rl_Soft rl\<rparr>
      else c)"

definition apply_vm :: "VMConfig \<Rightarrow> NsjailConfig \<Rightarrow> NsjailConfig" where
  "apply_vm vm c0 =
     (let c = c0\<lparr>nc_Hostname := vm_Hostname vm, nc_Cwd := vm_Workdir vm, nc_User := vm_User vm,
            nc_SeccompString := vm_SeccompString vm, nc_CloneNewTime := vm_CloneNewTime vm\<rparr>;
          c = (if vm_MemoryMB vm > 0
               then c\<lparr>nc_CgroupMemMax := word_of_int (vm_MemoryMB vm) * 1024 * 1024\<rparr> else c)
      in fold set_rlimit (vm_Rlimits vm) c)"

definition apply_network :: "SandboxNetworkConfig \<Rightarrow> NsjailConfig \<Rightarrow> NsjailConfig" where
  "apply_network net c0 =
     (let c = (if net_Enabled net = Some False then c0
               else if net_AllowInternetAccess net then c0\<lparr>nc_DisableCloneNewNet := True\<rparr>
               else c0);
          c = (if net_UsePasta net then c\<lparr>nc_UsePasta := True\<rparr> else c)
      in case net_Macvlan net of
           None \<Rightarrow> c
         | Some mv \<Rightarrow> c\<lparr>nc_Macvlan := Some
             \<lparr>nv_Iface = mv_Interface mv, nv_IP = mv_IP mv, nv_Netmask = mv_Netmask mv,
              nv_Gateway = mv_Gateway mv, nv_MAC = mv_MAC mv\<rparr>\<rparr>)"

definition bind_ro :: "bytes \<Rightarrow> MountPt" where
  "bind_ro p = \<lparr>mp_Src = p, mp_Dst = p, mp_Fstype = [], mp_Rw = False, mp_IsBind = True\<rparr>"

definition tmpfs_at :: "bytes \<Rightarrow> MountPt" where
  "tmpfs_at p = \<lparr>mp_Src = [], mp_Dst = p, mp_Fstype = ''tmpfs'', mp_Rw = True, mp_IsBind = False\<rparr>"

definition volume_mount :: "VolumeMount \<Rightarrow> MountPt" where
  "volume_mount vol =
     (if vol_Type vol = ''tmpfs'' then tmpfs_at (vol_GuestPath vol)
      else
        let host = (if vol_HostPath vol = [] then vol_GuestPath vol else vol_HostPath vol)
        in \<lparr>mp_Src = host, mp_Dst = vol_GuestPath vol, mp_Fstype = [],
            mp_Rw = \<not> vol_Readonly vol, mp_IsBind = True\<rparr>)"

definition jail_mounts :: "sandbox \<Rightarrow> MountPt list" where
  "jail_mounts sb =
     [\<lparr>mp_Src = sx_workspace sb, mp_Dst = ''/workspace'', mp_Fstype = [], mp_Rw = True,
       mp_IsBind = True\<rparr>,
      tmpfs_at ''/tmp'',
      \<lparr>mp_Src = ''/dev/null'', mp_Dst = ''/dev/null'', mp_Fstype = [], mp_Rw = True,
       mp_IsBind = True\<rparr>,
      bind_ro ''/dev/zero'', bind_ro ''/dev/urandom'', bind_ro ''/dev/random''] @
     (case sb_Network (sx_req sb) of
        None \<Rightarrow> []
      | Some net \<Rightarrow>
          if net_AllowInternetAccess net
          then [bind_ro ''/etc/resolv.conf'', bind_ro ''/etc/ssl/certs/ca-certificates.crt'']
          else []) @
     map volume_mount (sb_Volumes (sx_req sb)) @
     [\<lparr>mp_Src = sx_binDir sb, mp_Dst = ''/usr/local/bin'', mp_Fstype = [], mp_Rw = True,
       mp_IsBind = True\<rparr>]"

definition env_entry :: "bytes \<times> bytes \<Rightarrow> bytes" where
  "env_entry kv = fst kv @ ''='' @ snd kv"

definition jail_env :: "sandbox \<Rightarrow> str_map \<Rightarrow> bytes list" where
  "jail_env sb execEnv =
     [''PATH=/usr/local/sbin:/usr/local/bin:/usr/sbin:/usr/bin:/sbin:/bin'', ''HOME=/workspace''] @
     map env_entry (sb_Env (sx_req sb)) @ map env_entry execEnv"

definition buildNsjailConfig :: "sandbox \<Rightarrow> bytes \<Rightarrow> str_map \<Rightarrow> int \<Rightarrow> NsjailConfig" where
  "buildNsjailConfig sb rootfs execEnv timeoutSecs =
     (let c = zero_NsjailConfig\<lparr>nc_Mode := ModeOnce, nc_Log := ''/dev/null'', nc_Chroot := rootfs,
            nc_DisableCloneNewUser := True, nc_DisableCloneNewNet := False\<rparr>;
          c = (case sb_VM (sx_req sb) of None \<Rightarrow> c | Some vm \<Rightarrow> apply_vm vm c);
          c = (if timeoutSecs > 0 then c\<lparr>nc_TimeLimit := word_of_int timeoutSecs\<rparr> else c);
          c = (case sb_Network (sx_req sb) of None \<Rightarrow> c | Some net \<Rightarrow> apply_network net c)
      in c\<lparr>nc_Mounts := jail_mounts sb, nc_Envar := jail_env sb execEnv\<rparr>)"

definition jail_rootfs :: "AdapterConfig \<Rightarrow> sandbox \<Rightarrow> bytes" where
  "jail_rootfs cfg sb =
     (case sb_VM (sx_req sb) of
        Some vm \<Rightarrow> if vm_Image vm \<noteq> [] then vm_Image vm else ac_DefaultRootfs cfg
      | None \<Rightarrow> ac_DefaultRootfs cfg)"

section \<open>Captured output\<close>

record limitWriter =
  lw_buf :: bytes
  lw_limit :: int

definition lw_Write :: "limitWriter \<Rightarrow> bytes \<Rightarrow> limitWriter \<times> nat" where
  "lw_Write lw p =
     (if lw_limit lw > 0 then
        let remaining = lw_limit lw - int (length (lw_buf lw)) in
        if remaining \<le> 0 then (lw, length p)
        else
          let q = (if int (length p) > remaining then take (nat remaining) p else p)
          in (lw\<lparr>lw_buf := lw_buf lw @ q\<rparr>, length q)
      else (lw\<lparr>lw_buf := lw_buf lw @ p\<rparr>, length p))"

definition new_limitWriter :: "int \<Rightarrow> limitWriter" where
  "new_limitWriter maxBytes = \<lparr>lw_buf = [], lw_limit = (if maxBytes > 0 then maxBytes else 0)\<rparr>"

text \<open>
  \<open>io.Copy\<close> into a writer, as \<open>os/exec\<close> runs it for a command's output: the chunks are what
  the reads return; a write that takes fewer bytes than it was given ends the copy with
  \<open>io.ErrShortWrite\<close>.
\<close>

fun io_Copy :: "limitWriter \<Rightarrow> bytes list \<Rightarrow> limitWriter \<times> go_error option" where
  "io_Copy lw [] = (lw, None)"
| "io_Copy lw (p # ps) =
     (case lw_Write lw p of
        (lw', n) \<Rightarrow> if n \<noteq> length p then (lw', Some ErrShortWrite) else io_Copy lw' ps)"

section \<open>The end of a process\<close>

definition exit_code_of :: "go_error \<Rightarrow> int option" where
  "exit_code_of e =
     (case List.find (\<lambda>x. case x of ErrExit c t \<Rightarrow> True | _ \<Rightarrow> False) (err_chain e) of
        Some (ErrExit c t) \<Rightarrow> Some c
      | _ \<Rightarrow> None)"

definition buildExecResponse ::
  "go_error option \<Rightarrow> go_error option \<Rightarrow> int \<Rightarrow> bytes \<Rightarrow> bytes \<Rightarrow> go_error + ExecResponseBody" where
  "buildExecResponse runErr ctxErr timeoutSecs stdout stderr =
     (case runErr of
        Some e \<Rightarrow>
          (case exit_code_of e of
             Some code \<Rightarrow>
               Inr \<lparr>xr_ExitCode = code, xr_Stdout = stdout, xr_Stderr = stderr,
                    xr_TimedOut = (timeoutSecs > 0 \<and> code = 137)\<rparr>
           | None \<Rightarrow>
               if ctxErr = Some ErrDeadline then
                 Inr \<lparr>xr_ExitCode = -1, xr_Stdout = [], xr_Stderr = ''execution timed out'',
                      xr_TimedOut = True\<rparr>
               else Inl (errInternal (''nsjail error: '' @ err_msg e)))
      | None \<Rightarrow>
          Inr \<lparr>xr_ExitCode = 0, xr_Stdout = stdout, xr_Stderr = stderr, xr_TimedOut = False\<rparr>)"

definition execContext :: "int \<Rightarrow> int option" where
  "execContext timeoutSecs = (if timeoutSecs > 0 then Some (seconds (timeoutSecs + 5)) else None)"

section \<open>Paths and messages of the file operations\<close>

definition sandboxFilePath :: "bytes \<Rightarrow> bytes" where
  "sandboxFilePath p =
     (let p = (if p = ''~'' \<or> HasPrefix p ''~/'' then TrimPrefix (TrimPrefix p ''~'') ''/'' else p)
      in if HasPrefix p ''/'' then p else ''/workspace/'' @ p)"

definition fileOpError :: "bytes \<Rightarrow> bytes \<Rightarrow> bytes" where
  "fileOpError op stderr =
     (let s = TrimSpace stderr in if s \<noteq> [] then s else op @ '' failed'')"

section \<open>Where a sandbox lives\<close>

definition sandboxBase :: "AdapterConfig \<Rightarrow> bytes \<Rightarrow> bytes" where
  "sandboxBase cfg i = Join [ac_SandboxRoot cfg, i]"

text \<open>The sandbox value that \<open>Create\<close> registers for a request.\<close>

definition new_sandbox :: "AdapterConfig \<Rightarrow> SandboxCreateBody \<Rightarrow> sandbox" where
  "new_sandbox cfg req =
     \<lparr>sx_req = req,
      sx_workspace = Join [sandboxBase cfg (sb_SandboxID req), ''workspace''],
      sx_binDir = Join [sandboxBase cfg (sb_SandboxID req), ''bin'']\<rparr>"

section \<open>Containment of paths\<close>

text \<open>
  \<open>within parent child\<close>: both paths are absolute or both relative, and the cleaned elements
  of \<open>child\<close> continue those of \<open>parent\<close>.
\<close>

definition within :: "bytes \<Rightarrow> bytes \<Rightarrow> bool" where
  "within parent child \<longleftrightarrow>
     rooted child = rooted parent \<and> prefix (path_parts parent) (path_parts child)"

lemma within_trans: "within a b \<Longrightarrow> within b c \<Longrightarrow> within a c"
  by (auto simp: within_def)

lemma within_Join: "a \<noteq> [] \<Longrightarrow> plain_elem b \<Longrightarrow> within a (Join [a, b])"
  by (simp add: within_def rooted_Join path_parts_Join)

lemma isUnderPath_within: "isUnderPath child parent \<Longrightarrow> within parent child"
  using Rel_downwards [of parent child]
  by (auto simp: isUnderPath_def within_def prefix_def split: option.splits)

lemma isUnderPath_iff:
  assumes "\<not> Contains child ''..''"
  shows "isUnderPath child parent \<longleftrightarrow> within parent child"
proof
  assume "within parent child"
  then obtain t where r: "rooted child = rooted parent"
    and t: "path_parts child = path_parts parent @ t"
    by (auto simp: within_def prefix_def)
  have "list_all proper_elem t" using parts_proper [of child] by (simp add: t)
  moreover have "\<not> Contains e ''..''" if "e \<in> set t" for e
    by (rule parts_no_dots [OF assms]) (simp add: t that)
  ultimately have "\<not> HasPrefix (join_slash t) ''..''" using join_slash_dots by blast
  with Rel_prefix [OF r t] show "isUnderPath child parent"
    by (simp add: isUnderPath_def HasPrefix_def)
qed (rule isUnderPath_within)

lemma plain_workspace_bin: "plain_elem ''workspace''" "plain_elem ''bin''"
  by (simp_all add: plain_elem_def proper_elem_def no_slash_def)

lemma valid_name_plain:
  assumes "valid_name s"
  shows "plain_elem s"
proof -
  have hd: "lower_alnum (hd s)" and ne: "s \<noteq> []"
    and all: "\<forall>c \<in> set s. lower_alnum c \<or> c = CHR ''.'' \<or> c = CHR ''-''"
    using assms by (auto simp: valid_name_def list_all_iff)
  have no: "\<not> lower_alnum (CHR ''.'')" "\<not> lower_alnum (CHR ''/'')"
    by (simp_all add: lower_alnum_def byte_in_def)
  have "CHR ''/'' \<notin> set s" using all no(2) by blast
  moreover have "s \<noteq> ''.''" "s \<noteq> ''..''" using hd no(1) by auto
  ultimately show ?thesis using ne by (simp add: plain_elem_def proper_elem_def no_slash_def)
qed

text \<open>The directories of a sandbox with a plain id lie below the sandbox root.\<close>

lemma sandboxBase_within:
  assumes "ac_SandboxRoot cfg \<noteq> []" and "plain_elem i"
  shows "within (ac_SandboxRoot cfg) (sandboxBase cfg i)" "sandboxBase cfg i \<noteq> []"
  using assms by (simp_all add: sandboxBase_def within_Join)

lemma new_sandbox_within:
  assumes "ac_SandboxRoot cfg \<noteq> []" and "plain_elem (sb_SandboxID req)"
  shows "within (ac_SandboxRoot cfg) (sx_workspace (new_sandbox cfg req))"
    "within (ac_SandboxRoot cfg) (sx_binDir (new_sandbox cfg req))"
  using sandboxBase_within [OF assms] within_trans within_Join plain_workspace_bin
  by (auto simp: new_sandbox_def)

lemma Dir_workspace:
  assumes "ac_SandboxRoot cfg \<noteq> []"
  shows "Dir (sx_workspace (new_sandbox cfg req)) = sandboxBase cfg (sb_SandboxID req)"
  using assms Dir_Join [OF _ plain_workspace_bin(1)]
  by (simp add: new_sandbox_def sandboxBase_def)

section \<open>What validation accepts\<close>

lemma bad_if_None [simp]: "bad_if b msg = None \<longleftrightarrow> \<not> b"
  by (simp add: bad_if_def)

definition vm_permitted :: "AdapterConfig \<Rightarrow> VMConfig \<Rightarrow> bool" where
  "vm_permitted cfg vm \<longleftrightarrow>
     (vm_Image vm = [] \<or>
      \<not> Contains (vm_Image vm) ''..'' \<and> within (Dir (ac_DefaultRootfs cfg)) (vm_Image vm)) \<and>
     vm_User vm \<noteq> ''root'' \<and> ParseUint (vm_User vm) \<noteq> Some 0 \<and>
     (vm_Workdir vm = [] \<or> rooted (vm_Workdir vm) \<and> \<not> Contains (vm_Workdir vm) ''..'') \<and>
     list_all hostname_char (vm_Hostname vm)"

definition binary_permitted :: "bytes \<Rightarrow> bool" where
  "binary_permitted b \<longleftrightarrow> b = ''.'' \<or> plain_elem b \<and> \<not> Contains b ''..''"

definition volume_permitted :: "AdapterConfig \<Rightarrow> VolumeMount \<Rightarrow> bool" where
  "volume_permitted cfg vol \<longleftrightarrow>
     vol_Type vol = ''tmpfs'' \<or>
     vol_HostPath vol \<noteq> [] \<and> \<not> Contains (vol_HostPath vol) ''..'' \<and>
     within (ac_SandboxRoot cfg) (vol_HostPath vol)"

lemma ParseUint_zero: "ParseUint ''0'' = Some 0"
  by (simp add: ParseUint_def is_digit_def)

lemma ParseUint_Nil: "ParseUint [] = None"
  by (simp add: ParseUint_def)

lemma validateVM_None: "list_all (\<lambda>e. e = None) (validateVM cfg vm) \<longleftrightarrow> vm_permitted cfg vm"
  by (auto simp: validateVM_def Let_def vm_permitted_def isUnderPath_iff rooted_def
        ParseUint_zero ParseUint_Nil)

lemma binary_check: "\<not> (b = [] \<or> Contains b ''/'' \<or> Contains b ''..'') \<longleftrightarrow> binary_permitted b"
proof -
  have "Contains ''..'' ''..''" "\<not> Contains ''.'' ''..''" "no_slash ''.''"
    by (simp_all add: HasPrefix_def no_slash_def)
  moreover have "Contains b ''/'' \<longleftrightarrow> \<not> no_slash b"
    using Contains_single [of b "CHR ''/''"] by (simp add: no_slash_def)
  ultimately show ?thesis
    unfolding binary_permitted_def plain_elem_def proper_elem_def
    by (cases "b = ''..''"; cases "b = ''.''") auto
qed

definition request_permitted :: "AdapterConfig \<Rightarrow> SandboxCreateBody \<Rightarrow> bool" where
  "request_permitted cfg req \<longleftrightarrow>
     (case sb_VM req of None \<Rightarrow> True | Some vm \<Rightarrow> vm_permitted cfg vm) \<and>
     list_all binary_permitted (sb_AllowedBinaries req) \<and>
     list_all (\<lambda>kv. CHR ''='' \<notin> set (fst kv)) (sb_ScriptEnv req) \<and>
     list_all (volume_permitted cfg) (sb_Volumes req)"

lemma validateCreateRequest_None:
  "validateCreateRequest cfg req = None \<longleftrightarrow> request_permitted cfg req"
proof -
  have vol: "(if vol_Type vol = ''tmpfs'' then None
        else if vol_HostPath vol = [] then Some e
        else bad_if (Contains (vol_HostPath vol) ''..'' \<or>
               \<not> isUnderPath (vol_HostPath vol) (ac_SandboxRoot cfg)) msg) = None \<longleftrightarrow>
      volume_permitted cfg vol" for vol e msg
    by (auto simp: volume_permitted_def isUnderPath_iff)
  have vm: "list_all (\<lambda>e. e = None) (case sb_VM req of None \<Rightarrow> [] | Some vm \<Rightarrow> validateVM cfg vm) \<longleftrightarrow>
      (case sb_VM req of None \<Rightarrow> True | Some vm \<Rightarrow> vm_permitted cfg vm)"
    by (simp add: validateVM_None split: option.split)
  show ?thesis
    unfolding validateCreateRequest_def request_permitted_def first_err_None list_all_append vm
      list.pred_map comp_def vol bad_if_None binary_check case_prod_beta
      Contains_single [of _ "CHR ''=''"] ..
qed

definition bad_request :: "go_error option \<Rightarrow> bool" where
  "bad_request e \<longleftrightarrow> (case e of None \<Rightarrow> True | Some x \<Rightarrow> \<exists>msg. x = errBadRequest msg)"

lemma bad_request_simps [simp]:
  "bad_request None" "bad_request (bad_if b msg)" "bad_request (Some (errBadRequest msg))"
  by (auto simp: bad_request_def bad_if_def)

lemma first_err_bad_request: "list_all bad_request es \<Longrightarrow> bad_request (first_err es)"
  by (induction es) (auto simp: first_err.simps split: option.split)

lemma validateCreateRequest_bad_request: "bad_request (validateCreateRequest cfg req)"
  unfolding validateCreateRequest_def
  by (rule first_err_bad_request)
     (auto simp: list_all_iff validateVM_def Let_def split: option.split)

text \<open>
  C34.  The controller accepts a create request exactly when its image lies below the
  directory of the default root file system, its user is not root by name or by number, its
  working directory is absolute, its host name is alphanumeric, its binaries are plain file
  names, its script variables have no equals sign in their names, and every volume that is
  not a tmpfs names a host path below the sandbox root; no accepted path has two dots in a
  row.  Every rejection is a bad request.
\<close>

theorem validateCreateRequest_spec:
  "case validateCreateRequest cfg req of
     None \<Rightarrow> request_permitted cfg req
   | Some e \<Rightarrow> \<not> request_permitted cfg req \<and> (\<exists>msg. e = ErrAdapter 400 msg)"
  using validateCreateRequest_None [of cfg req] validateCreateRequest_bad_request [of cfg req]
  by (auto simp: bad_request_def errBadRequest_def split: option.split)

section \<open>The jail of a sandbox\<close>

lemma fold_set_rlimit_keeps [simp]:
  "nc_DisableCloneNewNet (fold set_rlimit rls c) = nc_DisableCloneNewNet c"
  "nc_DisableCloneNewUser (fold set_rlimit rls c) = nc_DisableCloneNewUser c"
  "nc_Chroot (fold set_rlimit rls c) = nc_Chroot c"
  "nc_User (fold set_rlimit rls c) = nc_User c"
  "nc_SeccompString (fold set_rlimit rls c) = nc_SeccompString c"
  "nc_CgroupMemMax (fold set_rlimit rls c) = nc_CgroupMemMax c"
  "nc_TimeLimit (fold set_rlimit rls c) = nc_TimeLimit c"
  by (induction rls arbitrary: c) (simp_all add: set_rlimit_def)

lemma buildNsjailConfig_fields:
  fixes sb rootfs env t
  defines "c \<equiv> buildNsjailConfig sb rootfs env t"
  shows "nc_Mounts c = jail_mounts sb" "nc_Envar c = jail_env sb env" "nc_Chroot c = rootfs"
    "nc_TimeLimit c = (if t > 0 then word_of_int t else 0)"
    "nc_DisableCloneNewNet c \<longleftrightarrow>
       (case sb_Network (sx_req sb) of None \<Rightarrow> False
        | Some net \<Rightarrow> net_Enabled net \<noteq> Some False \<and> net_AllowInternetAccess net)"
    "nc_User c = (case sb_VM (sx_req sb) of None \<Rightarrow> [] | Some vm \<Rightarrow> vm_User vm)"
    "nc_SeccompString c = (case sb_VM (sx_req sb) of None \<Rightarrow> [] | Some vm \<Rightarrow> vm_SeccompString vm)"
    "nc_CgroupMemMax c =
       (case sb_VM (sx_req sb) of None \<Rightarrow> 0
        | Some vm \<Rightarrow> if vm_MemoryMB vm > 0 then word_of_int (vm_MemoryMB vm * 2 ^ 20) else 0)"
  unfolding c_def
  by (simp_all add: buildNsjailConfig_def apply_vm_def apply_network_def zero_NsjailConfig_def
        Let_def of_int_mult [symmetric] split: option.split)

lemma volume_mount_confined:
  assumes "volume_permitted cfg vol" and "mp_IsBind (volume_mount vol)"
  shows "within (ac_SandboxRoot cfg) (mp_Src (volume_mount vol))"
  using assms by (auto simp: volume_permitted_def volume_mount_def tmpfs_at_def split: if_splits)

definition writable_bind :: "MountPt \<Rightarrow> bool" where
  "writable_bind mt \<longleftrightarrow> mp_IsBind mt \<and> mp_Rw mt"

lemma fixed_mounts_not_writable [simp]:
  "\<not> writable_bind (bind_ro p)" "\<not> writable_bind (tmpfs_at p)"
  by (simp_all add: writable_bind_def bind_ro_def tmpfs_at_def)

text \<open>
  C9.  In the jail of a validated sandbox, every file or directory of the host that can be
  written through a bind mount lies below the sandbox root, with the exception of
  /dev/null; the root file system is not among them.
\<close>

theorem writable_mounts_confined:
  assumes "validateCreateRequest cfg req = None"
    and "ValidateSandboxID (sb_SandboxID req) = None"
    and "ac_SandboxRoot cfg \<noteq> []"
  shows "list_all (\<lambda>mt. mp_Src mt = ''/dev/null'' \<or> within (ac_SandboxRoot cfg) (mp_Src mt))
    (filter writable_bind (all_mounts (buildNsjailConfig (new_sandbox cfg req) rootfs env t)))"
proof -
  have "plain_elem (sb_SandboxID req)"
    using assms(2) by (simp add: ValidateSandboxID_def validateLabelBackedName_None valid_name_plain)
  note base = new_sandbox_within [OF assms(3) this]
  have vols: "list_all (volume_permitted cfg) (sb_Volumes req)"
    using assms(1) by (simp add: validateCreateRequest_None request_permitted_def)
  have "list_all (\<lambda>mt. within (ac_SandboxRoot cfg) (mp_Src mt))
      (filter writable_bind (map volume_mount (sb_Volumes req)))"
    using vols volume_mount_confined by (auto simp: list_all_iff writable_bind_def)
  then have vol: "list_all (\<lambda>mt. mp_Src mt = ''/dev/null'' \<or> within (ac_SandboxRoot cfg) (mp_Src mt))
      (filter writable_bind (map volume_mount (sb_Volumes req)))"
    by (auto simp: list_all_iff)
  have req: "sx_req (new_sandbox cfg req) = req" by (simp add: new_sandbox_def)
  have root: "filter writable_bind (if rootfs \<noteq> []
      then [\<lparr>mp_Src = rootfs, mp_Dst = ''/'', mp_Fstype = [], mp_Rw = False, mp_IsBind = True\<rparr>]
      else []) = []"
    by (simp add: writable_bind_def)
  have net: "filter writable_bind (case sb_Network req of None \<Rightarrow> []
      | Some net \<Rightarrow> if net_AllowInternetAccess net
          then [bind_ro ''/etc/resolv.conf'', bind_ro ''/etc/ssl/certs/ca-certificates.crt'']
          else []) = []"
    by (simp split: option.split)
  show ?thesis
    unfolding all_mounts_def buildNsjailConfig_fields jail_mounts_def req filter_append root net
    using base vol by (simp add: writable_bind_def bind_ro_def tmpfs_at_def)
qed

definition demo_cfg :: AdapterConfig where
  "demo_cfg =
     \<lparr>ac_NsjailPath = ''/usr/bin/nsjail'', ac_DefaultRootfs = ''/var/boxy/rootfs/base'',
      ac_SandboxRoot = ''/var/boxy/sandboxes'', ac_BinariesDir = ''/opt/bin'',
      ac_MaxOutputBytes = 8\<rparr>"

definition demo_req :: SandboxCreateBody where
  "demo_req = zero_SandboxCreateBody
     \<lparr>sb_SandboxID := ''s1'',
      sb_Volumes := [\<lparr>vol_GuestPath = ''/data'', vol_Type = ''bind'',
        vol_HostPath = ''/var/boxy/sandboxes/shared'', vol_Name = [], vol_SizeMB = 0,
        vol_Readonly = False\<rparr>]\<rparr>"

lemma demo_valid:
  "validateCreateRequest demo_cfg demo_req = None"
  "ValidateSandboxID (sb_SandboxID demo_req) = None"
  "ac_SandboxRoot demo_cfg \<noteq> []"
proof -
  show "validateCreateRequest demo_cfg demo_req = None"
    by (simp add: validateCreateRequest_None request_permitted_def demo_cfg_def demo_req_def
          zero_SandboxCreateBody_def volume_permitted_def within_def path_parts_def HasPrefix_def)
  show "ValidateSandboxID (sb_SandboxID demo_req) = None"
    by (simp add: ValidateSandboxID_def validateLabelBackedName_None valid_name_def demo_req_def
          lower_alnum_def byte_in_def)
  show "ac_SandboxRoot demo_cfg \<noteq> []" by (simp add: demo_cfg_def)
qed

theorem writable_mounts_confined_witness:
  "validateCreateRequest demo_cfg demo_req = None \<and>
   list_all (\<lambda>mt. mp_Src mt = ''/dev/null'' \<or> within (ac_SandboxRoot demo_cfg) (mp_Src mt))
    (filter writable_bind
      (all_mounts (buildNsjailConfig (new_sandbox demo_cfg demo_req) ''/rootfs'' [] 5)))"
  using writable_mounts_confined [OF demo_valid] demo_valid(1) by blast

text \<open>Fields of the text by their key.\<close>

lemma config_fields_clone:
  "(''clone_newnet'', v) \<in> set (config_fields c) \<longleftrightarrow> nc_DisableCloneNewNet c \<and> v = TWord ''false''"
  "(''cgroup_mem_max'', v) \<in> set (config_fields c) \<longleftrightarrow>
     nc_CgroupMemMax c \<noteq> 0 \<and> v = TWord (fmt_nat (unat (nc_CgroupMemMax c)))"
  by (auto simp: config_fields_def str_if_def num_if_def word_if_def macvlan_fields_def
        unat_gt_0 split: option.splits)

lemma config_fields_mounts:
  "filter (\<lambda>f. fst f = ''mount'') (config_fields c) =
     map (\<lambda>mt. (''mount'', TMsg (mount_fields mt))) (all_mounts c)"
proof -
  have f: "filter (\<lambda>f. fst f = ''mount'') (map (\<lambda>mt. (''mount'', TMsg (g mt))) ms) =
      map (\<lambda>mt. (''mount'', TMsg (g mt))) ms" for g :: "MountPt \<Rightarrow> tf_fields" and ms
    by (induction ms) auto
  have e: "filter (\<lambda>f. fst f = ''mount'') (map (\<lambda>e. (''envar'', TStr e)) es) = []" for es
    by (induction es) auto
  have s: "k \<noteq> ''mount'' \<Longrightarrow> filter (\<lambda>f. fst f = ''mount'') (str_if k v) = []"
    "k \<noteq> ''mount'' \<Longrightarrow> filter (\<lambda>f. fst f = ''mount'') (num_if k n) = []"
    "k \<noteq> ''mount'' \<Longrightarrow> filter (\<lambda>f. fst f = ''mount'') (word_if k w b) = []" for k v n w b
    by (auto simp: str_if_def num_if_def word_if_def)
  show ?thesis
    unfolding config_fields_def filter_append f e
    by (simp add: s macvlan_fields_def split: option.split)
qed

text \<open>Whether a sandbox may share the network of the pod.\<close>

definition internet_allowed :: "SandboxCreateBody \<Rightarrow> bool" where
  "internet_allowed req \<longleftrightarrow>
     (case sb_Network req of None \<Rightarrow> False
      | Some net \<Rightarrow> net_Enabled net \<noteq> Some False \<and> net_AllowInternetAccess net)"

text \<open>
  C35.  The text nsjail reads for an execution turns the network namespace off exactly when
  the sandbox asks for internet access and does not disable its network; and the first mount
  it lists is the root file system, bound read-only at the root.
\<close>

theorem jail_text:
  assumes "rootfs \<noteq> []"
  shows "\<exists>fs. read_text (ToTextProto (buildNsjailConfig sb rootfs env t)) = Some fs \<and>
     ((''clone_newnet'', TWord ''false'') \<in> set fs \<longleftrightarrow> internet_allowed (sx_req sb)) \<and>
     List.find (\<lambda>f. fst f = ''mount'') fs =
       Some (''mount'', TMsg [(''src'', TStr rootfs), (''dst'', TStr ''/''),
         (''is_bind'', TWord ''true'')])"
proof -
  let ?c = "buildNsjailConfig sb rootfs env t"
  have "List.find (\<lambda>f. fst f = ''mount'') fs =
      (case filter (\<lambda>f. fst f = ''mount'') fs of [] \<Rightarrow> None | f # _ \<Rightarrow> Some f)" for fs :: tf_fields
    by (induction fs) auto
  then have "List.find (\<lambda>f. fst f = ''mount'') (config_fields ?c) =
       Some (''mount'', TMsg [(''src'', TStr rootfs), (''dst'', TStr ''/''),
         (''is_bind'', TWord ''true'')])"
    using assms by (simp add: config_fields_mounts all_mounts_def buildNsjailConfig_fields
        mount_fields_def str_if_def word_if_def)
  moreover have "(''clone_newnet'', TWord ''false'') \<in> set (config_fields ?c) \<longleftrightarrow>
      internet_allowed (sx_req sb)"
    by (simp add: config_fields_clone buildNsjailConfig_fields internet_allowed_def)
  ultimately show ?thesis
    using read_text_reads [OF reads_ToTextProto] by blast
qed

theorem jail_text_witness:
  "\<exists>fs. read_text (ToTextProto (buildNsjailConfig (new_sandbox demo_cfg demo_req) ''/r'' [] 5)) =
     Some fs \<and> (''clone_newnet'', TWord ''false'') \<notin> set fs"
proof -
  have "\<not> internet_allowed (sx_req (new_sandbox demo_cfg demo_req))"
    by (simp add: internet_allowed_def new_sandbox_def demo_req_def zero_SandboxCreateBody_def)
  then show ?thesis
    using jail_text [of "''/r''" "new_sandbox demo_cfg demo_req" "[]" 5] by auto
qed

text \<open>
  The memory limit of a sandbox, in bytes, is its \<open>memoryMB\<close> times 2 to the 20 modulo
  2 to the 64, and nsjail is given no limit at all exactly when that product wraps around to
  0, which happens for the positive multiples of 2 to the 44.
\<close>

theorem memory_limit:
  assumes "sb_VM (sx_req sb) = Some vm" and "vm_MemoryMB vm > 0"
  shows "uint (nc_CgroupMemMax (buildNsjailConfig sb rootfs env t)) =
       vm_MemoryMB vm * 2 ^ 20 mod 2 ^ 64 \<and>
     ((\<exists>v. (''cgroup_mem_max'', v) \<in> set (config_fields (buildNsjailConfig sb rootfs env t)))
       \<longleftrightarrow> \<not> 2 ^ 44 dvd vm_MemoryMB vm)"
proof -
  let ?c = "buildNsjailConfig sb rootfs env t"
  have u: "uint (nc_CgroupMemMax ?c) = vm_MemoryMB vm * 2 ^ 20 mod 2 ^ 64"
  proof -
    have "nc_CgroupMemMax ?c = word_of_int (vm_MemoryMB vm * 2 ^ 20)"
      using assms by (simp add: buildNsjailConfig_fields)
    then show ?thesis by (simp add: uint_word_of_int del: of_int_mult)
  qed
  have "nc_CgroupMemMax ?c = 0 \<longleftrightarrow> uint (nc_CgroupMemMax ?c) = 0" by (simp add: uint_0_iff)
  also have "\<dots> \<longleftrightarrow> 2 ^ 64 dvd vm_MemoryMB vm * 2 ^ 20" unfolding u by (simp add: dvd_eq_mod_eq_0)
  also have "\<dots> \<longleftrightarrow> (2 ^ 44 :: int) * 2 ^ 20 dvd vm_MemoryMB vm * 2 ^ 20" by simp
  also have "\<dots> \<longleftrightarrow> 2 ^ 44 dvd vm_MemoryMB vm" by (rule dvd_times_right_cancel_iff) simp
  finally show ?thesis using u by (auto simp: config_fields_clone)
qed

definition demo_vm :: VMConfig where
  "demo_vm = zero_VMConfig\<lparr>vm_MemoryMB := 2 ^ 44\<rparr>"

theorem memory_limit_witness:
  "\<not> (\<exists>v. (''cgroup_mem_max'', v) \<in> set (config_fields
     (buildNsjailConfig (new_sandbox demo_cfg (demo_req\<lparr>sb_VM := Some demo_vm\<rparr>)) ''/r'' [] 5)))"
proof -
  let ?sb = "new_sandbox demo_cfg (demo_req\<lparr>sb_VM := Some demo_vm\<rparr>)"
  have "sb_VM (sx_req ?sb) = Some demo_vm" "vm_MemoryMB demo_vm = 2 ^ 44"
    by (simp_all add: new_sandbox_def demo_vm_def)
  then show ?thesis using memory_limit [of ?sb demo_vm "''/r''" "[]" 5] by simp
qed

section \<open>Captured output\<close>

lemma io_Copy_unlimited:
  "lw_limit lw \<le> 0 \<Longrightarrow> io_Copy lw ps = (lw\<lparr>lw_buf := lw_buf lw @ concat ps\<rparr>, None)"
  by (induction ps arbitrary: lw) (simp_all add: lw_Write_def)

lemma lw_Write_limited:
  assumes "lw_limit lw = int m" and "0 < m" and "length (lw_buf lw) \<le> m"
  shows "lw_Write lw p =
    (lw\<lparr>lw_buf := take m (lw_buf lw @ p)\<rparr>,
     if length (lw_buf lw) = m then length p else min (length p) (m - length (lw_buf lw)))"
  using assms by (auto simp: lw_Write_def Let_def min_def nat_diff_distrib)

text \<open>Whether the chunks are taken without a short write: they fit, or some of them fill the rest.\<close>

definition fills :: "nat \<Rightarrow> bytes list \<Rightarrow> bool" where
  "fills n ps \<longleftrightarrow> length (concat ps) \<le> n \<or> (\<exists>k. length (concat (take k ps)) = n)"

lemma fills_0: "fills 0 ps"
  by (auto simp: fills_def intro: exI [of _ 0])

lemma fills_Cons: "0 < n \<Longrightarrow> fills n (p # ps) \<longleftrightarrow> length p \<le> n \<and> fills (n - length p) ps"
proof -
  assume n: "0 < n"
  have "(\<exists>k. length (concat (take k (p # ps))) = n) \<longleftrightarrow>
      (\<exists>k. length p + length (concat (take k ps)) = n)"
  proof
    assume "\<exists>k. length (concat (take k (p # ps))) = n"
    then obtain k where k: "length (concat (take k (p # ps))) = n" ..
    with n obtain j where "k = Suc j" by (cases k) auto
    with k show "\<exists>k. length p + length (concat (take k ps)) = n" by auto
  next
    assume "\<exists>k. length p + length (concat (take k ps)) = n"
    then obtain k where "length p + length (concat (take k ps)) = n" ..
    then show "\<exists>k. length (concat (take k (p # ps))) = n" by (auto intro: exI [of _ "Suc k"])
  qed
  then have eq: "fills n (p # ps) \<longleftrightarrow> length p + length (concat ps) \<le> n \<or>
      (\<exists>k. length p + length (concat (take k ps)) = n)"
    by (simp add: fills_def)
  show ?thesis
  proof (cases "length p \<le> n")
    case True
    then have "length p + x = n \<longleftrightarrow> x = n - length p" "length p + x \<le> n \<longleftrightarrow> x \<le> n - length p" for x
      by auto
    with True show ?thesis unfolding eq by (simp add: fills_def)
  qed (use eq in auto)
qed

lemma io_Copy_limited:
  assumes "lw_limit lw = int m" and "0 < m" and "length (lw_buf lw) \<le> m"
  shows "io_Copy lw ps =
    (lw\<lparr>lw_buf := take m (lw_buf lw @ concat ps)\<rparr>,
     if fills (m - length (lw_buf lw)) ps then None else Some ErrShortWrite)"
  using assms
proof (induction ps arbitrary: lw)
  case Nil
  then show ?case by (simp add: fills_def)
next
  case (Cons p ps)
  note W = lw_Write_limited [OF Cons.prems, of p]
  show ?case
  proof (cases "length (lw_buf lw) = m")
    case True
    then show ?thesis using Cons by (simp add: W fills_0)
  next
    case False
    then have lt: "0 < m - length (lw_buf lw)" using Cons.prems by simp
    show ?thesis
    proof (cases "length p \<le> m - length (lw_buf lw)")
      case True
      let ?lw = "lw\<lparr>lw_buf := lw_buf lw @ p\<rparr>"
      have t: "take m (lw_buf lw @ p) = lw_buf lw @ p" using True Cons.prems by simp
      have "length (lw_buf ?lw) \<le> m" using True Cons.prems by simp
      from Cons.IH [OF _ Cons.prems(2) this] True False t show ?thesis
        using Cons.prems by (simp add: W fills_Cons [OF lt] min_def)
    next
      case nfit: False
      then show ?thesis using False Cons.prems
        by (simp add: W fills_Cons [OF lt] min_def)
    qed
  qed
qed

text \<open>
  The output captured from a stream is the output up to the limit, or all of it when
  there is no limit; and the copy fails with a short write, which makes the execution fail,
  exactly when the output exceeds the limit and no read ends exactly at the limit.
\<close>

theorem captured_output:
  "io_Copy (new_limitWriter maxBytes) chunks =
     (if maxBytes > 0 then
        (\<lparr>lw_buf = take (nat maxBytes) (concat chunks), lw_limit = maxBytes\<rparr>,
         if length (concat chunks) \<le> nat maxBytes \<or>
            (\<exists>k. length (concat (take k chunks)) = nat maxBytes)
         then None else Some ErrShortWrite)
      else (\<lparr>lw_buf = concat chunks, lw_limit = 0\<rparr>, None))"
  using io_Copy_limited [of "new_limitWriter maxBytes" "nat maxBytes" chunks]
    io_Copy_unlimited [of "new_limitWriter maxBytes" chunks]
  by (auto simp: new_limitWriter_def fills_def)

end
