(* ===== verification/Nsjail_Stream.thy ===== *)
theory Nsjail_Stream
  imports Nsjail_Jail
begin

text \<open>
  The two goroutines of \<open>ExecStream\<close> that drain the standard output and the standard error of
  the jailed process.  Each reads a chunk, decides under the lock \<open>totalMu\<close> how much of it
  may still be sent, and then, outside the lock, writes to its own buffer and calls
  \<open>onEvent\<close>.  A schedule is a list of actions: a stream reads a chunk and passes the locked
  section, or a stream performs its next action outside the lock.  All interleavings of the
  two goroutines are schedules.
\<close>

section \<open>The goroutines\<close>

text \<open>The two streams, by name; an action that a goroutine still has to perform.\<close>

datatype stream = Stdout | Stderr

fun stream_name :: "stream \<Rightarrow> bytes" where
  "stream_name Stdout = ''stdout''"
| "stream_name Stderr = ''stderr''"

datatype drain_out = SendData bytes | SendTruncated

record drain_state =
  dr_totalRead :: int
  dr_truncated :: bool
  dr_pending :: "stream \<Rightarrow> drain_out list"
  dr_buf :: "stream \<Rightarrow> limitWriter"
  dr_events :: "(bytes \<times> bytes) list"     \<comment> \<open>the calls of \<open>onEvent\<close>\<close>
  dr_seen :: "stream \<Rightarrow> bytes"             \<comment> \<open>all bytes read from the pipe\<close>

definition drain_init :: "int \<Rightarrow> drain_state" where
  "drain_init maxBytes =
     \<lparr>dr_totalRead = 0, dr_truncated = False, dr_pending = (\<lambda>_. []),
      dr_buf = (\<lambda>_. new_limitWriter maxBytes), dr_events = [], dr_seen = (\<lambda>_. [])\<rparr>"

text \<open>The section under the lock: the new total and flag, the bytes to send, whether to say so.\<close>

definition drain_admit :: "int \<Rightarrow> int \<Rightarrow> bool \<Rightarrow> bytes \<Rightarrow> int \<times> bool \<times> bytes \<times> bool" where
  "drain_admit maxBytes totalRead truncated data =
     (if maxBytes \<le> 0 then (totalRead + int (length data), truncated, data, False)
      else if totalRead < maxBytes then
        let remaining = maxBytes - totalRead;
            toSend = (if int (length data) > remaining then take (nat remaining) data else data);
            newTotal = totalRead + int (length toSend);
            emitTruncated = (newTotal \<ge> maxBytes \<and> \<not> truncated)
        in (newTotal, truncated \<or> emitTruncated, toSend, emitTruncated)
      else (totalRead, truncated, [], False))"

datatype drain_act = ReadChunk stream bytes | Perform stream

fun drain_step :: "int \<Rightarrow> drain_act \<Rightarrow> drain_state \<Rightarrow> drain_state" where
  "drain_step maxBytes (ReadChunk s data) st =
     (if dr_pending st s \<noteq> [] \<or> data = [] then st
      else
        case drain_admit maxBytes (dr_totalRead st) (dr_truncated st) data of
          (newTotal, trunc, toSend, emitTruncated) \<Rightarrow>
            st\<lparr>dr_totalRead := newTotal, dr_truncated := trunc,
               dr_pending := (dr_pending st)(s :=
                 (if toSend \<noteq> [] then [SendData toSend] else []) @
                 (if emitTruncated then [SendTruncated] else [])),
               dr_seen := (dr_seen st)(s := dr_seen st s @ data)\<rparr>)"
| "drain_step maxBytes (Perform s) st =
     (case dr_pending st s of
        [] \<Rightarrow> st
      | SendData d # rest \<Rightarrow>
          st\<lparr>dr_pending := (dr_pending st)(s := rest),
             dr_buf := (dr_buf st)(s := fst (lw_Write (dr_buf st s) d)),
             dr_events := dr_events st @ [(stream_name s, d)]\<rparr>
      | SendTruncated # rest \<Rightarrow>
          st\<lparr>dr_pending := (dr_pending st)(s := rest),
             dr_events := dr_events st @ [(''truncated'', [])]\<rparr>)"

definition drain_run :: "int \<Rightarrow> drain_act list \<Rightarrow> drain_state" where
  "drain_run maxBytes acts = fold (drain_step maxBytes) acts (drain_init maxBytes)"

text \<open>
  Both goroutines have returned when \<open>wg.Wait\<close> does: each performs what it still has to do.
  A goroutine has at most two actions pending.
\<close>

definition drain_all :: "int \<Rightarrow> drain_act list \<Rightarrow> drain_state" where
  "drain_all maxBytes acts =
     drain_run maxBytes (acts @ [Perform Stdout, Perform Stdout, Perform Stderr, Perform Stderr])"

inductive drain_reachable :: "int \<Rightarrow> drain_state \<Rightarrow> bool" for maxBytes where
  start: "drain_reachable maxBytes (drain_init maxBytes)"
| step: "drain_reachable maxBytes st \<Longrightarrow> drain_reachable maxBytes (drain_step maxBytes act st)"

lemma drain_fold_reachable:
  "drain_reachable maxBytes st \<Longrightarrow> drain_reachable maxBytes (fold (drain_step maxBytes) acts st)"
  by (induction acts arbitrary: st) (auto intro: drain_reachable.step)

lemma drain_run_reachable: "drain_reachable maxBytes (drain_run maxBytes acts)"
  unfolding drain_run_def by (intro drain_fold_reachable drain_reachable.start)

section \<open>The invariant\<close>

definition sent :: "drain_state \<Rightarrow> stream \<Rightarrow> bytes" where
  "sent st s = concat (map snd (filter (\<lambda>e. fst e = stream_name s) (dr_events st)))"

fun out_bytes :: "drain_out list \<Rightarrow> bytes" where
  "out_bytes [] = []"
| "out_bytes (SendData d # os) = d @ out_bytes os"
| "out_bytes (SendTruncated # os) = out_bytes os"

definition admitted :: "drain_state \<Rightarrow> stream \<Rightarrow> bytes" where
  "admitted st s = sent st s @ out_bytes (dr_pending st s)"

definition trunc_count :: "drain_state \<Rightarrow> nat" where
  "trunc_count st = length (filter (\<lambda>e. fst e = ''truncated'') (dr_events st)) +
     count_list (dr_pending st Stdout) SendTruncated +
     count_list (dr_pending st Stderr) SendTruncated"

definition drain_inv :: "int \<Rightarrow> drain_state \<Rightarrow> bool" where
  "drain_inv maxBytes st \<longleftrightarrow>
     dr_totalRead st = int (length (admitted st Stdout)) + int (length (admitted st Stderr)) \<and>
     (maxBytes > 0 \<longrightarrow> dr_totalRead st \<le> maxBytes \<and> dr_truncated st = (dr_totalRead st = maxBytes)) \<and>
     (maxBytes \<le> 0 \<longrightarrow> \<not> dr_truncated st) \<and>
     trunc_count st = (if dr_truncated st then 1 else 0) \<and>
     (\<forall>s. dr_buf st s = \<lparr>lw_buf = sent st s, lw_limit = (if maxBytes > 0 then maxBytes else 0)\<rparr>) \<and>
     (\<forall>s. prefix (admitted st s) (dr_seen st s)) \<and>
     (\<not> dr_truncated st \<longrightarrow> (\<forall>s. admitted st s = dr_seen st s))"

lemma drain_invD:
  assumes "drain_inv maxBytes st"
  shows "dr_totalRead st = int (length (admitted st Stdout)) + int (length (admitted st Stderr))"
    "maxBytes > 0 \<longrightarrow> dr_totalRead st \<le> maxBytes \<and> dr_truncated st = (dr_totalRead st = maxBytes)"
    "maxBytes \<le> 0 \<longrightarrow> \<not> dr_truncated st"
    "trunc_count st = (if dr_truncated st then 1 else 0)"
    "dr_buf st s = \<lparr>lw_buf = sent st s, lw_limit = (if maxBytes > 0 then maxBytes else 0)\<rparr>"
    "prefix (admitted st s) (dr_seen st s)"
    "\<not> dr_truncated st \<longrightarrow> admitted st s = dr_seen st s"
  using assms unfolding drain_inv_def by blast+

lemma drain_inv_init: "drain_inv maxBytes (drain_init maxBytes)"
  by (simp add: drain_inv_def drain_init_def admitted_def sent_def trunc_count_def
        new_limitWriter_def)

lemma stream_name_neq [simp]:
  "stream_name s \<noteq> ''truncated''" "''truncated'' \<noteq> stream_name s"
  "stream_name s = stream_name s' \<longleftrightarrow> s = s'"
  by (cases s; cases s'; simp)+

lemma drain_admit_cases:
  assumes "drain_admit maxBytes n b data = (n', b', toSend, e)" and "data \<noteq> []"
    and "maxBytes > 0 \<longrightarrow> n \<le> maxBytes \<and> b = (n = maxBytes)" and "maxBytes \<le> 0 \<longrightarrow> \<not> b"
  shows "n' = n + int (length toSend)" "prefix toSend data" "b' = (b \<or> e)" "\<not> (b \<and> e)"
    "\<not> b' \<longrightarrow> toSend = data"
    "maxBytes > 0 \<longrightarrow> n' \<le> maxBytes \<and> b' = (n' = maxBytes)" "maxBytes \<le> 0 \<longrightarrow> \<not> b'"
    "b \<longrightarrow> toSend = []"
  using assms by (auto simp: drain_admit_def Let_def take_is_prefix split: if_splits)

lemma out_bytes_pending [simp]:
  "out_bytes ((if d \<noteq> [] then [SendData d] else []) @ (if e then [SendTruncated] else [])) = d"
  by simp

lemma count_pending [simp]:
  "count_list ((if d \<noteq> [] then [SendData d] else []) @ (if e then [SendTruncated] else []))
     SendTruncated = (if e then 1 else 0)"
  by simp

lemma admitted_ReadChunk:
  assumes "dr_pending st s = []"
  shows "admitted (st\<lparr>dr_totalRead := n, dr_truncated := b,
      dr_pending := (dr_pending st)(s := ps), dr_seen := sn\<rparr>) s' =
    (if s' = s then admitted st s @ out_bytes ps else admitted st s')"
  using assms by (simp add: admitted_def sent_def)

lemma drain_inv_ReadChunk:
  assumes inv: "drain_inv maxBytes st"
  shows "drain_inv maxBytes (drain_step maxBytes (ReadChunk s data) st)"
proof (cases "dr_pending st s \<noteq> [] \<or> data = []")
  case False
  then have pe: "dr_pending st s = []" and ne: "data \<noteq> []" by auto
  obtain n' b' d e where ad:
    "drain_admit maxBytes (dr_totalRead st) (dr_truncated st) data = (n', b', d, e)"
    by (metis prod_cases4)
  let ?ps = "(if d \<noteq> [] then [SendData d] else []) @ (if e then [SendTruncated] else [])"
  define st' where "st' = st\<lparr>dr_totalRead := n', dr_truncated := b',
      dr_pending := (dr_pending st)(s := ?ps),
      dr_seen := (dr_seen st)(s := dr_seen st s @ data)\<rparr>"
  have st: "drain_step maxBytes (ReadChunk s data) st = st'" using False ad by (simp add: st'_def)
  have f: "dr_totalRead st' = n'" "dr_truncated st' = b'" "dr_buf st' = dr_buf st"
    "dr_seen st' = (dr_seen st)(s := dr_seen st s @ data)" "sent st' = sent st"
    by (simp_all add: st'_def sent_def fun_eq_iff)
  note i = drain_invD [OF inv]
  note a = drain_admit_cases [OF ad ne i(2,3)]
  have adm: "admitted st' s' = (if s' = s then admitted st s @ d else admitted st s')" for s'
    unfolding st'_def using admitted_ReadChunk [OF pe] by simp
  have tot: "dr_totalRead st' =
      int (length (admitted st' Stdout)) + int (length (admitted st' Stderr))"
    using a(1) i(1) by (cases s) (simp_all add: adm f)
  have cnt: "trunc_count st' = trunc_count st + (if e then 1 else 0)"
    using pe by (cases s) (simp_all add: trunc_count_def st'_def)
  have pre: "prefix (admitted st' s') (dr_seen st' s')" for s'
  proof (cases "s' = s")
    case True
    show ?thesis
    proof (cases "dr_truncated st")
      case True
      with a(8) have "d = []" by simp
      with i(6) \<open>s' = s\<close> show ?thesis by (simp add: adm f prefix_prefix)
    next
      case nt: False
      with i(7) have "admitted st s = dr_seen st s" by simp
      with a(2) \<open>s' = s\<close> show ?thesis by (simp add: adm f)
    qed
  next
    case False
    with i(6) show ?thesis by (simp add: adm f)
  qed
  have all: "\<not> b' \<longrightarrow> admitted st' s' = dr_seen st' s'" for s'
    using a(3,5) i(7) by (auto simp: adm f)
  have buf: "dr_buf st' s' =
      \<lparr>lw_buf = sent st' s', lw_limit = (if maxBytes > 0 then maxBytes else 0)\<rparr>" for s'
    using i(5) by (simp add: f)
  have tc: "trunc_count st' = (if dr_truncated st' then 1 else 0)"
    using cnt i(4) a(3,4) by (cases e; cases "dr_truncated st") (simp_all add: f)
  have b: "maxBytes > 0 \<longrightarrow> dr_totalRead st' \<le> maxBytes \<and> dr_truncated st' = (dr_totalRead st' = maxBytes)"
    "maxBytes \<le> 0 \<longrightarrow> \<not> dr_truncated st'" using a(6,7) by (simp_all add: f)
  show ?thesis
    unfolding st drain_inv_def using tot b tc buf pre all f(2) by blast
qed (use inv in auto)

lemma lw_Write_fits:
  assumes "lw_limit lw > 0 \<longrightarrow> int (length (lw_buf lw)) + int (length d) \<le> lw_limit lw"
  shows "fst (lw_Write lw d) = lw\<lparr>lw_buf := lw_buf lw @ d\<rparr>"
  using assms by (cases d) (auto simp: lw_Write_def Let_def)

lemma drain_inv_Perform:
  assumes inv: "drain_inv maxBytes st"
  shows "drain_inv maxBytes (drain_step maxBytes (Perform s) st)"
proof -
  note i = drain_invD [OF inv]
  define st' where "st' = drain_step maxBytes (Perform s) st"
  have "admitted st' = admitted st \<and> trunc_count st' = trunc_count st \<and>
      dr_totalRead st' = dr_totalRead st \<and> dr_truncated st' = dr_truncated st \<and>
      dr_seen st' = dr_seen st \<and>
      (\<forall>s'. dr_buf st' s' =
         \<lparr>lw_buf = sent st' s', lw_limit = (if maxBytes > 0 then maxBytes else 0)\<rparr>)"
  proof (cases "dr_pending st s")
    case Nil
    then have "st' = st" by (simp add: st'_def)
    then show ?thesis using i(5) by blast
  next
    case (Cons p rest)
    show ?thesis
    proof (cases p)
      case (SendData d)
      have sent: "sent st' s' = (if s' = s then sent st s @ d else sent st s')" for s'
        using Cons SendData by (simp add: st'_def sent_def)
      have pend: "dr_pending st' = (dr_pending st)(s := rest)"
        using Cons SendData by (simp add: st'_def)
      have adm: "admitted st' = admitted st"
        using Cons SendData by (auto simp: admitted_def sent pend fun_eq_iff)
      have "length (sent st s) + length d \<le> length (admitted st s)"
        using Cons SendData by (simp add: admitted_def)
      then have "int (length (sent st s)) + int (length d) \<le> dr_totalRead st"
        using i(1) by (cases s) auto
      then have W: "fst (lw_Write (dr_buf st s) d) = (dr_buf st s)\<lparr>lw_buf := sent st s @ d\<rparr>"
        using i(2) i(5) [of s] by (subst lw_Write_fits) (auto split: if_splits)
      have tc: "trunc_count st' = trunc_count st"
        using Cons SendData by (cases s) (simp_all add: trunc_count_def st'_def)
      have "dr_buf st' = (dr_buf st)(s := fst (lw_Write (dr_buf st s) d))"
        "dr_totalRead st' = dr_totalRead st" "dr_truncated st' = dr_truncated st"
        "dr_seen st' = dr_seen st"
        using Cons SendData by (simp_all add: st'_def)
      then show ?thesis using adm tc W i(5) by (simp add: sent)
    next
      case SendTruncated
      have "trunc_count st' = trunc_count st"
        using Cons SendTruncated by (cases s) (simp_all add: trunc_count_def st'_def)
      moreover have "sent st' = sent st" "dr_buf st' = dr_buf st"
        "dr_totalRead st' = dr_totalRead st" "dr_truncated st' = dr_truncated st"
        "dr_seen st' = dr_seen st" "dr_pending st' = (dr_pending st)(s := rest)"
        using Cons SendTruncated by (simp_all add: st'_def sent_def fun_eq_iff)
      moreover have "admitted st' = admitted st"
        using Cons SendTruncated calculation(2,7) by (auto simp: admitted_def fun_eq_iff)
      ultimately show ?thesis using i(5) by simp
    qed
  qed
  then have e: "admitted st' = admitted st" "trunc_count st' = trunc_count st"
      "dr_totalRead st' = dr_totalRead st" "dr_truncated st' = dr_truncated st"
      "dr_seen st' = dr_seen st"
    and buf: "\<forall>s'. dr_buf st' s' =
         \<lparr>lw_buf = sent st' s', lw_limit = (if maxBytes > 0 then maxBytes else 0)\<rparr>"
    by blast+
  show ?thesis unfolding st'_def [symmetric] drain_inv_def e using buf i by blast
qed

lemma drain_reachable_inv: "drain_reachable maxBytes st \<Longrightarrow> drain_inv maxBytes st"
proof (induction rule: drain_reachable.induct)
  case start
  show ?case by (rule drain_inv_init)
next
  case (step st act)
  then show ?case by (cases act) (simp_all add: drain_inv_ReadChunk drain_inv_Perform
      del: drain_step.simps)
qed

lemma drain_pending_length:
  "drain_reachable maxBytes st \<Longrightarrow> length (dr_pending st s) \<le> 2"
proof (induction rule: drain_reachable.induct)
  case (step st act)
  then show ?case
    by (cases act) (auto split: prod.split list.splits drain_out.splits)
qed (simp add: drain_init_def)

definition drained :: "drain_state \<Rightarrow> bool" where
  "drained st \<longleftrightarrow> dr_pending st Stdout = [] \<and> dr_pending st Stderr = []"

lemma Perform_pending:
  "dr_pending (drain_step maxBytes (Perform s) st) s' =
     (if s' = s then tl (dr_pending st s) else dr_pending st s')"
  by (auto split: list.split drain_out.split)

lemma drain_all_drained: "drained (drain_all maxBytes acts)"
proof -
  let ?st = "drain_run maxBytes acts"
  have "length (dr_pending ?st s) \<le> 2" for s
    by (rule drain_pending_length [OF drain_run_reachable])
  moreover have "length xs \<le> 2 \<Longrightarrow> tl (tl xs) = []" for xs :: "drain_out list"
    by (cases xs; cases "tl xs") auto
  ultimately have "tl (tl (dr_pending ?st s)) = []" for s by blast
  then show ?thesis
    by (simp add: drained_def drain_all_def drain_run_def Perform_pending del: drain_step.simps)
qed


end
