(* ===== verification/Nsjail_Adapter.thy ===== *)
theory Nsjail_Adapter
  imports Nsjail_Stream "HOL-Library.AList"
begin

text \<open>
  The nsjail adapter with its effects (\<open>internal/nsjail/adapter.go\<close>, \<open>pty_linux.go\<close>): the
  table of sandboxes, the calls to the operating system and the processes it runs.  The
  operating system is the parameter \<open>os\<close>; every call to it is recorded in the trace
  together with its answer.
\<close>

section \<open>The operating system\<close>

text \<open>What a child process reads on its standard input.\<close>

datatype stdin = NoStdin | StdinBytes bytes | StdinJSON SandboxCreateBody

record run_call =
  rc_Path :: bytes
  rc_Args :: "bytes list"
  rc_Stdin :: stdin
  rc_ExtraEnv :: "bytes list"
  rc_Timeout :: "int option"

text \<open>
  How a process ends, as \<open>exec.Cmd.Wait\<close> sees it: the exit code (-1 when a signal killed it)
  with the text of the exit error, the context error if the watchdog killed it, and what
  \<open>deadline.Err()\<close> returns afterwards.
\<close>

record proc_end =
  pe_ExitCode :: int
  pe_ExitText :: bytes
  pe_Watch :: "go_error option"
  pe_Ctx :: "go_error option"

record run_result =
  rr_StartErr :: "go_error option"
  rr_Out :: "bytes list"
  rr_Err :: "bytes list"
  rr_StdinErr :: "go_error option"
  rr_End :: proc_end

record stream_result =
  sr_StdoutPipe :: "go_error option"
  sr_StderrPipe :: "go_error option"
  sr_Start :: "go_error option"
  sr_Sched :: "drain_act list"
  sr_End :: proc_end

datatype os_event =
    OsMkdirAll bytes "go_error option"
  | OsRemoveAll bytes "go_error option"
  | OsOpen bytes "go_error option"
  | OsOpenFile bytes "go_error option"
  | OsCopy bytes bytes "go_error option"
  | OsClose bytes "go_error option"
  | OsStat bytes "go_error option"
  | OsCreateTemp "go_error + bytes"
  | OsWriteString bytes bytes "go_error option"
  | OsRemove bytes
  | OsIoctl bytes "go_error + nat"
  | OsRun run_call run_result
  | OsRunPTY run_call run_result
  | OsStream run_call stream_result

record os_env =
  os_MkdirAll :: "os_event list \<Rightarrow> bytes \<Rightarrow> go_error option"
  os_RemoveAll :: "os_event list \<Rightarrow> bytes \<Rightarrow> go_error option"
  os_Open :: "os_event list \<Rightarrow> bytes \<Rightarrow> go_error option"
  os_OpenFile :: "os_event list \<Rightarrow> bytes \<Rightarrow> go_error option"
  os_Copy :: "os_event list \<Rightarrow> bytes \<Rightarrow> bytes \<Rightarrow> go_error option"
  os_Close :: "os_event list \<Rightarrow> bytes \<Rightarrow> go_error option"
  os_Stat :: "os_event list \<Rightarrow> bytes \<Rightarrow> go_error option"
  os_CreateTemp :: "os_event list \<Rightarrow> go_error + bytes"
  os_WriteString :: "os_event list \<Rightarrow> bytes \<Rightarrow> bytes \<Rightarrow> go_error option"
  os_Ioctl :: "os_event list \<Rightarrow> bytes \<Rightarrow> go_error + nat"
  os_Run :: "os_event list \<Rightarrow> run_call \<Rightarrow> run_result"
  os_RunPTY :: "os_event list \<Rightarrow> run_call \<Rightarrow> run_result"
  os_Stream :: "os_event list \<Rightarrow> run_call \<Rightarrow> stream_result"
  os_Environ :: "bytes list"

section \<open>The adapter's state\<close>

text \<open>
  The map of sandboxes as the list of its entries; the configuration never changes after
  \<open>NewNsjailAdapter\<close> and is passed as an argument.  The trace is the model's own.
\<close>

record NsjailAdapter =
  na_sandboxes :: "(bytes \<times> sandbox) list"
  na_trace :: "os_event list"

definition NewNsjailAdapter :: NsjailAdapter where
  "NewNsjailAdapter = \<lparr>na_sandboxes = [], na_trace = []\<rparr>"

type_synonym ('z, 'a) adapter = "('z NsjailAdapter_scheme, 'a) state"

definition os_call ::
  "(os_event list \<Rightarrow> 'a) \<Rightarrow> ('a \<Rightarrow> os_event) \<Rightarrow> ('z, 'a) adapter" where
  "os_call ask ev =
     State (\<lambda>s. let r = ask (na_trace s) in (r, s\<lparr>na_trace := na_trace s @ [ev r]\<rparr>))"

lemma wp_os_call [wp_simps]:
  "wp (os_call ask ev) Q s =
     Q (ask (na_trace s)) (s\<lparr>na_trace := na_trace s @ [ev (ask (na_trace s))]\<rparr>)"
  by (simp add: wp_def os_call_def Let_def)

lemma emits_os_call [emits_intros]:
  "(\<And>r. p (ev r)) \<Longrightarrow> emits_all na_trace p (os_call ask ev)"
  by (rule emitsI) (simp add: os_call_def Let_def)

definition set_sandboxes ::
  "((bytes \<times> sandbox) list \<Rightarrow> (bytes \<times> sandbox) list) \<Rightarrow> ('z, unit) adapter" where
  "set_sandboxes f = State_Monad.update (\<lambda>s. s\<lparr>na_sandboxes := f (na_sandboxes s)\<rparr>)"

lemma wp_set_sandboxes [wp_simps]:
  "wp (set_sandboxes f) Q s = Q () (s\<lparr>na_sandboxes := f (na_sandboxes s)\<rparr>)"
  by (simp add: set_sandboxes_def wp_simps)

lemma emits_set_sandboxes [emits_intros]: "emits_all na_trace p (set_sandboxes f)"
  by (rule emitsI) (simp add: set_sandboxes_def State_Monad.update_def)

lemma emits_get [emits_intros]: "emits_all tr p State_Monad.get"
  by (rule emitsI) simp

section \<open>Running a command\<close>

text \<open>
  The error of \<open>exec.Cmd.Wait\<close>: an unsuccessful exit comes first, then the context error of
  the watchdog, then the first error of the goroutines that copy input and output.
\<close>

definition cmd_Wait :: "proc_end \<Rightarrow> go_error option list \<Rightarrow> go_error option" where
  "cmd_Wait pe copyErrs =
     (if pe_ExitCode pe \<noteq> 0 then Some (ErrExit (pe_ExitCode pe) (pe_ExitText pe))
      else case pe_Watch pe of Some e \<Rightarrow> Some e | None \<Rightarrow> first_err copyErrs)"

definition cmd_Run :: "run_result \<Rightarrow> go_error option list \<Rightarrow> go_error option" where
  "cmd_Run r copyErrs =
     (case rr_StartErr r of Some e \<Rightarrow> Some e | None \<Rightarrow> cmd_Wait (rr_End r) (rr_StdinErr r # copyErrs))"

section \<open>Hook scripts\<close>

definition hook_call :: "os_env \<Rightarrow> bytes \<Rightarrow> sandbox \<Rightarrow> run_call" where
  "hook_call os script sb =
     \<lparr>rc_Path = script, rc_Args = [], rc_Stdin = StdinJSON (sx_req sb),
      rc_ExtraEnv = os_Environ os @
        [''BOXY_SANDBOX_ID='' @ sb_SandboxID (sx_req sb),
         ''BOXY_SANDBOX_ROOT='' @ Dir (sx_workspace sb),
         ''BOXY_WORKSPACE='' @ sx_workspace sb] @
        map env_entry (sb_ScriptEnv (sx_req sb)),
      rc_Timeout = None\<rparr>"

definition runHookScript :: "os_env \<Rightarrow> bytes \<Rightarrow> sandbox \<Rightarrow> ('z, go_error option) adapter" where
  "runHookScript os script sb = do {
     let call = hook_call os script sb;
     r \<leftarrow> os_call (\<lambda>t. os_Run os t call) (OsRun call);
     State_Monad.return
       (case cmd_Run r [] of
          None \<Rightarrow> None
        | Some e \<Rightarrow> Some (wrap_err [] e ('': '' @ concat (rr_Err r))))
   }"

section \<open>Creating and deleting\<close>

definition copyExec :: "os_env \<Rightarrow> bytes \<Rightarrow> bytes \<Rightarrow> ('z, go_error option) adapter" where
  "copyExec os src dst = do {
     e1 \<leftarrow> os_call (\<lambda>t. os_Open os t src) (OsOpen src);
     case e1 of Some e \<Rightarrow> State_Monad.return (Some e) | None \<Rightarrow> do {
     e2 \<leftarrow> os_call (\<lambda>t. os_OpenFile os t dst) (OsOpenFile dst);
     case e2 of Some e \<Rightarrow> State_Monad.return (Some e) | None \<Rightarrow> do {
     e3 \<leftarrow> os_call (\<lambda>t. os_Copy os t src dst) (OsCopy src dst);
     case e3 of
       Some e \<Rightarrow> do {
         _ \<leftarrow> os_call (\<lambda>t. os_Close os t dst) (OsClose dst);
         State_Monad.return (Some e)
       }
     | None \<Rightarrow> os_call (\<lambda>t. os_Close os t dst) (OsClose dst)
     }}}"

text \<open>The loop over \<open>AllowedBinaries\<close>: the first error ends it, with the binary's name.\<close>

fun copy_binaries ::
  "os_env \<Rightarrow> bytes \<Rightarrow> bytes \<Rightarrow> bytes list \<Rightarrow> ('z, go_error option) adapter" where
  "copy_binaries os binariesDir binDir [] = State_Monad.return None"
| "copy_binaries os binariesDir binDir (bin # bins) = do {
     e \<leftarrow> copyExec os (Join [binariesDir, bin]) (Join [binDir, bin]);
     case e of
       Some err \<Rightarrow> State_Monad.return
         (Some (errInternal (''copy binary '' @ fmt_q bin @ '': '' @ err_msg err)))
     | None \<Rightarrow> copy_binaries os binariesDir binDir bins
   }"

definition remove_all :: "os_env \<Rightarrow> bytes \<Rightarrow> ('z, go_error option) adapter" where
  "remove_all os p = os_call (\<lambda>t. os_RemoveAll os t p) (OsRemoveAll p)"

text \<open>
  \<open>Create\<close> in three parts: under the lock up to the setup script; the script, with the lock
  released; and the rest, under the lock again.
\<close>

definition create_prepare ::
  "os_env \<Rightarrow> AdapterConfig \<Rightarrow> SandboxCreateBody \<Rightarrow> ('z, go_error option) adapter" where
  "create_prepare os cfg req = do {
     s \<leftarrow> State_Monad.get;
     if map_of (na_sandboxes s) (sb_SandboxID req) \<noteq> None
     then State_Monad.return (Some (errConflict (sb_SandboxID req)))
     else do {
       let base = sandboxBase cfg (sb_SandboxID req);
       let workspace = Join [base, ''workspace''];
       e1 \<leftarrow> os_call (\<lambda>t. os_MkdirAll os t workspace) (OsMkdirAll workspace);
       case e1 of
         Some e \<Rightarrow> State_Monad.return
           (Some (errInternal (''mkdir workspace '' @ workspace @ '': '' @ err_msg e)))
       | None \<Rightarrow> do {
           let binDir = Join [base, ''bin''];
           e2 \<leftarrow> os_call (\<lambda>t. os_MkdirAll os t binDir) (OsMkdirAll binDir);
           case e2 of
             Some e \<Rightarrow> do {
               _ \<leftarrow> remove_all os base;
               State_Monad.return (Some (errInternal (''mkdir bin '' @ binDir @ '': '' @ err_msg e)))
             }
           | None \<Rightarrow> do {
               e3 \<leftarrow> copy_binaries os (ac_BinariesDir cfg) binDir (sb_AllowedBinaries req);
               case e3 of
                 Some e \<Rightarrow> do {
                   _ \<leftarrow> remove_all os base;
                   State_Monad.return (Some e)
                 }
               | None \<Rightarrow> State_Monad.return None
             }
         }
     }
   }"

definition create_hook ::
  "os_env \<Rightarrow> AdapterConfig \<Rightarrow> SandboxCreateBody \<Rightarrow> ('z, go_error option) adapter" where
  "create_hook os cfg req =
     (if sb_SetupScript req \<noteq> []
      then runHookScript os (sb_SetupScript req) (new_sandbox cfg req)
      else State_Monad.return None)"

definition create_finish ::
  "os_env \<Rightarrow> AdapterConfig \<Rightarrow> SandboxCreateBody \<Rightarrow> go_error option \<Rightarrow> ('z, go_error option) adapter"
where
  "create_finish os cfg req hookErr =
     (case hookErr of
        Some e \<Rightarrow> do {
          _ \<leftarrow> remove_all os (sandboxBase cfg (sb_SandboxID req));
          State_Monad.return (Some (errInternal (''setup script failed: '' @ err_msg e)))
        }
      | None \<Rightarrow> do {
          _ \<leftarrow> set_sandboxes (AList.update (sb_SandboxID req) (new_sandbox cfg req));
          State_Monad.return None
        })"

definition Create ::
  "os_env \<Rightarrow> AdapterConfig \<Rightarrow> SandboxCreateBody \<Rightarrow> ('z, go_error option) adapter" where
  "Create os cfg req =
     (case validateCreateRequest cfg req of
        Some e \<Rightarrow> State_Monad.return (Some e)
      | None \<Rightarrow> do {
          e \<leftarrow> create_prepare os cfg req;
          case e of
            Some err \<Rightarrow> State_Monad.return (Some err)
          | None \<Rightarrow> do {
              h \<leftarrow> create_hook os cfg req;
              create_finish os cfg req h
            }
        })"

definition Delete :: "os_env \<Rightarrow> bytes \<Rightarrow> ('z, go_error option) adapter" where
  "Delete os sandboxID = do {
     s \<leftarrow> State_Monad.get;
     case map_of (na_sandboxes s) sandboxID of
       None \<Rightarrow> State_Monad.return (Some (errNotFound sandboxID))
     | Some sb \<Rightarrow> do {
         _ \<leftarrow> set_sandboxes (AList.delete sandboxID);
         _ \<leftarrow> (if sb_TeardownScript (sx_req sb) \<noteq> []
               then runHookScript os (sb_TeardownScript (sx_req sb)) sb
               else State_Monad.return None);
         _ \<leftarrow> remove_all os (Dir (sx_workspace sb));
         State_Monad.return None
       }
   }"

definition ListIDs :: "('z, bytes list) adapter" where
  "ListIDs = do { s \<leftarrow> State_Monad.get; State_Monad.return (map fst (na_sandboxes s)) }"

definition Count :: "('z, nat) adapter" where
  "Count = do { s \<leftarrow> State_Monad.get; State_Monad.return (length (na_sandboxes s)) }"

section \<open>Executing\<close>

definition searchDirs :: "bytes list" where
  "searchDirs = [''/usr/local/sbin'', ''/usr/local/bin'', ''/usr/sbin'', ''/usr/bin'', ''/sbin'', ''/bin'']"

fun search_chroot :: "os_env \<Rightarrow> bytes \<Rightarrow> bytes \<Rightarrow> bytes list \<Rightarrow> ('z, bytes) adapter" where
  "search_chroot os command chroot [] = State_Monad.return command"
| "search_chroot os command chroot (d # ds) = do {
     let p = chroot @ d @ ''/'' @ command;
     e \<leftarrow> os_call (\<lambda>t. os_Stat os t p) (OsStat p);
     if e = None then State_Monad.return (d @ ''/'' @ command)
     else search_chroot os command chroot ds
   }"

definition resolveCommandInChroot :: "os_env \<Rightarrow> bytes \<Rightarrow> bytes \<Rightarrow> ('z, bytes) adapter" where
  "resolveCommandInChroot os command chroot =
     (if HasPrefix command ''/'' \<or> Contains command ''/'' then State_Monad.return command
      else search_chroot os command chroot searchDirs)"

definition openPTY :: "os_env \<Rightarrow> ('z, go_error option) adapter" where
  "openPTY os = do {
     let ptmx = ''/dev/ptmx'';
     e1 \<leftarrow> os_call (\<lambda>t. os_OpenFile os t ptmx) (OsOpenFile ptmx);
     case e1 of Some e \<Rightarrow> State_Monad.return (Some (wrap_err ''open /dev/ptmx: '' e [])) | None \<Rightarrow> do {
     u \<leftarrow> os_call (\<lambda>t. os_Ioctl os t ''TIOCSPTLCK'') (OsIoctl ''TIOCSPTLCK'');
     case u of
       Inl e \<Rightarrow> do {
         _ \<leftarrow> os_call (\<lambda>t. os_Close os t ptmx) (OsClose ptmx);
         State_Monad.return (Some (wrap_err ''TIOCSPTLCK: '' e []))
       }
     | Inr _ \<Rightarrow> do {
     n \<leftarrow> os_call (\<lambda>t. os_Ioctl os t ''TIOCGPTN'') (OsIoctl ''TIOCGPTN'');
     case n of
       Inl e \<Rightarrow> do {
         _ \<leftarrow> os_call (\<lambda>t. os_Close os t ptmx) (OsClose ptmx);
         State_Monad.return (Some (wrap_err ''TIOCGPTN: '' e []))
       }
     | Inr slaveNum \<Rightarrow> do {
         let slavePath = ''/dev/pts/'' @ fmt_nat slaveNum;
         e2 \<leftarrow> os_call (\<lambda>t. os_OpenFile os t slavePath) (OsOpenFile slavePath);
         case e2 of
           Some e \<Rightarrow> do {
             _ \<leftarrow> os_call (\<lambda>t. os_Close os t ptmx) (OsClose ptmx);
             State_Monad.return (Some (wrap_err (''open slave PTY '' @ slavePath @ '': '') e []))
           }
         | None \<Rightarrow> State_Monad.return None
       }
     }}}"

definition execPTY ::
  "os_env \<Rightarrow> AdapterConfig \<Rightarrow> run_call \<Rightarrow> int \<Rightarrow> ('z, go_error + ExecResponseBody) adapter" where
  "execPTY os cfg call timeoutSecs = do {
     p \<leftarrow> openPTY os;
     case p of
       Some e \<Rightarrow> State_Monad.return (Inl (errInternal (''allocate PTY: '' @ err_msg e)))
     | None \<Rightarrow> do {
         r \<leftarrow> os_call (\<lambda>t. os_RunPTY os t call) (OsRunPTY call);
         State_Monad.return
           (case rr_StartErr r of
              Some e \<Rightarrow> Inl (errInternal (''nsjail start: '' @ err_msg e))
            | None \<Rightarrow>
                buildExecResponse (cmd_Wait (rr_End r) []) (pe_Ctx (rr_End r)) timeoutSecs
                  (lw_buf (fst (io_Copy (new_limitWriter (ac_MaxOutputBytes cfg)) (rr_Out r)))) [])
       }
   }"

text \<open>The response of a finished run whose output goes into two limited writers.\<close>

definition run_response ::
  "AdapterConfig \<Rightarrow> int \<Rightarrow> run_result \<Rightarrow> go_error + ExecResponseBody" where
  "run_response cfg timeoutSecs r =
     (let (stdout, oerr) = io_Copy (new_limitWriter (ac_MaxOutputBytes cfg)) (rr_Out r);
          (stderr, eerr) = io_Copy (new_limitWriter (ac_MaxOutputBytes cfg)) (rr_Err r)
      in buildExecResponse (cmd_Run r [oerr, eerr]) (pe_Ctx (rr_End r)) timeoutSecs
           (lw_buf stdout) (lw_buf stderr))"

definition exec_run ::
  "os_env \<Rightarrow> AdapterConfig \<Rightarrow> run_call \<Rightarrow> int \<Rightarrow> ('z, go_error + ExecResponseBody) adapter" where
  "exec_run os cfg call timeoutSecs = do {
     r \<leftarrow> os_call (\<lambda>t. os_Run os t call) (OsRun call);
     State_Monad.return (run_response cfg timeoutSecs r)
   }"

definition exec_stream ::
  "os_env \<Rightarrow> AdapterConfig \<Rightarrow> run_call \<Rightarrow> int \<Rightarrow>
     ('z, (bytes \<times> bytes) list \<times> (go_error + ExecResponseBody)) adapter" where
  "exec_stream os cfg call timeoutSecs = do {
     r \<leftarrow> os_call (\<lambda>t. os_Stream os t call) (OsStream call);
     State_Monad.return
       (case sr_StdoutPipe r of
          Some e \<Rightarrow> ([], Inl (errInternal (''stdout pipe: '' @ err_msg e)))
        | None \<Rightarrow>
       (case sr_StderrPipe r of
          Some e \<Rightarrow> ([], Inl (errInternal (''stderr pipe: '' @ err_msg e)))
        | None \<Rightarrow>
       (case sr_Start r of
          Some e \<Rightarrow> ([], Inl (errInternal (''nsjail start: '' @ err_msg e)))
        | None \<Rightarrow>
            let st = drain_all (ac_MaxOutputBytes cfg) (sr_Sched r)
            in (dr_events st,
                buildExecResponse (cmd_Wait (sr_End r) []) (pe_Ctx (sr_End r)) timeoutSecs
                  (lw_buf (dr_buf st Stdout)) (lw_buf (dr_buf st Stderr))))))
   }"

text \<open>
  The part that \<open>execWithStdin\<close> and \<open>ExecStream\<close> have in common: find the sandbox, resolve the
  command, write the configuration file, run, and remove the file when the function
  returns.  \<open>fail\<close> makes the result of an error, \<open>run\<close> starts the process.
\<close>

definition with_jail ::
  "os_env \<Rightarrow> AdapterConfig \<Rightarrow> bytes \<Rightarrow> bytes \<Rightarrow> bytes list \<Rightarrow> str_map \<Rightarrow> int \<Rightarrow> stdin \<Rightarrow>
     (go_error \<Rightarrow> 'r) \<Rightarrow> (run_call \<Rightarrow> ('z, 'r) adapter) \<Rightarrow> ('z, 'r) adapter" where
  "with_jail os cfg sandboxID command args env timeoutSecs stdin fail run = do {
     s \<leftarrow> State_Monad.get;
     case map_of (na_sandboxes s) sandboxID of
       None \<Rightarrow> State_Monad.return (fail (errNotFound sandboxID))
     | Some sb \<Rightarrow> do {
         let rootfs = jail_rootfs cfg sb;
         resolvedCmd \<leftarrow> resolveCommandInChroot os command rootfs;
         let jail = buildNsjailConfig sb rootfs env timeoutSecs;
         f \<leftarrow> os_call (\<lambda>t. os_CreateTemp os t) OsCreateTemp;
         case f of
           Inl e \<Rightarrow> State_Monad.return (fail (errInternal (''create temp config: '' @ err_msg e)))
         | Inr name \<Rightarrow> do {
             w \<leftarrow> os_call (\<lambda>t. os_WriteString os t name (ToTextProto jail))
                    (OsWriteString name (ToTextProto jail));
             r \<leftarrow> (case w of
                 Some e \<Rightarrow> State_Monad.return (fail (errInternal (''write nsjail config: '' @ err_msg e)))
               | None \<Rightarrow> run
                   \<lparr>rc_Path = ac_NsjailPath cfg,
                    rc_Args = [''--config'', name, ''--''] @ [resolvedCmd] @ args,
                    rc_Stdin = stdin, rc_ExtraEnv = os_Environ os,
                    rc_Timeout = execContext timeoutSecs\<rparr>);
             _ \<leftarrow> os_call (\<lambda>_. ()) (\<lambda>_. OsRemove name);
             State_Monad.return r
           }
       }
   }"

definition execWithStdin ::
  "os_env \<Rightarrow> AdapterConfig \<Rightarrow> bytes \<Rightarrow> bytes \<Rightarrow> bytes list \<Rightarrow> str_map \<Rightarrow> int \<Rightarrow> bool \<Rightarrow> stdin \<Rightarrow>
     ('z, go_error + ExecResponseBody) adapter" where
  "execWithStdin os cfg sandboxID command args env timeoutSecs pty stdin =
     with_jail os cfg sandboxID command args env timeoutSecs stdin Inl
       (\<lambda>call. if pty then execPTY os cfg call timeoutSecs else exec_run os cfg call timeoutSecs)"

definition Exec ::
  "os_env \<Rightarrow> AdapterConfig \<Rightarrow> bytes \<Rightarrow> bytes \<Rightarrow> bytes list \<Rightarrow> str_map \<Rightarrow> int \<Rightarrow> bool \<Rightarrow>
     ('z, go_error + ExecResponseBody) adapter" where
  "Exec os cfg sandboxID command args env timeoutSecs pty =
     execWithStdin os cfg sandboxID command args env timeoutSecs pty NoStdin"

definition ExecStream ::
  "os_env \<Rightarrow> AdapterConfig \<Rightarrow> bytes \<Rightarrow> bytes \<Rightarrow> bytes list \<Rightarrow> str_map \<Rightarrow> int \<Rightarrow>
     ('z, (bytes \<times> bytes) list \<times> (go_error + ExecResponseBody)) adapter" where
  "ExecStream os cfg sandboxID command args env timeoutSecs =
     with_jail os cfg sandboxID command args env timeoutSecs NoStdin (\<lambda>e. ([], Inl e))
       (\<lambda>call. exec_stream os cfg call timeoutSecs)"

section \<open>File operations\<close>

abbreviation fileOpTimeoutSecs :: int where
  "fileOpTimeoutSecs \<equiv> 30"

definition cat_script :: bytes where
  "cat_script = ''cat -- '' @ [dq] @ ''$1'' @ [dq]"

definition write_script :: bytes where
  "write_script = ''mkdir -p -- '' @ [dq] @ ''$(dirname -- '' @ [dq] @ ''$1'' @ [dq] @ '')'' @ [dq] @
     '' && cat > '' @ [dq] @ ''$1'' @ [dq]"

definition ReadFile ::
  "os_env \<Rightarrow> AdapterConfig \<Rightarrow> bytes \<Rightarrow> bytes \<Rightarrow> ('z, go_error + (bytes \<times> bool)) adapter" where
  "ReadFile os cfg sandboxID path = do {
     r \<leftarrow> Exec os cfg sandboxID ''sh'' [''-c'', cat_script, ''sh'', sandboxFilePath path] []
            fileOpTimeoutSecs False;
     State_Monad.return
       (case r of
          Inl e \<Rightarrow> Inl e
        | Inr res \<Rightarrow>
            if xr_ExitCode res \<noteq> 0 then Inl (errBadRequest (fileOpError ''read'' (xr_Stderr res)))
            else Inr (xr_Stdout res,
              ac_MaxOutputBytes cfg > 0 \<and> int (length (xr_Stdout res)) \<ge> ac_MaxOutputBytes cfg))
   }"

definition WriteFile ::
  "os_env \<Rightarrow> AdapterConfig \<Rightarrow> bytes \<Rightarrow> bytes \<Rightarrow> bytes \<Rightarrow> ('z, go_error + nat) adapter" where
  "WriteFile os cfg sandboxID path content = do {
     r \<leftarrow> execWithStdin os cfg sandboxID ''sh'' [''-c'', write_script, ''sh'', sandboxFilePath path] []
            fileOpTimeoutSecs False (StdinBytes content);
     State_Monad.return
       (case r of
          Inl e \<Rightarrow> Inl e
        | Inr res \<Rightarrow>
            if xr_ExitCode res \<noteq> 0 then Inl (errBadRequest (fileOpError ''write'' (xr_Stderr res)))
            else Inr (length content))
   }"

definition edit_content :: "bytes \<Rightarrow> bytes \<Rightarrow> bytes \<Rightarrow> bool \<Rightarrow> go_error + (bytes \<times> nat)" where
  "edit_content content oldStr newStr replaceAll =
     (let count = str_Count content oldStr in
      if count = 0 then Inl (errBadRequest ''oldString not found in file'')
      else if count > 1 \<and> \<not> replaceAll then
        Inl (errBadRequest (''oldString is not unique ('' @ fmt_nat count @
               '' matches); add context or set replaceAll''))
      else if replaceAll then Inr (ReplaceAll content oldStr newStr, count)
      else Inr (ReplaceFirst content oldStr newStr, 1))"

definition edit_write ::
  "os_env \<Rightarrow> AdapterConfig \<Rightarrow> bytes \<Rightarrow> bytes \<Rightarrow> bytes \<Rightarrow> bytes \<Rightarrow> bool \<Rightarrow> bytes \<Rightarrow> bool \<Rightarrow>
     ('z, go_error + nat) adapter" where
  "edit_write os cfg sandboxID path oldStr newStr replaceAll content truncated =
     (if truncated then State_Monad.return (Inl (errBadRequest
        (''file exceeds the '' @ fmt_int (ac_MaxOutputBytes cfg) @
         ''-byte read limit; cannot edit safely, use the bash tool'')))
      else
        (case edit_content content oldStr newStr replaceAll of
           Inl e \<Rightarrow> State_Monad.return (Inl e)
         | Inr (edited, count) \<Rightarrow> do {
             w \<leftarrow> WriteFile os cfg sandboxID path edited;
             State_Monad.return (case w of Inl e \<Rightarrow> Inl e | Inr _ \<Rightarrow> Inr count)
           }))"

definition EditFile ::
  "os_env \<Rightarrow> AdapterConfig \<Rightarrow> bytes \<Rightarrow> bytes \<Rightarrow> bytes \<Rightarrow> bytes \<Rightarrow> bool \<Rightarrow> ('z, go_error + nat) adapter"
where
  "EditFile os cfg sandboxID path oldStr newStr replaceAll =
     (if oldStr = [] then State_Monad.return (Inl (errBadRequest ''oldString must not be empty''))
      else do {
        r \<leftarrow> ReadFile os cfg sandboxID path;
        case r of
          Inl e \<Rightarrow> State_Monad.return (Inl e)
        | Inr (content, truncated) \<Rightarrow>
            edit_write os cfg sandboxID path oldStr newStr replaceAll content truncated
      })"

end
