(* ===== verification/Nsjail_Adapter_Props.thy ===== *)
theory Nsjail_Adapter_Props
  imports Nsjail_Adapter
begin

text \<open>
  Properties of the adapter: what creating and deleting a sandbox do to the table and to
  the file system on every path, which processes an execution starts, and what the file
  operations write.
\<close>

section \<open>Computations that only call the operating system\<close>

text \<open>
  \<open>os_only p m\<close>: all \<open>m\<close> does to the state is to append events that satisfy \<open>p\<close>.
\<close>

definition os_only :: "(os_event \<Rightarrow> bool) \<Rightarrow> ('z, 'a) adapter \<Rightarrow> bool" where
  "os_only p m \<longleftrightarrow>
     (\<forall>s. \<exists>es. list_all p es \<and> snd (run_state m s) = s\<lparr>na_trace := na_trace s @ es\<rparr>)"

named_theorems os_only_intros

lemma os_only_return [os_only_intros]: "os_only p (State_Monad.return x)"
  by (auto simp: os_only_def intro: exI [of _ "[]"])

lemma os_only_os_call [os_only_intros]:
  assumes "\<And>r. p (ev r)"
  shows "os_only p (os_call ask ev)"
  unfolding os_only_def
proof
  fix s :: "'z NsjailAdapter_scheme"
  show "\<exists>es. list_all p es \<and>
      snd (run_state (os_call ask ev) s) = s\<lparr>na_trace := na_trace s @ es\<rparr>"
    by (rule exI [of _ "[ev (ask (na_trace s))]"]) (simp add: assms os_call_def Let_def)
qed

lemma os_only_bind [os_only_intros]:
  assumes m: "os_only p m" and f: "\<And>x. os_only p (f x)"
  shows "os_only p (State_Monad.bind m f)"
  unfolding os_only_def
proof
  fix s
  obtain x s1 where 1: "run_state m s = (x, s1)" by fastforce
  with m obtain es where es: "list_all p es" "s1 = s\<lparr>na_trace := na_trace s @ es\<rparr>"
    unfolding os_only_def by (metis snd_conv)
  obtain y s2 where 2: "run_state (f x) s1 = (y, s2)" by fastforce
  with f obtain es' where es': "list_all p es'" "s2 = s1\<lparr>na_trace := na_trace s1 @ es'\<rparr>"
    unfolding os_only_def by (metis snd_conv)
  from es es' 1 2 show "\<exists>es. list_all p es \<and>
      snd (run_state (State_Monad.bind m f) s) = s\<lparr>na_trace := na_trace s @ es\<rparr>"
    by (intro exI [of _ "es @ es'"]) simp
qed

lemma os_only_cases [os_only_intros]:
  "\<lbrakk>b \<Longrightarrow> os_only p m; \<not> b \<Longrightarrow> os_only p n\<rbrakk> \<Longrightarrow> os_only p (if b then m else n)"
  "\<lbrakk>x = None \<Longrightarrow> os_only p m; \<And>y. x = Some y \<Longrightarrow> os_only p (f y)\<rbrakk> \<Longrightarrow>
     os_only p (case x of None \<Rightarrow> m | Some y \<Rightarrow> f y)"
  "\<lbrakk>\<And>a. z = Inl a \<Longrightarrow> os_only p (g a); \<And>c. z = Inr c \<Longrightarrow> os_only p (h c)\<rbrakk> \<Longrightarrow>
     os_only p (case z of Inl a \<Rightarrow> g a | Inr c \<Rightarrow> h c)"
  "(\<And>u v. w = (u, v) \<Longrightarrow> os_only p (k u v)) \<Longrightarrow> os_only p (case w of (u, v) \<Rightarrow> k u v)"
  by (auto split: option.split sum.split prod.split)

lemma os_only_get_bind [os_only_intros]:
  "(\<And>s. os_only p (f s)) \<Longrightarrow> os_only p (State_Monad.bind State_Monad.get f)"
  by (auto simp: os_only_def)

lemma wp_os_only:
  assumes "os_only p m"
    and "\<And>x es. list_all p es \<Longrightarrow> Q x (s\<lparr>na_trace := na_trace s @ es\<rparr>)"
  shows "wp m Q s"
proof -
  obtain es where "list_all p es" "snd (run_state m s) = s\<lparr>na_trace := na_trace s @ es\<rparr>"
    using assms(1) unfolding os_only_def by blast
  with assms(2) [of es "fst (run_state m s)"] show ?thesis
    by (simp add: wp_def case_prod_beta)
qed

lemma os_only_mono: "os_only p m \<Longrightarrow> (\<And>e. p e \<Longrightarrow> q e) \<Longrightarrow> os_only q m"
  unfolding os_only_def using list.pred_mono_strong by blast

section \<open>Creating\<close>

text \<open>What an event writes to the file system lies in the directory \<open>dir\<close>.\<close>

fun writes_in :: "bytes \<Rightarrow> os_event \<Rightarrow> bool" where
  "writes_in dir (OsMkdirAll p e) = within dir p"
| "writes_in dir (OsRemoveAll p e) = within dir p"
| "writes_in dir (OsOpenFile p e) = within dir p"
| "writes_in dir (OsCopy src dst e) = within dir dst"
| "writes_in dir (OsWriteString p txt e) = within dir p"
| "writes_in dir _ = True"

lemma within_refl [simp]: "within p p"
  by (simp add: within_def)

lemma within_Join_binary:
  assumes "a \<noteq> []" and "binary_permitted b"
  shows "within a (Join [a, b])"
proof (cases "b = ''.''")
  case True
  then show ?thesis
    using assms(1)
    by (simp add: within_def rooted_Join Join_pair)
       (simp add: path_parts_def rooted_append split_slash_append clean_elems_append)
next
  case False
  then show ?thesis using assms by (simp add: binary_permitted_def within_Join)
qed

lemma copyExec_writes: "within dir dst \<Longrightarrow> os_only (writes_in dir) (copyExec os src dst)"
  unfolding copyExec_def by (intro os_only_intros) simp_all

lemma copy_binaries_writes:
  assumes "within dir binDir" and "binDir \<noteq> []" and "list_all binary_permitted bins"
  shows "os_only (writes_in dir) (copy_binaries os src binDir bins)"
  using assms(3)
proof (induction bins)
  case (Cons b bins)
  have b: "binary_permitted b" and bs: "list_all binary_permitted bins" using Cons.prems by simp_all
  have "within dir (Join [binDir, b])"
    by (rule within_trans [OF assms(1) within_Join_binary [OF assms(2) b]])
  with Cons.IH [OF bs] show ?case
    unfolding copy_binaries.simps by (intro os_only_intros copyExec_writes)
qed (simp add: os_only_return)

lemma runHookScript_writes: "os_only (writes_in dir) (runHookScript os script sb)"
  unfolding runHookScript_def Let_def by (intro os_only_intros) simp

lemma remove_all_writes: "within dir p \<Longrightarrow> os_only (writes_in dir) (remove_all os p)"
  unfolding remove_all_def by (intro os_only_intros) simp

lemma sandboxBase_nonempty: "ac_SandboxRoot cfg \<noteq> [] \<Longrightarrow> sandboxBase cfg i \<noteq> []"
  by (simp add: sandboxBase_def)

lemma create_prepare_writes:
  assumes "ac_SandboxRoot cfg \<noteq> []" and "request_permitted cfg req"
  shows "os_only (writes_in (sandboxBase cfg (sb_SandboxID req))) (create_prepare os cfg req)"
proof -
  let ?base = "sandboxBase cfg (sb_SandboxID req)"
  have b: "?base \<noteq> []" by (rule sandboxBase_nonempty [OF assms(1)])
  have w: "within ?base (Join [?base, ''workspace''])" "within ?base (Join [?base, ''bin''])"
    using within_Join [OF b] plain_workspace_bin by blast+
  have "list_all binary_permitted (sb_AllowedBinaries req)"
    using assms(2) unfolding request_permitted_def by blast
  note c = copy_binaries_writes [OF w(2) Join_nonempty [OF b] this]
  show ?thesis
    unfolding create_prepare_def Let_def
    by (intro os_only_intros c remove_all_writes) (simp_all add: w)
qed

lemma create_hook_writes: "os_only (writes_in dir) (create_hook os cfg req)"
  unfolding create_hook_def by (intro os_only_intros runHookScript_writes)

definition new_events :: "'z NsjailAdapter_scheme \<Rightarrow> 'z NsjailAdapter_scheme \<Rightarrow> os_event list" where
  "new_events s s' = drop (length (na_trace s)) (na_trace s')"

text \<open>
  A failed creation either never made the workspace directory or removed the sandbox's
  directory as the last thing it did.
\<close>

definition cleaned_up :: "bytes \<Rightarrow> os_event list \<Rightarrow> bool" where
  "cleaned_up base es \<longleftrightarrow>
     (if OsMkdirAll (Join [base, ''workspace'']) None \<in> set es
      then \<exists>x. last es = OsRemoveAll base x else True)"

lemma cleaned_up_simps [simp]:
  "cleaned_up base []"
  "cleaned_up base (es @ [OsRemoveAll base x])"
  "cleaned_up base (es @ es' @ [OsRemoveAll base x])"
  "cleaned_up base [OsMkdirAll p (Some e)]"
  "cleaned_up base [a, b, OsRemoveAll base x]"
  by (simp_all add: cleaned_up_def)

lemma cleaned_up_Cons2 [simp]: "cleaned_up base (a # b # es @ [OsRemoveAll base x])"
  using cleaned_up_simps(2) [of base "a # b # es"] by simp

lemma copy_binaries_os_only: "os_only (\<lambda>_. True) (copy_binaries os a b bins)"
proof (induction bins)
  case (Cons b bins)
  then show ?case
    unfolding copy_binaries.simps copyExec_def by (intro os_only_intros TrueI)
qed (simp add: os_only_return)

lemma runHookScript_os_only: "os_only (\<lambda>_. True) (runHookScript os script sb)"
  unfolding runHookScript_def Let_def by (intro os_only_intros TrueI)

lemma create_hook_os_only: "os_only (\<lambda>_. True) (create_hook os cfg req)"
  unfolding create_hook_def by (intro os_only_intros runHookScript_os_only)

definition extends :: "'z NsjailAdapter_scheme \<Rightarrow> 'z NsjailAdapter_scheme \<Rightarrow> bool" where
  "extends s s' \<longleftrightarrow> na_sandboxes s' = na_sandboxes s \<and> prefix (na_trace s) (na_trace s')"

lemma wp_create_prepare:
  "wp (create_prepare os cfg req)
     (\<lambda>r s'. extends s s' \<and>
        (case r of
           None \<Rightarrow> map_of (na_sandboxes s) (sb_SandboxID req) = None
         | Some e \<Rightarrow> cleaned_up (sandboxBase cfg (sb_SandboxID req)) (new_events s s'))) s"
proof -
  let ?base = "sandboxBase cfg (sb_SandboxID req)"
  show ?thesis
    unfolding create_prepare_def Let_def
    by (auto simp: wp_simps remove_all_def extends_def new_events_def split: option.split
          intro!: wp_os_only [OF copy_binaries_os_only])
qed

lemma Create_table:
  "case run_state (Create os cfg req) s of (r, s') \<Rightarrow>
     (case r of
        None \<Rightarrow>
          validateCreateRequest cfg req = None \<and>
          map_of (na_sandboxes s) (sb_SandboxID req) = None \<and>
          map_of (na_sandboxes s') =
            (map_of (na_sandboxes s))(sb_SandboxID req \<mapsto> new_sandbox cfg req)
      | Some e \<Rightarrow>
          na_sandboxes s' = na_sandboxes s \<and>
          cleaned_up (sandboxBase cfg (sb_SandboxID req)) (new_events s s'))"
proof -
  let ?base = "sandboxBase cfg (sb_SandboxID req)"
  define Q where "Q = (\<lambda>(r :: go_error option) (s' :: 'a NsjailAdapter_scheme). case r of
        None \<Rightarrow>
          validateCreateRequest cfg req = None \<and>
          map_of (na_sandboxes s) (sb_SandboxID req) = None \<and>
          map_of (na_sandboxes s') =
            (map_of (na_sandboxes s))(sb_SandboxID req \<mapsto> new_sandbox cfg req)
      | Some e \<Rightarrow>
          na_sandboxes s' = na_sandboxes s \<and> cleaned_up ?base (new_events s s'))"
  have finish: "wp (create_finish os cfg req h) Q (s1\<lparr>na_trace := na_trace s1 @ es\<rparr>)"
    if "extends s s1" "map_of (na_sandboxes s) (sb_SandboxID req) = None"
      "validateCreateRequest cfg req = None" for h s1 es
    using that
    by (auto simp: Q_def create_finish_def wp_simps remove_all_def extends_def new_events_def
          prefix_def update_conv' split: option.split)
  have "wp (Create os cfg req) Q s"
  proof (cases "validateCreateRequest cfg req")
    case None
    have "wp (create_prepare os cfg req)
       (\<lambda>e. wp (case e of Some err \<Rightarrow> State_Monad.return (Some err)
          | None \<Rightarrow> State_Monad.bind (create_hook os cfg req) (create_finish os cfg req)) Q) s"
    proof (rule wp_mono [OF wp_create_prepare])
      fix e :: "go_error option" and s1 :: "'a NsjailAdapter_scheme"
      assume *: "extends s s1 \<and> (case e of
           None \<Rightarrow> map_of (na_sandboxes s) (sb_SandboxID req) = None
         | Some e \<Rightarrow> cleaned_up ?base (new_events s s1))"
      show "wp (case e of Some err \<Rightarrow> State_Monad.return (Some err)
          | None \<Rightarrow> State_Monad.bind (create_hook os cfg req) (create_finish os cfg req)) Q s1"
      proof (cases e)
        case n: None
        show ?thesis
          unfolding n option.case wp_bind
          by (rule wp_os_only [OF create_hook_os_only], rule finish) (use * n None in simp_all)
      next
        case (Some err)
        then show ?thesis using * by (simp add: wp_simps Q_def extends_def)
      qed
    qed
    then show ?thesis by (simp add: Create_def None wp_simps)
  qed (simp add: Create_def wp_simps new_events_def Q_def)
  then show ?thesis by (simp add: wp_def Q_def)
qed

text \<open>
  C30.  Creating a sandbox succeeds only for a valid request with an id that is not in use,
  and then adds exactly that sandbox to the table.  When it fails, the table is unchanged,
  and if the workspace directory had already been made then the directory of the sandbox is
  removed as the last step.
\<close>

theorem Create_spec:
  "case run_state (Create os cfg req) s of (r, s') \<Rightarrow>
     (case r of
        None \<Rightarrow>
          validateCreateRequest cfg req = None \<and>
          map_of (na_sandboxes s) (sb_SandboxID req) = None \<and>
          map_of (na_sandboxes s') =
            (map_of (na_sandboxes s))(sb_SandboxID req \<mapsto> new_sandbox cfg req)
      | Some e \<Rightarrow>
          na_sandboxes s' = na_sandboxes s \<and>
          cleaned_up (sandboxBase cfg (sb_SandboxID req)) (new_events s s'))"
  by (rule Create_table)

section \<open>The invariant of the table\<close>

definition entry_ok :: "AdapterConfig \<Rightarrow> bytes \<times> sandbox \<Rightarrow> bool" where
  "entry_ok cfg e \<longleftrightarrow>
     sb_SandboxID (sx_req (snd e)) = fst e \<and> snd e = new_sandbox cfg (sx_req (snd e)) \<and>
     validateCreateRequest cfg (sx_req (snd e)) = None"

definition adapter_inv :: "AdapterConfig \<Rightarrow> 'z NsjailAdapter_scheme \<Rightarrow> bool" where
  "adapter_inv cfg s \<longleftrightarrow>
     distinct (map fst (na_sandboxes s)) \<and> list_all (entry_ok cfg) (na_sandboxes s)"

lemma adapter_inv_os_only:
  "adapter_inv cfg s \<Longrightarrow> adapter_inv cfg (s\<lparr>na_trace := t\<rparr>)"
  by (simp add: adapter_inv_def)

lemma adapter_inv_register:
  assumes "adapter_inv cfg s" and "validateCreateRequest cfg req = None"
  shows "adapter_inv cfg
    (s\<lparr>na_sandboxes := AList.update (sb_SandboxID req) (new_sandbox cfg req) (na_sandboxes s)\<rparr>)"
proof -
  have "set (AList.update k v al) \<subseteq> insert (k, v) (set al)" for k and v :: sandbox and al :: "(bytes \<times> sandbox) list"
    by (induction al) auto
  then show ?thesis
    using assms unfolding adapter_inv_def list_all_iff
    by (fastforce simp: distinct_update entry_ok_def new_sandbox_def)
qed

lemma adapter_inv_delete:
  "adapter_inv cfg s \<Longrightarrow> adapter_inv cfg (s\<lparr>na_sandboxes := AList.delete i (na_sandboxes s)\<rparr>)"
  by (auto simp: adapter_inv_def distinct_map_filter list_all_iff AList.delete_eq)

lemma map_of_entry_ok:
  assumes "adapter_inv cfg s" and "map_of (na_sandboxes s) i = Some sb"
  shows "sb_SandboxID (sx_req sb) = i" "sb = new_sandbox cfg (sx_req sb)"
    "validateCreateRequest cfg (sx_req sb) = None"
  using map_of_SomeD [OF assms(2)] assms(1) by (auto simp: adapter_inv_def list_all_iff entry_ok_def)

section \<open>Deleting\<close>

text \<open>
  C31.  Deleting an unknown sandbox changes nothing and touches nothing.  Deleting a known one
  removes exactly that entry from the table, runs the teardown script if there is one, and
  removes the sandbox's own directory as the last step, even when the script fails.
\<close>

theorem Delete_spec:
  assumes "adapter_inv cfg s" and "ac_SandboxRoot cfg \<noteq> []"
  shows "case run_state (Delete os i) s of (r, s') \<Rightarrow>
     (case map_of (na_sandboxes s) i of
        None \<Rightarrow> r = Some (errNotFound i) \<and> s' = s
      | Some sb \<Rightarrow>
          r = None \<and> na_sandboxes s' = AList.delete i (na_sandboxes s) \<and>
          (\<exists>x hook. new_events s s' = hook @ [OsRemoveAll (sandboxBase cfg i) x] \<and>
             map (\<lambda>e. case e of OsRun c _ \<Rightarrow> rc_Path c | _ \<Rightarrow> []) hook =
               (if sb_TeardownScript (sx_req sb) = [] then [] else [sb_TeardownScript (sx_req sb)])))"
proof (cases "map_of (na_sandboxes s) i")
  case None
  then show ?thesis by (simp add: Delete_def)
next
  case (Some sb)
  note ok = map_of_entry_ok [OF assms(1) Some]
  have "Dir (sx_workspace sb) = sandboxBase cfg i"
    using Dir_workspace [OF assms(2), of "sx_req sb"] ok(1,2) by simp
  then have "wp (Delete os i) (\<lambda>r s'. r = None \<and> na_sandboxes s' = AList.delete i (na_sandboxes s) \<and>
          (\<exists>x hook. new_events s s' = hook @ [OsRemoveAll (sandboxBase cfg i) x] \<and>
             map (\<lambda>e. case e of OsRun c _ \<Rightarrow> rc_Path c | _ \<Rightarrow> []) hook =
               (if sb_TeardownScript (sx_req sb) = [] then [] else [sb_TeardownScript (sx_req sb)]))) s"
    using Some by (simp add: Delete_def runHookScript_def hook_call_def remove_all_def wp_simps
        Let_def new_events_def)
  with Some show ?thesis by (simp add: wp_def)
qed

text \<open>An operating system on which every call succeeds, and a table with one sandbox.\<close>

definition demo_end :: proc_end where
  "demo_end = \<lparr>pe_ExitCode = 0, pe_ExitText = [], pe_Watch = None, pe_Ctx = None\<rparr>"

definition demo_run :: "bytes \<Rightarrow> run_result" where
  "demo_run out = \<lparr>rr_StartErr = None, rr_Out = [out], rr_Err = [], rr_StdinErr = None,
     rr_End = demo_end\<rparr>"

definition demo_os :: os_env where
  "demo_os =
     \<lparr>os_MkdirAll = (\<lambda>_ _. None), os_RemoveAll = (\<lambda>_ _. None), os_Open = (\<lambda>_ _. None),
      os_OpenFile = (\<lambda>_ _. None), os_Copy = (\<lambda>_ _ _. None), os_Close = (\<lambda>_ _. None),
      os_Stat = (\<lambda>_ _. None), os_CreateTemp = (\<lambda>_. Inr ''/tmp/c''),
      os_WriteString = (\<lambda>_ _ _. None), os_Ioctl = (\<lambda>_ _. Inr 0),
      os_Run = (\<lambda>_ _. demo_run ''abc''), os_RunPTY = (\<lambda>_ _. demo_run ''abc''),
      os_Stream = (\<lambda>_ _. \<lparr>sr_StdoutPipe = None, sr_StderrPipe = None, sr_Start = None,
         sr_Sched = [ReadChunk Stdout ''abc''], sr_End = demo_end\<rparr>),
      os_Environ = []\<rparr>"

definition demo_adapter :: NsjailAdapter where
  "demo_adapter = \<lparr>na_sandboxes = [(''s1'', new_sandbox demo_cfg demo_req)], na_trace = []\<rparr>"

lemma demo_adapter_inv: "adapter_inv demo_cfg demo_adapter"
  using demo_valid(1)
  by (simp add: adapter_inv_def demo_adapter_def entry_ok_def new_sandbox_def)
     (simp add: demo_req_def zero_SandboxCreateBody_def)

theorem Delete_spec_witness:
  "adapter_inv demo_cfg demo_adapter \<and>
   (case run_state (Delete demo_os ''s1'') demo_adapter of (r, s') \<Rightarrow>
      r = None \<and> na_sandboxes s' = [])"
  using Delete_spec [OF demo_adapter_inv demo_valid(3), where os = demo_os and i = "''s1''"] demo_adapter_inv
  by (simp add: demo_adapter_def case_prod_beta AList.delete_eq)

section \<open>Confinement to the sandbox's directory\<close>

lemma Create_writes:
  assumes "ac_SandboxRoot cfg \<noteq> []"
  shows "list_all (writes_in (sandboxBase cfg (sb_SandboxID req)))
    (new_events s (snd (run_state (Create os cfg req) s)))"
proof (cases "validateCreateRequest cfg req")
  case None
  let ?base = "sandboxBase cfg (sb_SandboxID req)"
  define Q where "Q = (\<lambda>(r :: go_error option) (s' :: 'a NsjailAdapter_scheme).
    list_all (writes_in ?base) (new_events s s'))"
  have ok: "request_permitted cfg req" using None by (simp add: validateCreateRequest_None)
  have "wp (create_prepare os cfg req)
     (\<lambda>e. wp (case e of Some err \<Rightarrow> State_Monad.return (Some err)
        | None \<Rightarrow> State_Monad.bind (create_hook os cfg req) (create_finish os cfg req)) Q) s"
  proof (rule wp_os_only [OF create_prepare_writes [OF assms ok]])
    fix e :: "go_error option" and es
    assume es: "list_all (writes_in ?base) es"
    have f: "wp (create_finish os cfg req h) Q
        (s\<lparr>na_trace := na_trace s @ es\<rparr>\<lparr>na_trace :=
           na_trace (s\<lparr>na_trace := na_trace s @ es\<rparr>) @ es'\<rparr>)"
      if "list_all (writes_in ?base) es'" for h es'
      using es that
      by (auto simp: create_finish_def wp_simps remove_all_def Q_def new_events_def
          split: option.split)
    show "wp (case e of Some err \<Rightarrow> State_Monad.return (Some err)
        | None \<Rightarrow> State_Monad.bind (create_hook os cfg req) (create_finish os cfg req)) Q
        (s\<lparr>na_trace := na_trace s @ es\<rparr>)"
    proof (cases e)
      case n: None
      show ?thesis
        unfolding n option.case wp_bind
        by (rule wp_os_only [OF create_hook_writes], rule f)
    qed (simp add: wp_simps Q_def new_events_def es)
  qed
  then have "wp (Create os cfg req) Q s" by (simp add: Create_def None wp_simps)
  then show ?thesis by (simp add: wp_def Q_def case_prod_beta)
qed (simp add: Create_def new_events_def)

lemma Delete_writes:
  assumes "adapter_inv cfg s" and "ac_SandboxRoot cfg \<noteq> []"
  shows "list_all (writes_in (sandboxBase cfg i)) (new_events s (snd (run_state (Delete os i) s)))"
proof (cases "map_of (na_sandboxes s) i")
  case None
  then show ?thesis by (simp add: Delete_def new_events_def)
next
  case (Some sb)
  note ok = map_of_entry_ok [OF assms(1) Some]
  have d: "Dir (sx_workspace sb) = sandboxBase cfg i"
    using Dir_workspace [OF assms(2), of "sx_req sb"] ok(1,2) by simp
  have "wp (Delete os i) (\<lambda>r s'. list_all (writes_in (sandboxBase cfg i)) (new_events s s')) s"
    using Some d by (simp add: Delete_def runHookScript_def remove_all_def wp_simps
        Let_def new_events_def)
  then show ?thesis by (simp add: wp_def case_prod_beta)
qed

lemma sandbox_dirs_disjoint:
  assumes "ac_SandboxRoot cfg \<noteq> []" and "plain_elem i" and "plain_elem j"
    and "within (sandboxBase cfg i) p" and "within (sandboxBase cfg j) p"
  shows "i = j"
proof -
  have "path_parts (sandboxBase cfg k) = path_parts (ac_SandboxRoot cfg) @ [k]"
    if "plain_elem k" for k
    using path_parts_Join [OF assms(1) that] by (simp add: sandboxBase_def)
  then have "prefix (path_parts (ac_SandboxRoot cfg) @ [i]) (path_parts p)"
    "prefix (path_parts (ac_SandboxRoot cfg) @ [j]) (path_parts p)"
    using assms(2-5) by (simp_all add: within_def)
  then show ?thesis by (auto simp: prefix_def)
qed

text \<open>
  C4.  Creating and deleting a sandbox with a valid id writes, creates and removes files only
  in the directory of that sandbox, which lies below the sandbox root; the directories of
  two different sandboxes have no path in common.
\<close>

theorem sandbox_confinement:
  assumes "ac_SandboxRoot cfg \<noteq> []" and "adapter_inv cfg s"
    and "ValidateSandboxID (sb_SandboxID req) = None" and "ValidateSandboxID j = None"
    and "j \<noteq> sb_SandboxID req"
  shows "list_all (writes_in (sandboxBase cfg (sb_SandboxID req)))
       (new_events s (snd (run_state (Create os cfg req) s))) \<and>
     list_all (writes_in (sandboxBase cfg (sb_SandboxID req)))
       (new_events s (snd (run_state (Delete os (sb_SandboxID req)) s))) \<and>
     within (ac_SandboxRoot cfg) (sandboxBase cfg (sb_SandboxID req)) \<and>
     \<not> (within (sandboxBase cfg (sb_SandboxID req)) p \<and> within (sandboxBase cfg j) p)"
proof -
  have plain: "plain_elem (sb_SandboxID req)" "plain_elem j"
    using assms(3,4)
    by (simp_all add: ValidateSandboxID_def validateLabelBackedName_None valid_name_plain)
  show ?thesis
    using Create_writes [OF assms(1)] Delete_writes [OF assms(2,1)]
      sandboxBase_within [OF assms(1) plain(1)] sandbox_dirs_disjoint [OF assms(1) plain] assms(5)
    by blast
qed

lemma demo_other_id: "ValidateSandboxID ''s2'' = None" "''s2'' \<noteq> sb_SandboxID demo_req"
  by (simp_all add: ValidateSandboxID_def validateLabelBackedName_None valid_name_def demo_req_def
        lower_alnum_def byte_in_def)

theorem sandbox_confinement_witness:
  "list_all (writes_in (sandboxBase demo_cfg ''s1''))
     (new_events demo_adapter (snd (run_state (Delete demo_os ''s1'') demo_adapter))) \<and>
   \<not> within (sandboxBase demo_cfg ''s1'') ''/var/boxy/sandboxes/s2/workspace''"
proof -
  have i: "sb_SandboxID demo_req = ''s1''" by (simp add: demo_req_def)
  have "within (sandboxBase demo_cfg ''s2'') ''/var/boxy/sandboxes/s2/workspace''"
    by (simp add: within_def sandboxBase_def demo_cfg_def Join_pair Clean_def path_parts_def)
  then show ?thesis
    using sandbox_confinement [OF demo_valid(3) demo_adapter_inv demo_valid(2) demo_other_id,
        of demo_os "''/var/boxy/sandboxes/s2/workspace''"] unfolding i by blast
qed

text \<open>
  The controller itself does not check the form of the id: a create request whose id
  climbs out of the sandbox root is carried out, and makes directories outside it.
\<close>

theorem create_escapes_root:
  "let req = demo_req\<lparr>sb_SandboxID := ''../../../etc/x''\<rparr>;
       (r, s') = run_state (Create demo_os demo_cfg req) NewNsjailAdapter
   in r = None \<and> \<not> within (ac_SandboxRoot demo_cfg) (sandboxBase demo_cfg (sb_SandboxID req)) \<and>
      hd (na_trace s') = OsMkdirAll ''/etc/x/workspace'' None"
  by code_simp

section \<open>Executions\<close>

definition is_stat :: "os_event \<Rightarrow> bool" where
  "is_stat e \<longleftrightarrow> (case e of OsStat p x \<Rightarrow> True | _ \<Rightarrow> False)"

definition resolved :: "bytes \<Rightarrow> bytes \<Rightarrow> bool" where
  "resolved command c \<longleftrightarrow> c = command \<or> (\<exists>d \<in> set searchDirs. c = d @ ''/'' @ command)"

lemma wp_search_chroot:
  assumes "set ds \<subseteq> set searchDirs"
    and "\<And>c es. list_all is_stat es \<Longrightarrow> resolved command c \<Longrightarrow>
           Q c (s\<lparr>na_trace := na_trace s @ es\<rparr>)"
  shows "wp (search_chroot os command chroot ds) Q s"
  using assms
proof (induction ds arbitrary: s)
  case Nil
  from Nil.prems(2) [of "[]" command] show ?case by (simp add: wp_simps resolved_def)
next
  case (Cons d ds)
  let ?p = "chroot @ d @ ''/'' @ command"
  let ?x = "os_Stat os (na_trace s) ?p"
  have st: "is_stat (OsStat ?p ?x)" by (simp add: is_stat_def)
  have "wp (search_chroot os command chroot ds) Q (s\<lparr>na_trace := na_trace s @ [OsStat ?p ?x]\<rparr>)"
  proof (rule Cons.IH)
    fix c es
    assume "list_all is_stat es" "resolved command c"
    with Cons.prems(2) [of "OsStat ?p ?x # es" c] st
    show "Q c (s\<lparr>na_trace := na_trace s @ [OsStat ?p ?x]\<rparr>
        \<lparr>na_trace := na_trace (s\<lparr>na_trace := na_trace s @ [OsStat ?p ?x]\<rparr>) @ es\<rparr>)"
      by simp
  qed (use Cons.prems(1) in simp)
  moreover have "resolved command (d @ ''/'' @ command)"
    using Cons.prems(1) by (auto simp: resolved_def)
  ultimately show ?case
    using Cons.prems(2) [of "[OsStat ?p ?x]" "d @ ''/'' @ command"] st
    by (cases ?x) (simp_all add: wp_simps Let_def)
qed

lemma wp_resolveCommand:
  assumes "\<And>c es. list_all is_stat es \<Longrightarrow> resolved command c \<Longrightarrow>
     Q c (s\<lparr>na_trace := na_trace s @ es\<rparr>)"
  shows "wp (resolveCommandInChroot os command chroot) Q s"
  using assms assms [of "[]" command] wp_search_chroot [of searchDirs command Q s os chroot]
  by (simp add: resolveCommandInChroot_def wp_simps resolved_def)

text \<open>The command line with which nsjail is started.\<close>

definition jail_call ::
  "os_env \<Rightarrow> AdapterConfig \<Rightarrow> bytes \<Rightarrow> bytes \<Rightarrow> bytes list \<Rightarrow> stdin \<Rightarrow> int \<Rightarrow> run_call" where
  "jail_call os cfg file c args stdin timeoutSecs =
     \<lparr>rc_Path = ac_NsjailPath cfg, rc_Args = [''--config'', file, ''--'', c] @ args,
      rc_Stdin = stdin, rc_ExtraEnv = os_Environ os, rc_Timeout = execContext timeoutSecs\<rparr>"

text \<open>
  The events of an execution: looking the command up; a temporary file; the configuration
  of this sandbox written to it; one run of nsjail on that file; the file removed.
\<close>

definition jail_events ::
  "os_env \<Rightarrow> AdapterConfig \<Rightarrow> sandbox \<Rightarrow> bytes \<Rightarrow> bytes list \<Rightarrow> str_map \<Rightarrow> int \<Rightarrow> stdin \<Rightarrow>
     go_error + ExecResponseBody \<Rightarrow> os_event list \<Rightarrow> bool" where
  "jail_events os cfg sb command args env t stdin r evs \<longleftrightarrow>
     (\<exists>stats es. evs = stats @ es \<and> list_all is_stat stats \<and>
       (let txt = ToTextProto (buildNsjailConfig sb (jail_rootfs cfg sb) env t) in
        (\<exists>e. es = [OsCreateTemp (Inl e)] \<and> isl r) \<or>
        (\<exists>f e. es = [OsCreateTemp (Inr f), OsWriteString f txt (Some e), OsRemove f] \<and> isl r) \<or>
        (\<exists>f c res. es = [OsCreateTemp (Inr f), OsWriteString f txt None,
            OsRun (jail_call os cfg f c args stdin t) res, OsRemove f] \<and>
           resolved command c \<and> r = run_response cfg t res)))"

lemma wp_execWithStdin:
  assumes "map_of (na_sandboxes s) i = Some sb"
    and "\<And>r es. jail_events os cfg sb command args env t stdin r es \<Longrightarrow>
       Q r (s\<lparr>na_trace := na_trace s @ es\<rparr>)"
  shows "wp (execWithStdin os cfg i command args env t False stdin) Q s"
proof -
  let ?txt = "ToTextProto (buildNsjailConfig sb (jail_rootfs cfg sb) env t)"
  have Q: "Q r (s\<lparr>na_trace := na_trace s @ stats @ es\<rparr>)"
    if "list_all is_stat stats"
      "(\<exists>e. es = [OsCreateTemp (Inl e)] \<and> isl r) \<or>
       (\<exists>f e. es = [OsCreateTemp (Inr f), OsWriteString f ?txt (Some e), OsRemove f] \<and> isl r) \<or>
       (\<exists>f c res. es = [OsCreateTemp (Inr f), OsWriteString f ?txt None,
            OsRun (jail_call os cfg f c args stdin t) res, OsRemove f] \<and>
           resolved command c \<and> r = run_response cfg t res)" for r stats es
    by (rule assms(2)) (unfold jail_events_def Let_def, use that in blast)
  show ?thesis
    unfolding execWithStdin_def with_jail_def wp_bind wp_get assms(1) option.case Let_def
    by (rule wp_resolveCommand)
       (auto simp: wp_simps exec_run_def jail_call_def split: sum.split option.split intro!: Q)
qed


section \<open>Editing a file\<close>

text \<open>The contents that the processes of a list of events were given to write.\<close>

fun written_by :: "os_event \<Rightarrow> bytes list" where
  "written_by (OsRun c r) = (case rc_Stdin c of StdinBytes b \<Rightarrow> [b] | _ \<Rightarrow> [])"
| "written_by _ = []"

definition written :: "os_event list \<Rightarrow> bytes list" where
  "written evs = concat (map written_by evs)"

lemma written_simps [simp]:
  "written [] = []" "written (e # es) = written_by e @ written es"
  "written (es @ es') = written es @ written es'"
  by (simp_all add: written_def)

text \<open>What a process of the list of events printed, as the adapter captured it.\<close>

definition printed :: "AdapterConfig \<Rightarrow> os_event list \<Rightarrow> bytes \<Rightarrow> bool" where
  "printed cfg evs out \<longleftrightarrow> (\<exists>c r. OsRun c r \<in> set evs \<and>
     out = lw_buf (fst (io_Copy (new_limitWriter (ac_MaxOutputBytes cfg)) (rr_Out r))))"

lemma written_stats: "list_all is_stat stats \<Longrightarrow> written stats = []"
  by (induction stats) (auto simp: is_stat_def split: os_event.splits)

lemma jail_events_written:
  assumes "jail_events os cfg sb command args env t stdin r es"
  shows "written es = (case stdin of StdinBytes b \<Rightarrow> [b] | _ \<Rightarrow> []) \<or> written es = [] \<and> isl r"
  using assms by (auto simp: jail_events_def Let_def written_stats jail_call_def)

lemma run_response_stdout:
  assumes "run_response cfg t r = Inr x" and "xr_ExitCode x = 0"
  shows "xr_Stdout x = lw_buf (fst (io_Copy (new_limitWriter (ac_MaxOutputBytes cfg)) (rr_Out r)))"
  using assms
  by (auto simp: run_response_def buildExecResponse_def case_prod_beta split: option.splits if_splits)

lemma jail_events_printed:
  assumes "jail_events os cfg sb command args env t stdin (Inr x) es" and "xr_ExitCode x = 0"
  shows "printed cfg es (xr_Stdout x)"
  using assms(1) run_response_stdout [OF _ assms(2)]
  unfolding jail_events_def Let_def printed_def by fastforce

lemma wp_ReadFile:
  assumes "map_of (na_sandboxes s) i = Some sb"
    and "\<And>e es. written es = [] \<Longrightarrow> Q (Inl e) (s\<lparr>na_trace := na_trace s @ es\<rparr>)"
    and "\<And>c es. written es = [] \<Longrightarrow> printed cfg es c \<Longrightarrow>
       Q (Inr (c, ac_MaxOutputBytes cfg > 0 \<and> int (length c) \<ge> ac_MaxOutputBytes cfg))
         (s\<lparr>na_trace := na_trace s @ es\<rparr>)"
  shows "wp (ReadFile os cfg i path) Q s"
  unfolding ReadFile_def Exec_def wp_bind
proof (rule wp_execWithStdin [OF assms(1)])
  fix r es
  assume j: "jail_events os cfg sb ''sh'' [''-c'', cat_script, ''sh'', sandboxFilePath path] []
    fileOpTimeoutSecs NoStdin r es"
  then have "written es = []" using jail_events_written [OF j] by auto
  then show "wp (State_Monad.return (case r of
          Inl e \<Rightarrow> Inl e
        | Inr res \<Rightarrow>
            if xr_ExitCode res \<noteq> 0 then Inl (errBadRequest (fileOpError ''read'' (xr_Stderr res)))
            else Inr (xr_Stdout res,
              ac_MaxOutputBytes cfg > 0 \<and> int (length (xr_Stdout res)) \<ge> ac_MaxOutputBytes cfg)))
      Q (s\<lparr>na_trace := na_trace s @ es\<rparr>)"
    using assms(2,3) jail_events_printed j by (cases r) (auto simp: wp_simps)
qed

lemma wp_WriteFile:
  assumes "map_of (na_sandboxes s) i = Some sb"
    and "\<And>e es. written es = [] \<or> written es = [content] \<Longrightarrow>
       Q (Inl e) (s\<lparr>na_trace := na_trace s @ es\<rparr>)"
    and "\<And>es. written es = [content] \<Longrightarrow> Q (Inr (length content)) (s\<lparr>na_trace := na_trace s @ es\<rparr>)"
  shows "wp (WriteFile os cfg i path content) Q s"
  unfolding WriteFile_def wp_bind
proof (rule wp_execWithStdin [OF assms(1)])
  fix r es
  assume j: "jail_events os cfg sb ''sh'' [''-c'', write_script, ''sh'', sandboxFilePath path] []
    fileOpTimeoutSecs (StdinBytes content) r es"
  then show "wp (State_Monad.return (case r of
          Inl e \<Rightarrow> Inl e
        | Inr res \<Rightarrow>
            if xr_ExitCode res \<noteq> 0 then Inl (errBadRequest (fileOpError ''write'' (xr_Stderr res)))
            else Inr (length content)))
      Q (s\<lparr>na_trace := na_trace s @ es\<rparr>)"
    using assms(2,3) jail_events_written [OF j] by (cases r) (auto simp: wp_simps)
qed

lemma edit_content_Inr:
  assumes "edit_content c old new ra = Inr (c', n)" and "old \<noteq> []"
  shows "\<exists>ps. c = glue old ps \<and> list_all (\<lambda>p. \<not> Contains p old) ps \<and> length ps = Suc n \<and> 0 < n \<and>
     c' = glue new ps \<and> (ra \<or> n = 1)"
proof -
  obtain ps where ps: "length ps = Suc (str_Count c old)" "c = glue old ps"
    "ReplaceAll c old new = glue new ps" "ReplaceFirst c old new = glue_first new old ps"
    "list_all (\<lambda>p. \<not> Contains p old) ps" using occurrences [OF assms(2)] by blast
  have cnt: "str_Count c old \<noteq> 0" "ra \<or> str_Count c old = 1"
    and r: "if ra then c' = ReplaceAll c old new \<and> n = str_Count c old
         else c' = ReplaceFirst c old new \<and> n = 1"
    using assms(1) by (auto simp: edit_content_def Let_def split: if_splits)
  have "c' = glue new ps \<and> n = str_Count c old"
  proof (cases ra)
    case False
    then have "str_Count c old = 1" using cnt by simp
    then obtain p q where "ps = [p, q]" using ps(1) by (auto simp: length_Suc_conv)
    with False r ps \<open>str_Count c old = 1\<close> show ?thesis by simp
  qed (use r ps in simp)
  with ps cnt show ?thesis by (intro exI [of _ ps]) auto
qed

text \<open>
  What an edit does, from its result and its events: it fails and writes nothing; or the file
  could be read completely and holds the old string, and the only content written is the file
  with the occurrences replaced.
\<close>

definition edit_outcome ::
  "AdapterConfig \<Rightarrow> bytes \<Rightarrow> bytes \<Rightarrow> bool \<Rightarrow> go_error + nat \<Rightarrow> os_event list \<Rightarrow> bool" where
  "edit_outcome cfg old new ra r evs \<longleftrightarrow>
     isl r \<and> written evs = [] \<or>
     (\<exists>ps n. list_all (\<lambda>p. \<not> Contains p old) ps \<and> length ps = Suc n \<and> 0 < n \<and> (ra \<or> n = 1) \<and>
        printed cfg evs (glue old ps) \<and>
        (ac_MaxOutputBytes cfg \<le> 0 \<or> int (length (glue old ps)) < ac_MaxOutputBytes cfg) \<and>
        (if isl r then written evs \<in> {[], [glue new ps]} else r = Inr n \<and> written evs = [glue new ps]))"

lemma printed_append: "printed cfg es c \<Longrightarrow> printed cfg (es @ es') c"
  by (auto simp: printed_def)

lemma wp_edit_write:
  assumes "map_of (na_sandboxes s) i = Some sb" and "old \<noteq> []"
    and es: "written es = []" "printed cfg es c"
  shows "wp (edit_write os cfg i path old new ra c
       (ac_MaxOutputBytes cfg > 0 \<and> int (length c) \<ge> ac_MaxOutputBytes cfg))
     (\<lambda>r s'. edit_outcome cfg old new ra r (new_events s s')) (s\<lparr>na_trace := na_trace s @ es\<rparr>)"
proof (cases "ac_MaxOutputBytes cfg > 0 \<and> int (length c) \<ge> ac_MaxOutputBytes cfg")
  case True
  with es show ?thesis by (simp add: edit_write_def wp_simps edit_outcome_def new_events_def)
next
  case False
  show ?thesis
  proof (cases "edit_content c old new ra")
    case (Inl e)
    with False es show ?thesis
      by (simp add: edit_write_def wp_simps edit_outcome_def new_events_def)
  next
    case (Inr p)
    obtain c' n where p: "p = (c', n)" by fastforce
    have "edit_content c old new ra = Inr (c', n)" using Inr p by simp
    from edit_content_Inr [OF this assms(2)] obtain ps where *: "c = glue old ps \<and>
      list_all (\<lambda>p. \<not> Contains p old) ps \<and> length ps = Suc n \<and> 0 < n \<and> c' = glue new ps \<and> (ra \<or> n = 1)" ..
    note ps = conjunct1 [OF *] conjunct2 [OF *]
    have lim: "ac_MaxOutputBytes cfg \<le> 0 \<or> int (length (glue old ps)) < ac_MaxOutputBytes cfg"
      using False ps(1) by auto
    have out: "edit_outcome cfg old new ra r (es @ es')"
      if "if isl r then written es' \<in> {[], [glue new ps]} else r = Inr n \<and> written es' = [glue new ps]"
      for r es'
      unfolding edit_outcome_def proof (rule disjI2, rule exI [of _ ps], rule exI [of _ n])
      show "list_all (\<lambda>p. \<not> Contains p old) ps \<and> length ps = Suc n \<and> 0 < n \<and> (ra \<or> n = 1) \<and>
        printed cfg (es @ es') (glue old ps) \<and>
        (ac_MaxOutputBytes cfg \<le> 0 \<or> int (length (glue old ps)) < ac_MaxOutputBytes cfg) \<and>
        (if isl r then written (es @ es') \<in> {[], [glue new ps]}
         else r = Inr n \<and> written (es @ es') = [glue new ps])"
        using ps lim es(1) that printed_append [OF es(2)] by (cases "isl r") simp_all
    qed
    have s: "map_of (na_sandboxes (s\<lparr>na_trace := na_trace s @ es\<rparr>)) i = Some sb"
      using assms(1) by simp
    show ?thesis
      unfolding edit_write_def if_not_P [OF False] Inr p sum.case prod.case wp_bind
      by (rule wp_WriteFile [OF s]) (auto simp: wp_simps new_events_def ps(2) intro!: out)
  qed
qed

text \<open>
  C33.  An edit writes at most once, and only when the file could be read completely and the
  old string occurs in it: exactly once, or at least once when all occurrences are to be
  replaced.  What it writes is the file with each of these occurrences, and nothing else,
  replaced, and the number it returns is how many were replaced.
\<close>

theorem EditFile_spec:
  "case run_state (EditFile os cfg i path old new ra) s of (r, s') \<Rightarrow>
     edit_outcome cfg old new ra r (new_events s s')"
proof -
  have "wp (EditFile os cfg i path old new ra)
      (\<lambda>r s'. edit_outcome cfg old new ra r (new_events s s')) s"
  proof (cases "map_of (na_sandboxes s) i")
    case None
    then show ?thesis
      by (simp add: EditFile_def ReadFile_def Exec_def execWithStdin_def with_jail_def wp_simps
            edit_outcome_def new_events_def)
  next
    case (Some sb)
    show ?thesis
    proof (cases "old = []")
      case False
      show ?thesis
        unfolding EditFile_def if_not_P [OF False] wp_bind
        by (rule wp_ReadFile [OF Some])
           (auto simp: wp_return edit_outcome_def [of _ _ _ _ "Inl _"] new_events_def
             intro!: wp_edit_write [OF Some False, unfolded new_events_def])
    qed (simp add: EditFile_def wp_simps edit_outcome_def new_events_def)
  qed
  then show ?thesis by (simp add: wp_def)
qed

end
