(* ===== verification/Controller_Server.thy ===== *)
theory Controller_Server
  imports Controller_Api Go_Base64 Nsjail_Adapter_Props
begin

text \<open>
  The HTTP server of the controller, \<open>cmd/boxy-controller/server.go\<close>: routing, the token
  middleware and the handlers.  A handler gets the decoded body of the request, or \<open>None\<close>
  when it is not valid JSON of the expected type, and runs in the state of the adapter
  extended by the number of execution slots in use and the metrics recorded so far.
\<close>

section \<open>State and configuration\<close>

record ctl_config =
  cc_controllerToken :: bytes
  cc_maxSandboxes :: int
  cc_maxExecConcurrency :: int
  cc_maxOutputBytes :: int
  cc_adapterConfig :: AdapterConfig

datatype ctl_metric =
    SandboxCreated
  | SandboxDeleted
  | ExecThrottled
  | ExecRecorded bytes bytes nat

record controller = NsjailAdapter +
  cs_execSem :: nat
  cs_metrics :: "ctl_metric list"

type_synonym 'a ctl = "(controller, 'a) state"

text \<open>The capacity of the channel \<open>execSem\<close>.\<close>

definition sem_capacity :: "ctl_config \<Rightarrow> nat" where
  "sem_capacity cfg =
     (let concurrency = cc_maxExecConcurrency cfg
      in if concurrency \<le> 0 then 50 else nat concurrency)"

definition newServer :: controller where
  "newServer = \<lparr>na_sandboxes = [], na_trace = [], cs_execSem = 0, cs_metrics = []\<rparr>"

definition record_metric :: "ctl_metric \<Rightarrow> unit ctl" where
  "record_metric m = State_Monad.update (\<lambda>s. s\<lparr>cs_metrics := cs_metrics s @ [m]\<rparr>)"

section \<open>Answers\<close>

definition writeJSON :: "int \<Rightarrow> ctl_body \<Rightarrow> ctl_resp" where
  "writeJSON code v = \<lparr>rs_Status = code, rs_Body = v\<rparr>"

definition writeErr :: "int \<Rightarrow> bytes \<Rightarrow> ctl_resp" where
  "writeErr code msg = writeJSON code (BodyError msg)"

definition adapterErrToHTTP :: "go_error \<Rightarrow> int \<times> bytes" where
  "adapterErrToHTTP err =
     (case List.find (\<lambda>e. case e of ErrAdapter c t \<Rightarrow> True | _ \<Rightarrow> False) (err_chain err) of
        Some (ErrAdapter c t) \<Rightarrow> (c, t)
      | _ \<Rightarrow> (500, err_msg err))"

definition writeAdapterErr :: "go_error \<Rightarrow> ctl_resp" where
  "writeAdapterErr err = (case adapterErrToHTTP err of (code, msg) \<Rightarrow> writeErr code msg)"

definition trunc_notice :: bytes where
  "trunc_notice = CHR 0x0A # ''[output truncated]''"

definition truncateOutput :: "int \<Rightarrow> bytes \<Rightarrow> bytes" where
  "truncateOutput maxOutputBytes out =
     (if maxOutputBytes \<le> 0 \<or> int (length out) \<le> maxOutputBytes then out
      else
        let cut = maxOutputBytes - int (length trunc_notice);
            cut = (if cut < 0 then 0 else cut)
        in take (nat cut) out @ trunc_notice)"

fun trim_runes :: "nat \<Rightarrow> bytes \<Rightarrow> bytes" where
  "trim_runes 0 b = b"
| "trim_runes (Suc i) b =
     (if b = [] \<or> utf8_Valid b then b else trim_runes i (butlast b))"

text \<open>The loop runs at most \<open>utf8.UTFMax - 1\<close>, that is 3, times.\<close>

definition trimPartialRune :: "bytes \<Rightarrow> bytes" where
  "trimPartialRune b = trim_runes 3 b"

definition execResult :: "ExecResponseBody option \<Rightarrow> bytes" where
  "execResult r =
     (case r of
        None \<Rightarrow> ''error''
      | Some x \<Rightarrow>
          if xr_TimedOut x then ''timeout'' else if xr_ExitCode x \<noteq> 0 then ''nonzero'' else ''ok'')"

section \<open>Execution slots\<close>

text \<open>
  The non-blocking send on \<open>execSem\<close> with its deferred receive around a handler's body; when
  all slots are taken, the request is counted as throttled and refused.
\<close>

definition with_slot :: "ctl_config \<Rightarrow> ctl_resp ctl \<Rightarrow> ctl_resp ctl" where
  "with_slot cfg body = do {
     s \<leftarrow> State_Monad.get;
     if cs_execSem s < sem_capacity cfg then do {
       _ \<leftarrow> State_Monad.update (\<lambda>s. s\<lparr>cs_execSem := cs_execSem s + 1\<rparr>);
       r \<leftarrow> body;
       _ \<leftarrow> State_Monad.update (\<lambda>s. s\<lparr>cs_execSem := cs_execSem s - 1\<rparr>);
       State_Monad.return r
     }
     else do {
       _ \<leftarrow> record_metric ExecThrottled;
       State_Monad.return (writeErr 429 ''concurrency limit reached, try again later'')
     }
   }"

section \<open>Handlers\<close>

definition handleHealth :: "ctl_resp ctl" where
  "handleHealth = State_Monad.return \<lparr>rs_Status = 200, rs_Body = BodyText (''ok'' @ [nl])\<rparr>"

definition create_body :: "createSandboxReq \<Rightarrow> SandboxCreateBody" where
  "create_body req =
     \<lparr>sb_SandboxID = cq_SandboxID req, sb_TTLSeconds = cq_TTLSeconds req, sb_Env = cq_Env req,
      sb_AllowedBinaries = cq_AllowedBinaries req, sb_VM = cq_VM req, sb_Network = cq_Network req,
      sb_Volumes = cq_Volumes req, sb_Patches = cq_Patches req,
      sb_SetupScript = cq_SetupScript req, sb_TeardownScript = cq_TeardownScript req,
      sb_ScriptEnv = cq_ScriptEnv req\<rparr>"

definition handleCreate :: "os_env \<Rightarrow> ctl_config \<Rightarrow> createSandboxReq option \<Rightarrow> ctl_resp ctl" where
  "handleCreate os cfg body =
     (case body of
        None \<Rightarrow> State_Monad.return (writeErr 400 ''invalid json'')
      | Some req \<Rightarrow>
          if TrimSpace (cq_SandboxID req) = []
          then State_Monad.return (writeErr 400 ''sandbox_id required'')
          else do {
            n \<leftarrow> Count;
            if int n \<ge> cc_maxSandboxes cfg
            then State_Monad.return (writeErr 503 ''controller at capacity'')
            else do {
              e \<leftarrow> Create os (cc_adapterConfig cfg) (create_body req);
              case e of
                Some err \<Rightarrow> State_Monad.return (writeAdapterErr err)
              | None \<Rightarrow> do {
                  _ \<leftarrow> record_metric SandboxCreated;
                  State_Monad.return (writeJSON 201 (BodyCreated (cq_SandboxID req)))
                }
            }
          })"

definition handleList :: "ctl_resp ctl" where
  "handleList = do { ids \<leftarrow> ListIDs; State_Monad.return (writeJSON 200 (BodyList ids)) }"

definition handleDelete :: "os_env \<Rightarrow> deleteSandboxReq option \<Rightarrow> ctl_resp ctl" where
  "handleDelete os body =
     (case body of
        None \<Rightarrow> State_Monad.return (writeErr 400 ''invalid json'')
      | Some req \<Rightarrow>
          if TrimSpace (dq_SandboxID req) = []
          then State_Monad.return (writeErr 400 ''sandbox_id required'')
          else do {
            e \<leftarrow> Delete os (dq_SandboxID req);
            case e of
              Some err \<Rightarrow> State_Monad.return (writeAdapterErr err)
            | None \<Rightarrow> do {
                _ \<leftarrow> record_metric SandboxDeleted;
                State_Monad.return \<lparr>rs_Status = 204, rs_Body = BodyNone\<rparr>
              }
          })"

definition exec_timeout :: "execReq \<Rightarrow> int" where
  "exec_timeout req = (if xq_TimeoutSeconds req \<le> 0 then 30 else xq_TimeoutSeconds req)"

definition handleExec :: "os_env \<Rightarrow> ctl_config \<Rightarrow> execReq option \<Rightarrow> ctl_resp ctl" where
  "handleExec os cfg body =
     (case body of
        None \<Rightarrow> State_Monad.return (writeErr 400 ''invalid json'')
      | Some req \<Rightarrow>
          if TrimSpace (xq_SandboxID req) = []
          then State_Monad.return (writeErr 400 ''sandbox_id required'')
          else if TrimSpace (xq_Command req) = []
          then State_Monad.return (writeErr 400 ''command required'')
          else with_slot cfg (do {
            r \<leftarrow> Exec os (cc_adapterConfig cfg) (xq_SandboxID req) (xq_Command req) (xq_Args req)
                   (xq_Env req) (exec_timeout req) (xq_PTY req);
            case r of
              Inl err \<Rightarrow> do {
                _ \<leftarrow> record_metric (ExecRecorded (xq_SandboxID req) ''error'' 0);
                State_Monad.return (writeAdapterErr err)
              }
            | Inr result \<Rightarrow> do {
                _ \<leftarrow> record_metric (ExecRecorded (xq_SandboxID req) (execResult (Some result))
                       (length (xr_Stdout result) + length (xr_Stderr result)));
                State_Monad.return (writeJSON 200 (BodyExec
                  \<lparr>xs_Stdout = truncateOutput (cc_maxOutputBytes cfg) (xr_Stdout result),
                   xs_Stderr = truncateOutput (cc_maxOutputBytes cfg) (xr_Stderr result),
                   xs_ExitCode = xr_ExitCode result, xs_TimedOut = xr_TimedOut result\<rparr>))
              }
          }))"

definition handleExecStream :: "os_env \<Rightarrow> ctl_config \<Rightarrow> execReq option \<Rightarrow> ctl_resp ctl" where
  "handleExecStream os cfg body =
     (case body of
        None \<Rightarrow> State_Monad.return (writeErr 400 ''invalid json'')
      | Some req \<Rightarrow>
          if TrimSpace (xq_SandboxID req) = []
          then State_Monad.return (writeErr 400 ''sandbox_id required'')
          else if TrimSpace (xq_Command req) = []
          then State_Monad.return (writeErr 400 ''command required'')
          else with_slot cfg (do {
            (events, r) \<leftarrow> ExecStream os (cc_adapterConfig cfg) (xq_SandboxID req) (xq_Command req)
                   (xq_Args req) (xq_Env req) (exec_timeout req);
            let sent = map (\<lambda>(t, d). LineEvent t (json_text d)) events;
            case r of
              Inl err \<Rightarrow> do {
                _ \<leftarrow> record_metric (ExecRecorded (xq_SandboxID req) ''error'' 0);
                State_Monad.return (writeJSON 200 (BodyStream
                  (sent @ [LineEvent ''error'' (json_text (err_msg err))])))
              }
            | Inr result \<Rightarrow> do {
                _ \<leftarrow> record_metric (ExecRecorded (xq_SandboxID req) (execResult (Some result))
                       (length (xr_Stdout result) + length (xr_Stderr result)));
                State_Monad.return (writeJSON 200 (BodyStream
                  (sent @ [LineExit (xr_ExitCode result) (xr_TimedOut result)])))
              }
          }))"

definition read_notice :: "int \<Rightarrow> bytes" where
  "read_notice maxOutputBytes =
     [nl, nl] @ ''[boxy: output truncated at the '' @ fmt_int maxOutputBytes @
     ''-byte read limit; use the bash tool to read the full file]''"

definition file_content :: "int \<Rightarrow> bytes \<Rightarrow> bool \<Rightarrow> bytes option" where
  "file_content maxOutputBytes data truncated =
     (let data = (if truncated then trimPartialRune data else data)
      in if \<not> utf8_Valid data then None
         else Some (if truncated then data @ read_notice maxOutputBytes else data))"

definition handleFileRead :: "os_env \<Rightarrow> ctl_config \<Rightarrow> fileReadReq option \<Rightarrow> ctl_resp ctl" where
  "handleFileRead os cfg body =
     (case body of
        None \<Rightarrow> State_Monad.return (writeErr 400 ''invalid json'')
      | Some req \<Rightarrow>
          if TrimSpace (fr_SandboxID req) = []
          then State_Monad.return (writeErr 400 ''sandbox_id required'')
          else if TrimSpace (fr_Path req) = []
          then State_Monad.return (writeErr 400 ''path required'')
          else with_slot cfg (do {
            r \<leftarrow> ReadFile os (cc_adapterConfig cfg) (fr_SandboxID req) (fr_Path req);
            State_Monad.return
              (case r of
                 Inl err \<Rightarrow> writeAdapterErr err
               | Inr (data, truncated) \<Rightarrow>
                   (case file_content (cc_maxOutputBytes cfg) data truncated of
                      None \<Rightarrow> writeErr 400
                        ''file is not valid UTF-8 text; use the bash tool for binary files''
                    | Some content \<Rightarrow> writeJSON 200 (BodyFileRead
                        \<lparr>frr_Path = fr_Path req, frr_Content = content\<rparr>)))
          }))"

definition decode_content :: "bytes \<Rightarrow> bytes \<Rightarrow> bytes + bytes" where
  "decode_content encoding content =
     (let enc = ToLower (TrimSpace encoding)
      in if enc = [] \<or> enc = ''utf-8'' \<or> enc = ''utf8'' then Inr content
         else if enc = ''base64'' then
           (case DecodeString content of None \<Rightarrow> Inl ''invalid base64 content'' | Some d \<Rightarrow> Inr d)
         else Inl (''encoding must be '' @ [CHR 0x27] @ ''utf-8'' @ [CHR 0x27] @ '' or '' @
                   [CHR 0x27] @ ''base64'' @ [CHR 0x27]))"

definition handleFileWrite :: "os_env \<Rightarrow> ctl_config \<Rightarrow> fileWriteReq option \<Rightarrow> ctl_resp ctl" where
  "handleFileWrite os cfg body =
     (case body of
        None \<Rightarrow> State_Monad.return (writeErr 400 ''invalid json'')
      | Some req \<Rightarrow>
          if TrimSpace (fw_SandboxID req) = []
          then State_Monad.return (writeErr 400 ''sandbox_id required'')
          else if TrimSpace (fw_Path req) = []
          then State_Monad.return (writeErr 400 ''path required'')
          else with_slot cfg
            (case decode_content (fw_Encoding req) (fw_Content req) of
               Inl msg \<Rightarrow> State_Monad.return (writeErr 400 msg)
             | Inr content \<Rightarrow> do {
                 r \<leftarrow> WriteFile os (cc_adapterConfig cfg) (fw_SandboxID req) (fw_Path req) content;
                 State_Monad.return
                   (case r of
                      Inl err \<Rightarrow> writeAdapterErr err
                    | Inr n \<Rightarrow> writeJSON 200 (BodyFileWrite
                        \<lparr>fwr_Path = fw_Path req, fwr_BytesWritten = int n\<rparr>))
               }))"

definition handleFileEdit :: "os_env \<Rightarrow> ctl_config \<Rightarrow> fileEditReq option \<Rightarrow> ctl_resp ctl" where
  "handleFileEdit os cfg body =
     (case body of
        None \<Rightarrow> State_Monad.return (writeErr 400 ''invalid json'')
      | Some req \<Rightarrow>
          if TrimSpace (fe_SandboxID req) = []
          then State_Monad.return (writeErr 400 ''sandbox_id required'')
          else if TrimSpace (fe_Path req) = []
          then State_Monad.return (writeErr 400 ''path required'')
          else if fe_OldString req = []
          then State_Monad.return (writeErr 400 ''old_string required'')
          else with_slot cfg (do {
            r \<leftarrow> EditFile os (cc_adapterConfig cfg) (fe_SandboxID req) (fe_Path req)
                   (fe_OldString req) (fe_NewString req) (fe_ReplaceAll req);
            State_Monad.return
              (case r of
                 Inl err \<Rightarrow> writeAdapterErr err
               | Inr n \<Rightarrow> writeJSON 200 (BodyFileEdit
                   \<lparr>fer_Path = fe_Path req, fer_Replacements = int n\<rparr>))
          }))"

section \<open>Routing and the token\<close>

text \<open>
  A request: the method, the path, the token header (empty when absent), and what decoding
  the body into the request type of each handler yields.
\<close>

record ctl_request =
  rq_Method :: bytes
  rq_Path :: bytes
  rq_Token :: bytes
  rq_Create :: "createSandboxReq option"
  rq_Delete :: "deleteSandboxReq option"
  rq_Exec :: "execReq option"
  rq_FileRead :: "fileReadReq option"
  rq_FileWrite :: "fileWriteReq option"
  rq_FileEdit :: "fileEditReq option"

definition ctl_routes ::
  "os_env \<Rightarrow> ctl_config \<Rightarrow> ctl_resp option \<Rightarrow> ctl_request \<Rightarrow> ((bytes \<times> bytes) \<times> ctl_resp ctl) list"
where
  "ctl_routes os cfg metrics r =
     [((''GET'', ''/healthz''), handleHealth)] @
     (case metrics of
        None \<Rightarrow> []
      | Some m \<Rightarrow> [((''GET'', ''/metrics''), State_Monad.return m)]) @
     [((''POST'', ''/v1/sandboxes''), handleCreate os cfg (rq_Create r)),
      ((''GET'', ''/v1/sandboxes''), handleList),
      ((''DELETE'', ''/v1/sandboxes''), handleDelete os (rq_Delete r)),
      ((''POST'', ''/v1/exec''), handleExec os cfg (rq_Exec r)),
      ((''POST'', ''/v1/exec/stream''), handleExecStream os cfg (rq_Exec r)),
      ((''POST'', ''/v1/files/read''), handleFileRead os cfg (rq_FileRead r)),
      ((''POST'', ''/v1/files/write''), handleFileWrite os cfg (rq_FileWrite r)),
      ((''POST'', ''/v1/files/edit''), handleFileEdit os cfg (rq_FileEdit r))]"

text \<open>
  \<open>http.ServeMux\<close>: a pattern for GET also serves HEAD; a known path with another method is
  405, an unknown path 404.
\<close>

definition mux_serve :: "((bytes \<times> bytes) \<times> ctl_resp ctl) list \<Rightarrow> bytes \<Rightarrow> bytes \<Rightarrow> ctl_resp ctl" where
  "mux_serve routes meth path =
     (case map_of routes (if meth = ''HEAD'' then ''GET'' else meth, path) of
        Some h \<Rightarrow> h
      | None \<Rightarrow>
          State_Monad.return
            (if list_ex (\<lambda>x. snd (fst x) = path) routes
             then \<lparr>rs_Status = 405, rs_Body = BodyText ''Method Not Allowed''\<rparr>
             else \<lparr>rs_Status = 404, rs_Body = BodyText ''404 page not found''\<rparr>))"

definition tokenMiddleware :: "ctl_config \<Rightarrow> ctl_request \<Rightarrow> ctl_resp ctl \<Rightarrow> ctl_resp ctl" where
  "tokenMiddleware cfg r next =
     (if cc_controllerToken cfg = [] then next
      else if rq_Path r = ''/healthz'' \<or> rq_Path r = ''/metrics'' then next
      else if rq_Token r \<noteq> cc_controllerToken cfg
      then State_Monad.return (writeErr 401 ''missing or invalid controller token'')
      else next)"

definition ctl_handler ::
  "os_env \<Rightarrow> ctl_config \<Rightarrow> ctl_resp option \<Rightarrow> ctl_request \<Rightarrow> ctl_resp ctl" where
  "ctl_handler os cfg metrics r =
     tokenMiddleware cfg r (mux_serve (ctl_routes os cfg metrics r) (rq_Method r) (rq_Path r))"

end
