(* ===== verification/Controller_Server_Props.thy ===== *)
theory Controller_Server_Props
  imports Controller_Server
begin

text \<open>
  Properties of the controller's server: the capacity of the controller, the token, reading
  truncated files, and what happens to output on its way into the response.
\<close>

section \<open>A store of bounded size\<close>

text \<open>
  What the server relies on in the adapter: a count that creating and deleting change by
  exactly one when they succeed and not at all when they fail.
\<close>

locale sandbox_store =
  fixes inv :: "'s \<Rightarrow> bool"
    and count :: "'s \<Rightarrow> nat"
    and add :: "'r \<Rightarrow> ('s, 'e option) state"
    and del :: "'k \<Rightarrow> ('s, 'e option) state"
  assumes add_count: "inv s \<Longrightarrow>
      wp (add r) (\<lambda>e s'. inv s' \<and> count s' = (if e = None then Suc (count s) else count s)) s"
    and del_count: "inv s \<Longrightarrow>
      wp (del k) (\<lambda>e s'. inv s' \<and> count s = (if e = None then Suc (count s') else count s')) s"
begin

lemma guarded_add:
  assumes "inv s" and "count s < limit"
  shows "wp (add r) (\<lambda>e s'. inv s' \<and> count s' \<le> limit) s"
  by (rule wp_mono [OF add_count [OF assms(1)]]) (use assms(2) in \<open>auto split: if_splits\<close>)

text \<open>A counter that follows the successes stays equal to the count.\<close>

lemma add_tracks:
  assumes "inv s" and "gauge = int (count s)"
  shows "wp (add r) (\<lambda>e s'. (if e = None then gauge + 1 else gauge) = int (count s')) s"
  by (rule wp_mono [OF add_count [OF assms(1)]]) (use assms(2) in \<open>auto split: if_splits\<close>)

lemma del_tracks:
  assumes "inv s" and "gauge = int (count s)"
  shows "wp (del k) (\<lambda>e s'. (if e = None then gauge - 1 else gauge) = int (count s') \<and>
    count s' \<le> count s) s"
  by (rule wp_mono [OF del_count [OF assms(1)]]) (use assms(2) in \<open>auto split: if_splits\<close>)

end

lemma length_update_fresh: "map_of al k = None \<Longrightarrow> length (AList.update k v al) = Suc (length al)"
  by (induction al) (auto split: if_splits)

lemma length_delete:
  assumes "distinct (map fst al)" and "map_of al k \<noteq> None"
  shows "Suc (length (AList.delete k al)) = length al"
  using assms
proof (induction al)
  case (Cons p al)
  show ?case
  proof (cases "fst p = k")
    case True
    with Cons.prems have "k \<notin> fst ` set al" by auto
    then have "filter (\<lambda>(k', _). k \<noteq> k') al = al" by (force simp: filter_id_conv)
    with True show ?thesis by (simp add: AList.delete_eq case_prod_beta)
  next
    case False
    with Cons show ?thesis by (cases p) (auto simp: AList.delete_eq case_prod_beta)
  qed
qed simp

lemma wp_Create_count:
  assumes "adapter_inv cfg s"
  shows "wp (Create os cfg req) (\<lambda>e s'. adapter_inv cfg s' \<and>
     length (na_sandboxes s') =
       (if e = None then Suc (length (na_sandboxes s)) else length (na_sandboxes s))) s"
proof (cases "validateCreateRequest cfg req")
  case None
  define Q where "Q = (\<lambda>(e :: go_error option) (s' :: 'a NsjailAdapter_scheme). adapter_inv cfg s' \<and>
     length (na_sandboxes s') =
       (if e = None then Suc (length (na_sandboxes s)) else length (na_sandboxes s)))"
  have inv: "adapter_inv cfg s1" if "extends s s1" for s1 :: "'a NsjailAdapter_scheme"
    using that assms by (simp add: extends_def adapter_inv_def)
  have fin: "wp (create_finish os cfg req h) Q (s1\<lparr>na_trace := na_trace s1 @ es\<rparr>)"
    if "extends s s1" "map_of (na_sandboxes s) (sb_SandboxID req) = None" for h s1 es
    using that inv [OF that(1)] adapter_inv_register [OF inv [OF that(1)] None]
    by (auto simp: Q_def create_finish_def wp_simps remove_all_def extends_def adapter_inv_def
          length_update_fresh split: option.split)
  have "wp (create_prepare os cfg req)
       (\<lambda>e. wp (case e of Some err \<Rightarrow> State_Monad.return (Some err)
          | None \<Rightarrow> State_Monad.bind (create_hook os cfg req) (create_finish os cfg req)) Q) s"
  proof (rule wp_mono [OF wp_create_prepare])
    fix e :: "go_error option" and s1 :: "'a NsjailAdapter_scheme"
    assume *: "extends s s1 \<and> (case e of
         None \<Rightarrow> map_of (na_sandboxes s) (sb_SandboxID req) = None
       | Some e \<Rightarrow> cleaned_up (sandboxBase cfg (sb_SandboxID req)) (new_events s s1))"
    show "wp (case e of Some err \<Rightarrow> State_Monad.return (Some err)
        | None \<Rightarrow> State_Monad.bind (create_hook os cfg req) (create_finish os cfg req)) Q s1"
    proof (cases e)
      case n: None
      show ?thesis
        unfolding n option.case wp_bind
        by (rule wp_os_only [OF create_hook_os_only], rule fin) (use * n in simp_all)
    next
      case (Some err)
      then show ?thesis using * inv by (simp add: wp_simps Q_def extends_def)
    qed
  qed
  then show ?thesis by (simp add: Create_def None wp_simps Q_def)
qed (simp add: Create_def wp_simps assms)

lemma wp_Delete_count:
  assumes "adapter_inv cfg s"
  shows "wp (Delete os i) (\<lambda>e s'. adapter_inv cfg s' \<and>
     length (na_sandboxes s) =
       (if e = None then Suc (length (na_sandboxes s')) else length (na_sandboxes s'))) s"
proof (cases "map_of (na_sandboxes s) i")
  case None
  then show ?thesis using assms by (simp add: Delete_def wp_simps)
next
  case (Some sb)
  have "Suc (length (AList.delete i (na_sandboxes s))) = length (na_sandboxes s)"
    using assms Some by (intro length_delete) (simp_all add: adapter_inv_def)
  moreover have "adapter_inv cfg (s\<lparr>na_sandboxes := AList.delete i (na_sandboxes s), na_trace := t\<rparr>)"
    for t using adapter_inv_delete [OF assms, of i] by (simp add: adapter_inv_def)
  ultimately show ?thesis
    using Some adapter_inv_delete [OF assms, of i]
    by (simp add: Delete_def runHookScript_def remove_all_def wp_simps Let_def adapter_inv_def)
qed

interpretation nsjail: sandbox_store "adapter_inv cfg" "\<lambda>s. length (na_sandboxes s)"
  "Create os cfg" "Delete os"
  by unfold_locales (rule wp_Create_count wp_Delete_count, assumption)+

section \<open>The invariant of the server\<close>

fun gauge_of :: "ctl_metric \<Rightarrow> int" where
  "gauge_of SandboxCreated = 1"
| "gauge_of SandboxDeleted = -1"
| "gauge_of _ = 0"

text \<open>The value of the gauge \<open>boxy.controller.sandboxes.active\<close>.\<close>

definition active_gauge :: "controller \<Rightarrow> int" where
  "active_gauge s = sum_list (map gauge_of (cs_metrics s))"

definition ctl_inv :: "ctl_config \<Rightarrow> nat \<Rightarrow> controller \<Rightarrow> bool" where
  "ctl_inv cfg held s \<longleftrightarrow>
     adapter_inv (cc_adapterConfig cfg) s \<and>
     int (length (na_sandboxes s)) \<le> max 0 (cc_maxSandboxes cfg) \<and>
     active_gauge s = int (length (na_sandboxes s)) \<and> cs_execSem s = held"

lemma ctl_inv_trace [simp]: "ctl_inv cfg held (s\<lparr>na_trace := t\<rparr>) = ctl_inv cfg held s"
  by (simp add: ctl_inv_def adapter_inv_def active_gauge_def)

lemma ctl_inv_metric:
  "ctl_inv cfg held s \<Longrightarrow> gauge_of m = 0 \<Longrightarrow> ctl_inv cfg held (s\<lparr>cs_metrics := cs_metrics s @ [m]\<rparr>)"
  by (simp add: ctl_inv_def adapter_inv_def active_gauge_def)

lemma wp_record_metric [wp_simps]:
  "wp (record_metric m) Q s = Q () (s\<lparr>cs_metrics := cs_metrics s @ [m]\<rparr>)"
  by (simp add: record_metric_def wp_simps)

text \<open>The executions of the adapter only call the operating system.\<close>

lemma search_chroot_os_only: "os_only (\<lambda>_. True) (search_chroot os command chroot ds)"
proof (induction ds)
  case (Cons d ds)
  then show ?case unfolding search_chroot.simps Let_def by (intro os_only_intros TrueI)
qed (simp add: os_only_return)

lemma with_jail_os_only:
  assumes "\<And>call. os_only (\<lambda>_. True) (run call)"
  shows "os_only (\<lambda>_. True) (with_jail os cfg i command args env t stdin fail run)"
  unfolding with_jail_def Let_def resolveCommandInChroot_def
  by (intro os_only_intros search_chroot_os_only assms TrueI)

lemma execWithStdin_os_only: "os_only (\<lambda>_. True) (execWithStdin os cfg i command args env t pty stdin)"
  unfolding execWithStdin_def execPTY_def openPTY_def exec_run_def Let_def
  by (intro os_only_intros with_jail_os_only TrueI)

lemma ExecStream_os_only: "os_only (\<lambda>_. True) (ExecStream os cfg i command args env t)"
  unfolding ExecStream_def exec_stream_def by (intro os_only_intros with_jail_os_only TrueI)

lemma file_ops_os_only:
  "os_only (\<lambda>_. True) (ReadFile os cfg i path)"
  "os_only (\<lambda>_. True) (WriteFile os cfg i path content)"
  "os_only (\<lambda>_. True) (EditFile os cfg i path old new ra)"
proof -
  show r: "os_only (\<lambda>_. True) (ReadFile os cfg i path)" for i path
    unfolding ReadFile_def Exec_def by (intro os_only_intros execWithStdin_os_only)
  show w: "os_only (\<lambda>_. True) (WriteFile os cfg i path content)" for i path content
    unfolding WriteFile_def by (intro os_only_intros execWithStdin_os_only)
  show "os_only (\<lambda>_. True) (EditFile os cfg i path old new ra)"
    unfolding EditFile_def edit_write_def by (intro os_only_intros r w)
qed

lemma wp_with_slot:
  assumes "ctl_inv cfg held s"
    and "\<And>s1. ctl_inv cfg (Suc held) s1 \<Longrightarrow> wp body (\<lambda>_. ctl_inv cfg (Suc held)) s1"
  shows "wp (with_slot cfg body) (\<lambda>_. ctl_inv cfg held) s"
proof -
  have 1: "ctl_inv cfg (Suc held) (s\<lparr>cs_execSem := cs_execSem s + 1\<rparr>)"
    using assms(1) by (simp add: ctl_inv_def adapter_inv_def active_gauge_def)
  have 2: "ctl_inv cfg held (s1\<lparr>cs_execSem := cs_execSem s1 - 1\<rparr>)" if "ctl_inv cfg (Suc held) s1" for s1
    using that by (simp add: ctl_inv_def adapter_inv_def active_gauge_def)
  have "wp body (\<lambda>r s'. ctl_inv cfg held (s'\<lparr>cs_execSem := cs_execSem s' - 1\<rparr>))
      (s\<lparr>cs_execSem := cs_execSem s + 1\<rparr>)"
    by (rule wp_mono [OF assms(2) [OF 1]]) (rule 2)
  then show ?thesis
    unfolding with_slot_def wp_bind wp_get wp_if wp_update wp_return wp_record_metric
    using assms(1) ctl_inv_metric [of cfg held s ExecThrottled] by simp
qed

lemma exec_body_inv:
  assumes "ctl_inv cfg held s" and "os_only p m"
    and "\<And>x s1. ctl_inv cfg held s1 \<Longrightarrow> wp (f x) (\<lambda>_. ctl_inv cfg held) s1"
  shows "wp (State_Monad.bind m f) (\<lambda>_. ctl_inv cfg held) s"
  unfolding wp_bind by (rule wp_os_only [OF assms(2)]) (rule assms(3), simp add: assms(1))

lemma handleExec_inv: "ctl_inv cfg held s \<Longrightarrow> wp (handleExec os cfg b) (\<lambda>_. ctl_inv cfg held) s"
  unfolding handleExec_def
  by (auto simp: wp_return Exec_def wp_record_metric wp_bind ctl_inv_metric
      split: option.split sum.split
      intro!: wp_with_slot exec_body_inv [OF _ execWithStdin_os_only, unfolded wp_bind])

lemma handleExecStream_inv:
  "ctl_inv cfg held s \<Longrightarrow> wp (handleExecStream os cfg b) (\<lambda>_. ctl_inv cfg held) s"
  unfolding handleExecStream_def
  by (auto simp: wp_return wp_record_metric wp_bind ctl_inv_metric Let_def
      split: option.split sum.split prod.split
      intro!: wp_with_slot exec_body_inv [OF _ ExecStream_os_only, unfolded wp_bind])

lemma file_handlers_inv:
  assumes "ctl_inv cfg held s"
  shows "wp (handleFileRead os cfg b1) (\<lambda>_. ctl_inv cfg held) s"
    "wp (handleFileWrite os cfg b2) (\<lambda>_. ctl_inv cfg held) s"
    "wp (handleFileEdit os cfg b3) (\<lambda>_. ctl_inv cfg held) s"
  unfolding handleFileRead_def handleFileWrite_def handleFileEdit_def
  using assms
  by (auto simp: wp_return split: option.split sum.split
      intro!: wp_with_slot exec_body_inv [OF _ file_ops_os_only(1)]
        exec_body_inv [OF _ file_ops_os_only(2)] exec_body_inv [OF _ file_ops_os_only(3)])

text \<open>Creating and deleting do not touch the server's part of the state.\<close>

lemma os_only_keeps: "os_only p m \<Longrightarrow> keeps NsjailAdapter.more m"
  unfolding os_only_def keeps_def by (metis NsjailAdapter.ext_inject NsjailAdapter.surjective NsjailAdapter.update_convs(2))

lemma set_sandboxes_keeps: "keeps NsjailAdapter.more (set_sandboxes f)"
  by (simp add: keeps_def set_sandboxes_def State_Monad.update_def)

lemma Create_keeps: "keeps NsjailAdapter.more (Create os cfg req)"
proof -
  have 1: "keeps NsjailAdapter.more (create_prepare os cfg req)"
    unfolding create_prepare_def Let_def remove_all_def
    by (intro keeps_intros os_only_keeps [OF os_only_os_call] os_only_keeps [OF copy_binaries_os_only] TrueI)
  have 2: "keeps NsjailAdapter.more (create_finish os cfg req h)" for h
    unfolding create_finish_def remove_all_def
    by (intro keeps_intros os_only_keeps [OF os_only_os_call] set_sandboxes_keeps TrueI)
  show ?thesis
    unfolding Create_def
    by (intro keeps_intros 1 2 os_only_keeps [OF create_hook_os_only])
qed

lemma Delete_keeps: "keeps NsjailAdapter.more (Delete os i)"
  unfolding Delete_def remove_all_def
  by (intro keeps_intros os_only_keeps [OF os_only_os_call] os_only_keeps [OF runHookScript_os_only]
        set_sandboxes_keeps TrueI)

lemma server_part:
  "NsjailAdapter.more s' = NsjailAdapter.more s \<Longrightarrow> cs_execSem s' = cs_execSem s \<and> cs_metrics s' = cs_metrics s"
  by (cases s; cases s') simp

lemma handleCreate_inv:
  assumes "ctl_inv cfg held s"
  shows "wp (handleCreate os cfg b) (\<lambda>_. ctl_inv cfg held) s"
proof (cases b)
  case None
  then show ?thesis using assms by (simp add: handleCreate_def wp_simps)
next
  case (Some req)
  have inv: "adapter_inv (cc_adapterConfig cfg) s"
    and g: "active_gauge s = int (length (na_sandboxes s))" and h: "cs_execSem s = held"
    using assms by (simp_all add: ctl_inv_def)
  show ?thesis
  proof (cases "TrimSpace (cq_SandboxID req) = [] \<or> int (length (na_sandboxes s)) \<ge> cc_maxSandboxes cfg")
    case True
    then show ?thesis
      using assms Some by (auto simp: handleCreate_def Count_def wp_simps)
  next
    case False
    let ?C = "Create os (cc_adapterConfig cfg) (create_body req)"
    have lt: "length (na_sandboxes s) < nat (cc_maxSandboxes cfg)" using False by linarith
    have "wp ?C (\<lambda>e s'. (adapter_inv (cc_adapterConfig cfg) s' \<and>
          length (na_sandboxes s') \<le> nat (cc_maxSandboxes cfg)) \<and>
        (if e = None then active_gauge s + 1 else active_gauge s) = int (length (na_sandboxes s')) \<and>
        NsjailAdapter.more s' = NsjailAdapter.more s) s"
      by (intro wp_conj nsjail.guarded_add nsjail.add_tracks wp_keeps Create_keeps inv lt g)
    then have "wp ?C (\<lambda>e s'. ctl_inv cfg held
        (if e = None then s'\<lparr>cs_metrics := cs_metrics s' @ [SandboxCreated]\<rparr> else s')) s"
      by (rule wp_mono)
         (auto simp: ctl_inv_def adapter_inv_def active_gauge_def h dest!: server_part split: if_splits)
    then have "wp ?C (\<lambda>e. wp (case e of Some err \<Rightarrow> State_Monad.return (writeAdapterErr err)
        | None \<Rightarrow> State_Monad.bind (record_metric SandboxCreated)
            (\<lambda>_. State_Monad.return (writeJSON 201 (BodyCreated (cq_SandboxID req))))) (\<lambda>_. ctl_inv cfg held)) s"
      by (rule wp_mono) (auto simp: wp_simps split: option.split)
    then show ?thesis
      using Some False by (simp add: handleCreate_def Count_def wp_simps)
  qed
qed

lemma handleDelete_inv:
  assumes "ctl_inv cfg held s"
  shows "wp (handleDelete os b) (\<lambda>_. ctl_inv cfg held) s"
proof (cases "case b of None \<Rightarrow> True | Some req \<Rightarrow> TrimSpace (dq_SandboxID req) = []")
  case True
  then show ?thesis using assms by (auto simp: handleDelete_def wp_simps split: option.splits)
next
  case False
  then obtain req where b: "b = Some req" and ne: "TrimSpace (dq_SandboxID req) \<noteq> []"
    by (auto split: option.splits)
  let ?D = "Delete os (dq_SandboxID req)"
  have inv: "adapter_inv (cc_adapterConfig cfg) s"
    and g: "active_gauge s = int (length (na_sandboxes s))" and h: "cs_execSem s = held"
    and le: "int (length (na_sandboxes s)) \<le> max 0 (cc_maxSandboxes cfg)"
    using assms by (simp_all add: ctl_inv_def)
  have "wp ?D (\<lambda>e s'. (adapter_inv (cc_adapterConfig cfg) s' \<and> length (na_sandboxes s) =
        (if e = None then Suc (length (na_sandboxes s')) else length (na_sandboxes s'))) \<and>
      ((if e = None then active_gauge s - 1 else active_gauge s) = int (length (na_sandboxes s')) \<and>
        length (na_sandboxes s') \<le> length (na_sandboxes s)) \<and>
      NsjailAdapter.more s' = NsjailAdapter.more s) s"
    by (rule wp_conj [OF nsjail.del_count [OF inv]
          wp_conj [OF nsjail.del_tracks [OF inv g] wp_keeps [OF Delete_keeps]]])
  then have "wp ?D (\<lambda>e s'. ctl_inv cfg held
      (if e = None then s'\<lparr>cs_metrics := cs_metrics s' @ [SandboxDeleted]\<rparr> else s')) s"
    by (rule wp_mono)
       (use le in \<open>auto simp: ctl_inv_def adapter_inv_def active_gauge_def h dest!: server_part split: if_splits\<close>)
  then have "wp ?D (\<lambda>e. wp (case e of Some err \<Rightarrow> State_Monad.return (writeAdapterErr err)
      | None \<Rightarrow> State_Monad.bind (record_metric SandboxDeleted)
          (\<lambda>_. State_Monad.return \<lparr>rs_Status = 204, rs_Body = BodyNone\<rparr>)) (\<lambda>_. ctl_inv cfg held)) s"
    by (rule wp_mono) (auto simp: wp_simps split: option.split)
  then show ?thesis using b ne by (simp add: handleDelete_def wp_simps)
qed

lemma routes_inv:
  assumes "ctl_inv cfg held s" and "h \<in> snd ` set (ctl_routes os cfg metrics r)"
  shows "wp h (\<lambda>_. ctl_inv cfg held) s"
  using assms handleCreate_inv handleDelete_inv handleExec_inv handleExecStream_inv file_handlers_inv
  by (auto simp: ctl_routes_def handleHealth_def handleList_def ListIDs_def wp_simps
        split: option.splits)

lemma ctl_handler_inv:
  assumes "ctl_inv cfg held s"
  shows "wp (ctl_handler os cfg metrics r) (\<lambda>_. ctl_inv cfg held) s"
proof -
  have "wp (mux_serve (ctl_routes os cfg metrics r) meth path) (\<lambda>_. ctl_inv cfg held) s" for meth path
  proof (cases "map_of (ctl_routes os cfg metrics r) (if meth = ''HEAD'' then ''GET'' else meth, path)")
    case (Some h)
    from map_of_SomeD [OF this] have "h \<in> snd ` set (ctl_routes os cfg metrics r)" by force
    from routes_inv [OF assms this] Some show ?thesis by (simp add: mux_serve_def)
  qed (use assms in \<open>simp add: mux_serve_def wp_return\<close>)
  with assms show ?thesis by (simp add: ctl_handler_def tokenMiddleware_def wp_simps)
qed

text \<open>The states the server gets into by answering requests one after the other.\<close>

inductive ctl_reachable :: "os_env \<Rightarrow> ctl_config \<Rightarrow> ctl_resp option \<Rightarrow> controller \<Rightarrow> bool"
  for os cfg metrics where
  start: "ctl_reachable os cfg metrics newServer"
| request: "ctl_reachable os cfg metrics s \<Longrightarrow>
    run_state (ctl_handler os cfg metrics r) s = (resp, s') \<Longrightarrow> ctl_reachable os cfg metrics s'"


definition demo_ctl_cfg :: ctl_config where
  "demo_ctl_cfg = \<lparr>cc_controllerToken = ''secret'', cc_maxSandboxes = 1,
     cc_maxExecConcurrency = 2, cc_maxOutputBytes = 8, cc_adapterConfig = demo_cfg\<rparr>"

definition demo_create :: CreateSandboxReq where
  "demo_create = \<lparr>cq_SandboxID = ''s1'', cq_Env = [], cq_AllowedBinaries = [], cq_VM = None,
     cq_Network = None, cq_Volumes = [], cq_Patches = [], cq_TTLSeconds = 0, cq_SetupScript = [],
     cq_TeardownScript = [], cq_ScriptEnv = []\<rparr>"

definition demo_request :: "bytes \<Rightarrow> ctl_request" where
  "demo_request token = \<lparr>rq_Method = ''POST'', rq_Path = ''/v1/sandboxes'', rq_Token = token,
     rq_Create = Some demo_create, rq_Delete = None, rq_Exec = None, rq_FileRead = None,
     rq_FileWrite = None, rq_FileEdit = None\<rparr>"

definition demo_served :: "ctl_resp \<times> controller" where
  "demo_served = run_state (ctl_handler demo_os demo_ctl_cfg None (demo_request ''secret'')) newServer"

lemma demo_served_reachable: "ctl_reachable demo_os demo_ctl_cfg None (snd demo_served)"
  by (rule ctl_reachable.request [OF ctl_reachable.start,
        of demo_os demo_ctl_cfg None "demo_request ''secret''" "fst demo_served"])
     (simp add: demo_served_def)




section \<open>Text cut at the read limit\<close>

lemma utf8_Valid_runes_prefix:
  assumes "list_all is_rune ws" and "is_rune r" and "j < length r" and "utf8_Valid (concat ws @ take j r)"
  shows "j = 0"
  using assms rune_prefix_invalid [of r j] by (auto simp: utf8_Valid_concat)

text \<open>Taking off the last bytes of a cut rune one by one leaves the whole runes.\<close>

lemma trim_runes_cut:
  assumes "list_all is_rune ws" and "is_rune r" and "j < length r" and "j \<le> i"
  shows "trim_runes i (concat ws @ take j r) = concat ws"
  using assms(3,4)
proof (induction i arbitrary: j)
  case 0
  then show ?case by simp
next
  case (Suc i)
  have v: "utf8_Valid (concat ws)"
    using utf8_Valid_concat [OF assms(1), of "[]"] by simp
  show ?case
  proof (cases j)
    case 0
    then show ?thesis using v by simp
  next
    case jk: (Suc k)
    then have nv: "\<not> utf8_Valid (concat ws @ take j r)"
      using utf8_Valid_runes_prefix [OF assms(1,2)] Suc.prems by blast
    have "butlast (concat ws @ take j r) = concat ws @ take k r"
      using jk Suc.prems by (cases "r = []") (simp_all add: butlast_append butlast_take)
    with Suc.IH [of k] jk Suc.prems nv show ?thesis by auto
  qed
qed

lemma trimPartialRune_cut:
  assumes "utf8_Valid s"
  obtains ws p where "list_all is_rune ws" "take n s = concat ws @ p" "length p \<le> 3"
    "trimPartialRune (take n s) = concat ws"
    "\<And>q. prefix q (take n s) \<Longrightarrow> utf8_Valid q \<Longrightarrow> prefix q (concat ws)"
proof -
  obtain rs where rs: "list_all is_rune rs" "s = concat rs"
    using assms by (auto simp: utf8_Valid_iff_runes)
  from utf8_Valid_take [OF rs(1), of n] obtain ws p k r where w: "list_all is_rune ws"
    "take n s = concat ws @ p" "p = [] \<or> is_rune r \<and> 0 < k \<and> k < length r \<and> p = take k r"
    unfolding rs(2) by blast
  have len: "length p \<le> 3" using w(3) is_rune_length [of r] by auto
  have t: "trimPartialRune (take n s) = concat ws"
  proof (cases "p = []")
    case True
    then show ?thesis
      using w(2) utf8_Valid_concat [OF w(1), of "[]"] by (simp add: trimPartialRune_def eval_nat_numeral)
  next
    case False
    with w(3) have r: "is_rune r" "k < length r" "p = take k r" by auto
    then have "k \<le> 3" using is_rune_length [of r] by simp
    from trim_runes_cut [OF w(1) r(1,2) this] show ?thesis
      by (simp add: trimPartialRune_def w(2) r(3))
  qed
  have m: "prefix q (concat ws)" if q: "prefix q (take n s)" "utf8_Valid q" for q
  proof (rule ccontr)
    assume "\<not> prefix q (concat ws)"
    with q(1) obtain j where j: "0 < j" "j \<le> length p" "q = concat ws @ take j p"
      unfolding w(2) prefix_append
      by (metis append.right_neutral gr0I le_cases prefix_def take_all take_eq_Nil append_eq_conv_conj prefix_length_le)
    with w(3) have "is_rune r" "j < length r" "take j p = take j r" by (auto simp: min_def)
    with j q(2) utf8_Valid_runes_prefix [OF w(1)] show False by force
  qed
  show thesis by (rule that [OF w(1,2) len t m])
qed

text \<open>
  A valid UTF-8 file that is longer than the read limit is returned as its longest valid
  part within the limit, at most three bytes shorter than the limit, followed by the notice;
  a file within the limit is returned as it is.
\<close>

theorem file_content_cut:
  assumes "utf8_Valid file" and "n > 0"
  shows "\<exists>c. file_content (int n) (take n file) (length (take n file) \<ge> n) =
      Some (if length file < n then file else c @ read_notice (int n)) \<and>
    prefix c file \<and> utf8_Valid c \<and> length c \<le> n \<and> min n (length file) \<le> length c + 3 \<and>
    (\<forall>q. prefix q (take n file) \<and> utf8_Valid q \<longrightarrow> length q \<le> length c)"
proof -
  obtain ws p where w: "list_all is_rune ws" "take n file = concat ws @ p" "length p \<le> 3"
    "trimPartialRune (take n file) = concat ws"
    "\<And>q. prefix q (take n file) \<Longrightarrow> utf8_Valid q \<Longrightarrow> prefix q (concat ws)"
    using trimPartialRune_cut [OF assms(1), of n] by blast
  have v: "utf8_Valid (concat ws)" using utf8_Valid_concat [OF w(1), of "[]"] by simp
  have pre: "prefix (concat ws) file"
    by (metis append_take_drop_id append_assoc prefix_def w(2))
  have len: "length (concat ws) + length p = min n (length file)"
    using arg_cong [OF w(2), of length] by simp
  show ?thesis
  proof (rule exI [of _ "concat ws"], intro conjI)
    show "file_content (int n) (take n file) (length (take n file) \<ge> n) =
      Some (if length file < n then file else concat ws @ read_notice (int n))"
      using assms v w(4) by (simp add: file_content_def Let_def min_def)
    show "\<forall>q. prefix q (take n file) \<and> utf8_Valid q \<longrightarrow> length q \<le> length (concat ws)"
      using w(5) prefix_length_le by blast
  qed (use pre v len w(3) in auto)
qed

theorem file_content_cut_witness:
  "utf8_Valid [CHR ''a'', CHR 0xC3, CHR 0xA9, CHR ''b''] \<and>
   (\<exists>c. file_content 2 [CHR ''a'', CHR 0xC3] True = Some (c @ read_notice 2) \<and> length c \<le> 2)"
proof -
  have v: "utf8_Valid [CHR ''a'', CHR 0xC3, CHR 0xA9, CHR ''b'']" by code_simp
  show ?thesis using file_content_cut [OF v, of 2] v by auto
qed

section \<open>Output on its way into the response\<close>

text \<open>
  With the same output limit in the server and in the adapter, which is how the
  controller configures them, the notice about truncated output is never added to a
  response: the adapter has cut the output before, without a notice.
\<close>

theorem truncation_notice_dead:
  assumes "run_response acfg t r = Inr x" and "ac_MaxOutputBytes acfg > 0"
  shows "truncateOutput (ac_MaxOutputBytes acfg) (xr_Stdout x) = xr_Stdout x \<and>
    truncateOutput (ac_MaxOutputBytes acfg) (xr_Stderr x) = xr_Stderr x \<or>
    xr_Stderr x = ''execution timed out''"
proof -
  have cut: "int (length (lw_buf (fst (io_Copy (new_limitWriter (ac_MaxOutputBytes acfg)) ps))))
      \<le> ac_MaxOutputBytes acfg" for ps
    using io_Copy_limited [of "new_limitWriter (ac_MaxOutputBytes acfg)" "nat (ac_MaxOutputBytes acfg)" ps]
      assms(2) by (simp add: new_limitWriter_def)
  have "xr_Stderr x = ''execution timed out'' \<or>
      (\<exists>ps qs. xr_Stdout x = lw_buf (fst (io_Copy (new_limitWriter (ac_MaxOutputBytes acfg)) ps)) \<and>
        xr_Stderr x = lw_buf (fst (io_Copy (new_limitWriter (ac_MaxOutputBytes acfg)) qs)))"
    using assms(1)
    by (auto simp: run_response_def buildExecResponse_def case_prod_beta Let_def
        split: option.splits if_splits)
  then show ?thesis using cut by (auto simp: truncateOutput_def)
qed

theorem truncation_notice_dead_witness:
  "\<exists>x. run_response demo_cfg 5 ((demo_run [])\<lparr>rr_Out := [''01234567'', ''89'']\<rparr>) = Inr x \<and>
     truncateOutput (ac_MaxOutputBytes demo_cfg) (xr_Stdout x) = ''01234567''"
proof -
  have r: "run_response demo_cfg 5 ((demo_run [])\<lparr>rr_Out := [''01234567'', ''89'']\<rparr>) =
    Inr \<lparr>xr_ExitCode = 0, xr_Stdout = ''01234567'', xr_Stderr = [], xr_TimedOut = False\<rparr>"
    by code_simp
  have "ac_MaxOutputBytes demo_cfg > 0" by (simp add: demo_cfg_def)
  from truncation_notice_dead [OF r this] r show ?thesis by simp
qed

end
