(* ===== verification/Nsjail_Concurrency.thy ===== *)
theory Nsjail_Concurrency
  imports Nsjail_Adapter_Props
begin

text \<open>
  The adapter used by several goroutines at once.  \<open>Create\<close> holds the lock except while the
  setup script runs, \<open>Delete\<close> holds it while it changes the table; a step is what happens
  between two points at which another goroutine can get in.  Creations whose script is
  running are in flight.
\<close>

type_synonym adapter_conc = "NsjailAdapter \<times> SandboxCreateBody list"

inductive adapter_step :: "os_env \<Rightarrow> AdapterConfig \<Rightarrow> adapter_conc \<Rightarrow> adapter_conc \<Rightarrow> bool"
  for os cfg where
  create_refused:
    "\<lbrakk>validateCreateRequest cfg req = None; run_state (create_prepare os cfg req) s = (Some e, s')\<rbrakk>
     \<Longrightarrow> adapter_step os cfg (s, flight) (s', flight)"
| create_plain:
    "\<lbrakk>validateCreateRequest cfg req = None; run_state (create_prepare os cfg req) s = (None, s1);
      sb_SetupScript req = []; run_state (create_finish os cfg req None) s1 = (r, s')\<rbrakk>
     \<Longrightarrow> adapter_step os cfg (s, flight) (s', flight)"
| create_unlock:
    "\<lbrakk>validateCreateRequest cfg req = None; run_state (create_prepare os cfg req) s = (None, s');
      sb_SetupScript req \<noteq> []\<rbrakk>
     \<Longrightarrow> adapter_step os cfg (s, flight) (s', req # flight)"
| create_relock:
    "\<lbrakk>req \<in> set flight; run_state (create_hook os cfg req) s = (h, s1);
      run_state (create_finish os cfg req h) s1 = (r, s')\<rbrakk>
     \<Longrightarrow> adapter_step os cfg (s, flight) (s', remove1 req flight)"
| delete:
    "run_state (Delete os i) s = (r, s') \<Longrightarrow> adapter_step os cfg (s, flight) (s', flight)"
| exec:
    "run_state (execWithStdin os cfg i command args env t False stdin) s = (r, s') \<Longrightarrow>
     adapter_step os cfg (s, flight) (s', flight)"

inductive adapter_reachable :: "os_env \<Rightarrow> AdapterConfig \<Rightarrow> adapter_conc \<Rightarrow> bool" for os cfg where
  start: "adapter_reachable os cfg (NewNsjailAdapter, [])"
| step: "adapter_reachable os cfg c \<Longrightarrow> adapter_step os cfg c c' \<Longrightarrow> adapter_reachable os cfg c'"

definition conc_inv :: "AdapterConfig \<Rightarrow> adapter_conc \<Rightarrow> bool" where
  "conc_inv cfg c \<longleftrightarrow> adapter_inv cfg (fst c) \<and>
     list_all (\<lambda>req. validateCreateRequest cfg req = None) (snd c)"

lemma wp_run: "run_state m s = (r, s') \<Longrightarrow> wp m Q s \<Longrightarrow> Q r s'"
  by (simp add: wp_def)

lemma prepare_inv:
  assumes "run_state (create_prepare os cfg req) s = (e, s')" and "adapter_inv cfg s"
  shows "adapter_inv cfg s'"
proof -
  have "extends s s'" using wp_run [OF assms(1) wp_create_prepare] by blast
  with assms(2) show ?thesis by (simp add: extends_def adapter_inv_def)
qed

lemma finish_inv:
  assumes "run_state (create_finish os cfg req h) s = (r, s')" and "adapter_inv cfg s"
    and "validateCreateRequest cfg req = None"
  shows "adapter_inv cfg s'"
proof -
  have "wp (create_finish os cfg req h) (\<lambda>_. adapter_inv cfg) s"
    using adapter_inv_register [OF assms(2,3)] adapter_inv_os_only [OF assms(2)]
    by (simp add: create_finish_def wp_simps remove_all_def split: option.split)
  from wp_run [OF assms(1) this] show ?thesis .
qed

lemma os_only_inv:
  assumes "run_state m s = (r, s')" and "os_only p m" and "adapter_inv cfg s"
  shows "adapter_inv cfg s'"
proof -
  have "wp m (\<lambda>_. adapter_inv cfg) s"
    by (rule wp_os_only [OF assms(2)]) (rule adapter_inv_os_only [OF assms(3)])
  from wp_run [OF assms(1) this] show ?thesis .
qed

lemma delete_inv:
  assumes "run_state (Delete os i) s = (r, s')" and "adapter_inv cfg s"
  shows "adapter_inv cfg s'"
proof -
  have "wp (Delete os i) (\<lambda>_. adapter_inv cfg) s"
    using adapter_inv_delete [OF assms(2), of i] assms(2)
    by (simp add: Delete_def runHookScript_def remove_all_def wp_simps Let_def adapter_inv_def
          split: option.split)
  from wp_run [OF assms(1) this] show ?thesis .
qed

lemma exec_inv:
  assumes "run_state (execWithStdin os cfg i command args env t False stdin) s = (r, s')"
    and "adapter_inv cfg' s"
  shows "adapter_inv cfg' s'"
proof (cases "map_of (na_sandboxes s) i")
  case None
  with assms show ?thesis by (auto simp: execWithStdin_def with_jail_def)
next
  case (Some sb)
  have "wp (execWithStdin os cfg i command args env t False stdin) (\<lambda>_. adapter_inv cfg') s"
    by (rule wp_execWithStdin [OF Some]) (rule adapter_inv_os_only [OF assms(2)])
  from wp_run [OF assms(1) this] show ?thesis .
qed

lemma adapter_step_inv:
  assumes "adapter_step os cfg c c'" and "conc_inv cfg c"
  shows "conc_inv cfg c'"
  using assms
proof cases
  case (create_relock req flight s h s1 r s')
  have req: "validateCreateRequest cfg req = None"
    using create_relock assms(2) by (auto simp: conc_inv_def list_all_iff)
  have "adapter_inv cfg s'"
    using create_relock assms(2) os_only_inv [OF _ create_hook_os_only] finish_inv req
    by (metis conc_inv_def fst_conv)
  then show ?thesis
    using create_relock assms(2) by (auto simp: conc_inv_def list_all_iff dest: subsetD [OF set_remove1_subset])
qed (auto simp: conc_inv_def intro: prepare_inv finish_inv delete_inv exec_inv)


section \<open>Two creations of the same sandbox\<close>

text \<open>An operating system on which the first script succeeds and every later one fails.\<close>

definition race_os :: os_env where
  "race_os = demo_os\<lparr>os_Run := (\<lambda>t c. (demo_run [])\<lparr>rr_End := demo_end\<lparr>pe_ExitCode :=
     (if list_ex (\<lambda>e. case e of OsRun _ _ \<Rightarrow> True | _ \<Rightarrow> False) t then 1 else 0)\<rparr>\<rparr>)\<rparr>"

definition race_req :: SandboxCreateBody where
  "race_req = demo_req\<lparr>sb_SetupScript := ''/setup''\<rparr>"

definition race1 :: NsjailAdapter where
  "race1 = snd (run_state (create_prepare race_os demo_cfg race_req) NewNsjailAdapter)"

definition race2 :: NsjailAdapter where
  "race2 = snd (run_state (create_prepare race_os demo_cfg race_req) race1)"

definition race_script :: "NsjailAdapter \<Rightarrow> go_error option \<times> NsjailAdapter" where
  "race_script s = (case run_state (create_hook race_os demo_cfg race_req) s of
     (h, s1) \<Rightarrow> run_state (create_finish race_os demo_cfg race_req h) s1)"

definition race3 :: NsjailAdapter where
  "race3 = snd (race_script race2)"

definition race4 :: NsjailAdapter where
  "race4 = snd (race_script race3)"

lemma race_valid: "validateCreateRequest demo_cfg race_req = None" "sb_SetupScript race_req \<noteq> []"
  by code_simp+

lemma race_prepare:
  "run_state (create_prepare race_os demo_cfg race_req) NewNsjailAdapter = (None, race1)"
  "run_state (create_prepare race_os demo_cfg race_req) race1 = (None, race2)"
proof -
  have "fst (run_state (create_prepare race_os demo_cfg race_req) NewNsjailAdapter) = None"
    "fst (run_state (create_prepare race_os demo_cfg race_req) race1) = None"
    by code_simp+
  then show "run_state (create_prepare race_os demo_cfg race_req) NewNsjailAdapter = (None, race1)"
    "run_state (create_prepare race_os demo_cfg race_req) race1 = (None, race2)"
    by (simp_all add: race1_def race2_def prod_eq_iff)
qed

lemma race_relock:
  assumes "race_req \<in> set flight"
  shows "adapter_step race_os demo_cfg (s, flight) (snd (race_script s), remove1 race_req flight)"
proof -
  obtain h s1 where h: "run_state (create_hook race_os demo_cfg race_req) s = (h, s1)" by fastforce
  obtain r s2 where f: "run_state (create_finish race_os demo_cfg race_req h) s1 = (r, s2)"
    by fastforce
  from create_relock [OF assms h f] h f show ?thesis by (simp add: race_script_def)
qed

lemma race_reachable: "adapter_reachable race_os demo_cfg (race1, [race_req])"
  by (rule adapter_reachable.step [OF adapter_reachable.start])
     (rule create_unlock [OF race_valid(1) race_prepare(1) race_valid(2)])

text \<open>
  Two concurrent creations of the same sandbox can both pass the check for an existing
  one; when the setup script of the second fails, the adapter removes the directory of the
  sandbox that the first has registered, which stays in the table without its directory.
\<close>

theorem create_race:
  "\<exists>s. adapter_reachable race_os demo_cfg (s, []) \<and>
     map_of (na_sandboxes s) ''s1'' = Some (new_sandbox demo_cfg race_req) \<and>
     last (na_trace s) = OsRemoveAll (sandboxBase demo_cfg ''s1'') None"
proof -
  note race_reachable
  then have "adapter_reachable race_os demo_cfg (race2, [race_req, race_req])"
    by (rule adapter_reachable.step) (rule create_unlock [OF race_valid(1) race_prepare(2) race_valid(2)])
  then have "adapter_reachable race_os demo_cfg (race3, [race_req])"
    using adapter_reachable.step race_relock [of "[race_req, race_req]" race2]
    unfolding race3_def by force
  then have "adapter_reachable race_os demo_cfg (race4, [])"
    using adapter_reachable.step race_relock [of "[race_req]" race3]
    unfolding race4_def by force
  moreover have "map_of (na_sandboxes race4) ''s1'' = Some (new_sandbox demo_cfg race_req)"
    "last (na_trace race4) = OsRemoveAll (sandboxBase demo_cfg ''s1'') None"
    by code_simp+
  ultimately show ?thesis by blast
qed


end
