(* ===== verification/Controller_Concurrency.thy ===== *)
theory Controller_Concurrency
  imports Controller_Server_Props Nsjail_Concurrency
begin

text \<open>
  The controller while it answers several requests at once.  A step is what a handler does
  between two points at which another one can get in: the check of the capacity, the locked
  sections of the adapter around the setup script, taking and giving back an execution slot.
  The state has, beside that of the server, the creations that passed the check, those whose setup
  script runs, and the executions that hold a slot.
\<close>

record ctl_conc =
  cn_server :: controller
  cn_checked :: "CreateSandboxReq list"
  cn_setup :: "CreateSandboxReq list"
  cn_running :: "ExecReq list"

definition ctl_idle :: "controller \<Rightarrow> ctl_conc" where
  "ctl_idle s = \<lparr>cn_server = s, cn_checked = [], cn_setup = [], cn_running = []\<rparr>"

text \<open>The end of \<open>handleCreate\<close>: a creation that worked is counted.\<close>

definition created :: "go_error option \<Rightarrow> controller \<Rightarrow> controller" where
  "created r s = (if r = None then snd (run_state (record_metric SandboxCreated) s) else s)"

text \<open>The end of \<open>handleExec\<close>: the execution is counted and its slot given back.\<close>

definition executed :: "ExecReq \<Rightarrow> go_error + ExecResponseBody \<Rightarrow> controller \<Rightarrow> controller" where
  "executed req r s =
     (let m = (case r of
          Inl e \<Rightarrow> ExecRecorded (xq_SandboxID req) ''error'' 0
        | Inr x \<Rightarrow> ExecRecorded (xq_SandboxID req) (execResult (Some x))
            (length (xr_Stdout x) + length (xr_Stderr x)))
      in (snd (run_state (record_metric m) s))\<lparr>cs_execSem := cs_execSem s - 1\<rparr>)"

text \<open>\<open>limit\<close> is a bound on the number of creations that are under way at once.\<close>

inductive ctl_step :: "os_env \<Rightarrow> ctl_config \<Rightarrow> nat \<Rightarrow> ctl_conc \<Rightarrow> ctl_conc \<Rightarrow> bool"
  for os cfg limit where
  create_check:
    "\<lbrakk>TrimSpace (cq_SandboxID req) \<noteq> []; int (length (na_sandboxes (cn_server c))) < cc_maxSandboxes cfg;
      length (cn_checked c) + length (cn_setup c) < limit\<rbrakk>
     \<Longrightarrow> ctl_step os cfg limit c (c\<lparr>cn_checked := req # cn_checked c\<rparr>)"
| create_invalid:
    "\<lbrakk>req \<in> set (cn_checked c); validateCreateRequest (cc_adapterConfig cfg) (create_body req) = Some e\<rbrakk>
     \<Longrightarrow> ctl_step os cfg limit c (c\<lparr>cn_checked := remove1 req (cn_checked c)\<rparr>)"
| create_refused:
    "\<lbrakk>req \<in> set (cn_checked c); validateCreateRequest (cc_adapterConfig cfg) (create_body req) = None;
      run_state (create_prepare os (cc_adapterConfig cfg) (create_body req)) (cn_server c) = (Some e, s')\<rbrakk>
     \<Longrightarrow> ctl_step os cfg limit c (c\<lparr>cn_server := s', cn_checked := remove1 req (cn_checked c)\<rparr>)"
| create_plain:
    "\<lbrakk>req \<in> set (cn_checked c); validateCreateRequest (cc_adapterConfig cfg) (create_body req) = None;
      run_state (create_prepare os (cc_adapterConfig cfg) (create_body req)) (cn_server c) = (None, s1);
      cq_SetupScript req = [];
      run_state (create_finish os (cc_adapterConfig cfg) (create_body req) None) s1 = (r, s')\<rbrakk>
     \<Longrightarrow> ctl_step os cfg limit c (c\<lparr>cn_server := created r s', cn_checked := remove1 req (cn_checked c)\<rparr>)"
| create_unlock:
    "\<lbrakk>req \<in> set (cn_checked c); validateCreateRequest (cc_adapterConfig cfg) (create_body req) = None;
      run_state (create_prepare os (cc_adapterConfig cfg) (create_body req)) (cn_server c) = (None, s');
      cq_SetupScript req \<noteq> []\<rbrakk>
     \<Longrightarrow> ctl_step os cfg limit c (c\<lparr>cn_server := s', cn_checked := remove1 req (cn_checked c),
           cn_setup := req # cn_setup c\<rparr>)"
| create_relock:
    "\<lbrakk>req \<in> set (cn_setup c);
      run_state (create_hook os (cc_adapterConfig cfg) (create_body req)) (cn_server c) = (h, s1);
      run_state (create_finish os (cc_adapterConfig cfg) (create_body req) h) s1 = (r, s')\<rbrakk>
     \<Longrightarrow> ctl_step os cfg limit c (c\<lparr>cn_server := created r s', cn_setup := remove1 req (cn_setup c)\<rparr>)"
| delete:
    "run_state (handleDelete os body) (cn_server c) = (resp, s')
     \<Longrightarrow> ctl_step os cfg limit c (c\<lparr>cn_server := s'\<rparr>)"
| exec_start:
    "cs_execSem (cn_server c) < sem_capacity cfg
     \<Longrightarrow> ctl_step os cfg limit c (c\<lparr>cn_server := (cn_server c)\<lparr>cs_execSem := cs_execSem (cn_server c) + 1\<rparr>,
           cn_running := req # cn_running c\<rparr>)"
| exec_throttled:
    "\<lbrakk>\<not> cs_execSem (cn_server c) < sem_capacity cfg;
      run_state (record_metric ExecThrottled) (cn_server c) = (x, s')\<rbrakk>
     \<Longrightarrow> ctl_step os cfg limit c (c\<lparr>cn_server := s'\<rparr>)"
| exec_end:
    "\<lbrakk>req \<in> set (cn_running c);
      run_state (Exec os (cc_adapterConfig cfg) (xq_SandboxID req) (xq_Command req) (xq_Args req) (xq_Env req)
        (exec_timeout req) (xq_PTY req)) (cn_server c) = (r, s1)\<rbrakk>
     \<Longrightarrow> ctl_step os cfg limit c (c\<lparr>cn_server := executed req r s1,
           cn_running := remove1 req (cn_running c)\<rparr>)"

inductive ctl_conc_reachable :: "os_env \<Rightarrow> ctl_config \<Rightarrow> nat \<Rightarrow> ctl_conc \<Rightarrow> bool"
  for os cfg limit where
  start: "ctl_conc_reachable os cfg limit (ctl_idle newServer)"
| step: "ctl_conc_reachable os cfg limit c \<Longrightarrow> ctl_step os cfg limit c c' \<Longrightarrow> ctl_conc_reachable os cfg limit c'"

section \<open>The steps are those of the handlers\<close>

text \<open>A creation that nothing interferes with is a sequence of steps.\<close>

lemma handleCreate_steps:
  assumes "run_state (handleCreate os cfg (Some req)) s = (resp, s')" and "0 < limit"
  shows "(ctl_step os cfg limit)\<^sup>*\<^sup>* (ctl_idle s) (ctl_idle s')"
proof (cases "TrimSpace (cq_SandboxID req) = [] \<or> int (length (na_sandboxes s)) \<ge> cc_maxSandboxes cfg")
  case True
  with assms(1) have "s' = s" by (auto simp: handleCreate_def Count_def split: if_splits)
  then show ?thesis by simp
next
  case False
  let ?acfg = "cc_adapterConfig cfg" and ?body = "create_body req"
  let ?c = "(ctl_idle s)\<lparr>cn_checked := [req]\<rparr>"
  have check: "ctl_step os cfg limit (ctl_idle s) ?c"
    using create_check [where c = "ctl_idle s" and req = req] False assms(2) by (simp add: ctl_idle_def)
  obtain r s1 where Create: "run_state (Create os ?acfg ?body) s = (r, s1)" by fastforce
  with assms(1) False have s': "s' = created r s1"
    by (auto simp: handleCreate_def Count_def created_def case_prod_beta split: if_splits option.splits)
  have "(ctl_step os cfg limit)\<^sup>*\<^sup>* ?c (ctl_idle s')"
  proof (cases "validateCreateRequest ?acfg ?body")
    case (Some e)
    with Create have "r = Some e" "s1 = s" by (simp_all add: Create_def)
    with create_invalid [where c = ?c and req = req] Some s' show ?thesis
      by (auto simp: ctl_idle_def created_def intro!: r_into_rtranclp)
  next
    case valid: None
    obtain p s2 where prep: "run_state (create_prepare os ?acfg ?body) s = (p, s2)" by fastforce
    show ?thesis
    proof (cases p)
      case (Some e)
      with Create valid prep have "r = Some e" "s1 = s2" by (simp_all add: Create_def)
      with create_refused [where c = ?c and req = req] valid prep Some s' show ?thesis
        by (auto simp: ctl_idle_def created_def intro!: r_into_rtranclp)
    next
      case None
      obtain h s3 where hook: "run_state (create_hook os ?acfg ?body) s2 = (h, s3)" by fastforce
      with Create valid prep None have fin: "run_state (create_finish os ?acfg ?body h) s3 = (r, s1)"
        by (simp add: Create_def)
      show ?thesis
      proof (cases "cq_SetupScript req = []")
        case True
        with hook have "h = None" "s3 = s2" by (simp_all add: create_hook_def create_body_def)
        with create_plain [where c = ?c and req = req, OF _ valid _ True] prep None fin s' show ?thesis
          by (auto simp: ctl_idle_def intro!: r_into_rtranclp)
      next
        case False
        let ?c2 = "(ctl_idle s2)\<lparr>cn_setup := [req]\<rparr>"
        have "ctl_step os cfg limit ?c ?c2"
          using create_unlock [where c = ?c and req = req, OF _ valid _ False] prep None by (simp add: ctl_idle_def)
        moreover have "ctl_step os cfg limit ?c2 (ctl_idle s')"
          using create_relock [where c = ?c2 and req = req] hook fin s' by (simp add: ctl_idle_def)
        ultimately show ?thesis by (meson converse_rtranclp_into_rtranclp rtranclp.rtrancl_refl)
      qed
    qed
  qed
  with check show ?thesis by (rule converse_rtranclp_into_rtranclp)
qed

text \<open>So is an execution.\<close>

lemma handleExec_steps:
  assumes "run_state (handleExec os cfg (Some req)) s = (resp, s')"
  shows "(ctl_step os cfg limit)\<^sup>*\<^sup>* (ctl_idle s) (ctl_idle s')"
proof (cases "TrimSpace (xq_SandboxID req) = [] \<or> TrimSpace (xq_Command req) = []")
  case True
  with assms have "s' = s" by (auto simp: handleExec_def split: if_splits)
  then show ?thesis by simp
next
  case ok: False
  show ?thesis
  proof (cases "cs_execSem s < sem_capacity cfg")
    case True
    let ?c = "\<lparr>cn_server = s\<lparr>cs_execSem := cs_execSem s + 1\<rparr>, cn_checked = [], cn_setup = [], cn_running = [req]\<rparr>"
    obtain r s1 where Exec: "run_state (Exec os (cc_adapterConfig cfg) (xq_SandboxID req) (xq_Command req)
        (xq_Args req) (xq_Env req) (exec_timeout req) (xq_PTY req)) (s\<lparr>cs_execSem := cs_execSem s + 1\<rparr>) = (r, s1)"
      by fastforce
    have "s' = executed req r s1"
      using assms ok True Exec
      by (auto simp: handleExec_def with_slot_def executed_def State_Monad.update_def record_metric_def
          case_prod_beta split: sum.splits)
    with exec_end [where c = ?c and req = req] Exec have "ctl_step os cfg limit ?c (ctl_idle s')"
      by (auto simp: ctl_idle_def)
    moreover have "ctl_step os cfg limit (ctl_idle s) ?c"
      using exec_start [where c = "ctl_idle s" and req = req] True by (simp add: ctl_idle_def)
    ultimately show ?thesis by (meson converse_rtranclp_into_rtranclp rtranclp.rtrancl_refl)
  next
    case False
    with assms ok have "run_state (record_metric ExecThrottled) s = ((), s')"
      by (auto simp: handleExec_def with_slot_def record_metric_def State_Monad.update_def)
    with exec_throttled [where c = "ctl_idle s"] False show ?thesis
      by (auto simp: ctl_idle_def intro!: r_into_rtranclp)
  qed
qed

section \<open>The limits under interleaving\<close>

definition ctl_conc_inv :: "ctl_config \<Rightarrow> nat \<Rightarrow> ctl_conc \<Rightarrow> bool" where
  "ctl_conc_inv cfg limit c \<longleftrightarrow>
     adapter_inv (cc_adapterConfig cfg) (cn_server c) \<and>
     list_all (\<lambda>req. validateCreateRequest (cc_adapterConfig cfg) (create_body req) = None) (cn_setup c) \<and>
     int (length (na_sandboxes (cn_server c)) + length (cn_checked c) + length (cn_setup c))
       \<le> max 0 (cc_maxSandboxes cfg + int limit - 1) \<and>
     cs_execSem (cn_server c) = length (cn_running c) \<and> length (cn_running c) \<le> sem_capacity cfg"

text \<open>What the parts of a step do to the server.\<close>

lemma os_only_run:
  assumes "os_only p m" and "run_state m s = (r, s')"
  obtains t where "s' = s\<lparr>na_trace := t\<rparr>"
  using assms unfolding os_only_def by (metis snd_conv)

lemma create_prepare_os_only: "os_only (\<lambda>_. True) (create_prepare os cfg req)"
  unfolding create_prepare_def Let_def remove_all_def
  by (intro os_only_intros copy_binaries_os_only TrueI)

lemma create_finish_run:
  assumes "run_state (create_finish os cfg req h) s = (r, s')"
  obtains t where "r \<noteq> None" and "s' = s\<lparr>na_trace := t\<rparr>"
    | "r = None" and "s' = s\<lparr>na_sandboxes := AList.update (sb_SandboxID req) (new_sandbox cfg req) (na_sandboxes s)\<rparr>"
  using assms
  by (auto simp: create_finish_def remove_all_def os_call_def set_sandboxes_def State_Monad.update_def Let_def
      split: option.splits)

lemma length_update_le: "length (AList.update k v al) \<le> Suc (length al)"
  by (induction al) auto

lemma created_parts [simp]:
  "na_sandboxes (created r s) = na_sandboxes s" "cs_execSem (created r s) = cs_execSem s"
  "adapter_inv cfg (created r s) = adapter_inv cfg s"
  by (simp_all add: created_def record_metric_def State_Monad.update_def adapter_inv_def)

lemma executed_parts [simp]:
  "na_sandboxes (executed req r s) = na_sandboxes s" "cs_execSem (executed req r s) = cs_execSem s - 1"
  "adapter_inv cfg (executed req r s) = adapter_inv cfg s"
  by (simp_all add: executed_def record_metric_def State_Monad.update_def adapter_inv_def Let_def)

lemma adapter_inv_parts [simp]:
  "adapter_inv cfg (s\<lparr>na_trace := t\<rparr>) = adapter_inv cfg s"
  "adapter_inv cfg (c\<lparr>cs_execSem := n\<rparr>) = adapter_inv cfg c"
  "adapter_inv cfg (c\<lparr>cs_metrics := m\<rparr>) = adapter_inv cfg c"
  by (simp_all add: adapter_inv_def)

lemma handleDelete_part:
  assumes "run_state (handleDelete os body) s = (resp, s')" and "adapter_inv cfg s"
  shows "adapter_inv cfg s'" and "length (na_sandboxes s') \<le> length (na_sandboxes s)"
    and "cs_execSem s' = cs_execSem s"
proof -
  have D: "wp (Delete os i) (\<lambda>e s'. (adapter_inv cfg s' \<and>
      length (na_sandboxes s) = (if e = None then Suc (length (na_sandboxes s')) else length (na_sandboxes s'))) \<and>
      NsjailAdapter.more s' = NsjailAdapter.more s) s" for i
    by (intro wp_conj wp_keeps Delete_keeps wp_Delete_count assms(2))
  have "wp (handleDelete os body) (\<lambda>_ s'. adapter_inv cfg s' \<and>
      length (na_sandboxes s') \<le> length (na_sandboxes s) \<and> cs_execSem s' = cs_execSem s) s"
    unfolding handleDelete_def
    by (auto simp: wp_simps assms(2) split: option.split
        intro!: wp_mono [OF D] dest: server_part split: if_splits)
  from wp_run [OF assms(1) this] show "adapter_inv cfg s'"
    "length (na_sandboxes s') \<le> length (na_sandboxes s)" "cs_execSem s' = cs_execSem s" by blast+
qed

lemma remove1_Suc: "x \<in> set xs \<Longrightarrow> Suc (length (remove1 x xs)) = length xs"
  by (induction xs) auto

lemma list_all_remove1: "list_all P xs \<Longrightarrow> list_all P (remove1 x xs)"
  by (auto simp: list_all_iff dest: subsetD [OF set_remove1_subset])

lemma ctl_step_inv:
  assumes "ctl_step os cfg limit c c'" and "ctl_conc_inv cfg limit c"
  shows "ctl_conc_inv cfg limit c'"
  using assms
proof cases
  case (create_refused req e s')
  obtain t where "s' = (cn_server c)\<lparr>na_trace := t\<rparr>" by (rule os_only_run [OF create_prepare_os_only create_refused(4)])
  with create_refused assms(2) show ?thesis by (auto simp: ctl_conc_inv_def dest!: remove1_Suc)
next
  case (create_plain req s1 r s')
  obtain t where s1: "s1 = (cn_server c)\<lparr>na_trace := t\<rparr>" by (rule os_only_run [OF create_prepare_os_only create_plain(4)])
  have inv: "adapter_inv (cc_adapterConfig cfg) s'"
    using finish_inv [OF create_plain(6)] create_plain(3) assms(2) s1 by (simp add: ctl_conc_inv_def)
  from create_plain(6) have "length (na_sandboxes s') \<le> Suc (length (na_sandboxes s1)) \<and> cs_execSem s' = cs_execSem s1"
    by (rule create_finish_run) (auto simp: length_update_le)
  with create_plain assms(2) s1 inv show ?thesis by (auto simp: ctl_conc_inv_def dest!: remove1_Suc)
next
  case (create_unlock req s')
  obtain t where "s' = (cn_server c)\<lparr>na_trace := t\<rparr>" by (rule os_only_run [OF create_prepare_os_only create_unlock(4)])
  with create_unlock assms(2) show ?thesis by (auto simp: ctl_conc_inv_def dest!: remove1_Suc)
next
  case (create_relock req h s1 r s')
  obtain t where s1: "s1 = (cn_server c)\<lparr>na_trace := t\<rparr>" by (rule os_only_run [OF create_hook_os_only create_relock(3)])
  have valid: "validateCreateRequest (cc_adapterConfig cfg) (create_body req) = None"
    using create_relock(2) assms(2) by (auto simp: ctl_conc_inv_def list_all_iff)
  have inv: "adapter_inv (cc_adapterConfig cfg) s'"
    using finish_inv [OF create_relock(4) _ valid] assms(2) s1 by (simp add: ctl_conc_inv_def)
  from create_relock(4) have "length (na_sandboxes s') \<le> Suc (length (na_sandboxes s1)) \<and> cs_execSem s' = cs_execSem s1"
    by (rule create_finish_run) (auto simp: length_update_le)
  with create_relock assms(2) s1 inv show ?thesis
    by (auto simp: ctl_conc_inv_def list_all_remove1 dest!: remove1_Suc)
next
  case (delete body resp s')
  from assms(2) have "adapter_inv (cc_adapterConfig cfg) (cn_server c)" by (simp add: ctl_conc_inv_def)
  from handleDelete_part [OF delete(2) this] delete(1) assms(2) show ?thesis by (auto simp: ctl_conc_inv_def)
next
  case (exec_end req r s1)
  have "os_only (\<lambda>_. True) (Exec os (cc_adapterConfig cfg) (xq_SandboxID req) (xq_Command req) (xq_Args req)
      (xq_Env req) (exec_timeout req) (xq_PTY req))"
    unfolding Exec_def by (rule execWithStdin_os_only)
  then obtain t where "s1 = (cn_server c)\<lparr>na_trace := t\<rparr>" using exec_end(3) by (rule os_only_run)
  with exec_end assms(2) show ?thesis by (auto simp: ctl_conc_inv_def dest!: remove1_Suc)
qed (auto simp: ctl_conc_inv_def record_metric_def State_Monad.update_def dest!: remove1_Suc)

lemma ctl_conc_reachable_inv: "ctl_conc_reachable os cfg limit c \<Longrightarrow> ctl_conc_inv cfg limit c"
proof (induction rule: ctl_conc_reachable.induct)
  case start
  show ?case by (simp add: ctl_conc_inv_def ctl_idle_def newServer_def adapter_inv_def)
qed (rule ctl_step_inv)

section \<open>Schedules\<close>

text \<open>The part of the adapter's creation before the setup script, and the part after it.\<close>

definition after_prepare :: "os_env \<Rightarrow> ctl_config \<Rightarrow> CreateSandboxReq \<Rightarrow> controller \<Rightarrow> controller" where
  "after_prepare os cfg req s = snd (run_state (create_prepare os (cc_adapterConfig cfg) (create_body req)) s)"

definition after_finish :: "os_env \<Rightarrow> ctl_config \<Rightarrow> CreateSandboxReq \<Rightarrow> controller \<Rightarrow> controller" where
  "after_finish os cfg req s =
     (case run_state (create_hook os (cc_adapterConfig cfg) (create_body req)) s of
        (h, s1) \<Rightarrow>
          (case run_state (create_finish os (cc_adapterConfig cfg) (create_body req) h) s1 of
             (r, s') \<Rightarrow> created r s'))"

text \<open>A creation that can go on: the request is valid and the adapter prepares its directories.\<close>

definition preparable :: "os_env \<Rightarrow> ctl_config \<Rightarrow> CreateSandboxReq \<Rightarrow> controller \<Rightarrow> bool" where
  "preparable os cfg req s \<longleftrightarrow>
     validateCreateRequest (cc_adapterConfig cfg) (create_body req) = None \<and>
     fst (run_state (create_prepare os (cc_adapterConfig cfg) (create_body req)) s) = None"

lemma prepare_step:
  assumes "req \<in> set (cn_checked c)" and "preparable os cfg req (cn_server c)"
  shows "cq_SetupScript req = [] \<Longrightarrow> ctl_step os cfg limit c
      (c\<lparr>cn_server := after_finish os cfg req (after_prepare os cfg req (cn_server c)),
         cn_checked := remove1 req (cn_checked c)\<rparr>)"
    "cq_SetupScript req \<noteq> [] \<Longrightarrow> ctl_step os cfg limit c
      (c\<lparr>cn_server := after_prepare os cfg req (cn_server c), cn_checked := remove1 req (cn_checked c),
         cn_setup := req # cn_setup c\<rparr>)"
proof -
  let ?acfg = "cc_adapterConfig cfg" and ?body = "create_body req"
  from assms(2) have valid: "validateCreateRequest ?acfg ?body = None"
    and prep: "run_state (create_prepare os ?acfg ?body) (cn_server c) = (None, after_prepare os cfg req (cn_server c))"
    by (simp_all add: preparable_def after_prepare_def prod_eq_iff)
  show "ctl_step os cfg limit c
      (c\<lparr>cn_server := after_prepare os cfg req (cn_server c), cn_checked := remove1 req (cn_checked c),
         cn_setup := req # cn_setup c\<rparr>)" if "cq_SetupScript req \<noteq> []"
    by (rule create_unlock [OF assms(1) valid prep that])
  assume no: "cq_SetupScript req = []"
  obtain r s' where fin: "run_state (create_finish os ?acfg ?body None) (after_prepare os cfg req (cn_server c)) = (r, s')"
    by fastforce
  with no have "after_finish os cfg req (after_prepare os cfg req (cn_server c)) = created r s'"
    by (simp add: after_finish_def create_hook_def create_body_def)
  with create_plain [OF assms(1) valid prep no fin] show "ctl_step os cfg limit c
      (c\<lparr>cn_server := after_finish os cfg req (after_prepare os cfg req (cn_server c)),
         cn_checked := remove1 req (cn_checked c)\<rparr>)" by simp
qed

lemma finish_step:
  assumes "req \<in> set (cn_setup c)"
  shows "ctl_step os cfg limit c
    (c\<lparr>cn_server := after_finish os cfg req (cn_server c), cn_setup := remove1 req (cn_setup c)\<rparr>)"
proof -
  let ?acfg = "cc_adapterConfig cfg" and ?body = "create_body req"
  obtain h s1 where h: "run_state (create_hook os ?acfg ?body) (cn_server c) = (h, s1)" by fastforce
  obtain r s' where f: "run_state (create_finish os ?acfg ?body h) s1 = (r, s')" by fastforce
  from create_relock [OF assms h f] h f show ?thesis by (simp add: after_finish_def)
qed

text \<open>Two requests that have both passed the check of an empty controller with room for one.\<close>

definition two_checked :: "CreateSandboxReq \<Rightarrow> CreateSandboxReq \<Rightarrow> ctl_conc" where
  "two_checked a b = (ctl_idle newServer)\<lparr>cn_checked := [a, b]\<rparr>"

lemma two_checked_reachable:
  assumes "TrimSpace (cq_SandboxID a) \<noteq> []" "TrimSpace (cq_SandboxID b) \<noteq> []" "0 < cc_maxSandboxes cfg"
  shows "ctl_conc_reachable os cfg 2 (two_checked a b)"
proof -
  have "ctl_step os cfg 2 (ctl_idle newServer) ((ctl_idle newServer)\<lparr>cn_checked := [b]\<rparr>)"
    using create_check [where c = "ctl_idle newServer" and req = b and limit = 2] assms
    by (simp add: ctl_idle_def newServer_def)
  moreover have "ctl_step os cfg 2 ((ctl_idle newServer)\<lparr>cn_checked := [b]\<rparr>) (two_checked a b)"
    using create_check [where c = "(ctl_idle newServer)\<lparr>cn_checked := [b]\<rparr>" and req = a and limit = 2] assms
    by (simp add: two_checked_def ctl_idle_def newServer_def)
  ultimately show ?thesis using ctl_conc_reachable.intros by blast
qed

definition demo_create2 :: CreateSandboxReq where
  "demo_create2 = demo_create\<lparr>cq_SandboxID := ''s2''\<rparr>"

definition overrun1 :: controller where
  "overrun1 = after_finish demo_os demo_ctl_cfg demo_create (after_prepare demo_os demo_ctl_cfg demo_create newServer)"

definition overrun2 :: controller where
  "overrun2 = after_finish demo_os demo_ctl_cfg demo_create2 (after_prepare demo_os demo_ctl_cfg demo_create2 overrun1)"

lemma overrun_reachable: "ctl_conc_reachable demo_os demo_ctl_cfg 2 (ctl_idle overrun2)"
proof -
  have 1: "preparable demo_os demo_ctl_cfg demo_create newServer"
    "preparable demo_os demo_ctl_cfg demo_create2 overrun1"
    "TrimSpace (cq_SandboxID demo_create) \<noteq> []" "TrimSpace (cq_SandboxID demo_create2) \<noteq> []"
    "0 < cc_maxSandboxes demo_ctl_cfg" "cq_SetupScript demo_create = []" "cq_SetupScript demo_create2 = []"
    by code_simp+
  have "ctl_step demo_os demo_ctl_cfg 2 (two_checked demo_create demo_create2)
      ((ctl_idle overrun1)\<lparr>cn_checked := [demo_create2]\<rparr>)"
    using prepare_step(1) [where c = "two_checked demo_create demo_create2" and req = demo_create] 1
    by (simp add: two_checked_def ctl_idle_def overrun1_def)
  moreover have "ctl_step demo_os demo_ctl_cfg 2 ((ctl_idle overrun1)\<lparr>cn_checked := [demo_create2]\<rparr>) (ctl_idle overrun2)"
    using prepare_step(1) [where c = "(ctl_idle overrun1)\<lparr>cn_checked := [demo_create2]\<rparr>" and req = demo_create2] 1
    by (simp add: ctl_idle_def overrun2_def)
  ultimately show ?thesis
    using two_checked_reachable [OF 1(3-5)] ctl_conc_reachable.step by blast
qed



text \<open>
  Two creations of the same sandbox with a setup script can both succeed: the gauge counts
  two and the table has one.
\<close>

definition drift_req :: CreateSandboxReq where
  "drift_req = demo_create\<lparr>cq_SetupScript := ''/setup''\<rparr>"

definition drift1 :: controller where
  "drift1 = after_prepare demo_os demo_ctl_cfg drift_req newServer"

definition drift2 :: controller where
  "drift2 = after_prepare demo_os demo_ctl_cfg drift_req drift1"

definition drift4 :: controller where
  "drift4 = after_finish demo_os demo_ctl_cfg drift_req (after_finish demo_os demo_ctl_cfg drift_req drift2)"

theorem gauge_drift:
  "ctl_conc_reachable demo_os demo_ctl_cfg 2 (ctl_idle drift4) \<and>
   active_gauge drift4 = 2 \<and> length (na_sandboxes drift4) = 1"
proof -
  have 1: "preparable demo_os demo_ctl_cfg drift_req newServer" "preparable demo_os demo_ctl_cfg drift_req drift1"
    "TrimSpace (cq_SandboxID drift_req) \<noteq> []" "0 < cc_maxSandboxes demo_ctl_cfg" "cq_SetupScript drift_req \<noteq> []"
    by code_simp+
  let ?c1 = "\<lparr>cn_server = drift1, cn_checked = [drift_req], cn_setup = [drift_req], cn_running = []\<rparr>"
  let ?c2 = "\<lparr>cn_server = drift2, cn_checked = [], cn_setup = [drift_req, drift_req], cn_running = []\<rparr>"
  let ?c3 = "\<lparr>cn_server = after_finish demo_os demo_ctl_cfg drift_req drift2, cn_checked = [],
    cn_setup = [drift_req], cn_running = []\<rparr>"
  have "ctl_step demo_os demo_ctl_cfg 2 (two_checked drift_req drift_req) ?c1"
    using prepare_step(2) [where c = "two_checked drift_req drift_req" and req = drift_req] 1
    by (simp add: two_checked_def ctl_idle_def drift1_def)
  moreover have "ctl_step demo_os demo_ctl_cfg 2 ?c1 ?c2"
    using prepare_step(2) [where c = ?c1 and req = drift_req] 1 by (simp add: drift2_def)
  moreover have "ctl_step demo_os demo_ctl_cfg 2 ?c2 ?c3"
    using finish_step [where c = ?c2 and req = drift_req] by simp
  moreover have "ctl_step demo_os demo_ctl_cfg 2 ?c3 (ctl_idle drift4)"
    using finish_step [where c = ?c3 and req = drift_req] by (simp add: ctl_idle_def drift4_def)
  ultimately have "ctl_conc_reachable demo_os demo_ctl_cfg 2 (ctl_idle drift4)"
    using two_checked_reachable [OF 1(3,3,4)] ctl_conc_reachable.step by blast
  moreover have "active_gauge drift4 = 2" "length (na_sandboxes drift4) = 1" by code_simp+
  ultimately show ?thesis by blast
qed

end
