(* ===== verification/Controller_Client.thy ===== *)
theory Controller_Client
  imports Controller_Api
begin

text \<open>
  The HTTP client of the controller's API, \<open>internal/controller/client.go\<close>, which the
  operator and the router use.  What \<open>http.Client.Do\<close> returns is a function of the request,
  an argument of every operation: a transport error, or a response with its status, the error
  message in its body if it decodes as an error body, and what decoding it into the expected
  type yields.
\<close>

section \<open>Responses as the client sees them\<close>

record 'a http_resp =
  hr_Status :: int
  hr_ErrBody :: "bytes option"
  hr_Decoded :: "go_error + 'a"

type_synonym 'a do_result = "go_error + 'a http_resp"

text \<open>A line of the stream decoded into the client's event struct; \<open>None\<close> is not JSON.\<close>

record client_event =
  ce_Type :: bytes
  ce_Data :: bytes
  ce_Code :: int
  ce_TimedOut :: bool

text \<open>The lines the scanner returns and the error it ends with.\<close>

type_synonym stream_body = "client_event option list \<times> go_error option"

section \<open>Errors\<close>

definition newHTTPError :: "bytes \<Rightarrow> bytes \<Rightarrow> 'a http_resp \<Rightarrow> go_error" where
  "newHTTPError meth url resp =
     ErrHTTP meth url (hr_Status resp)
       (case hr_ErrBody resp of Some msg \<Rightarrow> TrimSpace msg | None \<Rightarrow> [])"

definition is_http_error :: "go_error \<Rightarrow> bool" where
  "is_http_error e \<longleftrightarrow> (case e of ErrHTTP mt u st t \<Rightarrow> True | _ \<Rightarrow> False)"

text \<open>
  The errors that implement \<open>net.Error\<close>: those of the net package, the \<open>*url.Error\<close> that a
  failed request returns, and \<open>context.DeadlineExceeded\<close>.
\<close>

definition is_net_error :: "go_error \<Rightarrow> bool" where
  "is_net_error e \<longleftrightarrow> (case e of ErrNet t \<Rightarrow> True | ErrURL t x \<Rightarrow> True | ErrDeadline \<Rightarrow> True | _ \<Rightarrow> False)"

definition IsStaleRouteError :: "go_error option \<Rightarrow> bool" where
  "IsStaleRouteError err =
     (case err of
        None \<Rightarrow> False
      | Some e \<Rightarrow>
          (case List.find is_http_error (err_chain e) of
             Some (ErrHTTP mt u st t) \<Rightarrow> st = 404
           | _ \<Rightarrow> list_ex is_net_error (err_chain e)))"

section \<open>Requests\<close>

datatype client_body =
    SendCreate CreateSandboxReq
  | SendDelete DeleteSandboxReq
  | SendExec ExecReq
  | SendFileRead FileReadReq
  | SendFileWrite FileWriteReq
  | SendFileEdit FileEditReq

record http_req =
  hq_Method :: bytes
  hq_URL :: bytes
  hq_Token :: bytes
  hq_Body :: client_body

text \<open>
  What sending a request ends with.  A URL that does not parse is a transport error as well:
  both are a \<open>*url.Error\<close>.
\<close>

type_synonym 'a transport = "http_req \<Rightarrow> 'a do_result"

record ClientConfig =
  cl_MTLSDisabled :: bool
  cl_CACertPath :: bytes
  cl_ClientCert :: bytes
  cl_ClientKey :: bytes
  cl_ControllerToken :: bytes

definition RoundTrip :: "bytes \<Rightarrow> 'a transport \<Rightarrow> 'a transport" where
  "RoundTrip token base r = base (r\<lparr>hq_Token := token\<rparr>)"

text \<open>The transport of a client; \<open>base\<close> is the default one or the one with mutual TLS.\<close>

definition NewClient :: "ClientConfig \<Rightarrow> 'a transport \<Rightarrow> 'a transport" where
  "NewClient cfg base =
     (if cl_ControllerToken cfg \<noteq> [] then RoundTrip (cl_ControllerToken cfg) base else base)"

definition http_NewRequest :: "bytes \<Rightarrow> bytes \<Rightarrow> client_body \<Rightarrow> http_req" where
  "http_NewRequest meth url body = \<lparr>hq_Method = meth, hq_URL = url, hq_Token = [], hq_Body = body\<rparr>"

text \<open>
  \<open>out\<close> is what is done with the body of a success: it is decoded (\<open>hr_Decoded\<close>), or left
  unread when the caller passes no target.
\<close>

definition postJSON ::
  "'a transport \<Rightarrow> bytes \<Rightarrow> client_body \<Rightarrow> ('a http_resp \<Rightarrow> go_error + 'b) \<Rightarrow> go_error + 'b" where
  "postJSON send url body out =
     (case send (http_NewRequest ''POST'' url body) of
        Inl e \<Rightarrow> Inl e
      | Inr resp \<Rightarrow>
          if hr_Status resp \<ge> 300 then Inl (newHTTPError ''POST'' url resp) else out resp)"

definition deleteJSON :: "'a transport \<Rightarrow> bytes \<Rightarrow> client_body \<Rightarrow> go_error option" where
  "deleteJSON send url body =
     (case send (http_NewRequest ''DELETE'' url body) of
        Inl e \<Rightarrow> Some e
      | Inr resp \<Rightarrow>
          if hr_Status resp \<ge> 300 then Some (newHTTPError ''DELETE'' url resp) else None)"

definition CreateSandbox :: "'a transport \<Rightarrow> bytes \<Rightarrow> CreateSandboxReq \<Rightarrow> go_error option" where
  "CreateSandbox send baseURL req =
     (case postJSON send (baseURL @ ''/v1/sandboxes'') (SendCreate req) (\<lambda>_. Inr ()) of
        Inl e \<Rightarrow> Some e
      | Inr _ \<Rightarrow> None)"

definition DeleteSandbox :: "'a transport \<Rightarrow> bytes \<Rightarrow> DeleteSandboxReq \<Rightarrow> go_error option" where
  "DeleteSandbox send baseURL req = deleteJSON send (baseURL @ ''/v1/sandboxes'') (SendDelete req)"

definition client_Exec :: "ExecResult transport \<Rightarrow> bytes \<Rightarrow> ExecReq \<Rightarrow> go_error + ExecResult" where
  "client_Exec send baseURL req = postJSON send (baseURL @ ''/v1/exec'') (SendExec req) hr_Decoded"

definition client_ReadFile ::
  "FileReadResult transport \<Rightarrow> bytes \<Rightarrow> FileReadReq \<Rightarrow> go_error + FileReadResult" where
  "client_ReadFile send baseURL req = postJSON send (baseURL @ ''/v1/files/read'') (SendFileRead req) hr_Decoded"

definition client_WriteFile ::
  "FileWriteResult transport \<Rightarrow> bytes \<Rightarrow> FileWriteReq \<Rightarrow> go_error + FileWriteResult" where
  "client_WriteFile send baseURL req = postJSON send (baseURL @ ''/v1/files/write'') (SendFileWrite req) hr_Decoded"

definition client_EditFile ::
  "FileEditResult transport \<Rightarrow> bytes \<Rightarrow> FileEditReq \<Rightarrow> go_error + FileEditResult" where
  "client_EditFile send baseURL req = postJSON send (baseURL @ ''/v1/files/edit'') (SendFileEdit req) hr_Decoded"

text \<open>
  The loop over the lines of the stream: the calls of \<open>onEvent\<close>, and the result, an error as
  soon as an error event is read.
\<close>

fun scan_lines ::
  "client_event option list \<Rightarrow> ExecResult \<Rightarrow> (bytes \<times> bytes) list \<times> (go_error + ExecResult)" where
  "scan_lines [] result = ([], Inr result)"
| "scan_lines (None # ls) result = scan_lines ls result"
| "scan_lines (Some evt # ls) result =
     (if ce_Type evt = ''stdout'' \<or> ce_Type evt = ''stderr'' \<or> ce_Type evt = ''truncated''
      then apfst ((#) (ce_Type evt, ce_Data evt)) (scan_lines ls result)
      else if ce_Type evt = ''exit''
      then scan_lines ls (result\<lparr>xs_ExitCode := ce_Code evt, xs_TimedOut := ce_TimedOut evt\<rparr>)
      else if ce_Type evt = ''error''
      then ([], Inl (ErrText (''exec stream: '' @ ce_Data evt)))
      else scan_lines ls result)"

definition zero_ExecResult :: ExecResult where
  "zero_ExecResult = \<lparr>xs_Stdout = [], xs_Stderr = [], xs_ExitCode = 0, xs_TimedOut = False\<rparr>"

definition client_ExecStream ::
  "stream_body transport \<Rightarrow> bytes \<Rightarrow> ExecReq \<Rightarrow> (bytes \<times> bytes) list \<times> (go_error + ExecResult)" where
  "client_ExecStream send baseURL req =
     (case send (http_NewRequest ''POST'' (baseURL @ ''/v1/exec/stream'') (SendExec req)) of
        Inl e \<Rightarrow> ([], Inl e)
      | Inr resp \<Rightarrow>
          if hr_Status resp \<ge> 300
          then ([], Inl (newHTTPError ''POST'' (baseURL @ ''/v1/exec/stream'') resp))
          else
            (case hr_Decoded resp of
               Inl e \<Rightarrow> ([], Inl e)
             | Inr (ls, scanErr) \<Rightarrow>
                 (case scan_lines ls zero_ExecResult of
                    (evs, Inl e) \<Rightarrow> (evs, Inl e)
                  | (evs, Inr result) \<Rightarrow>
                      (evs, (case scanErr of
                               Some e \<Rightarrow> Inl (wrap_err ''read stream: '' e [])
                             | None \<Rightarrow> Inr result)))))"

end
