(* ===== verification/Kube.thy ===== *)
theory Kube
  imports Controller_Client Go_Time
begin

text \<open>
  The objects the operator and the router keep in Kubernetes (\<open>api/v1alpha1\<close>, and the fields
  of pods and stateful sets they read), and the calls to the API server, to the controllers,
  to the clock and to the random source, each an event of a trace.  What a call answers is a
  function of the trace so far.
\<close>

section \<open>Objects\<close>

record ObjectMeta =
  om_Name :: bytes
  om_Namespace :: bytes
  om_Labels :: str_map
  om_Annotations :: str_map
  om_Finalizers :: "bytes list"
  om_DeletionTimestamp :: "time option"
  om_CreationTimestamp :: time

record SandboxSpec =
  bs_SandboxID :: bytes
  bs_TTLSeconds :: int
  bs_Env :: str_map
  bs_AllowedBinaries :: "bytes list"
  bs_VM :: "VMConfig option"
  bs_Network :: "SandboxNetworkConfig option"
  bs_Volumes :: "VolumeMount list"
  bs_Patches :: "SandboxPatch list"
  bs_SetupScript :: bytes
  bs_TeardownScript :: bytes
  bs_ScriptEnv :: str_map

record Sandbox =
  bx_Meta :: ObjectMeta
  bx_Spec :: SandboxSpec

abbreviation SandboxPhasePending :: bytes where "SandboxPhasePending \<equiv> ''Pending''"
abbreviation SandboxPhaseCreating :: bytes where "SandboxPhaseCreating \<equiv> ''Creating''"
abbreviation SandboxPhaseRunning :: bytes where "SandboxPhaseRunning \<equiv> ''Running''"
abbreviation SandboxPhaseDeleting :: bytes where "SandboxPhaseDeleting \<equiv> ''Deleting''"
abbreviation SandboxPhaseTerminated :: bytes where "SandboxPhaseTerminated \<equiv> ''Terminated''"

abbreviation FinalizerSessionCleanup :: bytes where
  "FinalizerSessionCleanup \<equiv> ''boxy.dev/session-cleanup''"
abbreviation FinalizerSandboxConfigCleanup :: bytes where
  "FinalizerSandboxConfigCleanup \<equiv> ''boxy.dev/sandbox-config-cleanup''"
abbreviation LabelSandboxID :: bytes where "LabelSandboxID \<equiv> ''boxy.dev/sandbox-id''"

record SessionSpec =
  ss_SessionID :: bytes
  ss_SandboxID :: bytes
  ss_Owner :: bytes

record SessionStatus =
  st_Phase :: bytes
  st_ControllerPool :: bytes
  st_ControllerPod :: bytes
  st_ControllerAddress :: bytes
  st_Port :: int
  st_CreatedAt :: "time option"
  st_ExpiresAt :: "time option"
  st_LastExecAt :: "time option"
  st_TerminatedAt :: "time option"
  st_Message :: bytes

record Session =
  se_Meta :: ObjectMeta
  se_Spec :: SessionSpec
  se_Status :: SessionStatus

record ControllerPoolSpec =
  ps_MaxSandboxes :: int
  ps_MaxReplicas :: int
  ps_MinReplicas :: int
  ps_Image :: bytes
  ps_PreinstalledBinaries :: "bytes list"

record Condition =
  cd_Type :: bytes
  cd_Status :: bytes
  cd_Reason :: bytes
  cd_Message :: bytes
  cd_LastTransitionTime :: time

record ControllerPoolStatus =
  pt_ReadyReplicas :: int
  pt_ActiveSandboxCount :: int
  pt_LastScaleTime :: "time option"
  pt_Conditions :: "Condition list"

record ControllerPool =
  cp_Meta :: ObjectMeta
  cp_Spec :: ControllerPoolSpec
  cp_Status :: ControllerPoolStatus

text \<open>What the code reads of a pod and of a stateful set.\<close>

record Pod =
  po_Meta :: ObjectMeta
  po_Phase :: bytes
  po_Conditions :: "(bytes \<times> bytes) list"

record StatefulSet =
  sts_Replicas :: "int option"
  sts_ReadyReplicas :: int

definition set_phase :: "bytes \<Rightarrow> Session \<Rightarrow> Session" where
  "set_phase p s = s\<lparr>se_Status := (se_Status s)\<lparr>st_Phase := p\<rparr>\<rparr>"

abbreviation phase :: "Session \<Rightarrow> bytes" where "phase s \<equiv> st_Phase (se_Status s)"

section \<open>Finalizers\<close>

definition ContainsFinalizer :: "ObjectMeta \<Rightarrow> bytes \<Rightarrow> bool" where
  "ContainsFinalizer m f \<longleftrightarrow> f \<in> set (om_Finalizers m)"

definition AddFinalizer :: "bytes \<Rightarrow> ObjectMeta \<Rightarrow> ObjectMeta" where
  "AddFinalizer f m =
     (if f \<in> set (om_Finalizers m) then m else m\<lparr>om_Finalizers := om_Finalizers m @ [f]\<rparr>)"

definition RemoveFinalizer :: "bytes \<Rightarrow> ObjectMeta \<Rightarrow> ObjectMeta" where
  "RemoveFinalizer f m = m\<lparr>om_Finalizers := filter (\<lambda>x. x \<noteq> f) (om_Finalizers m)\<rparr>"

section \<open>Calls\<close>

text \<open>Users and reviews of the authentication and the authorization API.\<close>

record UserInfo =
  ui_Username :: bytes
  ui_UID :: bytes
  ui_Groups :: "bytes list"

record TokenReviewStatus =
  tr_Authenticated :: bool
  tr_User :: UserInfo
  tr_Error :: bytes

record AccessReview =
  ar_User :: UserInfo
  ar_Namespace :: bytes
  ar_Group :: bytes
  ar_Resource :: bytes
  ar_Verb :: bytes
  ar_Name :: bytes

datatype kevent =
    GetSession bytes bytes "go_error + Session"
  | ListSessions bytes str_map "go_error + Session list"
  | CreateSession Session "go_error + Session"
  | UpdateSession Session "go_error + Session"
  | UpdateSessionStatus Session "go_error + Session"
  | PatchSessionStatus Session Session "go_error + Session"
  | DeleteSession Session "go_error option"
  | GetSandbox bytes bytes "go_error + Sandbox"
  | ListSandboxes bytes str_map "go_error + Sandbox list"
  | CreateSandboxCR Sandbox "go_error + Sandbox"
  | UpdateSandbox Sandbox "go_error + Sandbox"
  | PatchSandbox Sandbox Sandbox "go_error + Sandbox"
  | DeleteSandboxCR Sandbox "go_error option"
  | GetStatefulSet bytes bytes "go_error + StatefulSet"
  | UpdateStatefulSet StatefulSet "go_error + StatefulSet"
  | ListPods bytes str_map "go_error + Pod list"
  | GetPool bytes bytes "go_error + ControllerPool"
  | ListPools bytes "go_error + ControllerPool list"
  | UpdatePoolStatus ControllerPool "go_error + ControllerPool"
  | ReviewToken bytes "go_error + TokenReviewStatus"
  | ReviewAccess AccessReview "go_error + (bool \<times> bytes)"
  | CtlCreate bytes CreateSandboxReq "go_error option"
  | CtlDelete bytes DeleteSandboxReq "go_error option"
  | CtlExec bytes ExecReq "go_error + ExecResult"
  | CtlExecStream bytes ExecReq "(bytes \<times> bytes) list \<times> (go_error + ExecResult)"
  | CtlReadFile bytes FileReadReq "go_error + FileReadResult"
  | CtlWriteFile bytes FileWriteReq "go_error + FileWriteResult"
  | CtlEditFile bytes FileEditReq "go_error + FileEditResult"
  | Now time
  | WaitTick "go_error option"
  | RandomBytes bytes
  | Spawn Session
  | NotifyProgress nat bytes

type_synonym ktrace = "kevent list"

record kube_env =
  k_GetSession :: "ktrace \<Rightarrow> bytes \<Rightarrow> bytes \<Rightarrow> go_error + Session"
  k_ListSessions :: "ktrace \<Rightarrow> bytes \<Rightarrow> str_map \<Rightarrow> go_error + Session list"
  k_CreateSession :: "ktrace \<Rightarrow> Session \<Rightarrow> go_error + Session"
  k_UpdateSession :: "ktrace \<Rightarrow> Session \<Rightarrow> go_error + Session"
  k_UpdateSessionStatus :: "ktrace \<Rightarrow> Session \<Rightarrow> go_error + Session"
  k_PatchSessionStatus :: "ktrace \<Rightarrow> Session \<Rightarrow> Session \<Rightarrow> go_error + Session"
  k_DeleteSession :: "ktrace \<Rightarrow> Session \<Rightarrow> go_error option"
  k_GetSandbox :: "ktrace \<Rightarrow> bytes \<Rightarrow> bytes \<Rightarrow> go_error + Sandbox"
  k_ListSandboxes :: "ktrace \<Rightarrow> bytes \<Rightarrow> str_map \<Rightarrow> go_error + Sandbox list"
  k_CreateSandbox :: "ktrace \<Rightarrow> Sandbox \<Rightarrow> go_error + Sandbox"
  k_UpdateSandbox :: "ktrace \<Rightarrow> Sandbox \<Rightarrow> go_error + Sandbox"
  k_PatchSandbox :: "ktrace \<Rightarrow> Sandbox \<Rightarrow> Sandbox \<Rightarrow> go_error + Sandbox"
  k_DeleteSandbox :: "ktrace \<Rightarrow> Sandbox \<Rightarrow> go_error option"
  k_GetStatefulSet :: "ktrace \<Rightarrow> bytes \<Rightarrow> bytes \<Rightarrow> go_error + StatefulSet"
  k_UpdateStatefulSet :: "ktrace \<Rightarrow> StatefulSet \<Rightarrow> go_error + StatefulSet"
  k_ListPods :: "ktrace \<Rightarrow> bytes \<Rightarrow> str_map \<Rightarrow> go_error + Pod list"
  k_GetPool :: "ktrace \<Rightarrow> bytes \<Rightarrow> bytes \<Rightarrow> go_error + ControllerPool"
  k_ListPools :: "ktrace \<Rightarrow> bytes \<Rightarrow> go_error + ControllerPool list"
  k_UpdatePoolStatus :: "ktrace \<Rightarrow> ControllerPool \<Rightarrow> go_error + ControllerPool"
  k_ReviewToken :: "ktrace \<Rightarrow> bytes \<Rightarrow> go_error + TokenReviewStatus"
  k_ReviewAccess :: "ktrace \<Rightarrow> AccessReview \<Rightarrow> go_error + (bool \<times> bytes)"
  k_Plain :: "ktrace \<Rightarrow> unit transport"
  k_Exec :: "ktrace \<Rightarrow> ExecResult transport"
  k_Stream :: "ktrace \<Rightarrow> stream_body transport"
  k_ReadFile :: "ktrace \<Rightarrow> FileReadResult transport"
  k_WriteFile :: "ktrace \<Rightarrow> FileWriteResult transport"
  k_EditFile :: "ktrace \<Rightarrow> FileEditResult transport"
  k_Now :: "ktrace \<Rightarrow> time"
  k_WaitTick :: "ktrace \<Rightarrow> go_error option"
  k_RandomBytes :: "ktrace \<Rightarrow> bytes"

record world =
  w_trace :: ktrace

type_synonym ('z, 'a) kube = "('z world_scheme, 'a) state"

definition k_call :: "(ktrace \<Rightarrow> 'a) \<Rightarrow> ('a \<Rightarrow> kevent) \<Rightarrow> ('z, 'a) kube" where
  "k_call ask ev =
     State (\<lambda>s. let r = ask (w_trace s) in (r, s\<lparr>w_trace := w_trace s @ [ev r]\<rparr>))"

lemma run_k_call [simp]:
  "run_state (k_call ask ev) s =
     (ask (w_trace s), s\<lparr>w_trace := w_trace s @ [ev (ask (w_trace s))]\<rparr>)"
  by (simp add: k_call_def Let_def)

lemma wp_k_call [wp_simps]:
  "wp (k_call ask ev) Q s =
     Q (ask (w_trace s)) (s\<lparr>w_trace := w_trace s @ [ev (ask (w_trace s))]\<rparr>)"
  by (simp add: wp_def)

lemma emits_k_call [emits_intros]: "(\<And>r. P [ev r] r) \<Longrightarrow> emits w_trace P (k_call ask ev)"
  by (rule emitsI) simp

text \<open>A call before the rest: the event comes first.\<close>

lemma emits_call_bind:
  assumes "\<And>r. emits w_trace (\<lambda>es y. P (ev r # es) y) (f r)"
  shows "emits w_trace P (State_Monad.bind (k_call ask ev) f)"
proof (rule emits_bind)
  show "emits w_trace (\<lambda>es r. es = [ev r]) (k_call ask ev)" by (rule emits_k_call) simp
  show "emits w_trace (\<lambda>es' y. P (ev x # es') y) (f x)" for x by (rule assms)
qed simp

text \<open>The reason of a \<open>StatusError\<close>, which \<open>apierrors.IsNotFound\<close> and its like look for.\<close>

definition has_reason :: "bytes \<Rightarrow> go_error \<Rightarrow> bool" where
  "has_reason r e \<longleftrightarrow>
     (case List.find (\<lambda>e. case e of ErrStatus a b \<Rightarrow> True | _ \<Rightarrow> False) (err_chain e) of
        Some (ErrStatus a b) \<Rightarrow> a = r
      | _ \<Rightarrow> False)"

abbreviation IsNotFound :: "go_error \<Rightarrow> bool" where "IsNotFound \<equiv> has_reason ''NotFound''"
abbreviation IsAlreadyExists :: "go_error \<Rightarrow> bool" where "IsAlreadyExists \<equiv> has_reason ''AlreadyExists''"

definition time_Now :: "kube_env \<Rightarrow> ('z, time) kube" where
  "time_Now env = k_call (k_Now env) Now"

section \<open>Calls of the controllers\<close>

text \<open>The client has one configuration, which fixes the token it sends.\<close>

definition ctl_CreateSandbox ::
  "kube_env \<Rightarrow> ClientConfig \<Rightarrow> bytes \<Rightarrow> CreateSandboxReq \<Rightarrow> ('z, go_error option) kube" where
  "ctl_CreateSandbox env cc baseURL req =
     k_call (\<lambda>t. CreateSandbox (NewClient cc (k_Plain env t)) baseURL req) (CtlCreate baseURL req)"

definition ctl_DeleteSandbox ::
  "kube_env \<Rightarrow> ClientConfig \<Rightarrow> bytes \<Rightarrow> DeleteSandboxReq \<Rightarrow> ('z, go_error option) kube" where
  "ctl_DeleteSandbox env cc baseURL req =
     k_call (\<lambda>t. DeleteSandbox (NewClient cc (k_Plain env t)) baseURL req) (CtlDelete baseURL req)"

definition ctl_Exec ::
  "kube_env \<Rightarrow> ClientConfig \<Rightarrow> bytes \<Rightarrow> ExecReq \<Rightarrow> ('z, go_error + ExecResult) kube" where
  "ctl_Exec env cc baseURL req =
     k_call (\<lambda>t. client_Exec (NewClient cc (k_Exec env t)) baseURL req) (CtlExec baseURL req)"

definition ctl_ExecStream ::
  "kube_env \<Rightarrow> ClientConfig \<Rightarrow> bytes \<Rightarrow> ExecReq \<Rightarrow>
     ('z, (bytes \<times> bytes) list \<times> (go_error + ExecResult)) kube" where
  "ctl_ExecStream env cc baseURL req =
     k_call (\<lambda>t. client_ExecStream (NewClient cc (k_Stream env t)) baseURL req)
       (CtlExecStream baseURL req)"

definition ctl_ReadFile ::
  "kube_env \<Rightarrow> ClientConfig \<Rightarrow> bytes \<Rightarrow> FileReadReq \<Rightarrow> ('z, go_error + FileReadResult) kube" where
  "ctl_ReadFile env cc baseURL req =
     k_call (\<lambda>t. client_ReadFile (NewClient cc (k_ReadFile env t)) baseURL req) (CtlReadFile baseURL req)"

definition ctl_WriteFile ::
  "kube_env \<Rightarrow> ClientConfig \<Rightarrow> bytes \<Rightarrow> FileWriteReq \<Rightarrow> ('z, go_error + FileWriteResult) kube" where
  "ctl_WriteFile env cc baseURL req =
     k_call (\<lambda>t. client_WriteFile (NewClient cc (k_WriteFile env t)) baseURL req) (CtlWriteFile baseURL req)"

definition ctl_EditFile ::
  "kube_env \<Rightarrow> ClientConfig \<Rightarrow> bytes \<Rightarrow> FileEditReq \<Rightarrow> ('z, go_error + FileEditResult) kube" where
  "ctl_EditFile env cc baseURL req =
     k_call (\<lambda>t. client_EditFile (NewClient cc (k_EditFile env t)) baseURL req) (CtlEditFile baseURL req)"

end
