(* ===== verification/Go_Sha256.thy ===== *)
theory Go_Sha256
  imports Go_Strings "HOL-Library.Word"
begin

text \<open>
  \<open>crypto/sha256\<close> and \<open>encoding/hex\<close>, which the router uses for the keys of its token cache.
\<close>

unbundle bit_operations_syntax

text \<open>
  The constants of the standard, computed as it defines them: the first 32 bits of the
  fractional parts of the cube roots of the first 64 primes, and of the square roots of the
  first eight.
\<close>

fun int_root :: "nat \<Rightarrow> int \<Rightarrow> nat \<Rightarrow> int \<Rightarrow> int" where
  "int_root k n 0 r = r"
| "int_root k n (Suc b) r = int_root k n b (if (r + 2 ^ b) ^ k \<le> n then r + 2 ^ b else r)"

definition primes_upto :: "int \<Rightarrow> int list" where
  "primes_upto m = filter (\<lambda>p. list_all (\<lambda>q. p mod q \<noteq> 0) [2..p - 1]) [2..m]"

definition sha_K :: "32 word list" where
  "sha_K = map (\<lambda>p. word_of_int (int_root 3 (p * 2 ^ 96) 35 0)) (primes_upto 311)"

definition sha_H :: "32 word list" where
  "sha_H = map (\<lambda>p. word_of_int (int_root 2 (p * 2 ^ 64) 35 0)) (primes_upto 19)"

fun chunks :: "nat \<Rightarrow> 'a list \<Rightarrow> 'a list list" where
  "chunks n [] = []"
| "chunks n (x # xs) = (x # take (n - 1) xs) # chunks n (drop (n - 1) xs)"

fun be_bytes :: "nat \<Rightarrow> nat \<Rightarrow> nat list" where
  "be_bytes 0 v = []"
| "be_bytes (Suc n) v = be_bytes n (v div 256) @ [v mod 256]"

definition be_word :: "nat list \<Rightarrow> 32 word" where
  "be_word bs = fold (\<lambda>b acc. push_bit 8 acc OR of_nat b) bs 0"

definition word_bytes :: "32 word \<Rightarrow> nat list" where
  "word_bytes w = map (\<lambda>i. unat (drop_bit i w AND 0xFF)) [24, 16, 8, 0]"

definition sha_pad :: "nat list \<Rightarrow> nat list" where
  "sha_pad m =
     m @ 0x80 # replicate ((119 - length m mod 64) mod 64) 0 @ be_bytes 8 (8 * length m)"

definition sha_extend :: "32 word list \<Rightarrow> 32 word list" where
  "sha_extend block = fold (\<lambda>i w.
     let x = w ! (i - 15); y = w ! (i - 2);
         s0 = word_rotr 7 x XOR word_rotr 18 x XOR drop_bit 3 x;
         s1 = word_rotr 17 y XOR word_rotr 19 y XOR drop_bit 10 y
     in w @ [w ! (i - 16) + s0 + w ! (i - 7) + s1]) [16..<64] block"

fun sha_round :: "32 word \<times> 32 word \<Rightarrow> 32 word list \<Rightarrow> 32 word list" where
  "sha_round (k, w) [a, b, c, d, e, f, g, h] =
     (let S1 = word_rotr 6 e XOR word_rotr 11 e XOR word_rotr 25 e;
          ch = (e AND f) XOR (NOT e AND g);
          t1 = h + S1 + ch + k + w;
          S0 = word_rotr 2 a XOR word_rotr 13 a XOR word_rotr 22 a;
          maj = (a AND b) XOR (a AND c) XOR (b AND c);
          t2 = S0 + maj
      in [t1 + t2, a, b, c, d + t1, e, f, g])"
| "sha_round kw st = st"

definition sha_block :: "nat list \<Rightarrow> 32 word list \<Rightarrow> 32 word list" where
  "sha_block block st =
     map2 (+) st (fold sha_round (zip sha_K (sha_extend (map be_word (chunks 4 block)))) st)"

definition Sum256 :: "bytes \<Rightarrow> nat list" where
  "Sum256 m = concat (map word_bytes
     (fold sha_block (chunks 64 (sha_pad (map byte m))) sha_H))"

definition hex_digit :: "nat \<Rightarrow> char" where
  "hex_digit n = ''0123456789abcdef'' ! n"

definition hex_EncodeToString :: "nat list \<Rightarrow> bytes" where
  "hex_EncodeToString bs = concat (map (\<lambda>b. [hex_digit (b div 16), hex_digit (b mod 16)]) bs)"

lemma length_hex: "length (hex_EncodeToString bs) = 2 * length bs"
  by (induction bs) (simp_all add: hex_EncodeToString_def)

end
