(* ===== verification/Router_Auth.thy ===== *)
theory Router_Auth
  imports Kube Go_Sha256 "HOL-Library.AList"
begin

text \<open>
  The router's configuration and state, and \<open>internal/router/auth.go\<close>: authentication by
  token review with a cache, and authorization by access review.
\<close>

section \<open>Configuration and state\<close>

record Config =
  rf_ListenAddr :: bytes
  rf_DevToken :: bytes
  rf_AuthCacheTTL :: duration
  rf_SandboxNamespace :: bytes
  rf_MaxBodyBytes :: int
  rf_MaxOutputBytes :: int
  rf_MaxTimeoutSec :: int
  rf_MaxArgs :: int
  rf_MaxEnvKeys :: int
  rf_MaxConcurrency :: int
  rf_MaxSandboxTTLSec :: int
  rf_MTLSDisabled :: bool
  rf_TLSCAPath :: bytes
  rf_TLSClientCertPath :: bytes
  rf_TLSClientKeyPath :: bytes
  rf_ControllerToken :: bytes
  rf_ControllerPort :: int
  rf_DefaultSandboxEnabled :: bool
  rf_DefaultSandboxConfig :: "SandboxCreateBody option"
  rf_CreateTimeout :: duration

record cachedResult =
  ca_user :: UserInfo
  ca_storedAt :: time

text \<open>
  The state of the server: the entries of the token cache and the number of taken slots of
  the semaphore, and the requests the metrics have counted (route, status and method).
\<close>

record router_state = world +
  rt_entries :: "(bytes \<times> cachedResult) list"
  rt_sem :: nat
  rt_inflight :: int
  rt_requests :: "(bytes \<times> int \<times> bytes) list"

type_synonym 'a rt = "(router_state, 'a) state"

text \<open>The configuration after the defaults of \<open>NewServer\<close>.\<close>

definition NewServer :: "Config \<Rightarrow> Config" where
  "NewServer cfg = cfg\<lparr>
     rf_MaxConcurrency := (if rf_MaxConcurrency cfg \<le> 0 then 1 else rf_MaxConcurrency cfg),
     rf_AuthCacheTTL := (if rf_AuthCacheTTL cfg \<le> 0 then seconds 30 else rf_AuthCacheTTL cfg)\<rparr>"

definition server_start :: router_state where
  "server_start = \<lparr>w_trace = [], rt_entries = [], rt_sem = 0, rt_inflight = 0, rt_requests = []\<rparr>"

definition client_config :: "Config \<Rightarrow> ClientConfig" where
  "client_config cfg =
     \<lparr>cl_MTLSDisabled = rf_MTLSDisabled cfg, cl_CACertPath = rf_TLSCAPath cfg,
      cl_ClientCert = rf_TLSClientCertPath cfg, cl_ClientKey = rf_TLSClientKeyPath cfg,
      cl_ControllerToken = rf_ControllerToken cfg\<rparr>"

section \<open>Authentication\<close>

definition tokenHash :: "bytes \<Rightarrow> bytes" where
  "tokenHash token = hex_EncodeToString (Sum256 token)"

definition dev_user :: UserInfo where
  "dev_user = \<lparr>ui_Username = ''dev-token'', ui_UID = [], ui_Groups = []\<rparr>"

text \<open>Asking the API server, and remembering a token it accepts.\<close>

definition review_token :: "kube_env \<Rightarrow> bytes \<Rightarrow> (go_error + UserInfo) rt" where
  "review_token env token = do {
     rev \<leftarrow> k_call (\<lambda>t. k_ReviewToken env t token) (ReviewToken token);
     case rev of
       Inl e \<Rightarrow> State_Monad.return (Inl (wrap_err ''tokenreview: '' e []))
     | Inr st \<Rightarrow>
         if \<not> tr_Authenticated st
         then State_Monad.return
           (Inl (ErrText (if tr_Error st = [] then ''not authenticated'' else tr_Error st)))
         else do {
           now \<leftarrow> time_Now env;
           _ \<leftarrow> State_Monad.update (\<lambda>s. s\<lparr>rt_entries :=
                 AList.update (tokenHash token) \<lparr>ca_user = tr_User st, ca_storedAt = now\<rparr> (rt_entries s)\<rparr>);
           State_Monad.return (Inr (tr_User st))
         }
   }"

definition authenticate :: "kube_env \<Rightarrow> Config \<Rightarrow> bytes \<Rightarrow> (go_error + UserInfo) rt" where
  "authenticate env cfg token =
     (if rf_DevToken cfg \<noteq> [] \<and> token = rf_DevToken cfg then State_Monad.return (Inr dev_user)
      else do {
        s \<leftarrow> State_Monad.get;
        case map_of (rt_entries s) (tokenHash token) of
          Some e \<Rightarrow> do {
            now \<leftarrow> time_Now env;
            if time_Sub now (ca_storedAt e) < rf_AuthCacheTTL cfg
            then State_Monad.return (Inr (ca_user e))
            else review_token env token
          }
        | None \<Rightarrow> review_token env token
      })"

text \<open>One tick of the loop that drops old entries; every entry reads the clock.\<close>

fun drop_old :: "kube_env \<Rightarrow> Config \<Rightarrow> (bytes \<times> cachedResult) list \<Rightarrow> (bytes \<times> cachedResult) list rt" where
  "drop_old env cfg [] = State_Monad.return []"
| "drop_old env cfg ((k, e) # es) = do {
     now \<leftarrow> time_Now env;
     rest \<leftarrow> drop_old env cfg es;
     State_Monad.return
       (if time_Sub now (ca_storedAt e) \<ge> rf_AuthCacheTTL cfg then rest else (k, e) # rest)
   }"

definition evictLoop_tick :: "kube_env \<Rightarrow> Config \<Rightarrow> unit rt" where
  "evictLoop_tick env cfg = do {
     s \<leftarrow> State_Monad.get;
     es \<leftarrow> drop_old env cfg (rt_entries s);
     State_Monad.update (\<lambda>s. s\<lparr>rt_entries := es\<rparr>)
   }"

section \<open>Authorization\<close>

definition authorizeResource ::
  "kube_env \<Rightarrow> Config \<Rightarrow> UserInfo option \<Rightarrow> bytes \<Rightarrow> bytes \<Rightarrow> bytes \<Rightarrow> bytes \<Rightarrow> go_error option rt" where
  "authorizeResource env cfg user namespace verb resource name =
     (case user of
        None \<Rightarrow> State_Monad.return (Some (ErrText ''missing authenticated user''))
      | Some u \<Rightarrow>
          if ui_Username u = []
          then State_Monad.return (Some (ErrText ''missing authenticated user''))
          else if rf_DevToken cfg \<noteq> [] \<and> ui_Username u = ''dev-token'' then State_Monad.return None
          else do {
            let review = \<lparr>ar_User = u, ar_Namespace = namespace, ar_Group = ''boxy.dev'',
              ar_Resource = resource, ar_Verb = verb, ar_Name = name\<rparr>;
            sar \<leftarrow> k_call (\<lambda>t. k_ReviewAccess env t review) (ReviewAccess review);
            State_Monad.return
              (case sar of
                 Inl e \<Rightarrow> Some (wrap_err ''subjectaccessreview: '' e [])
               | Inr (allowed, reason) \<Rightarrow>
                   if \<not> allowed then Some (ErrText (if reason = [] then ''access denied'' else reason))
                   else None)
          })"

definition canResourceAccess ::
  "kube_env \<Rightarrow> Config \<Rightarrow> UserInfo option \<Rightarrow> bytes \<Rightarrow> bytes \<Rightarrow> bytes \<Rightarrow> go_error option rt" where
  "canResourceAccess env cfg user verb resource name =
     (case user of
        None \<Rightarrow> State_Monad.return (Some (ErrText ''unauthorized''))
      | Some u \<Rightarrow> authorizeResource env cfg user (rf_SandboxNamespace cfg) verb resource name)"

end
