(* ===== verification/Router_Server.thy ===== *)
theory Router_Server
  imports Router_Auth Api_Validate
begin

text \<open>
  The HTTP server of the router, \<open>internal/router/server.go\<close>: the middlewares, the handlers of
  sandbox configurations and sessions, and waiting for a session to run.  A handler answers
  \<open>None\<close> when it has not returned after the given number of rounds of the waiting loop.
\<close>

section \<open>Requests and answers\<close>

text \<open>
  A request body: how many bytes the JSON value takes up to its end or its first error, and
  the value if it decodes.
\<close>

record 'a body_in =
  bi_Needed :: nat
  bi_Value :: "'a option"

record rt_request =
  rq_Meth :: bytes
  rq_Segments :: "bytes list"
  rq_Authorization :: bytes
  rq_QuerySandbox :: bytes
  rq_QueryOwner :: bytes
  rq_QueryPhase :: bytes
  rq_XSandboxId :: bytes
  rq_XSessionId :: bytes
  rq_ExecBody :: "ExecRequestBody body_in"
  rq_SessionBody :: "SessionCreateBody body_in"
  rq_SandboxBody :: "SandboxCreateBody body_in"

datatype rt_body =
    RNone
  | RText bytes
  | RError ErrorBody
  | RSandbox SandboxConfigResponse
  | RSandboxes "SandboxConfigResponse list"
  | RSession SessionResponseBody
  | RSessions "SessionResponseBody list"
  | RExec ExecResponseBody
  | RStream "stream_line list"
  | REvict SandboxEvictResponse

record rt_resp =
  ro_Status :: int
  ro_Header :: str_map
  ro_Body :: rt_body

type_synonym handler = "rt_resp option rt"

definition jsonErr :: "int \<Rightarrow> bytes \<Rightarrow> bytes \<Rightarrow> rt_resp" where
  "jsonErr code msg cerr =
     \<lparr>ro_Status = code, ro_Header = [(''Content-Type'', ''application/json'')], ro_Body = RError \<lparr>eb_Error = msg, eb_Code = cerr\<rparr>\<rparr>"

definition rt_writeJSON :: "int \<Rightarrow> rt_body \<Rightarrow> rt_resp" where
  "rt_writeJSON code v =
     \<lparr>ro_Status = code, ro_Header = [(''Content-Type'', ''application/json'')], ro_Body = v\<rparr>"

definition reply :: "rt_resp \<Rightarrow> handler" where
  "reply r = State_Monad.return (Some r)"

definition reply_err :: "int \<Rightarrow> bytes \<Rightarrow> bytes \<Rightarrow> handler" where
  "reply_err code msg cerr = reply (jsonErr code msg cerr)"

definition rt_handleHealth :: rt_resp where
  "rt_handleHealth = \<lparr>ro_Status = 200, ro_Header = [], ro_Body = RText (''ok'' @ [CHR 0x0A])\<rparr>"

definition no_content :: rt_resp where
  "no_content = \<lparr>ro_Status = 204, ro_Header = [], ro_Body = RNone\<rparr>"

section \<open>Middlewares and guards\<close>

definition extractBearer :: "rt_request \<Rightarrow> bytes option" where
  "extractBearer r =
     (if \<not> HasPrefix (rq_Authorization r) ''Bearer '' then None
      else
        let tok = TrimSpace (drop (length ''Bearer '') (rq_Authorization r))
        in if tok \<noteq> [] then Some tok else None)"

definition withAuth ::
  "kube_env \<Rightarrow> Config \<Rightarrow> rt_request \<Rightarrow> (UserInfo option \<Rightarrow> handler) \<Rightarrow> handler" where
  "withAuth env cfg r next =
     (case extractBearer r of
        None \<Rightarrow> reply_err 401 ''unauthorized'' []
      | Some tok \<Rightarrow> do {
          u \<leftarrow> authenticate env cfg tok;
          case u of
            Inl e \<Rightarrow> reply_err 401 ''unauthorized'' []
          | Inr user \<Rightarrow> next (Some user)
        })"

text \<open>The same around an \<open>http.Handler\<close>.\<close>

definition withAuthHandler ::
  "kube_env \<Rightarrow> Config \<Rightarrow> rt_request \<Rightarrow> (UserInfo option \<Rightarrow> handler) \<Rightarrow> handler" where
  "withAuthHandler env cfg r next =
     (case extractBearer r of
        None \<Rightarrow> reply_err 401 ''unauthorized'' []
      | Some tok \<Rightarrow> do {
          u \<leftarrow> authenticate env cfg tok;
          case u of
            Inl e \<Rightarrow> reply_err 401 ''unauthorized'' []
          | Inr user \<Rightarrow> next (Some user)
        })"

lemma withAuthHandler_eq: "withAuthHandler = withAuth"
  by (intro ext) (simp add: withAuthHandler_def withAuth_def)

text \<open>\<open>withBodyLimit\<close> and \<open>decodeBody\<close>\<close>

definition decodeBody :: "Config \<Rightarrow> 'a body_in \<Rightarrow> ('a \<Rightarrow> handler) \<Rightarrow> handler" where
  "decodeBody cfg b next =
     (if rf_MaxBodyBytes cfg > 0 \<and> int (bi_Needed b) > rf_MaxBodyBytes cfg
      then reply_err 413 ''request body too large'' []
      else
        (case bi_Value b of
           None \<Rightarrow> reply_err 400 ''invalid json'' []
         | Some v \<Rightarrow> next v))"

definition requireResourceAccess ::
  "kube_env \<Rightarrow> Config \<Rightarrow> UserInfo option \<Rightarrow> bytes \<Rightarrow> bytes \<Rightarrow> bytes \<Rightarrow> handler \<Rightarrow> handler" where
  "requireResourceAccess env cfg user verb resource name next =
     (case user of
        None \<Rightarrow> reply_err 401 ''unauthorized'' []
      | Some u \<Rightarrow> do {
          e \<leftarrow> authorizeResource env cfg user (rf_SandboxNamespace cfg) verb resource name;
          case e of
            Some err \<Rightarrow> reply_err 403 ''forbidden'' ''authorization''
          | None \<Rightarrow> next
        })"

text \<open>The checks of the path parameter that the handlers of one object share.\<close>

definition with_path_id ::
  "bytes \<Rightarrow> (bytes \<Rightarrow> go_error option) \<Rightarrow> bytes \<Rightarrow> (bytes \<Rightarrow> handler) \<Rightarrow> handler" where
  "with_path_id field validate pathValue next =
     (let i = TrimSpace pathValue in
      if i = [] then reply_err 400 (field @ '' required'') []
      else
        (case validate i of
           Some e \<Rightarrow> reply_err 400 (err_msg e) ''validation''
         | None \<Rightarrow> next i))"

section \<open>Looking up\<close>

definition rt_list_sessions :: "kube_env \<Rightarrow> Config \<Rightarrow> str_map \<Rightarrow> (go_error + Session list) rt" where
  "rt_list_sessions env cfg labels =
     k_call (\<lambda>t. k_ListSessions env t (rf_SandboxNamespace cfg) labels)
       (ListSessions (rf_SandboxNamespace cfg) labels)"

definition rt_list_sandboxes :: "kube_env \<Rightarrow> Config \<Rightarrow> str_map \<Rightarrow> (go_error + Sandbox list) rt" where
  "rt_list_sandboxes env cfg labels =
     k_call (\<lambda>t. k_ListSandboxes env t (rf_SandboxNamespace cfg) labels)
       (ListSandboxes (rf_SandboxNamespace cfg) labels)"

definition rt_delete_session :: "kube_env \<Rightarrow> Session \<Rightarrow> go_error option rt" where
  "rt_delete_session env sess = k_call (\<lambda>t. k_DeleteSession env t sess) (DeleteSession sess)"

definition rt_patch_status :: "kube_env \<Rightarrow> Session \<Rightarrow> Session \<Rightarrow> (go_error + Session) rt" where
  "rt_patch_status env old new = k_call (\<lambda>t. k_PatchSessionStatus env t old new) (PatchSessionStatus old new)"

definition lookupSandbox :: "kube_env \<Rightarrow> Config \<Rightarrow> bytes \<Rightarrow> (go_error + Sandbox option) rt" where
  "lookupSandbox env cfg sandboxID = do {
     r \<leftarrow> rt_list_sandboxes env cfg [(LabelSandboxID, sandboxID)];
     State_Monad.return
       (case r of
          Inl e \<Rightarrow> Inl e
        | Inr items \<Rightarrow>
            Inr (List.find (\<lambda>sb. bs_SandboxID (bx_Spec sb) = sandboxID \<and>
                                 om_DeletionTimestamp (bx_Meta sb) = None) items))
   }"

definition lookupSession :: "kube_env \<Rightarrow> Config \<Rightarrow> bytes \<Rightarrow> (go_error + Session option) rt" where
  "lookupSession env cfg sessionID = do {
     r \<leftarrow> rt_list_sessions env cfg [(LabelSessionID, sessionID)];
     State_Monad.return
       (case r of
          Inl e \<Rightarrow> Inl e
        | Inr items \<Rightarrow>
            Inr (List.find (\<lambda>sess. ss_SessionID (se_Spec sess) = sessionID \<and>
                                   om_DeletionTimestamp (se_Meta sess) = None) items))
   }"

definition countSessionsForSandbox :: "kube_env \<Rightarrow> Config \<Rightarrow> bytes \<Rightarrow> (go_error + int) rt" where
  "countSessionsForSandbox env cfg sandboxID = do {
     r \<leftarrow> rt_list_sessions env cfg [(LabelSandboxID, sandboxID)];
     State_Monad.return
       (case r of
          Inl e \<Rightarrow> Inl e
        | Inr items \<Rightarrow>
            Inr (int (length (filter (\<lambda>s. phase s = SandboxPhasePending \<or>
              phase s = SandboxPhaseCreating \<or> phase s = SandboxPhaseRunning) items))))
   }"

text \<open>The callers that ignore the error use the zero it comes with.\<close>

definition active_or_zero :: "go_error + int \<Rightarrow> int" where
  "active_or_zero r = (case r of Inl e \<Rightarrow> 0 | Inr n \<Rightarrow> n)"

definition controllerURLFromSession :: "Config \<Rightarrow> Session \<Rightarrow> bytes" where
  "controllerURLFromSession cfg session =
     (if rf_MTLSDisabled cfg then ''http'' else ''https'') @ ''://'' @
     st_ControllerAddress (se_Status session) @ '':'' @ fmt_int (st_Port (se_Status session))"

definition shown_phase :: "Session \<Rightarrow> bytes" where
  "shown_phase sess = (if phase sess = [] then ''Pending'' else phase sess)"

definition sessionToResponse :: "Session \<Rightarrow> SessionResponseBody" where
  "sessionToResponse sess =
     \<lparr>sr_SessionID = ss_SessionID (se_Spec sess), sr_SandboxID = ss_SandboxID (se_Spec sess),
      sr_Owner = ss_Owner (se_Spec sess), sr_Phase = shown_phase sess,
      sr_Ready = (phase sess = SandboxPhaseRunning),
      sr_ControllerPod = st_ControllerPod (se_Status sess),
      sr_ControllerAddress = st_ControllerAddress (se_Status sess),
      sr_Port = st_Port (se_Status sess),
      sr_CreatedAt = (case st_CreatedAt (se_Status sess) of None \<Rightarrow> [] | Some t \<Rightarrow> format_RFC3339 t),
      sr_ExpiresAt = (case st_ExpiresAt (se_Status sess) of None \<Rightarrow> [] | Some t \<Rightarrow> format_RFC3339 t),
      sr_LastExecAt = (case st_LastExecAt (se_Status sess) of None \<Rightarrow> [] | Some t \<Rightarrow> format_RFC3339 t)\<rparr>"

definition touchLastExecSession :: "kube_env \<Rightarrow> Session \<Rightarrow> unit rt" where
  "touchLastExecSession env session = do {
     now \<leftarrow> time_Now env;
     _ \<leftarrow> rt_patch_status env session
            (session\<lparr>se_Status := (se_Status session)\<lparr>st_LastExecAt := Some now\<rparr>\<rparr>);
     State_Monad.return ()
   }"

text \<open>\<open>go s.touchLastExecSession(session.DeepCopy())\<close>\<close>

definition spawn_touch :: "Session \<Rightarrow> unit rt" where
  "spawn_touch session = k_call (\<lambda>_. ()) (\<lambda>_. Spawn session)"

section \<open>Sandbox configurations\<close>

definition sandbox_cr :: "Config \<Rightarrow> SandboxCreateBody \<Rightarrow> Sandbox" where
  "sandbox_cr cfg body =
     \<lparr>bx_Meta = \<lparr>om_Name = sb_SandboxID body, om_Namespace = rf_SandboxNamespace cfg,
        om_Labels = [(LabelSandboxID, sb_SandboxID body)], om_Annotations = [], om_Finalizers = [],
        om_DeletionTimestamp = None, om_CreationTimestamp = 0\<rparr>,
      bx_Spec = \<lparr>bs_SandboxID = sb_SandboxID body, bs_TTLSeconds = sb_TTLSeconds body,
        bs_Env = sb_Env body, bs_AllowedBinaries = sb_AllowedBinaries body, bs_VM = sb_VM body,
        bs_Network = sb_Network body, bs_Volumes = sb_Volumes body, bs_Patches = sb_Patches body,
        bs_SetupScript = sb_SetupScript body, bs_TeardownScript = sb_TeardownScript body,
        bs_ScriptEnv = sb_ScriptEnv body\<rparr>\<rparr>"

definition createSandboxFromBody ::
  "kube_env \<Rightarrow> Config \<Rightarrow> SandboxCreateBody \<Rightarrow> (go_error + SandboxConfigResponse) rt" where
  "createSandboxFromBody env cfg body = do {
     r \<leftarrow> k_call (\<lambda>t. k_CreateSandbox env t (sandbox_cr cfg body)) (CreateSandboxCR (sandbox_cr cfg body));
     State_Monad.return
       (case r of
          Inl e \<Rightarrow> Inl (wrap_err ''create sandbox CR: '' e [])
        | Inr _ \<Rightarrow> Inr \<lparr>cr_SandboxID = sb_SandboxID body, cr_TTLSeconds = sb_TTLSeconds body,
                        cr_ActiveSessions = 0\<rparr>)
   }"

definition EnsureDefaultSandbox :: "kube_env \<Rightarrow> Config \<Rightarrow> go_error option rt" where
  "EnsureDefaultSandbox env cfg =
     (case rf_DefaultSandboxConfig cfg of
        None \<Rightarrow> State_Monad.return None
      | Some body \<Rightarrow>
          if \<not> rf_DefaultSandboxEnabled cfg then State_Monad.return None
          else do {
            r \<leftarrow> lookupSandbox env cfg (sb_SandboxID body);
            case r of
              Inl e \<Rightarrow> State_Monad.return (Some (wrap_err ''lookup default sandbox: '' e []))
            | Inr (Some sb) \<Rightarrow> State_Monad.return None
            | Inr None \<Rightarrow> do {
                c \<leftarrow> createSandboxFromBody env cfg body;
                State_Monad.return
                  (case c of
                     Inl e \<Rightarrow> Some (wrap_err ''create default sandbox: '' e [])
                   | Inr _ \<Rightarrow> None)
              }
          })"

definition handleSandboxCreate :: "kube_env \<Rightarrow> Config \<Rightarrow> UserInfo option \<Rightarrow> rt_request \<Rightarrow> handler" where
  "handleSandboxCreate env cfg user r =
     decodeBody cfg (rq_SandboxBody r) (\<lambda>body.
       case ValidateSandboxCreate (Some body) (rf_MaxSandboxTTLSec cfg) of
         Some e \<Rightarrow> reply_err 400 (err_msg e) ''provisioning''
       | None \<Rightarrow>
           requireResourceAccess env cfg user ''create'' ''sandboxes'' (sb_SandboxID body) (do {
             c \<leftarrow> createSandboxFromBody env cfg body;
             case c of
               Inl e \<Rightarrow>
                 if IsAlreadyExists e then reply_err 409 ''sandbox already exists'' ''create_sandbox''
                 else reply_err 502 (err_msg e) ''create_sandbox''
             | Inr resp \<Rightarrow> reply (rt_writeJSON 201 (RSandbox resp))
           }))"

definition handleSandboxGet :: "kube_env \<Rightarrow> Config \<Rightarrow> UserInfo option \<Rightarrow> bytes \<Rightarrow> handler" where
  "handleSandboxGet env cfg user pathValue =
     with_path_id ''sandboxId'' ValidateSandboxID pathValue (\<lambda>i.
       requireResourceAccess env cfg user ''get'' ''sandboxes'' i (do {
         l \<leftarrow> lookupSandbox env cfg i;
         case l of
           Inl e \<Rightarrow> reply_err 500 (err_msg e) ''store''
         | Inr None \<Rightarrow> reply_err 404 ''not found'' []
         | Inr (Some sb) \<Rightarrow> do {
             active \<leftarrow> countSessionsForSandbox env cfg i;
             reply (rt_writeJSON 200 (RSandbox
               \<lparr>cr_SandboxID = bs_SandboxID (bx_Spec sb), cr_TTLSeconds = bs_TTLSeconds (bx_Spec sb),
                cr_ActiveSessions = active_or_zero active\<rparr>))
           }
       }))"

definition handleSandboxDelete :: "kube_env \<Rightarrow> Config \<Rightarrow> UserInfo option \<Rightarrow> bytes \<Rightarrow> handler" where
  "handleSandboxDelete env cfg user pathValue =
     with_path_id ''sandboxId'' ValidateSandboxID pathValue (\<lambda>i.
       requireResourceAccess env cfg user ''delete'' ''sandboxes'' i (do {
         l \<leftarrow> lookupSandbox env cfg i;
         case l of
           Inl e \<Rightarrow> reply_err 500 (err_msg e) ''store''
         | Inr None \<Rightarrow> reply_err 404 ''sandbox not found'' []
         | Inr (Some sb) \<Rightarrow> do {
             d \<leftarrow> k_call (\<lambda>t. k_DeleteSandbox env t sb) (DeleteSandboxCR sb);
             case d of
               Some e \<Rightarrow> reply_err 500 (err_msg e) ''delete''
             | None \<Rightarrow> reply no_content
           }
       }))"

text \<open>The loop over the configurations, each with its number of active sessions.\<close>

fun list_configs :: "kube_env \<Rightarrow> Config \<Rightarrow> Sandbox list \<Rightarrow> SandboxConfigResponse list rt" where
  "list_configs env cfg [] = State_Monad.return []"
| "list_configs env cfg (sb # items) =
     (if om_DeletionTimestamp (bx_Meta sb) \<noteq> None then list_configs env cfg items
      else do {
        active \<leftarrow> countSessionsForSandbox env cfg (bs_SandboxID (bx_Spec sb));
        rest \<leftarrow> list_configs env cfg items;
        State_Monad.return
          (\<lparr>cr_SandboxID = bs_SandboxID (bx_Spec sb), cr_TTLSeconds = bs_TTLSeconds (bx_Spec sb),
            cr_ActiveSessions = active_or_zero active\<rparr> # rest)
      })"

definition handleSandboxList :: "kube_env \<Rightarrow> Config \<Rightarrow> UserInfo option \<Rightarrow> handler" where
  "handleSandboxList env cfg user =
     requireResourceAccess env cfg user ''list'' ''sandboxes'' [] (do {
       l \<leftarrow> rt_list_sandboxes env cfg [];
       case l of
         Inl e \<Rightarrow> reply_err 500 (err_msg e) ''store''
       | Inr items \<Rightarrow> do {
           configs \<leftarrow> list_configs env cfg items;
           reply (rt_writeJSON 200 (RSandboxes configs))
         }
     })"

definition updated_sandbox :: "SandboxCreateBody \<Rightarrow> Sandbox \<Rightarrow> Sandbox" where
  "updated_sandbox body sb = sb\<lparr>bx_Spec := (bx_Spec sb)
     \<lparr>bs_TTLSeconds := sb_TTLSeconds body, bs_Env := sb_Env body,
      bs_AllowedBinaries := sb_AllowedBinaries body, bs_VM := sb_VM body,
      bs_Network := sb_Network body, bs_Volumes := sb_Volumes body, bs_Patches := sb_Patches body\<rparr>\<rparr>"

definition handleSandboxUpdate ::
  "kube_env \<Rightarrow> Config \<Rightarrow> UserInfo option \<Rightarrow> bytes \<Rightarrow> rt_request \<Rightarrow> handler" where
  "handleSandboxUpdate env cfg user pathValue r =
     with_path_id ''sandboxId'' ValidateSandboxID pathValue (\<lambda>i.
       decodeBody cfg (rq_SandboxBody r) (\<lambda>b.
         let body = b\<lparr>sb_SandboxID := i\<rparr> in
         case ValidateSandboxCreate (Some body) (rf_MaxSandboxTTLSec cfg) of
           Some e \<Rightarrow> reply_err 400 (err_msg e) ''validation''
         | None \<Rightarrow>
             requireResourceAccess env cfg user ''update'' ''sandboxes'' i (do {
               l \<leftarrow> lookupSandbox env cfg i;
               case l of
                 Inl e \<Rightarrow> reply_err 500 (err_msg e) ''store''
               | Inr None \<Rightarrow> reply_err 404 ''sandbox config not found'' []
               | Inr (Some sb) \<Rightarrow> do {
                   p \<leftarrow> k_call (\<lambda>t. k_PatchSandbox env t sb (updated_sandbox body sb))
                          (PatchSandbox sb (updated_sandbox body sb));
                   case p of
                     Inl e \<Rightarrow> reply_err 500 (err_msg e) ''update''
                   | Inr sb \<Rightarrow> do {
                       active \<leftarrow> countSessionsForSandbox env cfg i;
                       reply (rt_writeJSON 200 (RSandbox
                         \<lparr>cr_SandboxID = i, cr_TTLSeconds = bs_TTLSeconds (bx_Spec sb),
                          cr_ActiveSessions = active_or_zero active\<rparr>))
                     }
                 }
             })))"

text \<open>The loop that evicts sessions counts the successful patches.\<close>

fun evict_loop :: "kube_env \<Rightarrow> Session list \<Rightarrow> int rt" where
  "evict_loop env [] = State_Monad.return 0"
| "evict_loop env (sess # items) =
     (if phase sess = SandboxPhaseTerminated \<or> om_DeletionTimestamp (se_Meta sess) \<noteq> None
      then evict_loop env items
      else do {
        p \<leftarrow> rt_patch_status env sess (set_phase SandboxPhaseDeleting sess);
        n \<leftarrow> evict_loop env items;
        State_Monad.return (case p of Inl e \<Rightarrow> n | Inr _ \<Rightarrow> n + 1)
      })"

definition handleSandboxEvict :: "kube_env \<Rightarrow> Config \<Rightarrow> UserInfo option \<Rightarrow> bytes \<Rightarrow> handler" where
  "handleSandboxEvict env cfg user pathValue =
     with_path_id ''sandboxId'' ValidateSandboxID pathValue (\<lambda>i.
       requireResourceAccess env cfg user ''update'' ''sandboxes'' i (do {
         l \<leftarrow> rt_list_sessions env cfg [(LabelSandboxID, i)];
         case l of
           Inl e \<Rightarrow> reply_err 500 (err_msg e) ''store''
         | Inr items \<Rightarrow> do {
             evicted \<leftarrow> evict_loop env items;
             reply (rt_writeJSON 200 (REvict
               \<lparr>ev_EvictedSessions = evicted, ev_Message = ''eviction initiated''\<rparr>))
           }
       }))"

definition handleSandboxSessions :: "kube_env \<Rightarrow> Config \<Rightarrow> UserInfo option \<Rightarrow> bytes \<Rightarrow> handler" where
  "handleSandboxSessions env cfg user pathValue =
     with_path_id ''sandboxId'' ValidateSandboxID pathValue (\<lambda>i.
       requireResourceAccess env cfg user ''list'' ''sessions'' [] (do {
         l \<leftarrow> rt_list_sessions env cfg [(LabelSandboxID, i)];
         case l of
           Inl e \<Rightarrow> reply_err 500 (err_msg e) ''store''
         | Inr items \<Rightarrow>
             reply (rt_writeJSON 200 (RSessions (map sessionToResponse
               (filter (\<lambda>sess. om_DeletionTimestamp (se_Meta sess) = None) items))))
       }))"

end
