(* ===== verification/Router_Sessions.thy ===== *)
theory Router_Sessions
  imports Router_Server
begin

text \<open>
  The handlers of sessions of the router, \<open>internal/router/server.go\<close>: creating a session and
  waiting for it, executing in it, listing and deleting sessions; and the routes.
\<close>

section \<open>Creating a session and waiting for it\<close>

definition new_session_cr :: "Config \<Rightarrow> bytes \<Rightarrow> bytes \<Rightarrow> bytes \<Rightarrow> Session" where
  "new_session_cr cfg sessionID sandboxID owner =
     \<lparr>se_Meta = \<lparr>om_Name = sessionID, om_Namespace = rf_SandboxNamespace cfg,
        om_Labels = [(LabelSessionID, sessionID), (LabelSandboxID, sandboxID), (LabelOwner, owner)],
        om_Annotations = [], om_Finalizers = [], om_DeletionTimestamp = None, om_CreationTimestamp = 0\<rparr>,
      se_Spec = \<lparr>ss_SessionID = sessionID, ss_SandboxID = sandboxID, ss_Owner = owner\<rparr>,
      se_Status = \<lparr>st_Phase = [], st_ControllerPool = [], st_ControllerPod = [], st_ControllerAddress = [],
        st_Port = 0, st_CreatedAt = None, st_ExpiresAt = None, st_LastExecAt = None,
        st_TerminatedAt = None, st_Message = []\<rparr>\<rparr>"

text \<open>
  The polling loop, with the number of rounds as fuel; \<open>None\<close> means that it still runs.  The
  object is read under the name it was created with.
\<close>

fun poll_session ::
  "kube_env \<Rightarrow> bytes \<Rightarrow> bytes \<Rightarrow> time \<Rightarrow> nat \<Rightarrow> (go_error + Session) option rt" where
  "poll_session env ns name deadline 0 = State_Monad.return None"
| "poll_session env ns name deadline (Suc fuel) = do {
     g \<leftarrow> k_call (\<lambda>t. k_GetSession env t ns name) (GetSession ns name);
     case (case g of
         Inl e \<Rightarrow> None
       | Inr sess \<Rightarrow>
           if phase sess = SandboxPhaseRunning then Some (Inr sess)
           else if phase sess = SandboxPhaseTerminated
           then Some (Inl (ErrText (''session terminated: '' @ st_Message (se_Status sess))))
           else None) of
       Some r \<Rightarrow> State_Monad.return (Some r)
     | None \<Rightarrow> do {
         now \<leftarrow> time_Now env;
         if now > deadline
         then State_Monad.return (Some (Inl (ErrText ''timeout waiting for session to become running'')))
         else do {
           d \<leftarrow> k_call (k_WaitTick env) WaitTick;
           case d of
             Some e \<Rightarrow> State_Monad.return (Some (Inl e))
           | None \<Rightarrow> poll_session env ns name deadline fuel
         }
       }
   }"

definition create_timeout :: "Config \<Rightarrow> duration" where
  "create_timeout cfg = (if rf_CreateTimeout cfg \<le> 0 then seconds 30 else rf_CreateTimeout cfg)"

definition createAndWaitForSession ::
  "kube_env \<Rightarrow> Config \<Rightarrow> nat \<Rightarrow> bytes \<Rightarrow> bytes \<Rightarrow> bytes \<Rightarrow> (go_error + Session) option rt" where
  "createAndWaitForSession env cfg fuel sessionID sandboxID owner = do {
     let sess = new_session_cr cfg sessionID sandboxID owner;
     c \<leftarrow> k_call (\<lambda>t. k_CreateSession env t sess) (CreateSession sess);
     case (case c of Inl e \<Rightarrow> if IsAlreadyExists e then None else Some e | Inr _ \<Rightarrow> None) of
       Some e \<Rightarrow> State_Monad.return (Some (Inl (wrap_err ''create session CR: '' e [])))
     | None \<Rightarrow> do {
         now \<leftarrow> time_Now env;
         poll_session env (rf_SandboxNamespace cfg) sessionID (now + create_timeout cfg) fuel
       }
   }"

definition generateSessionID :: "kube_env \<Rightarrow> bytes rt" where
  "generateSessionID env = do {
     b \<leftarrow> k_call (k_RandomBytes env) RandomBytes;
     State_Monad.return (''sess-'' @ hex_EncodeToString (map byte b))
   }"

section \<open>Executing\<close>

text \<open>The non-blocking send on the semaphore and its deferred receive.\<close>

definition with_sem :: "Config \<Rightarrow> 'a \<Rightarrow> 'a rt \<Rightarrow> 'a rt" where
  "with_sem cfg busy body = do {
     s \<leftarrow> State_Monad.get;
     if int (rt_sem s) < rf_MaxConcurrency cfg then do {
       _ \<leftarrow> State_Monad.update (\<lambda>s. s\<lparr>rt_sem := rt_sem s + 1\<rparr>);
       r \<leftarrow> body;
       _ \<leftarrow> State_Monad.update (\<lambda>s. s\<lparr>rt_sem := rt_sem s - 1\<rparr>);
       State_Monad.return r
     }
     else State_Monad.return busy
   }"

text \<open>
  The id of the session to execute in: the one given, if it is valid, or a new one.
\<close>

definition with_session_id ::
  "kube_env \<Rightarrow> ExecRequestBody \<Rightarrow> (bytes \<Rightarrow> handler) \<Rightarrow> handler" where
  "with_session_id env body next =
     (let sessionID = TrimSpace (er_SessionID body) in
      if sessionID = [] then do { i \<leftarrow> generateSessionID env; next i }
      else
        (case ValidateSessionID sessionID of
           Some e \<Rightarrow> reply_err 400 ''invalid sessionId format'' ''validation''
         | None \<Rightarrow> next sessionID))"

text \<open>The branch for a session that does not exist or is terminated.\<close>

definition fresh_session ::
  "kube_env \<Rightarrow> Config \<Rightarrow> nat \<Rightarrow> UserInfo option \<Rightarrow> ExecRequestBody \<Rightarrow> bytes \<Rightarrow> Session option \<Rightarrow>
     (Session \<Rightarrow> handler) \<Rightarrow> handler" where
  "fresh_session env cfg fuel user body sessionID old next =
     requireResourceAccess env cfg user ''get'' ''sandboxes'' (er_SandboxID body)
     (requireResourceAccess env cfg user ''create'' ''sessions'' sessionID (do {
        d \<leftarrow> (case old of
            None \<Rightarrow> State_Monad.return None
          | Some sess \<Rightarrow> rt_delete_session env sess);
        case d of
          Some e \<Rightarrow> reply_err 500 (err_msg e) ''delete_terminated''
        | None \<Rightarrow> do {
            l \<leftarrow> lookupSandbox env cfg (er_SandboxID body);
            case l of
              Inl e \<Rightarrow> reply_err 500 (err_msg e) ''store''
            | Inr None \<Rightarrow> reply_err 404 ''sandbox config not found'' ''sandbox_lookup''
            | Inr (Some sb) \<Rightarrow> do {
                c \<leftarrow> createAndWaitForSession env cfg fuel sessionID (er_SandboxID body) (er_Owner body);
                case c of
                  None \<Rightarrow> State_Monad.return None
                | Some (Inl e) \<Rightarrow> reply_err 502 (err_msg e) ''create_session''
                | Some (Inr sess) \<Rightarrow> next sess
              }
          }
      }))"

text \<open>
  The part that \<open>handleSessionExec\<close> and \<open>handleSessionExecStream\<close> have in common: everything up
  to the request to the controller.
\<close>

definition exec_session ::
  "kube_env \<Rightarrow> Config \<Rightarrow> nat \<Rightarrow> UserInfo option \<Rightarrow> rt_request \<Rightarrow>
     (ExecRequestBody \<Rightarrow> bytes \<Rightarrow> bool \<Rightarrow> Session \<Rightarrow> handler) \<Rightarrow> handler" where
  "exec_session env cfg fuel user r next =
     decodeBody cfg (rq_ExecBody r) (\<lambda>body.
       case ValidateExecRequest (Some body) (rf_MaxTimeoutSec cfg) (rf_MaxArgs cfg) (rf_MaxEnvKeys cfg) of
         Some e \<Rightarrow> reply_err 400 (err_msg e) ''validation''
       | None \<Rightarrow>
           with_session_id env body (\<lambda>sessionID. do {
             let ready = (\<lambda>created sess.
               if phase sess \<noteq> SandboxPhaseRunning
               then reply_err 503 ''session not ready'' ''session_not_ready''
               else next body sessionID created sess);
             l \<leftarrow> lookupSession env cfg sessionID;
             case l of
               Inl e \<Rightarrow> reply_err 500 (err_msg e) ''store''
             | Inr None \<Rightarrow> fresh_session env cfg fuel user body sessionID None (ready True)
             | Inr (Some sess) \<Rightarrow>
                 if phase sess = SandboxPhaseTerminated
                 then fresh_session env cfg fuel user body sessionID (Some sess) (ready True)
                 else if ss_SandboxID (se_Spec sess) \<noteq> er_SandboxID body
                 then reply_err 400 ''sessionId does not belong to sandboxId'' ''validation''
                 else requireResourceAccess env cfg user ''update'' ''sessions'' (om_Name (se_Meta sess))
                        (ready False sess)
           }))"

definition exec_headers :: "bytes \<Rightarrow> bool \<Rightarrow> str_map" where
  "exec_headers sessionID created =
     [(''X-Boxy-Session-Id'', sessionID)] @ (if created then [(''X-Boxy-Session-Created'', ''true'')] else [])"

definition stream_headers :: str_map where
  "stream_headers =
     [(''Content-Type'', ''application/x-ndjson''), (''X-Content-Type-Options'', ''nosniff'')]"

definition exec_req :: "Session \<Rightarrow> ExecRequestBody \<Rightarrow> bool \<Rightarrow> ExecReq" where
  "exec_req session body pty =
     \<lparr>xq_SandboxID = ss_SessionID (se_Spec session), xq_Command = er_Command body,
      xq_Args = er_Args body, xq_Env = er_Env body, xq_TimeoutSeconds = er_TimeoutSeconds body,
      xq_PTY = pty\<rparr>"

definition handleSessionExec ::
  "kube_env \<Rightarrow> Config \<Rightarrow> nat \<Rightarrow> UserInfo option \<Rightarrow> rt_request \<Rightarrow> handler" where
  "handleSessionExec env cfg fuel user r =
     with_sem cfg (Some (jsonErr 429 ''concurrency limit'' ''too_many_in_flight''))
       (exec_session env cfg fuel user r (\<lambda>body sessionID created session. do {
          x \<leftarrow> ctl_Exec env (client_config cfg) (controllerURLFromSession cfg session)
                 (exec_req session body (er_PTY body));
          case x of
            Inl e \<Rightarrow> reply_err 502 (err_msg e) ''exec''
          | Inr result \<Rightarrow> do {
              _ \<leftarrow> spawn_touch session;
              reply \<lparr>ro_Status = 200,
                ro_Header = (''Content-Type'', ''application/json'') # exec_headers sessionID created,
                ro_Body = RExec \<lparr>xr_ExitCode = xs_ExitCode result, xr_Stdout = xs_Stdout result,
                  xr_Stderr = xs_Stderr result, xr_TimedOut = xs_TimedOut result\<rparr>\<rparr>
            }
        }))"

definition handleSessionExecStream ::
  "kube_env \<Rightarrow> Config \<Rightarrow> nat \<Rightarrow> UserInfo option \<Rightarrow> rt_request \<Rightarrow> handler" where
  "handleSessionExecStream env cfg fuel user r =
     with_sem cfg (Some (jsonErr 429 ''concurrency limit'' ''too_many_in_flight''))
       (exec_session env cfg fuel user r (\<lambda>body sessionID created session. do {
          (events, x) \<leftarrow> ctl_ExecStream env (client_config cfg) (controllerURLFromSession cfg session)
                 (exec_req session body False);
          let sent = map (\<lambda>(t, d). LineEvent t (json_text d)) events;
          case x of
            Inl e \<Rightarrow>
              reply \<lparr>ro_Status = 200, ro_Header = stream_headers @ exec_headers sessionID created,
                ro_Body = RStream (sent @ [LineEvent ''error'' (json_text (err_msg e))])\<rparr>
          | Inr result \<Rightarrow> do {
              _ \<leftarrow> spawn_touch session;
              reply \<lparr>ro_Status = 200, ro_Header = stream_headers @ exec_headers sessionID created,
                ro_Body = RStream (sent @ [LineExit (xs_ExitCode result) (xs_TimedOut result)])\<rparr>
            }
        }))"

section \<open>Sessions\<close>

definition handleSessionCreate ::
  "kube_env \<Rightarrow> Config \<Rightarrow> nat \<Rightarrow> UserInfo option \<Rightarrow> rt_request \<Rightarrow> handler" where
  "handleSessionCreate env cfg fuel user r =
     decodeBody cfg (rq_SessionBody r) (\<lambda>body.
       case ValidateSessionCreate (Some body) of
         Some e \<Rightarrow> reply_err 400 (err_msg e) ''validation''
       | None \<Rightarrow> do {
           let given = TrimSpace (sc_SessionID body);
           sessionID \<leftarrow> (if given = [] then generateSessionID env else State_Monad.return given);
           requireResourceAccess env cfg user ''get'' ''sandboxes'' (sc_SandboxID body)
           (requireResourceAccess env cfg user ''create'' ''sessions'' sessionID (do {
              l \<leftarrow> lookupSandbox env cfg (sc_SandboxID body);
              case l of
                Inl e \<Rightarrow> reply_err 500 (err_msg e) ''store''
              | Inr None \<Rightarrow> reply_err 404 ''sandbox config not found'' ''sandbox_lookup''
              | Inr (Some sb) \<Rightarrow> do {
                  c \<leftarrow> createAndWaitForSession env cfg fuel sessionID (sc_SandboxID body) (sc_Owner body);
                  case c of
                    None \<Rightarrow> State_Monad.return None
                  | Some (Inl e) \<Rightarrow> reply_err 502 (err_msg e) ''create_session''
                  | Some (Inr sess) \<Rightarrow> reply (rt_writeJSON 201 (RSession (sessionToResponse sess)))
                }
            }))
         })"

text \<open>The labels of the query, or the error of the first invalid parameter.\<close>

definition query_labels :: "rt_request \<Rightarrow> go_error + str_map" where
  "query_labels r =
     (case (if rq_QuerySandbox r \<noteq> [] then ValidateSandboxID (rq_QuerySandbox r) else None) of
        Some e \<Rightarrow> Inl e
      | None \<Rightarrow>
          (case (if rq_QueryOwner r \<noteq> [] then ValidateOwner (rq_QueryOwner r) else None) of
             Some e \<Rightarrow> Inl e
           | None \<Rightarrow>
               Inr ((if rq_QuerySandbox r \<noteq> [] then [(LabelSandboxID, rq_QuerySandbox r)] else []) @
                    (if rq_QueryOwner r \<noteq> [] then [(LabelOwner, rq_QueryOwner r)] else []))))"

definition handleSessionList :: "kube_env \<Rightarrow> Config \<Rightarrow> UserInfo option \<Rightarrow> rt_request \<Rightarrow> handler" where
  "handleSessionList env cfg user r =
     requireResourceAccess env cfg user ''list'' ''sessions'' []
       (case query_labels r of
          Inl e \<Rightarrow> reply_err 400 (err_msg e) ''validation''
        | Inr labels \<Rightarrow> do {
            l \<leftarrow> rt_list_sessions env cfg labels;
            case l of
              Inl e \<Rightarrow> reply_err 500 (err_msg e) ''store''
            | Inr items \<Rightarrow>
                reply (rt_writeJSON 200 (RSessions (map sessionToResponse
                  (filter (\<lambda>sess. om_DeletionTimestamp (se_Meta sess) = None \<and>
                     (rq_QueryPhase r = [] \<or> shown_phase sess = rq_QueryPhase r)) items))))
          })"

definition handleSessionGet :: "kube_env \<Rightarrow> Config \<Rightarrow> UserInfo option \<Rightarrow> bytes \<Rightarrow> handler" where
  "handleSessionGet env cfg user pathValue =
     with_path_id ''sessionId'' ValidateSessionID pathValue (\<lambda>i.
       requireResourceAccess env cfg user ''get'' ''sessions'' i (do {
         l \<leftarrow> lookupSession env cfg i;
         case l of
           Inl e \<Rightarrow> reply_err 500 (err_msg e) ''store''
         | Inr None \<Rightarrow> reply_err 404 ''not found'' []
         | Inr (Some sess) \<Rightarrow> reply (rt_writeJSON 200 (RSession (sessionToResponse sess)))
       }))"

definition handleSessionDelete :: "kube_env \<Rightarrow> Config \<Rightarrow> UserInfo option \<Rightarrow> bytes \<Rightarrow> handler" where
  "handleSessionDelete env cfg user pathValue =
     with_path_id ''sessionId'' ValidateSessionID pathValue (\<lambda>i.
       requireResourceAccess env cfg user ''delete'' ''sessions'' i (do {
         l \<leftarrow> lookupSession env cfg i;
         case l of
           Inl e \<Rightarrow> reply_err 500 (err_msg e) ''store''
         | Inr None \<Rightarrow> reply_err 404 ''not found'' []
         | Inr (Some sess) \<Rightarrow> do {
             d \<leftarrow> rt_delete_session env sess;
             case d of
               Some e \<Rightarrow> reply_err 500 (err_msg e) ''delete''
             | None \<Rightarrow> reply no_content
           }
       }))"

section \<open>Routes\<close>

text \<open>
  The patterns of the multiplexer: a method (\<open>None\<close> for any), and path segments, literal or a
  named parameter.
\<close>

datatype seg = Lit bytes | Par bytes

type_synonym pattern = "bytes option \<times> seg list"

definition pattern_text :: "pattern \<Rightarrow> bytes" where
  "pattern_text p =
     (case fst p of None \<Rightarrow> [] | Some m \<Rightarrow> m @ '' '') @
     concat (map (\<lambda>s. ''/'' @ (case s of Lit x \<Rightarrow> x | Par x \<Rightarrow> ''{'' @ x @ ''}'')) (snd p))"

definition seg_match :: "seg list \<Rightarrow> bytes list \<Rightarrow> bool" where
  "seg_match ps ss \<longleftrightarrow> list_all2 (\<lambda>p x. case p of Lit y \<Rightarrow> x = y | Par n \<Rightarrow> x \<noteq> []) ps ss"

text \<open>The value of the path parameter, which is the third segment in every pattern that has one.\<close>

definition PathValue :: "rt_request \<Rightarrow> bytes" where
  "PathValue r = (if length (rq_Segments r) > 2 then rq_Segments r ! 2 else [])"

abbreviation sessions_path :: "seg list" where "sessions_path \<equiv> [Lit ''v1'', Lit ''sessions'']"
abbreviation sandboxes_path :: "seg list" where "sandboxes_path \<equiv> [Lit ''v1'', Lit ''sandboxes'']"

text \<open>
  The table of routes.  \<open>mcp\<close> is the handler of the MCP library, which calls the tools for an
  authenticated user.
\<close>

definition rt_routes ::
  "kube_env \<Rightarrow> Config \<Rightarrow> nat \<Rightarrow> rt_resp option \<Rightarrow> (UserInfo option \<Rightarrow> handler) \<Rightarrow> rt_request \<Rightarrow>
     (pattern \<times> handler) list" where
  "rt_routes env cfg fuel metrics mcp r =
     (let auth = withAuth env cfg r; i = PathValue r in
      [((Some ''GET'', [Lit ''healthz'']),
         reply rt_handleHealth)] @
      (case metrics of None \<Rightarrow> [] | Some m \<Rightarrow> [((Some ''GET'', [Lit ''metrics'']), reply m)]) @
      [((Some ''POST'', sessions_path @ [Lit ''exec'']), auth (\<lambda>u. handleSessionExec env cfg fuel u r)),
       ((Some ''POST'', sessions_path @ [Lit ''exec'', Lit ''stream'']),
         auth (\<lambda>u. handleSessionExecStream env cfg fuel u r)),
       ((Some ''POST'', sessions_path), auth (\<lambda>u. handleSessionCreate env cfg fuel u r)),
       ((Some ''GET'', sessions_path), auth (\<lambda>u. handleSessionList env cfg u r)),
       ((Some ''GET'', sessions_path @ [Par ''sessionId'']), auth (\<lambda>u. handleSessionGet env cfg u i)),
       ((Some ''DELETE'', sessions_path @ [Par ''sessionId'']), auth (\<lambda>u. handleSessionDelete env cfg u i)),
       ((Some ''POST'', sandboxes_path), auth (\<lambda>u. handleSandboxCreate env cfg u r)),
       ((Some ''GET'', sandboxes_path), auth (\<lambda>u. handleSandboxList env cfg u)),
       ((Some ''GET'', sandboxes_path @ [Par ''sandboxId'']), auth (\<lambda>u. handleSandboxGet env cfg u i)),
       ((Some ''PUT'', sandboxes_path @ [Par ''sandboxId'']), auth (\<lambda>u. handleSandboxUpdate env cfg u i r)),
       ((Some ''DELETE'', sandboxes_path @ [Par ''sandboxId'']), auth (\<lambda>u. handleSandboxDelete env cfg u i)),
       ((Some ''POST'', sandboxes_path @ [Par ''sandboxId'', Lit ''evict'']),
         auth (\<lambda>u. handleSandboxEvict env cfg u i)),
       ((Some ''GET'', sandboxes_path @ [Par ''sandboxId'', Lit ''sessions'']),
         auth (\<lambda>u. handleSandboxSessions env cfg u i)),
       ((None, [Lit ''mcp'']), withAuthHandler env cfg r mcp)])"

text \<open>
  The multiplexer, with the text of the pattern that matches: HEAD is served by a pattern
  for GET; at most one pattern fits a method and a path.
\<close>

definition rt_mux :: "(pattern \<times> handler) list \<Rightarrow> rt_request \<Rightarrow> bytes \<times> handler" where
  "rt_mux routes r =
     (let meth = (if rq_Meth r = ''HEAD'' then ''GET'' else rq_Meth r);
          path = filter (\<lambda>x. seg_match (snd (fst x)) (rq_Segments r)) routes
      in case List.find (\<lambda>x. fst (fst x) = None \<or> fst (fst x) = Some meth) path of
           Some x \<Rightarrow> (pattern_text (fst x), snd x)
         | None \<Rightarrow>
             ([], reply \<lparr>ro_Status = (if path \<noteq> [] then 405 else 404), ro_Header = [],
                    ro_Body = RText (if path \<noteq> [] then ''Method Not Allowed'' else ''404 page not found'')\<rparr>))"

text \<open>
  The metrics middleware: the gauge of requests in flight goes up and down, and a request is
  counted with its route, status and method.
\<close>

definition middleware :: "bool \<Rightarrow> rt_request \<Rightarrow> bytes \<times> handler \<Rightarrow> handler" where
  "middleware enabled r next =
     (if \<not> enabled then snd next
      else do {
        _ \<leftarrow> State_Monad.update (\<lambda>s. s\<lparr>rt_inflight := rt_inflight s + 1\<rparr>);
        a \<leftarrow> snd next;
        case a of
          None \<Rightarrow> State_Monad.return None
        | Some resp \<Rightarrow> do {
            _ \<leftarrow> State_Monad.update (\<lambda>s. s\<lparr>rt_inflight := rt_inflight s - 1,
                  rt_requests := rt_requests s @
                    [(if fst next = [] then ''other'' else fst next, ro_Status resp, rq_Meth r)]\<rparr>);
            State_Monad.return (Some resp)
          }
      })"

definition Handler ::
  "kube_env \<Rightarrow> Config \<Rightarrow> nat \<Rightarrow> rt_resp option \<Rightarrow> (UserInfo option \<Rightarrow> handler) \<Rightarrow> rt_request \<Rightarrow> handler" where
  "Handler env cfg fuel metrics mcp r =
     middleware (metrics \<noteq> None) r (rt_mux (rt_routes env cfg fuel metrics mcp r) r)"

end
