(* ===== verification/Router_Mcp.thy ===== *)
theory Router_Mcp
  imports Router_Sessions
begin

text \<open>
  The tools of the MCP endpoint, \<open>internal/router/mcp.go\<close>: finding or creating the session that
  the headers name, and running a command or a file operation in it.  As in the handlers,
  \<open>None\<close> stands for a call that still waits for a session.
\<close>

section \<open>Parameters and results\<close>

record bashParams =
  bp_Command :: bytes
  bp_TimeoutSeconds :: int

record readFileParams =
  rp_Path :: bytes

record writeFileParams =
  wf_Path :: bytes
  wf_Content :: bytes
  wf_Encoding :: bytes

record editFileParams =
  ef_Path :: bytes
  ef_OldString :: bytes
  ef_NewString :: bytes
  ef_ReplaceAll :: bool

record tool_result =
  to_Text :: bytes
  to_IsError :: bool

type_synonym tool = "tool_result option rt"

definition toolErrResult :: "bytes \<Rightarrow> tool_result" where
  "toolErrResult text = \<lparr>to_Text = text, to_IsError = True\<rparr>"

definition toolError :: "bytes \<Rightarrow> tool" where
  "toolError text = State_Monad.return (Some (toolErrResult text))"

definition toolText :: "bytes \<Rightarrow> tool" where
  "toolText text = State_Monad.return (Some \<lparr>to_Text = text, to_IsError = False\<rparr>)"

section \<open>Sessions of a tool call\<close>

text \<open>
  \<open>ensureSession\<close> and its callers return the id of the sandbox, the id of the session and an
  error; the callers here only use the id of the session.
\<close>

definition ensureSession ::
  "kube_env \<Rightarrow> Config \<Rightarrow> nat \<Rightarrow> UserInfo option \<Rightarrow> bytes \<Rightarrow> bytes \<Rightarrow> bytes \<Rightarrow>
     (go_error + bytes \<times> bytes) option rt" where
  "ensureSession env cfg fuel user sessionID sandboxID owner = do {
     l \<leftarrow> lookupSandbox env cfg sandboxID;
     case l of
       Inl e \<Rightarrow> State_Monad.return (Some (Inl (wrap_err ''lookup sandbox config: '' e [])))
     | Inr sb \<Rightarrow> do {
         a \<leftarrow> canResourceAccess env cfg user ''get'' ''sandboxes'' sandboxID;
         if a \<noteq> None then State_Monad.return (Some (Inl (ErrText ''forbidden'')))
         else if sb = None
         then State_Monad.return (Some (Inl (ErrText (''sandbox '' @ fmt_q sandboxID @ '' not found''))))
         else do {
           x \<leftarrow> lookupSession env cfg sessionID;
           case x of
             Inl e \<Rightarrow> State_Monad.return (Some (Inl e))
           | Inr sess \<Rightarrow>
               if (case sess of None \<Rightarrow> False | Some s \<Rightarrow> phase s \<noteq> SandboxPhaseTerminated)
               then State_Monad.return (Some (Inr (sandboxID, sessionID)))
               else do {
                 a2 \<leftarrow> canResourceAccess env cfg user ''create'' ''sessions'' sessionID;
                 if a2 \<noteq> None then State_Monad.return (Some (Inl (ErrText ''forbidden'')))
                 else do {
                   d \<leftarrow> (case sess of
                       None \<Rightarrow> State_Monad.return None
                     | Some s \<Rightarrow> rt_delete_session env s);
                   case d of
                     Some e \<Rightarrow> State_Monad.return (Some (Inl (wrap_err ''delete terminated session: '' e [])))
                   | None \<Rightarrow> do {
                       c \<leftarrow> createAndWaitForSession env cfg fuel sessionID sandboxID owner;
                       State_Monad.return
                         (case c of
                            None \<Rightarrow> None
                          | Some (Inl e) \<Rightarrow> Some (Inl (wrap_err ''create session: '' e []))
                          | Some (Inr _) \<Rightarrow> Some (Inr (sandboxID, sessionID)))
                     }
                 }
               }
         }
       }
   }"

definition shared_session_id :: "bytes \<Rightarrow> bytes" where
  "shared_session_id sandboxID = (if length sandboxID > 55 then take 55 sandboxID else sandboxID) @ ''-session''"

definition resolveSandboxSession ::
  "kube_env \<Rightarrow> Config \<Rightarrow> nat \<Rightarrow> UserInfo option \<Rightarrow> bytes \<Rightarrow> (go_error + bytes \<times> bytes) option rt" where
  "resolveSandboxSession env cfg fuel user sandboxID =
     ensureSession env cfg fuel user (shared_session_id sandboxID) sandboxID ''system''"

definition resolveDefaultSession ::
  "kube_env \<Rightarrow> Config \<Rightarrow> nat \<Rightarrow> UserInfo option \<Rightarrow> bytes \<Rightarrow> (go_error + bytes \<times> bytes) option rt" where
  "resolveDefaultSession env cfg fuel user given =
     (case rf_DefaultSandboxConfig cfg of
        None \<Rightarrow> State_Monad.return (Some (Inl (ErrText ''default sandbox is disabled'')))
      | Some body \<Rightarrow>
          if \<not> rf_DefaultSandboxEnabled cfg
          then State_Monad.return (Some (Inl (ErrText ''default sandbox is disabled'')))
          else do {
            let sandboxID = (if given = [] then sb_SandboxID body else given);
            l \<leftarrow> lookupSandbox env cfg sandboxID;
            case l of
              Inl e \<Rightarrow> State_Monad.return (Some (Inl (wrap_err ''lookup sandbox config: '' e [])))
            | Inr sb \<Rightarrow> do {
                a \<leftarrow> canResourceAccess env cfg user ''get'' ''sandboxes'' sandboxID;
                if a \<noteq> None then State_Monad.return (Some (Inl (ErrText ''forbidden'')))
                else do {
                  c \<leftarrow> (if sb = None then do {
                          r \<leftarrow> createSandboxFromBody env cfg body;
                          State_Monad.return (case r of Inl e \<Rightarrow> Some e | Inr _ \<Rightarrow> None)
                        }
                        else State_Monad.return None);
                  case c of
                    Some e \<Rightarrow> State_Monad.return (Some (Inl (wrap_err ''create default sandbox config: '' e [])))
                  | None \<Rightarrow> resolveSandboxSession env cfg fuel user sandboxID
                }
              }
          })"

text \<open>The session of an id that has just been resolved; \<open>Inl\<close> is the result of the tool.\<close>

definition resolved_session ::
  "kube_env \<Rightarrow> Config \<Rightarrow> bytes \<Rightarrow> (go_error + bytes \<times> bytes) option \<Rightarrow> (tool_result + Session) option rt" where
  "resolved_session env cfg prefix r =
     (case r of
        None \<Rightarrow> State_Monad.return None
      | Some (Inl e) \<Rightarrow> State_Monad.return (Some (Inl (toolErrResult (prefix @ err_msg e))))
      | Some (Inr (sb, i)) \<Rightarrow> do {
          l \<leftarrow> lookupSession env cfg i;
          State_Monad.return
            (case l of
               Inr (Some sess) \<Rightarrow> Some (Inr sess)
             | _ \<Rightarrow> Some (Inl (toolErrResult (''session '' @ fmt_q i @ '' not found''))))
        })"

definition find_tool_session ::
  "kube_env \<Rightarrow> Config \<Rightarrow> nat \<Rightarrow> UserInfo option \<Rightarrow> bytes \<Rightarrow> bytes \<Rightarrow> (tool_result + Session) option rt" where
  "find_tool_session env cfg fuel user sandboxID sessionID =
     (if sessionID \<noteq> [] then do {
        l \<leftarrow> lookupSession env cfg sessionID;
        case l of
          Inl e \<Rightarrow> State_Monad.return (Some (Inl (toolErrResult (''store error: '' @ err_msg e))))
        | Inr (Some sess) \<Rightarrow>
            if sandboxID \<noteq> [] \<and> ss_SandboxID (se_Spec sess) \<noteq> sandboxID
            then State_Monad.return (Some (Inl (toolErrResult (''session '' @ fmt_q sessionID @
                   '' does not belong to sandbox '' @ fmt_q sandboxID))))
            else State_Monad.return (Some (Inr sess))
        | Inr None \<Rightarrow>
            if sandboxID = []
            then State_Monad.return (Some (Inl (toolErrResult (''session '' @ fmt_q sessionID @
                   '' not found and no sandbox id provided to create it''))))
            else
              (case ValidateSessionID sessionID of
                 Some e \<Rightarrow> State_Monad.return (Some (Inl (toolErrResult ''invalid session id format'')))
               | None \<Rightarrow> do {
                   r \<leftarrow> ensureSession env cfg fuel user sessionID sandboxID sessionID;
                   resolved_session env cfg ''session unavailable: '' r
                 })
      }
      else do {
        r \<leftarrow> (if sandboxID \<noteq> [] then resolveSandboxSession env cfg fuel user sandboxID
             else resolveDefaultSession env cfg fuel user sandboxID);
        resolved_session env cfg ''no session specified and session unavailable: '' r
      })"

definition resolveToolSession ::
  "kube_env \<Rightarrow> Config \<Rightarrow> nat \<Rightarrow> UserInfo option \<Rightarrow> bytes \<Rightarrow> bytes \<Rightarrow> (tool_result + Session) option rt" where
  "resolveToolSession env cfg fuel user sandboxHeader sessionHeader = do {
     let sandboxID = TrimSpace sandboxHeader;
     let sessionID = TrimSpace sessionHeader;
     if sandboxID \<noteq> [] \<and> ValidateSandboxID sandboxID \<noteq> None
     then State_Monad.return (Some (Inl (toolErrResult ''invalid sandbox id format'')))
     else do {
       r \<leftarrow> find_tool_session env cfg fuel user sandboxID sessionID;
       case r of
         Some (Inr sess) \<Rightarrow> do {
           a \<leftarrow> canResourceAccess env cfg user ''update'' ''sessions'' (om_Name (se_Meta sess));
           State_Monad.return (Some
             (if a \<noteq> None then Inl (toolErrResult ''forbidden'')
              else if phase sess \<noteq> SandboxPhaseRunning
              then Inl (toolErrResult (''session '' @ fmt_q (ss_SessionID (se_Spec sess)) @
                     '' not running (phase: '' @ phase sess @ '')''))
              else Inr sess))
         }
       | _ \<Rightarrow> State_Monad.return r
     }
   }"

section \<open>The tools\<close>

definition with_tool_session ::
  "kube_env \<Rightarrow> Config \<Rightarrow> nat \<Rightarrow> UserInfo option \<Rightarrow> bytes \<Rightarrow> bytes \<Rightarrow> (Session \<Rightarrow> tool) \<Rightarrow> tool" where
  "with_tool_session env cfg fuel user sandboxID sessionID next = do {
     r \<leftarrow> resolveToolSession env cfg fuel user sandboxID sessionID;
     case r of
       None \<Rightarrow> State_Monad.return None
     | Some (Inl res) \<Rightarrow> State_Monad.return (Some res)
     | Some (Inr session) \<Rightarrow>
         with_sem cfg (Some (toolErrResult ''concurrency limit reached, try again later'')) (next session)
   }"

text \<open>The text of a finished command.\<close>

definition bash_text :: "bytes \<Rightarrow> bytes \<Rightarrow> int \<Rightarrow> bool \<Rightarrow> bytes" where
  "bash_text stdout stderr exitCode timedOut =
     (let text = stdout;
          text = (if stderr \<noteq> [] then (if text \<noteq> [] then text @ [CHR 0x0A] else text) @ stderr else text);
          text = (if exitCode \<noteq> 0 then text @ [CHR 0x0A] @ ''[exit code: '' @ fmt_int exitCode @ '']'' else text)
      in if timedOut then text @ [CHR 0x0A] @ ''[timed out]'' else text)"

text \<open>The chunks of the stream that are output, each of which is notified with its number.\<close>

definition output_chunks :: "(bytes \<times> bytes) list \<Rightarrow> (bytes \<times> bytes) list" where
  "output_chunks events = filter (\<lambda>e. fst e = ''stdout'' \<or> fst e = ''stderr'') events"

fun notify_all :: "nat \<Rightarrow> (bytes \<times> bytes) list \<Rightarrow> unit rt" where
  "notify_all n [] = State_Monad.return ()"
| "notify_all n ((t, d) # es) = do {
     _ \<leftarrow> k_call (\<lambda>_. ()) (\<lambda>_. NotifyProgress (Suc n) d);
     notify_all (Suc n) es
   }"

definition stream_of :: "bytes \<Rightarrow> (bytes \<times> bytes) list \<Rightarrow> bytes" where
  "stream_of t events = concat (map snd (filter (\<lambda>e. fst e = t) events))"

definition bash_done :: "Session \<Rightarrow> bytes \<Rightarrow> bytes \<Rightarrow> int \<Rightarrow> bool \<Rightarrow> tool" where
  "bash_done session stdout stderr exitCode timedOut = do {
     _ \<leftarrow> spawn_touch session;
     let text = bash_text stdout stderr exitCode timedOut;
     if exitCode \<noteq> 0 then toolError text else toolText text
   }"

text \<open>\<open>progress\<close>: the request has a progress token and a session to notify.\<close>

definition mcpBashTool ::
  "kube_env \<Rightarrow> Config \<Rightarrow> nat \<Rightarrow> UserInfo option \<Rightarrow> bool \<Rightarrow> bytes \<Rightarrow> bytes \<Rightarrow> bashParams \<Rightarrow> tool" where
  "mcpBashTool env cfg fuel user progress sandboxID sessionID params =
     (if bp_Command params = [] then toolError ''command is required''
      else with_tool_session env cfg fuel user sandboxID sessionID (\<lambda>session. do {
        let url = controllerURLFromSession cfg session;
        let req = \<lparr>xq_SandboxID = ss_SessionID (se_Spec session), xq_Command = ''sh'',
          xq_Args = [''-c'', bp_Command params], xq_Env = [],
          xq_TimeoutSeconds = (if bp_TimeoutSeconds params \<le> 0 then 60 else bp_TimeoutSeconds params),
          xq_PTY = False\<rparr>;
        if progress then do {
          (events, r) \<leftarrow> ctl_ExecStream env (client_config cfg) url req;
          _ \<leftarrow> notify_all 0 (output_chunks events);
          case r of
            Inl e \<Rightarrow> toolError (''exec error: '' @ err_msg e)
          | Inr x \<Rightarrow>
              bash_done session (stream_of ''stdout'' events) (stream_of ''stderr'' events)
                (xs_ExitCode x) (xs_TimedOut x)
        }
        else do {
          r \<leftarrow> ctl_Exec env (client_config cfg) url req;
          case r of
            Inl e \<Rightarrow> toolError (''exec error: '' @ err_msg e)
          | Inr x \<Rightarrow> bash_done session (xs_Stdout x) (xs_Stderr x) (xs_ExitCode x) (xs_TimedOut x)
        }
      }))"

definition mcpReadFileTool ::
  "kube_env \<Rightarrow> Config \<Rightarrow> nat \<Rightarrow> UserInfo option \<Rightarrow> bytes \<Rightarrow> bytes \<Rightarrow> readFileParams \<Rightarrow> tool" where
  "mcpReadFileTool env cfg fuel user sandboxID sessionID params =
     (case ValidateFilePath (rp_Path params) of
        Some e \<Rightarrow> toolError (err_msg e)
      | None \<Rightarrow>
          with_tool_session env cfg fuel user sandboxID sessionID (\<lambda>session. do {
            r \<leftarrow> ctl_ReadFile env (client_config cfg) (controllerURLFromSession cfg session)
                   \<lparr>fr_SandboxID = ss_SessionID (se_Spec session), fr_Path = rp_Path params\<rparr>;
            case r of
              Inl e \<Rightarrow> toolError (''read error: '' @ err_msg e)
            | Inr res \<Rightarrow> do { _ \<leftarrow> spawn_touch session; toolText (frr_Content res) }
          }))"

definition mcpWriteFileTool ::
  "kube_env \<Rightarrow> Config \<Rightarrow> nat \<Rightarrow> UserInfo option \<Rightarrow> bytes \<Rightarrow> bytes \<Rightarrow> writeFileParams \<Rightarrow> tool" where
  "mcpWriteFileTool env cfg fuel user sandboxID sessionID params =
     (case ValidateFilePath (wf_Path params) of
        Some e \<Rightarrow> toolError (err_msg e)
      | None \<Rightarrow>
     (case ValidateFileEncoding (wf_Encoding params) of
        Some e \<Rightarrow> toolError (err_msg e)
      | None \<Rightarrow>
          with_tool_session env cfg fuel user sandboxID sessionID (\<lambda>session. do {
            r \<leftarrow> ctl_WriteFile env (client_config cfg) (controllerURLFromSession cfg session)
                   \<lparr>fw_SandboxID = ss_SessionID (se_Spec session), fw_Path = wf_Path params,
                    fw_Content = wf_Content params, fw_Encoding = wf_Encoding params\<rparr>;
            case r of
              Inl e \<Rightarrow> toolError (''write error: '' @ err_msg e)
            | Inr res \<Rightarrow> do {
                _ \<leftarrow> spawn_touch session;
                toolText (''wrote '' @ fmt_int (fwr_BytesWritten res) @ '' bytes to '' @ fwr_Path res)
              }
          })))"

definition mcpEditFileTool ::
  "kube_env \<Rightarrow> Config \<Rightarrow> nat \<Rightarrow> UserInfo option \<Rightarrow> bytes \<Rightarrow> bytes \<Rightarrow> editFileParams \<Rightarrow> tool" where
  "mcpEditFileTool env cfg fuel user sandboxID sessionID params =
     (case ValidateFilePath (ef_Path params) of
        Some e \<Rightarrow> toolError (err_msg e)
      | None \<Rightarrow>
          if ef_OldString params = [] then toolError ''oldString is required''
          else with_tool_session env cfg fuel user sandboxID sessionID (\<lambda>session. do {
            r \<leftarrow> ctl_EditFile env (client_config cfg) (controllerURLFromSession cfg session)
                   \<lparr>fe_SandboxID = ss_SessionID (se_Spec session), fe_Path = ef_Path params,
                    fe_OldString = ef_OldString params, fe_NewString = ef_NewString params,
                    fe_ReplaceAll = ef_ReplaceAll params\<rparr>;
            case r of
              Inl e \<Rightarrow> toolError (''edit error: '' @ err_msg e)
            | Inr res \<Rightarrow> do {
                _ \<leftarrow> spawn_touch session;
                toolText (''made '' @ fmt_int (fer_Replacements res) @ '' replacement(s) in '' @ fer_Path res)
              }
          }))"

section \<open>The endpoint\<close>

text \<open>
  The MCP library decodes the calls of the tools from a request, and renders their results
  into the answer: \<open>calls\<close> and \<open>render\<close>.  The flag of a call of \<open>bash\<close> says whether progress can
  be notified.  The tools are registered under their names, with the headers of the request.
\<close>

datatype tool_call =
    CallBash bool bashParams
  | CallReadFile readFileParams
  | CallWriteFile writeFileParams
  | CallEditFile editFileParams

definition run_tool ::
  "kube_env \<Rightarrow> Config \<Rightarrow> nat \<Rightarrow> UserInfo option \<Rightarrow> bytes \<Rightarrow> bytes \<Rightarrow> tool_call \<Rightarrow> tool" where
  "run_tool env cfg fuel user sandboxID sessionID c =
     (case c of
        CallBash progress p \<Rightarrow> mcpBashTool env cfg fuel user progress sandboxID sessionID p
      | CallReadFile p \<Rightarrow> mcpReadFileTool env cfg fuel user sandboxID sessionID p
      | CallWriteFile p \<Rightarrow> mcpWriteFileTool env cfg fuel user sandboxID sessionID p
      | CallEditFile p \<Rightarrow> mcpEditFileTool env cfg fuel user sandboxID sessionID p)"

fun run_tools ::
  "kube_env \<Rightarrow> Config \<Rightarrow> nat \<Rightarrow> UserInfo option \<Rightarrow> bytes \<Rightarrow> bytes \<Rightarrow> tool_call list \<Rightarrow>
     tool_result list option rt" where
  "run_tools env cfg fuel user sandboxID sessionID [] = State_Monad.return (Some [])"
| "run_tools env cfg fuel user sandboxID sessionID (c # cs) = do {
     x \<leftarrow> run_tool env cfg fuel user sandboxID sessionID c;
     case x of
       None \<Rightarrow> State_Monad.return None
     | Some res \<Rightarrow> do {
         rs \<leftarrow> run_tools env cfg fuel user sandboxID sessionID cs;
         State_Monad.return (map_option (\<lambda>l. res # l) rs)
       }
   }"

definition newMCPHandler ::
  "kube_env \<Rightarrow> Config \<Rightarrow> nat \<Rightarrow> tool_call list \<Rightarrow> (tool_result list \<Rightarrow> rt_resp) \<Rightarrow> rt_request \<Rightarrow>
     UserInfo option \<Rightarrow> handler" where
  "newMCPHandler env cfg fuel calls render r user = do {
     rs \<leftarrow> run_tools env cfg fuel user (rq_XSandboxId r) (rq_XSessionId r) calls;
     State_Monad.return (map_option render rs)
   }"

text \<open>The whole server.\<close>

definition serve ::
  "kube_env \<Rightarrow> Config \<Rightarrow> nat \<Rightarrow> rt_resp option \<Rightarrow> tool_call list \<Rightarrow> (tool_result list \<Rightarrow> rt_resp) \<Rightarrow>
     rt_request \<Rightarrow> handler" where
  "serve env cfg fuel metrics calls render r =
     Handler env cfg fuel metrics (newMCPHandler env cfg fuel calls render r) r"

end
