(* ===== verification/Event_Policy.thy ===== *)
theory Event_Policy
  imports Kube
begin

text \<open>
  Policies over traces: what must have happened before an event may happen.  \<open>governed\<close> is a
  Hoare-style judgement for computations that make calls: run after the events of a set \<open>P\<close>,
  each event the computation emits is allowed by the policy after the ones before it.  The
  locale collects the rules for a policy with harmless events.
\<close>

named_theorems governed_intros \<open>structural rules for computations under a policy\<close>

type_synonym policy = "kevent set \<Rightarrow> kevent \<Rightarrow> bool"

fun obeys :: "policy \<Rightarrow> kevent set \<Rightarrow> ktrace \<Rightarrow> bool" where
  "obeys ok P [] = True"
| "obeys ok P (e # es) = (ok P e \<and> obeys ok (insert e P) es)"

lemma obeys_append: "obeys ok P (es @ fs) = (obeys ok P es \<and> obeys ok (P \<union> set es) fs)"
  by (induction es arbitrary: P) (simp_all add: conj_assoc)

lemma obeys_iff:
  "obeys ok P es \<longleftrightarrow> (\<forall>xs e ys. es = xs @ e # ys \<longrightarrow> ok (P \<union> set xs) e)"
proof (induction es arbitrary: P)
  case (Cons a es)
  show ?case
  proof
    assume "obeys ok P (a # es)"
    then have a: "ok P a" and *: "\<And>xs e ys. es = xs @ e # ys \<Longrightarrow> ok (insert a P \<union> set xs) e"
      using Cons.IH by auto
    show "\<forall>xs e ys. a # es = xs @ e # ys \<longrightarrow> ok (P \<union> set xs) e"
    proof (intro allI impI)
      fix xs e ys assume eq: "a # es = xs @ e # ys"
      show "ok (P \<union> set xs) e"
      proof (cases xs)
        case Nil with eq a show ?thesis by simp
      next
        case (Cons x xs') with eq * [of xs' e ys] show ?thesis by simp
      qed
    qed
  next
    assume *: "\<forall>xs e ys. a # es = xs @ e # ys \<longrightarrow> ok (P \<union> set xs) e"
    from * [rule_format, of "[]" a es] have "ok P a" by simp
    moreover have "ok (insert a P \<union> set xs) e" if "es = xs @ e # ys" for xs e ys
      using * [rule_format, of "a # xs" e ys] that by simp
    ultimately show "obeys ok P (a # es)" using Cons.IH by auto
  qed
qed simp

lemma obeys_mono:
  "obeys ok P es \<Longrightarrow> (\<And>P e. ok P e \<Longrightarrow> ok' P e) \<Longrightarrow> obeys ok' P es"
  by (induction es arbitrary: P) auto

definition governed ::
  "policy \<Rightarrow> kevent set \<Rightarrow> ('z, 'a) kube \<Rightarrow> (kevent set \<Rightarrow> 'a \<Rightarrow> bool) \<Rightarrow> bool" where
  "governed ok P m Q \<longleftrightarrow> emits w_trace (\<lambda>es x. obeys ok P es \<and> Q (P \<union> set es) x) m"

abbreviation guards :: "policy \<Rightarrow> kevent set \<Rightarrow> ('z, 'a) kube \<Rightarrow> bool" where
  "guards ok P m \<equiv> governed ok P m (\<lambda>_ _. True)"

lemma governed_return [governed_intros]: "Q P x \<Longrightarrow> governed ok P (State_Monad.return x) Q"
  unfolding governed_def by (rule emits_return) simp

lemma governed_bind:
  assumes "governed ok P m R"
    and "\<And>P' x. P \<subseteq> P' \<Longrightarrow> R P' x \<Longrightarrow> governed ok P' (f x) Q"
  shows "governed ok P (State_Monad.bind m f) Q"
  unfolding governed_def
proof (rule emits_bind)
  show "emits w_trace (\<lambda>es x. obeys ok P es \<and> R (P \<union> set es) x) m"
    using assms(1) by (simp add: governed_def)
  show "emits w_trace (\<lambda>fs y. obeys ok (P \<union> set es) fs \<and> Q ((P \<union> set es) \<union> set fs) y) (f x)"
    if "obeys ok P es \<and> R (P \<union> set es) x" for es x
    using assms(2) [of "P \<union> set es" x] that by (simp add: governed_def)
qed (simp add: obeys_append Un_assoc)

lemma governed_call:
  "\<lbrakk>\<And>r. ok P (ev r); \<And>r. Q (insert (ev r) P) r\<rbrakk> \<Longrightarrow> governed ok P (k_call ask ev) Q"
  unfolding governed_def by (rule emits_k_call) simp

lemma governed_mono:
  "\<lbrakk>governed ok P m R; \<And>P' x. P \<subseteq> P' \<Longrightarrow> R P' x \<Longrightarrow> Q P' x\<rbrakk> \<Longrightarrow> governed ok P m Q"
  unfolding governed_def by (erule emits_mono) auto

lemma governed_get [governed_intros]: "(\<And>s. Q P s) \<Longrightarrow> governed ok P State_Monad.get Q"
  unfolding governed_def by (rule emitsI) simp

lemma governed_update [governed_intros]:
  "(\<And>s. w_trace (f s) = w_trace s) \<Longrightarrow> Q P () \<Longrightarrow> governed ok P (State_Monad.update f) Q"
  unfolding governed_def by (rule emitsI) (simp add: State_Monad.update_def)

lemma governed_get_bind [governed_intros]:
  "(\<And>s. governed ok P (f s) Q) \<Longrightarrow> governed ok P (State_Monad.bind State_Monad.get f) Q"
  by (rule governed_bind [OF governed_get [where Q = "\<lambda>P' s. P' = P"]]) simp_all

lemma governed_update_bind [governed_intros]:
  "\<lbrakk>\<And>s. w_trace (g s) = w_trace s; governed ok P (f ()) Q\<rbrakk> \<Longrightarrow>
     governed ok P (State_Monad.bind (State_Monad.update g) f) Q"
  by (rule governed_bind [OF governed_update [where Q = "\<lambda>P' s. P' = P"]]) simp_all

lemma governed_call_bind:
  "\<lbrakk>\<And>r. ok P (ev r); \<And>r. governed ok (insert (ev r) P) (f r) Q\<rbrakk> \<Longrightarrow>
     governed ok P (State_Monad.bind (k_call ask ev) f) Q"
  by (rule governed_bind [OF governed_call [where Q = "\<lambda>P' r. P' = insert (ev r) P"]]) simp_all

lemma governed_cases [governed_intros]:
  "\<lbrakk>b \<Longrightarrow> governed ok P m Q; \<not> b \<Longrightarrow> governed ok P n Q\<rbrakk> \<Longrightarrow> governed ok P (if b then m else n) Q"
  "\<lbrakk>x = None \<Longrightarrow> governed ok P m Q; \<And>y. x = Some y \<Longrightarrow> governed ok P (h y) Q\<rbrakk> \<Longrightarrow>
     governed ok P (case x of None \<Rightarrow> m | Some y \<Rightarrow> h y) Q"
  "\<lbrakk>\<And>a. z = Inl a \<Longrightarrow> governed ok P (k a) Q; \<And>c. z = Inr c \<Longrightarrow> governed ok P (l c) Q\<rbrakk> \<Longrightarrow>
     governed ok P (case z of Inl a \<Rightarrow> k a | Inr c \<Rightarrow> l c) Q"
  "(\<And>u v. w = (u, v) \<Longrightarrow> governed ok P (j u v) Q) \<Longrightarrow> governed ok P (case w of (u, v) \<Rightarrow> j u v) Q"
  by (auto split: option.split sum.split prod.split)

text \<open>What a governed computation does when it is run.\<close>

lemma governed_run:
  assumes "governed ok P m Q" and "run_state m s = (x, s')"
  obtains es where "w_trace s' = w_trace s @ es" and "obeys ok P es" and "Q (P \<union> set es) x"
  using assms unfolding governed_def by (elim emitsE) auto

locale event_policy =
  fixes harmless :: "kevent \<Rightarrow> bool" and ok :: policy
  assumes harmless_ok: "harmless e \<Longrightarrow> ok P e"
begin

lemma obeys_harmless: "list_all harmless es \<Longrightarrow> obeys ok P es"
  by (induction es arbitrary: P) (simp_all add: harmless_ok)

lemma governed_quiet:
  assumes "emits w_trace (\<lambda>es x. list_all harmless es \<and> R es x) m"
    and "\<And>es x. R es x \<Longrightarrow> Q (P \<union> set es) x"
  shows "governed ok P m Q"
  unfolding governed_def using assms(1)
  by (rule emits_mono) (use assms(2) obeys_harmless in blast)

lemma guards_quiet: "emits_all w_trace harmless m \<Longrightarrow> guards ok P m"
  by (rule governed_quiet [where R = "\<lambda>_ _. True"]) simp_all

text \<open>A harmless computation, then the rest; of the first only its result is known.\<close>

lemma governed_quiet_bind:
  assumes "emits w_trace (\<lambda>es x. list_all harmless es \<and> R (set es) x) m"
    and "\<And>P' x es. P \<subseteq> P' \<Longrightarrow> set es \<subseteq> P' \<Longrightarrow> R (set es) x \<Longrightarrow> governed ok P' (f x) Q"
  shows "governed ok P (State_Monad.bind m f) Q"
proof (rule governed_bind)
  show "governed ok P m (\<lambda>P' x. \<exists>es. set es \<subseteq> P' \<and> R (set es) x)"
    by (rule governed_quiet [OF assms(1)]) auto
qed (use assms(2) in blast)

lemma governed_plain_bind:
  assumes "emits_all w_trace harmless m"
    and "\<And>P' x. P \<subseteq> P' \<Longrightarrow> governed ok P' (f x) Q"
  shows "governed ok P (State_Monad.bind m f) Q"
  by (rule governed_bind [OF guards_quiet [OF assms(1)]]) (use assms(2) in blast)

end

end
