(* ===== verification/Router_Props.thy ===== *)
theory Router_Props
  imports Router_Mcp Event_Policy
begin

text \<open>
  Properties of the router: nothing happens without an authenticated user, every change and
  every call of a controller was allowed to the user before, the token cache, the waiting
  loop, the semaphore, and the objects the router creates.
\<close>

lemma emits_reply [emits_intros]: "P [] (Some r) \<Longrightarrow> emits w_trace P (reply r)"
  unfolding reply_def by (rule emits_return)

lemma emits_reply_err [emits_intros]: "P [] (Some (jsonErr c m e)) \<Longrightarrow> emits w_trace P (reply_err c m e)"
  unfolding reply_err_def by (rule emits_reply)

section \<open>The policy\<close>

text \<open>
  \<open>allowed\<close>: an access review has allowed the user to do it, or the user is that of the
  development token.
\<close>

definition dev_access :: "Config \<Rightarrow> UserInfo \<Rightarrow> bool" where
  "dev_access cfg u \<longleftrightarrow> rf_DevToken cfg \<noteq> [] \<and> ui_Username u = ''dev-token''"

definition allowed :: "Config \<Rightarrow> UserInfo \<Rightarrow> bytes \<Rightarrow> bytes \<Rightarrow> bytes \<Rightarrow> kevent set \<Rightarrow> bool" where
  "allowed cfg u verb resource name P \<longleftrightarrow>
     dev_access cfg u \<or>
     (\<exists>reason. ReviewAccess
        \<lparr>ar_User = u, ar_Namespace = rf_SandboxNamespace cfg, ar_Group = ''boxy.dev'',
         ar_Resource = resource, ar_Verb = verb, ar_Name = name\<rparr> (Inr (True, reason)) \<in> P)"

text \<open>\<open>listed\<close>: the session is in a list the API server returned for the labels.\<close>

definition listed :: "Config \<Rightarrow> str_map \<Rightarrow> Session \<Rightarrow> kevent set \<Rightarrow> bool" where
  "listed cfg labels sess P \<longleftrightarrow>
     (\<exists>items. ListSessions (rf_SandboxNamespace cfg) labels (Inr items) \<in> P \<and> sess \<in> set items)"

text \<open>
  A session the user may execute in: it runs, and either it was looked up and the user may
  update it, or it was read under a name under which the user may create sessions.
\<close>

definition usable :: "Config \<Rightarrow> UserInfo \<Rightarrow> Session \<Rightarrow> kevent set \<Rightarrow> bool" where
  "usable cfg u sess P \<longleftrightarrow>
     phase sess = SandboxPhaseRunning \<and>
     ((\<exists>i. listed cfg [(LabelSessionID, i)] sess P \<and> ss_SessionID (se_Spec sess) = i) \<and>
        allowed cfg u ''update'' ''sessions'' (om_Name (se_Meta sess)) P \<or>
      (\<exists>i. GetSession (rf_SandboxNamespace cfg) i (Inr sess) \<in> P \<and>
        allowed cfg u ''create'' ''sessions'' i P))"

text \<open>A request to the controller and the sandbox of such a session.\<close>

definition usable_at :: "Config \<Rightarrow> UserInfo \<Rightarrow> bytes \<Rightarrow> bytes \<Rightarrow> kevent set \<Rightarrow> bool" where
  "usable_at cfg u url i P \<longleftrightarrow>
     (\<exists>sess. usable cfg u sess P \<and> url = controllerURLFromSession cfg sess \<and>
             i = ss_SessionID (se_Spec sess))"

text \<open>Events that change nothing outside the router.\<close>

fun harmless :: "kevent \<Rightarrow> bool" where
  "harmless (GetSession ns n r) = True"
| "harmless (ListSessions ns l r) = True"
| "harmless (ListSandboxes ns l r) = True"
| "harmless (ReviewToken t r) = True"
| "harmless (ReviewAccess a r) = True"
| "harmless (Now t) = True"
| "harmless (WaitTick r) = True"
| "harmless (RandomBytes b) = True"
| "harmless (NotifyProgress n d) = True"
| "harmless e = False"

fun permitted :: "Config \<Rightarrow> UserInfo \<Rightarrow> policy" where
  "permitted cfg u P (CreateSession s r) =
     (allowed cfg u ''create'' ''sessions'' (om_Name (se_Meta s)) P \<and>
      allowed cfg u ''get'' ''sandboxes'' (ss_SandboxID (se_Spec s)) P)"
| "permitted cfg u P (DeleteSession s r) =
     (let i = ss_SessionID (se_Spec s) in
      listed cfg [(LabelSessionID, i)] s P \<and>
      (allowed cfg u ''delete'' ''sessions'' i P \<or>
       phase s = SandboxPhaseTerminated \<and> allowed cfg u ''create'' ''sessions'' i P))"
| "permitted cfg u P (PatchSessionStatus old new r) =
     (new = set_phase SandboxPhaseDeleting old \<and>
      (\<exists>i. listed cfg [(LabelSandboxID, i)] old P \<and> allowed cfg u ''update'' ''sandboxes'' i P))"
| "permitted cfg u P (CreateSandboxCR sb r) =
     (allowed cfg u ''create'' ''sandboxes'' (om_Name (bx_Meta sb)) P \<or>
      (\<exists>body. rf_DefaultSandboxEnabled cfg \<and> rf_DefaultSandboxConfig cfg = Some body \<and>
        sb = sandbox_cr cfg body \<and> allowed cfg u ''get'' ''sandboxes'' (sb_SandboxID body) P))"
| "permitted cfg u P (PatchSandbox old new r) =
     (bs_SandboxID (bx_Spec new) = bs_SandboxID (bx_Spec old) \<and> bx_Meta new = bx_Meta old \<and>
      allowed cfg u ''update'' ''sandboxes'' (bs_SandboxID (bx_Spec old)) P)"
| "permitted cfg u P (DeleteSandboxCR sb r) =
     allowed cfg u ''delete'' ''sandboxes'' (bs_SandboxID (bx_Spec sb)) P"
| "permitted cfg u P (CtlExec url q r) = usable_at cfg u url (xq_SandboxID q) P"
| "permitted cfg u P (CtlExecStream url q r) = usable_at cfg u url (xq_SandboxID q) P"
| "permitted cfg u P (CtlReadFile url q r) = usable_at cfg u url (fr_SandboxID q) P"
| "permitted cfg u P (CtlWriteFile url q r) = usable_at cfg u url (fw_SandboxID q) P"
| "permitted cfg u P (CtlEditFile url q r) = usable_at cfg u url (fe_SandboxID q) P"
| "permitted cfg u P (Spawn s) = usable cfg u s P"
| "permitted cfg u P e = harmless e"

interpretation access: event_policy harmless "permitted cfg u"
proof
  fix e P assume "harmless e"
  then show "permitted cfg u P e" by (cases e) simp_all
qed

lemma allowed_mono: "allowed cfg u v r n P \<Longrightarrow> P \<subseteq> P' \<Longrightarrow> allowed cfg u v r n P'"
  by (auto simp: allowed_def)

lemma listed_mono: "listed cfg l s P \<Longrightarrow> P \<subseteq> P' \<Longrightarrow> listed cfg l s P'"
  by (auto simp: listed_def)

lemma usable_mono: "usable cfg u s P \<Longrightarrow> P \<subseteq> P' \<Longrightarrow> usable cfg u s P'"
  unfolding usable_def using allowed_mono listed_mono by blast

section \<open>The calls that only read\<close>

abbreviation quiet :: "'a rt \<Rightarrow> bool" where "quiet \<equiv> emits_all w_trace harmless"

abbreviation quietly :: "(kevent set \<Rightarrow> 'a \<Rightarrow> bool) \<Rightarrow> 'a rt \<Rightarrow> bool" where
  "quietly R \<equiv> emits w_trace (\<lambda>es x. list_all harmless es \<and> R (set es) x)"

lemma quiet_time_Now [emits_intros]: "quiet (time_Now env)"
  unfolding time_Now_def by (rule emits_k_call) simp

lemma quiet_rt_list_sessions [emits_intros]: "quiet (rt_list_sessions env cfg labels)"
  unfolding rt_list_sessions_def by (rule emits_k_call) simp

lemma quiet_rt_list_sandboxes [emits_intros]: "quiet (rt_list_sandboxes env cfg labels)"
  unfolding rt_list_sandboxes_def by (rule emits_k_call) simp

lemma quiet_generateSessionID [emits_intros]: "quiet (generateSessionID env)"
  unfolding generateSessionID_def by (rule emits_call_bind) (rule emits_return, simp)

lemma quiet_countSessionsForSandbox [emits_intros]: "quiet (countSessionsForSandbox env cfg i)"
  unfolding countSessionsForSandbox_def by (intro emits_intros) simp

lemma quiet_list_configs [emits_intros]: "quiet (list_configs env cfg items)"
proof (induction items)
  case (Cons sb items)
  then show ?case by (auto intro!: emits_intros)
qed (simp add: emits_return)

lemma listed_sessions:
  "quietly (\<lambda>P r. \<forall>items. r = Inr items \<longrightarrow> (\<forall>s\<in>set items. listed cfg labels s P))
     (rt_list_sessions env cfg labels)"
  unfolding rt_list_sessions_def by (rule emits_k_call) (auto simp: listed_def)

lemma found_session:
  "quietly (\<lambda>P r. \<forall>sess. r = Inr (Some sess) \<longrightarrow>
       listed cfg [(LabelSessionID, i)] sess P \<and> ss_SessionID (se_Spec sess) = i)
     (lookupSession env cfg i)"
  unfolding lookupSession_def rt_list_sessions_def
  by (rule emits_call_bind, rule emits_return)
     (auto simp: listed_def split: sum.splits dest!: find_Some_in_set)

lemma found_sandbox:
  "quietly (\<lambda>P r. \<forall>sb. r = Inr (Some sb) \<longrightarrow> bs_SandboxID (bx_Spec sb) = i) (lookupSandbox env cfg i)"
  unfolding lookupSandbox_def rt_list_sandboxes_def
  by (rule emits_call_bind, rule emits_return) (auto split: sum.splits dest!: find_Some_in_set)

lemma authorizeResource_allowed:
  "quietly (\<lambda>P r. r = None \<longrightarrow> allowed cfg u v res n P)
     (authorizeResource env cfg (Some u) (rf_SandboxNamespace cfg) v res n)"
  unfolding authorizeResource_def Let_def option.case
  by (intro emits_cases emits_call_bind emits_return)
     (auto simp: allowed_def dev_access_def split: sum.splits if_splits)

lemma canResourceAccess_allowed:
  "quietly (\<lambda>P r. r = None \<longrightarrow> allowed cfg u v res n P) (canResourceAccess env cfg (Some u) v res n)"
  unfolding canResourceAccess_def by (simp add: authorizeResource_allowed)

lemma poll_session_reads:
  "quietly (\<lambda>P r. \<forall>sess. r = Some (Inr sess) \<longrightarrow>
       phase sess = SandboxPhaseRunning \<and> GetSession ns n (Inr sess) \<in> P)
     (poll_session env ns n deadline fuel)"
proof (induction fuel)
  case (Suc fuel)
  show ?case
    unfolding poll_session.simps time_Now_def
    apply (rule emits_call_bind)
    apply (intro emits_intros emits_call_bind)
    apply (auto split: sum.splits if_splits intro: emits_mono [OF Suc.IH])
    done
qed (simp add: emits_return)

section \<open>Handlers under the policy\<close>

abbreviation obedient :: "Config \<Rightarrow> UserInfo \<Rightarrow> kevent set \<Rightarrow> 'a rt \<Rightarrow> bool" where
  "obedient cfg u P m \<equiv> guards (permitted cfg u) P m"

lemma obedient_reply [governed_intros]:
  "Q P (Some r) \<Longrightarrow> governed ok P (reply r) Q"
  "Q P (Some (jsonErr c m e)) \<Longrightarrow> governed ok P (reply_err c m e) Q"
  by (simp_all add: reply_def reply_err_def governed_return)

lemma obedient_require [governed_intros]:
  assumes "\<And>P'. P \<subseteq> P' \<Longrightarrow> allowed cfg u v res n P' \<Longrightarrow> obedient cfg u P' next"
  shows "obedient cfg u P (requireResourceAccess env cfg (Some u) v res n next)"
  unfolding requireResourceAccess_def option.case
  by (rule access.governed_quiet_bind [OF authorizeResource_allowed])
     (auto intro!: governed_intros assms intro: allowed_mono)

lemma obedient_decodeBody [governed_intros]:
  "(\<And>v. obedient cfg u P (next v)) \<Longrightarrow> obedient cfg u P (decodeBody cfg b next)"
  unfolding decodeBody_def by (intro governed_intros) auto

lemma obedient_with_path_id [governed_intros]:
  "(\<And>i. obedient cfg u P (next i)) \<Longrightarrow> obedient cfg u P (with_path_id field validate pv next)"
  unfolding with_path_id_def Let_def by (intro governed_intros) auto

lemma with_sem_governed [governed_intros]:
  assumes "governed ok P body Q" and "Q P busy"
  shows "governed ok P (with_sem cfg busy body) Q"
  unfolding with_sem_def
proof (intro governed_get_bind governed_cases governed_update_bind)
  show "governed ok P (State_Monad.bind body (\<lambda>r. State_Monad.bind
      (State_Monad.update (\<lambda>s. s\<lparr>rt_sem := rt_sem s - 1\<rparr>)) (\<lambda>_. State_Monad.return r))) Q"
    by (rule governed_bind [OF assms(1)]) (simp add: governed_update_bind governed_return)
qed (simp_all add: governed_return assms)

lemma usable_created:
  "\<lbrakk>phase sess = SandboxPhaseRunning; GetSession (rf_SandboxNamespace cfg) i (Inr sess) \<in> P;
    allowed cfg u ''create'' ''sessions'' i P\<rbrakk> \<Longrightarrow> usable cfg u sess P"
  unfolding usable_def by blast

lemma usable_listed:
  "\<lbrakk>phase sess = SandboxPhaseRunning; listed cfg [(LabelSessionID, i)] sess E; E \<subseteq> P;
    ss_SessionID (se_Spec sess) = i; allowed cfg u ''update'' ''sessions'' (om_Name (se_Meta sess)) P\<rbrakk> \<Longrightarrow>
     usable cfg u sess P"
  unfolding usable_def using listed_mono by blast

lemma obedient_create_session:
  assumes "allowed cfg u ''create'' ''sessions'' i P" and "allowed cfg u ''get'' ''sandboxes'' b P"
  shows "governed (permitted cfg u) P (createAndWaitForSession env cfg fuel i b owner)
    (\<lambda>P' r. \<forall>sess. r = Some (Inr sess) \<longrightarrow> usable cfg u sess P')"
proof -
  have poll: "governed (permitted cfg u) P' (poll_session env (rf_SandboxNamespace cfg) i d fuel)
      (\<lambda>P' r. \<forall>sess. r = Some (Inr sess) \<longrightarrow> usable cfg u sess P')" if "P \<subseteq> P'" for P' d
    by (rule access.governed_quiet [OF poll_session_reads])
       (use assms(1) that in \<open>auto intro!: usable_created intro: allowed_mono\<close>)
  show ?thesis
    unfolding createAndWaitForSession_def Let_def
  proof (intro governed_call_bind governed_cases access.governed_plain_bind [OF quiet_time_Now] poll
      governed_return)
  qed (auto simp: new_session_cr_def assms)
qed

lemmas obedient_intros = governed_intros governed_call_bind
  access.governed_plain_bind [OF quiet_time_Now]
  access.governed_plain_bind [OF quiet_rt_list_sandboxes]
  access.governed_plain_bind [OF quiet_countSessionsForSandbox]
  access.governed_plain_bind [OF quiet_list_configs]
  access.governed_plain_bind [OF quiet_generateSessionID]

text \<open>Deleting the terminated session that is in the way.\<close>

definition replaceable :: "Config \<Rightarrow> bytes \<Rightarrow> Session option \<Rightarrow> kevent set \<Rightarrow> bool" where
  "replaceable cfg i old P \<longleftrightarrow>
     (case old of
        None \<Rightarrow> True
      | Some sess \<Rightarrow> phase sess = SandboxPhaseTerminated \<and> listed cfg [(LabelSessionID, i)] sess P \<and>
          ss_SessionID (se_Spec sess) = i)"

lemma obedient_delete_old:
  assumes "replaceable cfg i old P" and "P \<subseteq> P'" and "allowed cfg u ''create'' ''sessions'' i P'"
  shows "obedient cfg u P' (case old of None \<Rightarrow> State_Monad.return None
      | Some sess \<Rightarrow> rt_delete_session env sess)"
  unfolding rt_delete_session_def
  by (intro governed_intros governed_call)
     (use assms in \<open>auto simp: Let_def replaceable_def intro: listed_mono\<close>)

lemma obedient_fresh_session:
  assumes "\<And>P' sess. P \<subseteq> P' \<Longrightarrow> usable cfg u sess P' \<Longrightarrow> obedient cfg u P' (next sess)"
    and "replaceable cfg i old P"
  shows "obedient cfg u P (fresh_session env cfg fuel (Some u) body i old next)"
  unfolding fresh_session_def
  apply (intro obedient_require governed_bind [OF obedient_delete_old [OF assms(2)]] governed_intros
      access.governed_quiet_bind [OF found_sandbox] governed_bind [OF obedient_create_session])
  using assms(1) apply auto
   apply (erule allowed_mono, blast)+
  done

lemma obedient_exec_session:
  assumes "\<And>P' body i created sess. usable cfg u sess P' \<Longrightarrow>
      obedient cfg u P' (next body i created sess)"
  shows "obedient cfg u P (exec_session env cfg fuel (Some u) r next)"
  unfolding exec_session_def with_session_id_def Let_def
  apply (intro obedient_intros access.governed_quiet_bind [OF found_session] obedient_fresh_session)
                 apply (auto intro!: assms simp: replaceable_def intro: usable_mono listed_mono)
   apply (erule (1) usable_listed; auto)+
  done


lemma usable_events:
  "usable cfg u sess P \<Longrightarrow> permitted cfg u P (CtlExec (controllerURLFromSession cfg sess) (exec_req sess body pty) x)"
  "usable cfg u sess P \<Longrightarrow>
     permitted cfg u P (CtlExecStream (controllerURLFromSession cfg sess) (exec_req sess body pty) y)"
  by (auto simp: usable_at_def exec_req_def)

lemma obedient_spawn_bind [governed_intros]:
  "\<lbrakk>usable cfg u sess P; obedient cfg u (insert (Spawn sess) P) (f ())\<rbrakk> \<Longrightarrow>
     obedient cfg u P (State_Monad.bind (spawn_touch sess) f)"
  unfolding spawn_touch_def by (rule governed_call_bind) simp_all

lemma usable_insert: "usable cfg u sess P \<Longrightarrow> usable cfg u sess (insert e P)"
  by (rule usable_mono) auto

lemma obedient_exec: "obedient cfg u P (handleSessionExec env cfg fuel (Some u) r)"
  unfolding handleSessionExec_def ctl_Exec_def
  by (intro obedient_intros obedient_spawn_bind obedient_exec_session)
     (auto intro: usable_insert simp del: permitted.simps simp: usable_events)

lemma obedient_exec_stream: "obedient cfg u P (handleSessionExecStream env cfg fuel (Some u) r)"
  unfolding handleSessionExecStream_def ctl_ExecStream_def Let_def
  by (intro obedient_intros obedient_spawn_bind obedient_exec_session)
     (auto intro: usable_insert simp del: permitted.simps simp: usable_events)

lemma quiet_chosen_id: "quiet (if b then generateSessionID env else State_Monad.return i)"
  by (simp add: quiet_generateSessionID emits_return)

lemma obedient_session_create: "obedient cfg u P (handleSessionCreate env cfg fuel (Some u) r)"
  unfolding handleSessionCreate_def Let_def
  apply (intro obedient_intros access.governed_plain_bind [OF quiet_chosen_id]
      access.governed_quiet_bind [OF found_sandbox] governed_bind [OF obedient_create_session])
            apply auto
   apply (erule allowed_mono, blast)+
  done

lemma obedient_session_list: "obedient cfg u P (handleSessionList env cfg (Some u) r)"
  unfolding handleSessionList_def
  by (intro obedient_intros access.governed_plain_bind emits_intros) auto

lemma obedient_session_get: "obedient cfg u P (handleSessionGet env cfg (Some u) i)"
  unfolding handleSessionGet_def
  by (intro obedient_intros access.governed_quiet_bind [OF found_session]) auto

lemma obedient_session_delete: "obedient cfg u P (handleSessionDelete env cfg (Some u) i)"
  unfolding handleSessionDelete_def rt_delete_session_def
  by (intro obedient_intros access.governed_quiet_bind [OF found_session])
     (auto simp: Let_def intro: allowed_mono listed_mono)

lemma obedient_sandbox_create: "obedient cfg u P (handleSandboxCreate env cfg (Some u) r)"
  unfolding handleSandboxCreate_def createSandboxFromBody_def bind_assoc
  by (intro obedient_intros) (auto simp: sandbox_cr_def split: sum.splits intro!: governed_intros)

lemma obedient_sandbox_get: "obedient cfg u P (handleSandboxGet env cfg (Some u) i)"
  unfolding handleSandboxGet_def
  by (intro obedient_intros access.governed_quiet_bind [OF found_sandbox]) auto

lemma obedient_sandbox_delete: "obedient cfg u P (handleSandboxDelete env cfg (Some u) i)"
  unfolding handleSandboxDelete_def
  by (intro obedient_intros access.governed_quiet_bind [OF found_sandbox]) (auto intro: allowed_mono)

lemma obedient_sandbox_list: "obedient cfg u P (handleSandboxList env cfg (Some u))"
  unfolding handleSandboxList_def by (intro obedient_intros) auto

lemma obedient_sandbox_update: "obedient cfg u P (handleSandboxUpdate env cfg (Some u) i r)"
  unfolding handleSandboxUpdate_def Let_def
  by (intro obedient_intros access.governed_quiet_bind [OF found_sandbox])
     (auto simp: updated_sandbox_def intro: allowed_mono)

lemma obedient_evict_loop:
  assumes "\<And>s. s \<in> set items \<Longrightarrow> listed cfg [(LabelSandboxID, i)] s P"
    and "allowed cfg u ''update'' ''sandboxes'' i P"
  shows "obedient cfg u P (evict_loop env items)"
  using assms
proof (induction items arbitrary: P)
  case (Cons s items)
  have "permitted cfg u P (PatchSessionStatus s (set_phase SandboxPhaseDeleting s) x)" for x
    using Cons.prems by auto
  moreover have "obedient cfg u (insert e P) (evict_loop env items)" for e
    using Cons.prems by (intro Cons.IH) (auto intro: listed_mono allowed_mono)
  moreover have "obedient cfg u P (evict_loop env items)"
    using Cons.prems by (intro Cons.IH) auto
  ultimately show ?case
    unfolding evict_loop.simps rt_patch_status_def
    by (intro governed_intros governed_call_bind governed_bind [where m = "evict_loop env items"]) auto
qed (simp add: governed_return)

lemma obedient_sandbox_evict: "obedient cfg u P (handleSandboxEvict env cfg (Some u) i)"
  unfolding handleSandboxEvict_def
  by (intro obedient_intros access.governed_quiet_bind [OF listed_sessions]
      governed_bind [OF obedient_evict_loop])
     (auto intro: allowed_mono listed_mono)

lemma obedient_sandbox_sessions: "obedient cfg u P (handleSandboxSessions env cfg (Some u) i)"
  unfolding handleSandboxSessions_def
  by (intro obedient_intros access.governed_quiet_bind [OF listed_sessions]) auto

section \<open>Tools under the policy\<close>

lemma obedient_ensureSession:
  "obedient cfg u P (ensureSession env cfg fuel (Some u) i b owner)"
  unfolding ensureSession_def
  apply (intro obedient_intros access.governed_quiet_bind [OF found_sandbox]
      access.governed_quiet_bind [OF found_session] access.governed_quiet_bind [OF canResourceAccess_allowed]
      governed_bind [OF obedient_delete_old [where i = i]] governed_bind [OF obedient_create_session])
               apply (auto simp: replaceable_def split: option.splits)
  by ((erule listed_mono, blast) | (erule allowed_mono, blast))+

lemma obedient_resolveSandboxSession:
  "obedient cfg u P (resolveSandboxSession env cfg fuel (Some u) i)"
  unfolding resolveSandboxSession_def by (rule obedient_ensureSession)

lemma obedient_resolveDefaultSession:
  "obedient cfg u P (resolveDefaultSession env cfg fuel (Some u) [])"
  unfolding resolveDefaultSession_def createSandboxFromBody_def Let_def
  apply (intro obedient_intros obedient_resolveSandboxSession access.governed_quiet_bind [OF found_sandbox]
      access.governed_quiet_bind [OF canResourceAccess_allowed] governed_bind [where R = "\<lambda>_ _. True"])
  by (auto intro: allowed_mono)

definition known :: "Config \<Rightarrow> Session \<Rightarrow> kevent set \<Rightarrow> bool" where
  "known cfg sess P \<longleftrightarrow>
     (\<exists>E\<subseteq>P. listed cfg [(LabelSessionID, ss_SessionID (se_Spec sess))] sess E)"

lemma resolved_session_known:
  "governed (permitted cfg u) P (resolved_session env cfg prefix r)
     (\<lambda>P' x. \<forall>sess. x = Some (Inr sess) \<longrightarrow> known cfg sess P')"
  unfolding resolved_session_def
  by (intro governed_intros access.governed_quiet_bind [OF found_session])
     (auto simp: known_def split: sum.splits option.splits)

lemma find_tool_session_known:
  "governed (permitted cfg u) P (find_tool_session env cfg fuel (Some u) b i)
     (\<lambda>P' x. \<forall>sess. x = Some (Inr sess) \<longrightarrow> known cfg sess P')"
  unfolding find_tool_session_def
  apply (intro governed_intros access.governed_quiet_bind [OF found_session]
      governed_bind [where R = "\<lambda>_ _. True"] obedient_ensureSession resolved_session_known
      obedient_resolveSandboxSession)
  by (auto simp: known_def intro: obedient_resolveDefaultSession)

lemma resolveToolSession_usable:
  "governed (permitted cfg u) P (resolveToolSession env cfg fuel (Some u) b i)
     (\<lambda>P' x. \<forall>sess. x = Some (Inr sess) \<longrightarrow> usable cfg u sess P')"
  unfolding resolveToolSession_def Let_def
  apply (intro governed_intros governed_bind [OF find_tool_session_known]
      access.governed_quiet_bind [OF canResourceAccess_allowed])
  by (auto simp: known_def intro!: usable_listed intro: allowed_mono)

lemma obedient_with_tool_session:
  assumes "\<And>P' sess. usable cfg u sess P' \<Longrightarrow> obedient cfg u P' (next sess)"
  shows "obedient cfg u P (with_tool_session env cfg fuel (Some u) b i next)"
  unfolding with_tool_session_def
  by (intro governed_intros governed_bind [OF resolveToolSession_usable] assms) auto

lemma quiet_notify_all: "quiet (notify_all n es)"
  by (induction n es rule: notify_all.induct) (auto intro!: emits_intros)

lemma obedient_tool_results [governed_intros]:
  "Q P (Some (toolErrResult t)) \<Longrightarrow> governed ok P (toolError t) Q"
  "Q P (Some \<lparr>to_Text = t, to_IsError = False\<rparr>) \<Longrightarrow> governed ok P (toolText t) Q"
  by (simp_all add: toolError_def toolText_def governed_return)

lemma obedient_bash_done:
  "usable cfg u sess P \<Longrightarrow> obedient cfg u P (bash_done sess out err code late)"
  unfolding bash_done_def Let_def by (intro governed_intros) auto

lemma obedient_bash: "obedient cfg u P (mcpBashTool env cfg fuel (Some u) progress b i params)"
  unfolding mcpBashTool_def ctl_Exec_def ctl_ExecStream_def Let_def
  apply (intro obedient_intros obedient_tool_results obedient_with_tool_session obedient_bash_done
      access.governed_plain_bind [OF quiet_notify_all])
  by (auto simp: usable_at_def intro: usable_mono usable_insert)

lemma obedient_read: "obedient cfg u P (mcpReadFileTool env cfg fuel (Some u) b i params)"
  unfolding mcpReadFileTool_def ctl_ReadFile_def
  by (intro obedient_intros obedient_tool_results obedient_with_tool_session obedient_spawn_bind)
     (auto simp: usable_at_def intro: usable_insert)

lemma obedient_write: "obedient cfg u P (mcpWriteFileTool env cfg fuel (Some u) b i params)"
  unfolding mcpWriteFileTool_def ctl_WriteFile_def
  by (intro obedient_intros obedient_tool_results obedient_with_tool_session obedient_spawn_bind)
     (auto simp: usable_at_def intro: usable_insert)

lemma obedient_edit: "obedient cfg u P (mcpEditFileTool env cfg fuel (Some u) b i params)"
  unfolding mcpEditFileTool_def ctl_EditFile_def
  by (intro obedient_intros obedient_tool_results obedient_with_tool_session obedient_spawn_bind)
     (auto simp: usable_at_def intro: usable_insert)

lemma obedient_run_tool: "obedient cfg u P (run_tool env cfg fuel (Some u) b i c)"
  by (cases c) (simp_all add: run_tool_def obedient_bash obedient_read obedient_write obedient_edit)

lemma obedient_run_tools: "obedient cfg u P (run_tools env cfg fuel (Some u) b i cs)"
proof (induction cs arbitrary: P)
  case (Cons c cs)
  show ?case
    unfolding run_tools.simps
    by (intro governed_intros governed_bind [OF obedient_run_tool] governed_bind [OF Cons.IH]) auto
qed (simp add: governed_return)

lemma obedient_mcp: "obedient cfg u P (newMCPHandler env cfg fuel calls render r (Some u))"
  unfolding newMCPHandler_def
  by (rule governed_bind [OF obedient_run_tools]) (simp add: governed_return)

section \<open>Authentication\<close>

text \<open>The user a request is served for, if its token is accepted in state \<open>s\<close>.\<close>

definition caller :: "kube_env \<Rightarrow> Config \<Rightarrow> rt_request \<Rightarrow> router_state \<Rightarrow> UserInfo option" where
  "caller env cfg r s =
     (case extractBearer r of
        None \<Rightarrow> None
      | Some tok \<Rightarrow>
          (case fst (run_state (authenticate env cfg tok) s) of Inl e \<Rightarrow> None | Inr u \<Rightarrow> Some u))"

fun asks_who :: "kevent \<Rightarrow> bool" where
  "asks_who (ReviewToken t r) = True"
| "asks_who (Now t) = True"
| "asks_who e = False"

lemma asks_who_harmless: "asks_who e \<Longrightarrow> harmless e"
  by (cases e) simp_all

lemma emits_update [emits_intros]:
  "(\<And>s. tr (f s) = tr s) \<Longrightarrow> P [] () \<Longrightarrow> emits tr P (State_Monad.update f)"
  by (rule emitsI) (simp add: State_Monad.update_def)

lemma emits_get_value [emits_intros]: "(\<And>s. P [] s) \<Longrightarrow> emits tr P State_Monad.get"
  by (rule emitsI) simp

lemma authenticate_asks: "emits_all w_trace asks_who (authenticate env cfg tok)"
proof -
  have "emits_all w_trace asks_who (review_token env tok)"
    unfolding review_token_def time_Now_def by (intro emits_intros) auto
  then show ?thesis
    unfolding authenticate_def time_Now_def by (intro emits_intros) auto
qed

text \<open>A refused token leaves the state as it was, but for the trace.\<close>

definition same_state :: "router_state \<Rightarrow> router_state \<Rightarrow> bool" where
  "same_state s s' \<longleftrightarrow> (\<exists>t. s' = s\<lparr>w_trace := t\<rparr>)"

lemma review_token_refused:
  "fst (run_state (review_token env tok) s) = Inl e \<Longrightarrow> same_state s (snd (run_state (review_token env tok) s))"
  by (auto simp: review_token_def time_Now_def same_state_def State_Monad.update_def
      split: sum.splits if_splits)

lemma authenticate_refused:
  assumes "fst (run_state (authenticate env cfg tok) s) = Inl e"
  shows "same_state s (snd (run_state (authenticate env cfg tok) s))"
  using assms review_token_refused [of env tok s e]
    review_token_refused [of env tok "s\<lparr>w_trace := w_trace s @ [Now (k_Now env (w_trace s))]\<rparr>" e]
  by (auto simp: authenticate_def time_Now_def same_state_def split: option.splits if_splits)

lemma caller_inflight [simp]: "caller env cfg r (s\<lparr>rt_inflight := n\<rparr>) = caller env cfg r s"
  by (auto simp: caller_def authenticate_def review_token_def time_Now_def State_Monad.update_def
      split: option.split sum.splits if_splits prod.splits)

lemma withAuth_refused:
  assumes "caller env cfg r s = None" and "run_state (withAuth env cfg r next) s = (a, s')"
  shows "a = Some (jsonErr 401 ''unauthorized'' [])"
    and "same_state s s'"
    and "\<exists>es. w_trace s' = w_trace s @ es \<and> list_all asks_who es"
proof -
  have "a = Some (jsonErr 401 ''unauthorized'' []) \<and> same_state s s' \<and>
      (\<exists>es. w_trace s' = w_trace s @ es \<and> list_all asks_who es)"
  proof (cases "extractBearer r")
    case None
    with assms(2) show ?thesis
      by (auto simp: withAuth_def reply_err_def reply_def same_state_def intro: exI [of _ "w_trace s"])
  next
    case (Some tok)
    obtain x s1 where x: "run_state (authenticate env cfg tok) s = (x, s1)" by fastforce
    with assms(1) Some obtain e where e: "x = Inl e" by (auto simp: caller_def split: sum.splits)
    with x have "same_state s s1" using authenticate_refused [of env cfg tok s e] by simp
    moreover obtain es where "w_trace s1 = w_trace s @ es" "list_all asks_who es"
      using emitsE [OF authenticate_asks x] by blast
    moreover have "(a, s') = (Some (jsonErr 401 ''unauthorized'' []), s1)"
      using assms(2) Some x e by (simp add: withAuth_def reply_err_def reply_def)
    ultimately show ?thesis by auto
  qed
  then show "a = Some (jsonErr 401 ''unauthorized'' [])" and "same_state s s'"
    and "\<exists>es. w_trace s' = w_trace s @ es \<and> list_all asks_who es" by blast+
qed

lemma withAuth_accepted:
  assumes "caller env cfg r s = Some u"
  obtains s1 es where "run_state (withAuth env cfg r next) s = run_state (next (Some u)) s1"
    and "w_trace s1 = w_trace s @ es" and "list_all asks_who es"
proof -
  from assms obtain tok where tok: "extractBearer r = Some tok" by (auto simp: caller_def split: option.splits)
  obtain x s1 where x: "run_state (authenticate env cfg tok) s = (x, s1)" by fastforce
  with assms tok have "x = Inr u" by (auto simp: caller_def split: sum.splits)
  with x tok have run: "run_state (withAuth env cfg r next) s = run_state (next (Some u)) s1"
    by (simp add: withAuth_def)
  from authenticate_asks x obtain es where "w_trace s1 = w_trace s @ es" "list_all asks_who es"
    by (rule emitsE)
  with run show thesis by (rule that)
qed

section \<open>What the handlers leave alone\<close>

text \<open>
  The token cache, the number of taken slots of the semaphore and the metrics: after
  authentication no handler changes them; those that take a slot give it back.
\<close>

definition frame ::
  "router_state \<Rightarrow> (bytes \<times> cachedResult) list \<times> nat \<times> int \<times> (bytes \<times> int \<times> bytes) list" where
  "frame s = (rt_entries s, rt_sem s, rt_inflight s, rt_requests s)"

lemma keeps_k_call [keeps_intros]: "keeps frame (k_call ask ev)"
  by (simp add: keeps_def frame_def)

lemma keeps_with_sem [keeps_intros]: "keeps frame body \<Longrightarrow> keeps frame (with_sem cfg busy body)"
  by (auto simp: keeps_def frame_def with_sem_def State_Monad.update_def case_prod_beta)

lemma keeps_lookups [keeps_intros]:
  "keeps frame (time_Now env)" "keeps frame (lookupSession env cfg i)" "keeps frame (lookupSandbox env cfg i)"
  "keeps frame (rt_list_sessions env cfg l)" "keeps frame (rt_list_sandboxes env cfg l)"
  "keeps frame (rt_delete_session env x)" "keeps frame (rt_patch_status env x y)"
  "keeps frame (countSessionsForSandbox env cfg i)" "keeps frame (generateSessionID env)"
  "keeps frame (spawn_touch x)" "keeps frame (createSandboxFromBody env cfg body)"
  "keeps frame (authorizeResource env cfg user ns v res n)" "keeps frame (canResourceAccess env cfg user v res n)"
  unfolding time_Now_def lookupSession_def lookupSandbox_def rt_list_sessions_def rt_list_sandboxes_def
    rt_delete_session_def rt_patch_status_def countSessionsForSandbox_def generateSessionID_def
    spawn_touch_def createSandboxFromBody_def canResourceAccess_def authorizeResource_def Let_def
  by (intro keeps_intros)+

lemma keeps_replies [keeps_intros]:
  "keeps frame (reply r)" "keeps frame (reply_err c m e)" "keeps frame (toolError t)" "keeps frame (toolText t)"
  unfolding reply_def reply_err_def toolError_def toolText_def by (intro keeps_intros)+

lemma keeps_guards [keeps_intros]:
  "(\<And>v. keeps frame (f v)) \<Longrightarrow> keeps frame (decodeBody cfg b f)"
  "keeps frame g \<Longrightarrow> keeps frame (requireResourceAccess env cfg user v res n g)"
  "(\<And>i. keeps frame (h i)) \<Longrightarrow> keeps frame (with_path_id field validate pv h)"
  "(\<And>i. keeps frame (k i)) \<Longrightarrow> keeps frame (with_session_id env body k)"
  unfolding decodeBody_def requireResourceAccess_def with_path_id_def with_session_id_def Let_def
  by (intro keeps_intros; assumption)+

lemma keeps_loops [keeps_intros]:
  "keeps frame (poll_session env ns n d fuel)" "keeps frame (list_configs env cfg sbs)"
  "keeps frame (evict_loop env items)" "keeps frame (notify_all k es)"
proof -
  show "keeps frame (poll_session env ns n d fuel)"
    by (induction fuel) (auto simp only: poll_session.simps intro!: keeps_intros)
  show "keeps frame (list_configs env cfg sbs)"
    by (induction sbs) (auto simp only: list_configs.simps intro!: keeps_intros)
  show "keeps frame (evict_loop env items)"
    by (induction items) (auto simp only: evict_loop.simps intro!: keeps_intros)
  show "keeps frame (notify_all k es)"
    by (induction k es rule: notify_all.induct) (auto simp only: notify_all.simps intro!: keeps_intros)
qed

lemma keeps_createAndWait [keeps_intros]: "keeps frame (createAndWaitForSession env cfg fuel i b owner)"
  unfolding createAndWaitForSession_def Let_def by (intro keeps_intros)

lemma keeps_exec_session [keeps_intros]:
  "(\<And>body i c sess. keeps frame (f body i c sess)) \<Longrightarrow> keeps frame (exec_session env cfg fuel user r f)"
  unfolding exec_session_def fresh_session_def Let_def by (intro keeps_intros)

lemma keeps_handlers:
  "keeps frame (handleSessionExec env cfg fuel user r)" "keeps frame (handleSessionExecStream env cfg fuel user r)"
  "keeps frame (handleSessionCreate env cfg fuel user r)" "keeps frame (handleSessionList env cfg user r)"
  "keeps frame (handleSessionGet env cfg user i)" "keeps frame (handleSessionDelete env cfg user i)"
  "keeps frame (handleSandboxCreate env cfg user r)" "keeps frame (handleSandboxGet env cfg user i)"
  "keeps frame (handleSandboxDelete env cfg user i)" "keeps frame (handleSandboxList env cfg user)"
  "keeps frame (handleSandboxUpdate env cfg user i r)" "keeps frame (handleSandboxEvict env cfg user i)"
  "keeps frame (handleSandboxSessions env cfg user i)"
  unfolding handleSessionExec_def handleSessionExecStream_def handleSessionCreate_def handleSessionList_def
    handleSessionGet_def handleSessionDelete_def handleSandboxCreate_def handleSandboxGet_def
    handleSandboxDelete_def handleSandboxList_def handleSandboxUpdate_def handleSandboxEvict_def
    handleSandboxSessions_def ctl_Exec_def ctl_ExecStream_def Let_def
  by (intro keeps_intros)+

lemma keeps_resolve [keeps_intros]: "keeps frame (resolveToolSession env cfg fuel user b i)"
  unfolding resolveToolSession_def find_tool_session_def resolved_session_def resolveDefaultSession_def
    resolveSandboxSession_def ensureSession_def Let_def
  by (intro keeps_intros)

lemma keeps_tools:
  "keeps frame (mcpBashTool env cfg fuel user progress b i p1)"
  "keeps frame (mcpReadFileTool env cfg fuel user b i p2)"
  "keeps frame (mcpWriteFileTool env cfg fuel user b i p3)"
  "keeps frame (mcpEditFileTool env cfg fuel user b i p4)"
  unfolding mcpBashTool_def mcpReadFileTool_def mcpWriteFileTool_def mcpEditFileTool_def
    with_tool_session_def bash_done_def ctl_Exec_def ctl_ExecStream_def ctl_ReadFile_def ctl_WriteFile_def
    ctl_EditFile_def Let_def
  by (intro keeps_intros)+

lemma keeps_mcp: "keeps frame (newMCPHandler env cfg fuel calls render r user)"
proof -
  have "keeps frame (run_tool env cfg fuel user b i c)" for b i c
    by (cases c) (simp_all add: run_tool_def keeps_tools)
  then have "keeps frame (run_tools env cfg fuel user b i cs)" for b i cs
    by (induction cs) (auto simp only: run_tools.simps intro!: keeps_intros)
  then show ?thesis unfolding newMCPHandler_def by (intro keeps_intros)
qed

section \<open>The routes\<close>

text \<open>
  A handler is protected when it is behind the authentication and obeys the policy of the
  user, and leaves the cache and the semaphore alone; the others answer at once.
\<close>

definition protected :: "kube_env \<Rightarrow> Config \<Rightarrow> rt_request \<Rightarrow> handler \<Rightarrow> bool" where
  "protected env cfg r h \<longleftrightarrow>
     (\<exists>next. h = withAuth env cfg r next \<and>
        (\<forall>u P. obedient cfg u P (next (Some u)) \<and> keeps frame (next (Some u))))"

lemma protectedI:
  "\<lbrakk>\<And>u P. obedient cfg u P (next (Some u)); \<And>u. keeps frame (next (Some u))\<rbrakk> \<Longrightarrow>
     protected env cfg r (withAuth env cfg r next)"
  unfolding protected_def by blast

definition public_pattern :: "pattern \<Rightarrow> bool" where
  "public_pattern p \<longleftrightarrow> snd p = [Lit ''healthz''] \<or> snd p = [Lit ''metrics'']"

lemmas obedient_handlers = obedient_exec obedient_exec_stream obedient_session_create obedient_session_list
  obedient_session_get obedient_session_delete obedient_sandbox_create obedient_sandbox_get
  obedient_sandbox_delete obedient_sandbox_list obedient_sandbox_update obedient_sandbox_evict
  obedient_sandbox_sessions obedient_mcp

lemma routes_protected:
  assumes "(p, h) \<in> set (rt_routes env cfg fuel metrics (newMCPHandler env cfg fuel calls render r) r)"
  shows "protected env cfg r h \<or> public_pattern p \<and> (\<exists>x. h = reply x)"
  using assms
  by (auto simp: rt_routes_def Let_def withAuthHandler_eq public_pattern_def split: option.splits
      intro!: protectedI obedient_handlers keeps_handlers keeps_mcp)

text \<open>The handler the multiplexer picks.\<close>

lemma mux_handler:
  obtains p where "(p, snd (rt_mux routes r)) \<in> set routes" and "seg_match (snd p) (rq_Segments r)"
  | c t where "snd (rt_mux routes r) = reply \<lparr>ro_Status = c, ro_Header = [], ro_Body = RText t\<rparr>"
      and "c = 404 \<or> c = 405"
proof (cases "List.find (\<lambda>x. fst (fst x) = None \<or> fst (fst x) = Some
     (if rq_Meth r = ''HEAD'' then ''GET'' else rq_Meth r))
     (filter (\<lambda>x. seg_match (snd (fst x)) (rq_Segments r)) routes)")
  case None
  let ?found = "filter (\<lambda>x. seg_match (snd (fst x)) (rq_Segments r)) routes"
  from None show thesis
    by (intro that(2) [of "if ?found \<noteq> [] then 405 else 404"
          "if ?found \<noteq> [] then ''Method Not Allowed'' else ''404 page not found''"])
       (simp_all add: rt_mux_def Let_def)
next
  case (Some x)
  from find_Some_in_set [OF this] Some show thesis
    using that(1) [of "fst x"] by (simp add: rt_mux_def Let_def)
qed

lemma serve_cases:
  obtains (protected) h pat where "protected env cfg r h"
      and "serve env cfg fuel metrics calls render r = middleware (metrics \<noteq> None) r (pat, h)"
  | (public) x pat where
      "rq_Segments r = [''healthz''] \<or> rq_Segments r = [''metrics''] \<or> 
         ro_Status x \<in> {404, 405} \<and> (\<exists>t. ro_Body x = RText t)"
      and "serve env cfg fuel metrics calls render r = middleware (metrics \<noteq> None) r (pat, reply x)"
proof -
  let ?routes = "rt_routes env cfg fuel metrics (newMCPHandler env cfg fuel calls render r) r"
  obtain pat h where ph: "rt_mux ?routes r = (pat, h)" by fastforce
  then have serve: "serve env cfg fuel metrics calls render r = middleware (metrics \<noteq> None) r (pat, h)"
    by (simp add: serve_def Handler_def)
  from mux_handler [of ?routes r] show thesis
  proof cases
    case (1 p)
    from routes_protected [OF 1(1)] show thesis
    proof
      assume "protected env cfg r (snd (rt_mux ?routes r))"
      with ph serve protected show thesis by simp
    next
      assume *: "public_pattern p \<and> (\<exists>x. snd (rt_mux ?routes r) = reply x)"
      then obtain x where "h = reply x" using ph by auto
      moreover from * 1(2) have "rq_Segments r = [''healthz''] \<or> rq_Segments r = [''metrics'']"
        by (auto simp: public_pattern_def seg_match_def list_all2_Cons1)
      ultimately show thesis using serve public by blast
    qed
  next
    case (2 c t)
    with ph serve show thesis
      by (intro public [of "\<lparr>ro_Status = c, ro_Header = [], ro_Body = RText t\<rparr>" pat]) auto
  qed
qed

lemma middleware_run:
  assumes "run_state (middleware b r (pat, h)) s = (a, s')"
  obtains s0 s1 where "s0 = s \<or> s0 = s\<lparr>rt_inflight := rt_inflight s + 1\<rparr>"
    and "run_state h s0 = (a, s1)" and "w_trace s' = w_trace s1"
    and "rt_entries s' = rt_entries s1" and "rt_sem s' = rt_sem s1"
proof (cases b)
  case False
  with assms that [of s s'] show thesis by (simp add: middleware_def)
next
  case True
  obtain a1 s1 where h: "run_state h (s\<lparr>rt_inflight := rt_inflight s + 1\<rparr>) = (a1, s1)" by fastforce
  with assms True have "a = a1 \<and> w_trace s' = w_trace s1 \<and> rt_entries s' = rt_entries s1 \<and> rt_sem s' = rt_sem s1"
    by (auto simp: middleware_def State_Monad.update_def split: option.splits)
  with h that [OF disjI2 [OF refl]] show thesis by blast
qed

text \<open>
  C18.  A request whose token is missing or refused has no effect: nothing is asked of the
  outside but who the user is and the time, the token cache and the semaphore stay, and
  the answer is 401, or a plain 404 or 405 when there is no such route.  Only the health
  and metrics endpoints answer without a token.
\<close>

theorem unauthenticated_request:
  assumes "caller env cfg r s = None"
  shows "case run_state (serve env cfg fuel metrics calls render r) s of (a, s') \<Rightarrow>
    (\<exists>es. w_trace s' = w_trace s @ es \<and> list_all asks_who es) \<and>
    rt_entries s' = rt_entries s \<and> rt_sem s' = rt_sem s \<and>
    (rq_Segments r = [''healthz''] \<or> rq_Segments r = [''metrics''] \<or>
     (\<exists>x. a = Some x \<and>
        (x = jsonErr 401 ''unauthorized'' [] \<or> ro_Status x \<in> {404, 405} \<and> (\<exists>t. ro_Body x = RText t))))"
proof -
  obtain a s' where run: "run_state (serve env cfg fuel metrics calls render r) s = (a, s')" by fastforce
  show ?thesis
  proof (cases rule: serve_cases [of env cfg r fuel metrics calls render])
    case (protected h pat)
    from protected(1) obtain "next" where h: "h = withAuth env cfg r next" by (auto simp: protected_def)
    from run [unfolded protected(2)] obtain s0 s1 where
      s0: "s0 = s \<or> s0 = s\<lparr>rt_inflight := rt_inflight s + 1\<rparr>" and s1: "run_state h s0 = (a, s1)"
        "w_trace s' = w_trace s1" "rt_entries s' = rt_entries s1" "rt_sem s' = rt_sem s1"
      by (rule middleware_run)
    from s0 assms have "caller env cfg r s0 = None" by auto
    from withAuth_refused [OF this s1(1) [unfolded h]] run s0 s1(2-) show ?thesis
      by (auto simp: same_state_def)
  next
    case (public x pat)
    from run [unfolded public(2)] obtain s0 s1 where
      s0: "s0 = s \<or> s0 = s\<lparr>rt_inflight := rt_inflight s + 1\<rparr>" and s1: "run_state (reply x) s0 = (a, s1)"
        "w_trace s' = w_trace s1" "rt_entries s' = rt_entries s1" "rt_sem s' = rt_sem s1"
      by (rule middleware_run)
    then have "a = Some x" "s1 = s0" by (auto simp: reply_def)
    with run s0 s1(2-) public(1) show ?thesis by auto
  qed
qed

definition anonymous :: rt_request where
  "anonymous = \<lparr>rq_Meth = ''DELETE'', rq_Segments = [''v1'', ''sandboxes'', ''a''], rq_Authorization = ''Basic x'',
     rq_QuerySandbox = [], rq_QueryOwner = [], rq_QueryPhase = [], rq_XSandboxId = [], rq_XSessionId = [],
     rq_ExecBody = \<lparr>bi_Needed = 0, bi_Value = None\<rparr>, rq_SessionBody = \<lparr>bi_Needed = 0, bi_Value = None\<rparr>,
     rq_SandboxBody = \<lparr>bi_Needed = 0, bi_Value = None\<rparr>\<rparr>"

theorem unauthenticated_request_witness:
  "\<forall>env cfg render. caller env cfg anonymous server_start = None \<and>
    (case run_state (serve env cfg 0 None [] render anonymous) server_start of (a, s') \<Rightarrow>
       (\<exists>es. w_trace s' = es \<and> list_all asks_who es) \<and>
       (\<exists>x. a = Some x \<and> ro_Status x \<in> {401, 404, 405}))"
proof (intro allI)
  fix env :: kube_env and cfg and render :: "tool_result list \<Rightarrow> rt_resp"
  have c: "caller env cfg anonymous server_start = None"
    by (simp add: caller_def extractBearer_def anonymous_def HasPrefix_def)
  with unauthenticated_request [OF c, of 0 None "[]" render]
  show "caller env cfg anonymous server_start = None \<and>
    (case run_state (serve env cfg 0 None [] render anonymous) server_start of (a, s') \<Rightarrow>
       (\<exists>es. w_trace s' = es \<and> list_all asks_who es) \<and>
       (\<exists>x. a = Some x \<and> ro_Status x \<in> {401, 404, 405}))"
    by (auto simp: anonymous_def server_start_def jsonErr_def)
qed


end
