(* ===== verification/Controller_Wire.thy ===== *)
theory Controller_Wire
  imports Controller_Server_Props Controller_Client
begin

text \<open>
  The client and the server of the controller's API put together: what a call of the client
  returns when its request reaches the server and the answer reaches the client.
\<close>

section \<open>Requests and answers on the wire\<close>

text \<open>
  A request arrives with its strings as they are: they come from JSON, so they are valid
  UTF-8.  Only the decoded body of the type that belongs to the path is ever looked at.
\<close>

definition wire_request :: "bytes \<Rightarrow> http_req \<Rightarrow> ctl_request" where
  "wire_request baseURL q =
     \<lparr>rq_Method = hq_Method q, rq_Path = drop (length baseURL) (hq_URL q), rq_Token = hq_Token q,
      rq_Create = (case hq_Body q of SendCreate r \<Rightarrow> Some r | _ \<Rightarrow> None),
      rq_Delete = (case hq_Body q of SendDelete r \<Rightarrow> Some r | _ \<Rightarrow> None),
      rq_Exec = (case hq_Body q of SendExec r \<Rightarrow> Some r | _ \<Rightarrow> None),
      rq_FileRead = (case hq_Body q of SendFileRead r \<Rightarrow> Some r | _ \<Rightarrow> None),
      rq_FileWrite = (case hq_Body q of SendFileWrite r \<Rightarrow> Some r | _ \<Rightarrow> None),
      rq_FileEdit = (case hq_Body q of SendFileEdit r \<Rightarrow> Some r | _ \<Rightarrow> None)\<rparr>"

text \<open>
  The answer of a server in state \<open>s\<close> to a request over an intact connection.
\<close>

definition ctl_answer ::
  "os_env \<Rightarrow> ctl_config \<Rightarrow> controller \<Rightarrow> bytes \<Rightarrow> http_req \<Rightarrow> ctl_resp" where
  "ctl_answer os cfg s baseURL q =
     fst (run_state (ctl_handler os cfg None (wire_request baseURL q)) s)"

text \<open>
  How a response of the server arrives at the client over an intact connection: strings are
  carried as JSON text.
\<close>

definition wire_error :: "ctl_body \<Rightarrow> bytes option" where
  "wire_error b =
     (case b of
        BodyError msg \<Rightarrow> Some (json_text msg)
      | BodyNone \<Rightarrow> None
      | BodyText t \<Rightarrow> None
      | _ \<Rightarrow> Some [])"

definition wire_exec :: "ctl_resp \<Rightarrow> ExecResult do_result" where
  "wire_exec r = Inr
     \<lparr>hr_Status = rs_Status r, hr_ErrBody = wire_error (rs_Body r),
      hr_Decoded =
        (case rs_Body r of
           BodyExec x \<Rightarrow> Inr (x\<lparr>xs_Stdout := json_text (xs_Stdout x), xs_Stderr := json_text (xs_Stderr x)\<rparr>)
         | _ \<Rightarrow> Inr zero_ExecResult)\<rparr>"

definition wire_line :: "stream_line \<Rightarrow> client_event option" where
  "wire_line l =
     (case l of
        LineEvent t d \<Rightarrow> Some \<lparr>ce_Type = t, ce_Data = d, ce_Code = 0, ce_TimedOut = False\<rparr>
      | LineExit c t \<Rightarrow> Some \<lparr>ce_Type = ''exit'', ce_Data = [], ce_Code = c, ce_TimedOut = t\<rparr>)"

definition wire_stream :: "ctl_resp \<Rightarrow> stream_body do_result" where
  "wire_stream r = Inr
     \<lparr>hr_Status = rs_Status r, hr_ErrBody = wire_error (rs_Body r),
      hr_Decoded =
        (case rs_Body r of
           BodyStream ls \<Rightarrow> Inr (map wire_line ls, None)
         | _ \<Rightarrow> Inr ([], None))\<rparr>"

section \<open>The errors of an execution\<close>

text \<open>Status 404 means that the sandbox is unknown, and nothing else does.\<close>

definition exec_error :: "bool \<Rightarrow> go_error \<Rightarrow> bool" where
  "exec_error missing e \<longleftrightarrow> (\<exists>c t. e = ErrAdapter c t \<and> c \<ge> 400 \<and> (c = 404 \<longleftrightarrow> missing))"

lemma exec_error_internal [simp]: "exec_error missing (errInternal t) = (\<not> missing)"
  by (simp add: exec_error_def errInternal_def)

lemma exec_error_not_found [simp]: "exec_error missing (errNotFound t) = missing"
  by (simp add: exec_error_def errNotFound_def)

lemma buildExecResponse_error:
  "buildExecResponse e c t out err = Inl x \<Longrightarrow> exec_error False x"
  by (auto simp: buildExecResponse_def split: option.splits if_splits)

lemma run_response_error: "run_response cfg t r = Inl x \<Longrightarrow> exec_error False x"
  by (auto simp: run_response_def Let_def case_prod_beta dest: buildExecResponse_error)

definition exec_outcome :: "bool \<Rightarrow> go_error + 'a \<Rightarrow> bool" where
  "exec_outcome missing r \<longleftrightarrow> (case r of Inl e \<Rightarrow> exec_error missing e | Inr _ \<Rightarrow> \<not> missing)"

lemma run_outcomes:
  "returns (exec_outcome False) (exec_run os cfg call t)"
  "returns (exec_outcome False) (execPTY os cfg call t)"
  "returns (\<lambda>x. exec_outcome False (snd x)) (exec_stream os cfg call t)"
  unfolding exec_run_def execPTY_def exec_stream_def
  by (intro returns_intros;
      auto simp: exec_outcome_def Let_def split: option.splits sum.splits
        dest: run_response_error buildExecResponse_error)+

lemma with_jail_outcome:
  assumes run: "\<And>call. returns (\<lambda>x. exec_outcome False (res x)) (run call)"
    and fail: "\<And>e. res (fail e) = Inl e"
  shows "exec_outcome (map_of (na_sandboxes s) i = None)
    (res (fst (run_state (with_jail os cfg i command args env t stdin fail run) s)))"
proof (cases "map_of (na_sandboxes s) i")
  case None
  then show ?thesis by (simp add: with_jail_def exec_outcome_def fail)
next
  case (Some sb)
  have "wp (with_jail os cfg i command args env t stdin fail run) (\<lambda>r _. exec_outcome False (res r)) s"
    unfolding with_jail_def wp_bind [of State_Monad.get] wp_get Some option.case Let_def
    by (rule wp_returns)
      (rule returns_bind returns_cases(3) returns_return returns_cases(2)
        returns_bind_value [where R = "\<lambda>x. exec_outcome False (res x)"]
        | simp add: exec_outcome_def fail run [unfolded exec_outcome_def])+
  with Some show ?thesis by (simp add: wp_def case_prod_beta)
qed

lemma Exec_outcome:
  "exec_outcome (map_of (na_sandboxes s) i = None)
     (fst (run_state (Exec os cfg i command args env t pty) s))"
  unfolding Exec_def execWithStdin_def
  by (rule with_jail_outcome [where res = id, unfolded id_apply]) (auto intro: run_outcomes)

lemma ExecStream_outcome:
  "exec_outcome (map_of (na_sandboxes s) i = None)
     (snd (fst (run_state (ExecStream os cfg i command args env t) s)))"
  unfolding ExecStream_def by (rule with_jail_outcome) (auto intro: run_outcomes)

lemma adapterErrToHTTP_exec:
  "exec_error missing e \<Longrightarrow> 400 \<le> fst (adapterErrToHTTP e) \<and> (fst (adapterErrToHTTP e) = 404 \<longleftrightarrow> missing)"
  by (auto simp: exec_error_def adapterErrToHTTP_def)

section \<open>Calls that reach the server\<close>

lemma wire_token:
  "cl_ControllerToken ccfg = cc_controllerToken cfg \<Longrightarrow>
     ctl_answer os cfg s base (q\<lparr>hq_Token := cc_controllerToken cfg\<rparr>) = a \<Longrightarrow>
     (cc_controllerToken cfg = [] \<Longrightarrow> ctl_answer os cfg s base q = a) \<Longrightarrow>
     NewClient ccfg (\<lambda>q. f (ctl_answer os cfg s base q)) q = f a"
  by (simp add: NewClient_def RoundTrip_def)

lemma answer_exec:
  assumes "cc_controllerToken cfg = [] \<or> hq_Token q = cc_controllerToken cfg"
    and "hq_Method q = ''POST''" and "hq_Body q = SendExec req"
  shows "hq_URL q = base @ ''/v1/exec'' \<Longrightarrow>
      ctl_answer os cfg s base q = fst (run_state (handleExec os cfg (Some req)) s)"
    "hq_URL q = base @ ''/v1/exec/stream'' \<Longrightarrow>
      ctl_answer os cfg s base q = fst (run_state (handleExecStream os cfg (Some req)) s)"
  using assms
  by (auto simp: ctl_answer_def ctl_handler_def tokenMiddleware_def wire_request_def mux_serve_def
      ctl_routes_def)

text \<open>A call of the client on a server, with the same token configured on both sides.\<close>

definition exec_call ::
  "os_env \<Rightarrow> ctl_config \<Rightarrow> controller \<Rightarrow> ClientConfig \<Rightarrow> bytes \<Rightarrow> ExecReq \<Rightarrow> go_error + ExecResult" where
  "exec_call os cfg s ccfg baseURL req =
     client_Exec (NewClient ccfg (\<lambda>q. wire_exec (ctl_answer os cfg s baseURL q))) baseURL req"

definition stream_call ::
  "os_env \<Rightarrow> ctl_config \<Rightarrow> controller \<Rightarrow> ClientConfig \<Rightarrow> bytes \<Rightarrow> ExecReq \<Rightarrow>
     (bytes \<times> bytes) list \<times> (go_error + ExecResult)" where
  "stream_call os cfg s ccfg baseURL req =
     client_ExecStream (NewClient ccfg (\<lambda>q. wire_stream (ctl_answer os cfg s baseURL q))) baseURL req"

lemma exec_send:
  assumes "cl_ControllerToken ccfg = cc_controllerToken cfg"
  shows "NewClient ccfg (\<lambda>q. f (ctl_answer os cfg s base q))
        (http_NewRequest ''POST'' (base @ ''/v1/exec'') (SendExec req)) =
      f (fst (run_state (handleExec os cfg (Some req)) s))"
    "NewClient ccfg (\<lambda>q. g (ctl_answer os cfg s base q))
        (http_NewRequest ''POST'' (base @ ''/v1/exec/stream'') (SendExec req)) =
      g (fst (run_state (handleExecStream os cfg (Some req)) s))"
  by (rule wire_token [OF assms]; rule answer_exec; simp add: http_NewRequest_def)+

text \<open>The state in which the adapter runs a request: one slot is taken.\<close>

definition slot_taken :: "controller \<Rightarrow> controller" where
  "slot_taken s = s\<lparr>cs_execSem := cs_execSem s + 1\<rparr>"

definition exec_admitted :: "ctl_config \<Rightarrow> controller \<Rightarrow> ExecReq \<Rightarrow> bool" where
  "exec_admitted cfg s req \<longleftrightarrow>
     TrimSpace (xq_SandboxID req) \<noteq> [] \<and> TrimSpace (xq_Command req) \<noteq> [] \<and>
     cs_execSem s < sem_capacity cfg"

lemma handleExec_answer:
  assumes "exec_admitted cfg s req"
  shows "fst (run_state (handleExec os cfg (Some req)) s) =
    (case fst (run_state (Exec os (cc_adapterConfig cfg) (xq_SandboxID req) (xq_Command req)
        (xq_Args req) (xq_Env req) (exec_timeout req) (xq_PTY req)) (slot_taken s)) of
       Inl e \<Rightarrow> writeAdapterErr e
     | Inr x \<Rightarrow> writeJSON 200 (BodyExec
         \<lparr>xs_Stdout = truncateOutput (cc_maxOutputBytes cfg) (xr_Stdout x),
          xs_Stderr = truncateOutput (cc_maxOutputBytes cfg) (xr_Stderr x),
          xs_ExitCode = xr_ExitCode x, xs_TimedOut = xr_TimedOut x\<rparr>))"
  using assms unfolding exec_admitted_def
  by (auto simp: State_Monad.update_def handleExec_def with_slot_def slot_taken_def case_prod_beta split: sum.split)

lemma handleExecStream_answer:
  assumes "exec_admitted cfg s req"
  shows "fst (run_state (handleExecStream os cfg (Some req)) s) =
    (case fst (run_state (ExecStream os (cc_adapterConfig cfg) (xq_SandboxID req) (xq_Command req)
        (xq_Args req) (xq_Env req) (exec_timeout req)) (slot_taken s)) of
       (evs, r) \<Rightarrow> writeJSON 200 (BodyStream (map (\<lambda>(t, d). LineEvent t (json_text d)) evs @
         [case r of
            Inl e \<Rightarrow> LineEvent ''error'' (json_text (err_msg e))
          | Inr x \<Rightarrow> LineExit (xr_ExitCode x) (xr_TimedOut x)])))"
  using assms unfolding exec_admitted_def
  by (auto simp: State_Monad.update_def handleExecStream_def with_slot_def slot_taken_def case_prod_beta Let_def split: sum.split)

text \<open>
  C36.  A call of \<open>Exec\<close> that reaches the server with the right token and is admitted: when the
  client gets an error, it is one that marks the route as stale exactly if the controller
  does not know the sandbox; when it gets a result, the sandbox is known and the result is
  the adapter's, with its output truncated to the limit and carried as JSON text.
\<close>

theorem exec_stale_route:
  assumes "cl_ControllerToken ccfg = cc_controllerToken cfg" and "exec_admitted cfg s req"
  shows "case exec_call os cfg s ccfg base req of
      Inl e \<Rightarrow> IsStaleRouteError (Some e) \<longleftrightarrow> map_of (na_sandboxes s) (xq_SandboxID req) = None
    | Inr x \<Rightarrow> map_of (na_sandboxes s) (xq_SandboxID req) \<noteq> None \<and>
        (\<exists>y. fst (run_state (Exec os (cc_adapterConfig cfg) (xq_SandboxID req) (xq_Command req)
              (xq_Args req) (xq_Env req) (exec_timeout req) (xq_PTY req)) (slot_taken s)) = Inr y \<and>
           x = \<lparr>xs_Stdout = json_text (truncateOutput (cc_maxOutputBytes cfg) (xr_Stdout y)),
                xs_Stderr = json_text (truncateOutput (cc_maxOutputBytes cfg) (xr_Stderr y)),
                xs_ExitCode = xr_ExitCode y, xs_TimedOut = xr_TimedOut y\<rparr>)"
proof -
  let ?r = "fst (run_state (Exec os (cc_adapterConfig cfg) (xq_SandboxID req) (xq_Command req)
    (xq_Args req) (xq_Env req) (exec_timeout req) (xq_PTY req)) (slot_taken s))"
  have out: "exec_outcome (map_of (na_sandboxes s) (xq_SandboxID req) = None) ?r"
    using Exec_outcome [of "slot_taken s" "xq_SandboxID req"] by (simp add: slot_taken_def)
  have call: "exec_call os cfg s ccfg base req =
      postJSON (\<lambda>_. wire_exec (fst (run_state (handleExec os cfg (Some req)) s)))
        (base @ ''/v1/exec'') (SendExec req) hr_Decoded"
    unfolding exec_call_def client_Exec_def postJSON_def exec_send(1) [OF assms(1)] ..
  show ?thesis
  proof (cases ?r)
    case (Inl e)
    with out have err: "exec_error (map_of (na_sandboxes s) (xq_SandboxID req) = None) e"
      by (simp add: exec_outcome_def)
    obtain c t where ct: "adapterErrToHTTP e = (c, t)" by fastforce
    with adapterErrToHTTP_exec [OF err] have "c \<ge> 400"
      "c = 404 \<longleftrightarrow> map_of (na_sandboxes s) (xq_SandboxID req) = None" by simp_all
    with Inl ct show ?thesis
      by (simp add: call handleExec_answer [OF assms(2)] postJSON_def wire_exec_def writeAdapterErr_def
          writeErr_def writeJSON_def newHTTPError_def IsStaleRouteError_def is_http_error_def)
  next
    case (Inr y)
    with out have "map_of (na_sandboxes s) (xq_SandboxID req) \<noteq> None" by (simp add: exec_outcome_def)
    with Inr show ?thesis
      by (simp add: call handleExec_answer [OF assms(2)] postJSON_def wire_exec_def writeJSON_def)
  qed
qed

definition demo_client :: ClientConfig where
  "demo_client = \<lparr>cl_MTLSDisabled = True, cl_CACertPath = [], cl_ClientCert = [], cl_ClientKey = [],
     cl_ControllerToken = ''secret''\<rparr>"

definition demo_exec :: ExecReq where
  "demo_exec = \<lparr>xq_SandboxID = ''s1'', xq_Command = ''ls'', xq_Args = [], xq_Env = [],
     xq_TimeoutSeconds = 5, xq_PTY = False\<rparr>"

lemma demo_exec_admitted: "exec_admitted demo_ctl_cfg newServer demo_exec"
  by code_simp

theorem exec_stale_route_witness:
  "case exec_call demo_os demo_ctl_cfg newServer demo_client ''http://c:8080'' demo_exec of
     Inl e \<Rightarrow> IsStaleRouteError (Some e)
   | Inr x \<Rightarrow> False"
proof -
  have "cl_ControllerToken demo_client = cc_controllerToken demo_ctl_cfg"
    by (simp add: demo_client_def demo_ctl_cfg_def)
  from exec_stale_route [OF this demo_exec_admitted, of demo_os "''http://c:8080''"]
  show ?thesis by (simp add: newServer_def demo_exec_def split: sum.splits)
qed

section \<open>Streaming\<close>

abbreviation output_event :: "bytes \<times> bytes \<Rightarrow> bool" where
  "output_event e \<equiv> fst e \<in> {''stdout'', ''stderr'', ''truncated''}"

lemma drain_event_types:
  "drain_reachable n st \<Longrightarrow> list_all output_event (dr_events st)"
proof (induction rule: drain_reachable.induct)
  case start
  show ?case by (simp add: drain_init_def)
next
  case (step st act)
  have "stream_name x \<in> {''stdout'', ''stderr''}" for x by (cases x) simp_all
  with step show ?case
    by (cases act) (auto simp: case_prod_beta split: list.split drain_out.split)
qed

lemma exec_stream_event_types:
  "returns (\<lambda>x. list_all output_event (fst x)) (exec_stream os cfg call t)"
  unfolding exec_stream_def drain_all_def
  by (intro returns_intros)
    (auto simp: Let_def simp del: insert_iff split: option.split
      intro: drain_event_types drain_run_reachable)

lemma ExecStream_event_types:
  "returns (\<lambda>x. list_all output_event (fst x)) (ExecStream os cfg i command args env t)"
  unfolding ExecStream_def with_jail_def Let_def
  by (rule returns_bind returns_cases(3) returns_return returns_cases(2) exec_stream_event_types
      returns_bind_value [where R = "\<lambda>x. list_all output_event (fst x)"]
      | simp)+

lemma wire_line_simps [simp]:
  "wire_line (LineEvent t d) = Some \<lparr>ce_Type = t, ce_Data = d, ce_Code = 0, ce_TimedOut = False\<rparr>"
  "wire_line (LineExit c b) = Some \<lparr>ce_Type = ''exit'', ce_Data = [], ce_Code = c, ce_TimedOut = b\<rparr>"
  by (simp_all add: wire_line_def)

lemma scan_events:
  assumes "list_all output_event evs"
  shows "scan_lines (map wire_line (map (\<lambda>(t, d). LineEvent t (json_text d)) evs @ ls)) r =
    apfst ((@) (map (\<lambda>(t, d). (t, json_text d)) evs)) (scan_lines (map wire_line ls) r)"
  using assms
proof (induction evs)
  case Nil
  show ?case by (cases "scan_lines (map wire_line ls) r") simp
next
  case (Cons e evs)
  obtain t d where "e = (t, d)" by fastforce
  with Cons show ?case
    by (cases "scan_lines (map wire_line ls) r") auto
qed

text \<open>
  C37.  A streaming call that reaches the server with the right token and is admitted delivers
  the events of the adapter in their order, each as JSON text, and the adapter's exit code.
  When the adapter fails, the error is never one that marks the route as stale, not even
  when the controller does not know the sandbox.
\<close>

theorem stream_over_wire:
  assumes "cl_ControllerToken ccfg = cc_controllerToken cfg" and "exec_admitted cfg s req"
  shows "(case fst (run_state (ExecStream os (cc_adapterConfig cfg) (xq_SandboxID req) (xq_Command req)
            (xq_Args req) (xq_Env req) (exec_timeout req)) (slot_taken s)) of
          (evs, r) \<Rightarrow>
            fst (stream_call os cfg s ccfg base req) = map (\<lambda>(t, d). (t, json_text d)) evs \<and>
            snd (stream_call os cfg s ccfg base req) =
              (case r of
                 Inl e \<Rightarrow> Inl (ErrText (''exec stream: '' @ json_text (err_msg e)))
               | Inr y \<Rightarrow> Inr \<lparr>xs_Stdout = [], xs_Stderr = [], xs_ExitCode = xr_ExitCode y,
                               xs_TimedOut = xr_TimedOut y\<rparr>)) \<and>
    (case snd (stream_call os cfg s ccfg base req) of
       Inl e \<Rightarrow> \<not> IsStaleRouteError (Some e)
     | Inr x \<Rightarrow> map_of (na_sandboxes s) (xq_SandboxID req) \<noteq> None)"
proof -
  let ?m = "ExecStream os (cc_adapterConfig cfg) (xq_SandboxID req) (xq_Command req)
    (xq_Args req) (xq_Env req) (exec_timeout req)"
  obtain evs r where er: "fst (run_state ?m (slot_taken s)) = (evs, r)" by fastforce
  have types: "list_all output_event evs"
    using ExecStream_event_types [unfolded returns_def] er by (metis fst_conv)
  have out: "exec_outcome (map_of (na_sandboxes s) (xq_SandboxID req) = None) r"
    using ExecStream_outcome [of "slot_taken s" "xq_SandboxID req" os "cc_adapterConfig cfg"
      "xq_Command req" "xq_Args req" "xq_Env req" "exec_timeout req"] er by (simp add: slot_taken_def)
  have "stream_call os cfg s ccfg base req =
      (map (\<lambda>(t, d). (t, json_text d)) evs,
       case r of
         Inl e \<Rightarrow> Inl (ErrText (''exec stream: '' @ json_text (err_msg e)))
       | Inr y \<Rightarrow> Inr \<lparr>xs_Stdout = [], xs_Stderr = [], xs_ExitCode = xr_ExitCode y,
                       xs_TimedOut = xr_TimedOut y\<rparr>)"
    unfolding stream_call_def client_ExecStream_def exec_send(2) [OF assms(1)]
      handleExecStream_answer [OF assms(2)] er
    by (auto simp: wire_stream_def writeJSON_def scan_events [OF types] zero_ExecResult_def
        simp del: map_append map_map split: sum.split)
  with er out show ?thesis
    by (auto simp: exec_outcome_def IsStaleRouteError_def is_http_error_def is_net_error_def
        split: sum.split)
qed

theorem stream_over_wire_witness:
  "map_of (na_sandboxes newServer) ''s1'' = None \<and>
   (case snd (stream_call demo_os demo_ctl_cfg newServer demo_client ''http://c:8080'' demo_exec) of
      Inl e \<Rightarrow> \<not> IsStaleRouteError (Some e)
    | Inr x \<Rightarrow> False)"
proof -
  have "cl_ControllerToken demo_client = cc_controllerToken demo_ctl_cfg"
    by (simp add: demo_client_def demo_ctl_cfg_def)
  from stream_over_wire [OF this demo_exec_admitted, of demo_os "''http://c:8080''"]
  show ?thesis by (simp add: newServer_def demo_exec_def split: sum.splits)
qed

end
