(* ===== verification/Exec_Path.thy ===== *)
theory Exec_Path
  imports Router_Props Controller_Wire
begin

text \<open>
  The path of a command from the router to the jail: what an answer of the router with the
  result of a command says about the request the controller was sent and the process it ran.
\<close>

section \<open>The router\<close>

text \<open>A request that passed the limits and the validation of the router.\<close>

definition exec_accepted :: "Config \<Rightarrow> rt_request \<Rightarrow> ExecRequestBody \<Rightarrow> bool" where
  "exec_accepted cfg r body \<longleftrightarrow>
     bi_Value (rq_ExecBody r) = Some body \<and>
     ValidateExecRequest (Some body) (rf_MaxTimeoutSec cfg) (rf_MaxArgs cfg) (rf_MaxEnvKeys cfg) = None"

text \<open>
  An answer that carries a result comes right after the request to the controller, of which
  it is the result, and the update of the session.
\<close>

definition result_sent :: "kube_env \<Rightarrow> Config \<Rightarrow> rt_request \<Rightarrow> ktrace \<Rightarrow> rt_resp option \<Rightarrow> bool" where
  "result_sent env cfg r es a \<longleftrightarrow>
     (\<forall>resp x. a = Some resp \<longrightarrow> ro_Body resp = RExec x \<longrightarrow>
        ro_Status resp = 200 \<and>
        (\<exists>body sess fs res t. exec_accepted cfg r body \<and>
           client_Exec (NewClient (client_config cfg) (k_Exec env t)) (controllerURLFromSession cfg sess)
             (exec_req sess body (er_PTY body)) = Inr res \<and>
           es = fs @ [CtlExec (controllerURLFromSession cfg sess) (exec_req sess body (er_PTY body)) (Inr res),
             Spawn sess] \<and>
           x = \<lparr>xr_ExitCode = xs_ExitCode res, xr_Stdout = xs_Stdout res, xr_Stderr = xs_Stderr res,
             xr_TimedOut = xs_TimedOut res\<rparr>))"

abbreviation sends :: "kube_env \<Rightarrow> Config \<Rightarrow> rt_request \<Rightarrow> handler \<Rightarrow> bool" where
  "sends env cfg r \<equiv> emits w_trace (result_sent env cfg r)"

abbreviation appends :: "'a rt \<Rightarrow> bool" where
  "appends \<equiv> emits w_trace (\<lambda>_ _. True)"

lemma result_sent_prepend: "result_sent env cfg r es a \<Longrightarrow> result_sent env cfg r (fs @ es) a"
  unfolding result_sent_def by (metis append_assoc)

lemma sends_bind: "appends m \<Longrightarrow> (\<And>x. sends env cfg r (f x)) \<Longrightarrow> sends env cfg r (State_Monad.bind m f)"
  by (rule emits_bind [where P = "\<lambda>_ _. True" and Q = "\<lambda>_ _. result_sent env cfg r"])
     (simp_all add: result_sent_prepend)

lemma sends_reply:
  "(\<And>x. ro_Body a \<noteq> RExec x) \<Longrightarrow> sends env cfg r (reply a)"
  "sends env cfg r (reply_err c m e)"
  "sends env cfg r (State_Monad.return None)"
  by (auto simp: reply_def reply_err_def result_sent_def jsonErr_def intro!: emits_return)

lemma appends_calls:
  "appends (k_call ask ev)" "appends (lookupSession env cfg i)" "appends (lookupSandbox env cfg b)"
  "appends (generateSessionID env)" "appends (rt_delete_session env sess)"
  "appends (authorizeResource env cfg user ns v res n)"
  "appends (createAndWaitForSession env cfg fuel i b owner)"
proof -
  show call: "appends (k_call ask ev)" for ask and ev :: "'x \<Rightarrow> kevent" by (rule emits_k_call) simp
  show "appends (lookupSession env cfg i)" by (rule emits_mono [OF found_session]) simp
  show "appends (lookupSandbox env cfg b)" by (rule emits_mono [OF found_sandbox]) simp
  show "appends (generateSessionID env)" by (rule emits_mono [OF quiet_generateSessionID]) simp
  show "appends (rt_delete_session env sess)" unfolding rt_delete_session_def by (rule call)
  show "appends (authorizeResource env cfg user ns v res n)"
    unfolding authorizeResource_def Let_def by (auto intro!: emits_intros emits_call_bind)
  show "appends (createAndWaitForSession env cfg fuel i b owner)"
    unfolding createAndWaitForSession_def Let_def
    by (intro emits_call_bind emits_intros emits_mono [OF poll_session_reads]
        emits_bind [OF emits_mono [OF quiet_time_Now], where Q = "\<lambda>_ _ _ _. True"]) simp_all
qed

lemma sends_guards:
  "sends env cfg r next \<Longrightarrow> sends env cfg r (requireResourceAccess env cfg user v res n next)"
  unfolding requireResourceAccess_def
  by (auto intro!: emits_cases sends_bind sends_reply appends_calls)

lemma sends_fresh:
  "(\<And>sess. sends env cfg r (next sess)) \<Longrightarrow>
     sends env cfg r (fresh_session env cfg fuel user body i old next)"
  unfolding fresh_session_def
  by (intro sends_guards sends_bind emits_cases sends_reply appends_calls emits_return; simp)

lemma sends_exec_session:
  assumes "\<And>body i created sess. exec_accepted cfg r body \<Longrightarrow>
      sends env cfg r (next body i created sess)"
  shows "sends env cfg r (exec_session env cfg fuel user r next)"
  unfolding exec_session_def decodeBody_def with_session_id_def Let_def
  by (intro sends_guards sends_fresh sends_bind emits_cases sends_reply appends_calls)
     (auto intro!: assms simp: exec_accepted_def)

lemma sends_with_sem:
  assumes "sends env cfg r body" and "result_sent env cfg r [] busy"
  shows "sends env cfg r (with_sem cfg busy body)"
  unfolding with_sem_def
proof (rule sends_bind, goal_cases)
  case 1
  show ?case by (rule emitsI) simp
next
  case (2 s)
  have up: "appends (State_Monad.update (\<lambda>s. s\<lparr>rt_sem := f (rt_sem s)\<rparr>))" for f
    by (rule emitsI) (simp add: State_Monad.update_def)
  have "sends env cfg r (State_Monad.bind body (\<lambda>x. State_Monad.bind
      (State_Monad.update (\<lambda>s. s\<lparr>rt_sem := rt_sem s - 1\<rparr>)) (\<lambda>_. State_Monad.return x)))"
    by (rule emits_bind [OF assms(1), where Q = "\<lambda>_ x es y. es = [] \<and> y = x"])
       (auto intro!: emitsI simp: State_Monad.update_def)
  then show ?case by (intro emits_cases sends_bind [OF up] emits_return assms(2))
qed

text \<open>A call before the rest, with where its answer comes from.\<close>

lemma emits_asked_bind:
  assumes "\<And>t. emits w_trace (\<lambda>es y. P (ev (ask t) # es) y) (f (ask t))"
  shows "emits w_trace P (State_Monad.bind (k_call ask ev) f)"
proof (rule emits_bind [where P = "\<lambda>es r. \<exists>t. r = ask t \<and> es = [ev r]" and Q = "\<lambda>_ r es y. P (ev r # es) y"])
  show "emits w_trace (\<lambda>es r. \<exists>t. r = ask t \<and> es = [ev r]) (k_call ask ev)" by (rule emitsI) auto
qed (use assms in auto)

lemma handleSessionExec_sends: "sends env cfg r (handleSessionExec env cfg fuel user r)"
  unfolding handleSessionExec_def ctl_Exec_def spawn_touch_def
proof (intro sends_with_sem sends_exec_session emits_asked_bind emits_cases)
  show "result_sent env cfg r [] (Some (jsonErr 429 ''concurrency limit'' ''too_many_in_flight''))"
    by (simp add: result_sent_def jsonErr_def)
qed (auto simp: reply_err_def reply_def result_sent_def jsonErr_def intro!: emits_return emits_call_bind, blast)

section \<open>The controller\<close>

text \<open>What the client of a controller gets for a result of the adapter.\<close>

definition carried :: "ctl_config \<Rightarrow> ExecResponseBody \<Rightarrow> ExecResult" where
  "carried ctl y =
     \<lparr>xs_Stdout = json_text (truncateOutput (cc_maxOutputBytes ctl) (xr_Stdout y)),
      xs_Stderr = json_text (truncateOutput (cc_maxOutputBytes ctl) (xr_Stderr y)),
      xs_ExitCode = xr_ExitCode y, xs_TimedOut = xr_TimedOut y\<rparr>"

abbreviation adapter_Exec ::
  "os_env \<Rightarrow> ctl_config \<Rightarrow> ExecReq \<Rightarrow> (go_error + ExecResponseBody) ctl" where
  "adapter_Exec os ctl req \<equiv>
     Exec os (cc_adapterConfig ctl) (xq_SandboxID req) (xq_Command req) (xq_Args req) (xq_Env req)
       (exec_timeout req) (xq_PTY req)"

text \<open>
  A call over an intact connection with the right token: it has a result exactly if the
  controller admits the request and the adapter has one.
\<close>

lemma exec_call_result:
  assumes "cl_ControllerToken cc = cc_controllerToken ctl"
  shows "exec_call os ctl s cc base req = Inr x \<longleftrightarrow>
    exec_admitted ctl s req \<and>
    (\<exists>y. fst (run_state (adapter_Exec os ctl req) (slot_taken s)) = Inr y \<and> x = carried ctl y)"
proof -
  have call: "exec_call os ctl s cc base req =
      postJSON (\<lambda>_. wire_exec (fst (run_state (handleExec os ctl (Some req)) s)))
        (base @ ''/v1/exec'') (SendExec req) hr_Decoded"
    unfolding exec_call_def client_Exec_def postJSON_def exec_send(1) [OF assms] ..
  show ?thesis
  proof (cases "exec_admitted ctl s req")
    case False
    then show ?thesis
      by (auto simp: call exec_admitted_def handleExec_def with_slot_def record_metric_def
          State_Monad.update_def writeErr_def writeJSON_def wire_exec_def postJSON_def)
  next
    case True
    let ?r = "fst (run_state (adapter_Exec os ctl req) (slot_taken s))"
    have out: "exec_outcome (map_of (na_sandboxes s) (xq_SandboxID req) = None) ?r"
      using Exec_outcome [of "slot_taken s" "xq_SandboxID req"] by (simp add: slot_taken_def)
    show ?thesis
    proof (cases ?r)
      case (Inl e)
      with out adapterErrToHTTP_exec have "fst (adapterErrToHTTP e) \<ge> 400"
        by (auto simp: exec_outcome_def)
      with True Inl show ?thesis
        by (simp add: call handleExec_answer postJSON_def wire_exec_def writeAdapterErr_def
            writeErr_def writeJSON_def case_prod_beta)
    next
      case (Inr y)
      with True show ?thesis
        by (auto simp: call handleExec_answer postJSON_def wire_exec_def writeJSON_def carried_def)
    qed
  qed
qed

text \<open>A result comes from a sandbox the controller holds.\<close>

lemma adapter_Exec_known:
  assumes "fst (run_state (adapter_Exec os ctl req) (slot_taken s)) = Inr y"
  shows "map_of (na_sandboxes s) (xq_SandboxID req) \<noteq> None"
proof -
  have "na_sandboxes (slot_taken s) = na_sandboxes s" by (simp add: slot_taken_def)
  with Exec_outcome [of "slot_taken s" "xq_SandboxID req" os "cc_adapterConfig ctl" "xq_Command req" "xq_Args req"
      "xq_Env req" "exec_timeout req" "xq_PTY req"] assms
  show ?thesis by (simp add: exec_outcome_def)
qed

section \<open>Router and controllers\<close>

text \<open>
  A request to \<open>url\<close> reaches the controller \<open>ctls url\<close> and its answer the router.
\<close>

definition exec_wired ::
  "kube_env \<Rightarrow> os_env \<Rightarrow> ctl_config \<Rightarrow> (bytes \<Rightarrow> controller) \<Rightarrow> bool" where
  "exec_wired env os ctl ctls \<longleftrightarrow>
     (\<forall>t url q. hq_URL q = url @ ''/v1/exec'' \<longrightarrow> k_Exec env t q = wire_exec (ctl_answer os ctl (ctls url) url q))"

lemma wired_client_Exec:
  assumes "exec_wired env os ctl ctls"
  shows "client_Exec (NewClient cc (k_Exec env t)) url req = exec_call os ctl (ctls url) cc url req"
  using assms
  by (simp add: exec_call_def client_Exec_def postJSON_def NewClient_def RoundTrip_def exec_wired_def
      http_NewRequest_def)

text \<open>The process behind a result: without a terminal, one run of nsjail on the jail of the sandbox.\<close>

lemma adapter_Exec_jail:
  fixes s :: controller
  assumes "map_of (na_sandboxes s) (xq_SandboxID req) = Some sb" and "\<not> xq_PTY req"
    and "run_state (adapter_Exec os ctl req) s = (r, s')"
  shows "jail_events os (cc_adapterConfig ctl) sb (xq_Command req) (xq_Args req) (xq_Env req)
    (exec_timeout req) NoStdin r (new_events s s')"
proof -
  have "wp (adapter_Exec os ctl req) (\<lambda>r s'. jail_events os (cc_adapterConfig ctl) sb (xq_Command req)
      (xq_Args req) (xq_Env req) (exec_timeout req) NoStdin r (new_events s s')) s"
    using assms(2) unfolding Exec_def
    by simp (rule wp_execWithStdin [OF assms(1)], simp add: new_events_def)
  with assms(3) show ?thesis by (simp add: wp_def)
qed

text \<open>
  The controller \<open>c\<close> has run the request: it holds the sandbox and had room, and the result is
  that of the adapter, which, without a terminal, ran one process, on the jail of that sandbox.
\<close>

definition ran_in_jail ::
  "os_env \<Rightarrow> ctl_config \<Rightarrow> controller \<Rightarrow> ExecReq \<Rightarrow> ExecResult \<Rightarrow> bool" where
  "ran_in_jail os ctl c req res \<longleftrightarrow>
     exec_admitted ctl c req \<and>
     (\<exists>sb y c'. map_of (na_sandboxes c) (xq_SandboxID req) = Some sb \<and>
        run_state (adapter_Exec os ctl req) (slot_taken c) = (Inr y, c') \<and> res = carried ctl y \<and>
        (if xq_PTY req then True
         else jail_events os (cc_adapterConfig ctl) sb (xq_Command req) (xq_Args req) (xq_Env req)
                (exec_timeout req) NoStdin (Inr y) (new_events (slot_taken c) c')))"

lemma exec_call_ran:
  assumes "cl_ControllerToken cc = cc_controllerToken ctl" and "exec_call os ctl c cc base req = Inr res"
  shows "ran_in_jail os ctl c req res"
proof -
  from assms obtain y c' where 1: "exec_admitted ctl c req" "res = carried ctl y"
    and run: "run_state (adapter_Exec os ctl req) (slot_taken c) = (Inr y, c')"
    by (auto simp: exec_call_result) (metis prod.collapse)
  from run have "map_of (na_sandboxes c) (xq_SandboxID req) \<noteq> None"
    by (intro adapter_Exec_known [where y = y and os = os and ctl = ctl]) simp
  then obtain sb where sb: "map_of (na_sandboxes c) (xq_SandboxID req) = Some sb" by auto
  then have "map_of (na_sandboxes (slot_taken c)) (xq_SandboxID req) = Some sb" by (simp add: slot_taken_def)
  from adapter_Exec_jail [OF this _ run] 1 sb run show ?thesis unfolding ran_in_jail_def by auto
qed

lemma exec_path:
  assumes "cl_ControllerToken (client_config cfg) = cc_controllerToken ctl" and "exec_wired env os ctl ctls"
    and "run_state (handleSessionExec env cfg fuel (Some u) r) w = (Some resp, w')" and "ro_Body resp = RExec x"
  shows "ro_Status resp = 200 \<and>
    (\<exists>body sess fs res. exec_accepted cfg r body \<and> usable cfg u sess (set fs) \<and>
       (let url = controllerURLFromSession cfg sess; req = exec_req sess body (er_PTY body) in
        w_trace w' = w_trace w @ fs @ [CtlExec url req (Inr res), Spawn sess] \<and>
        ran_in_jail os ctl (ctls url) req res \<and>
        x = \<lparr>xr_ExitCode = xs_ExitCode res, xr_Stdout = xs_Stdout res, xr_Stderr = xs_Stderr res,
             xr_TimedOut = xs_TimedOut res\<rparr>))"
proof -
  from emitsE [OF handleSessionExec_sends assms(3)]
  obtain es where es: "w_trace w' = w_trace w @ es" "result_sent env cfg r es (Some resp)" by blast
  then obtain body sess fs res t where 1: "ro_Status resp = 200" "exec_accepted cfg r body"
    and call: "client_Exec (NewClient (client_config cfg) (k_Exec env t)) (controllerURLFromSession cfg sess)
      (exec_req sess body (er_PTY body)) = Inr res"
    and fs: "es = fs @ [CtlExec (controllerURLFromSession cfg sess) (exec_req sess body (er_PTY body)) (Inr res),
        Spawn sess]"
    and x: "x = \<lparr>xr_ExitCode = xs_ExitCode res, xr_Stdout = xs_Stdout res, xr_Stderr = xs_Stderr res,
        xr_TimedOut = xs_TimedOut res\<rparr>"
    using assms(4) by (auto simp: result_sent_def)
  from governed_run [OF obedient_exec assms(3), where P = "{}"] es(1)
  have "obeys (permitted cfg u) {} es" by (metis same_append_eq)
  then have "usable cfg u sess (insert (CtlExec (controllerURLFromSession cfg sess)
      (exec_req sess body (er_PTY body)) (Inr res)) (set fs))"
    by (simp add: fs obeys_append)
  then have "usable cfg u sess (set fs)" by (simp add: usable_def listed_def allowed_def)
  moreover have "ran_in_jail os ctl (ctls (controllerURLFromSession cfg sess))
      (exec_req sess body (er_PTY body)) res"
    using call by (intro exec_call_ran [OF assms(1)]) (simp add: wired_client_Exec [OF assms(2)])
  ultimately show ?thesis using 1 es(1) fs x by (auto simp: Let_def)
qed

end
