(* ===== verification/Operator.thy ===== *)
theory Operator
  imports Kube "HOL-Library.AList" "HOL-Library.Char_ord" "HOL-Library.List_Lexorder"
begin

text \<open>
  The operator, \<open>internal/operator\<close>: the reconcilers of sessions, controller pools and sandbox
  configurations, the assignment of sessions to controllers and the scaling of the stateful
  set of controllers.
\<close>

section \<open>Configuration and state\<close>

record ReconcilerConfig =
  rcf_Namespace :: bytes
  rcf_StatefulSetName :: bytes
  rcf_HeadlessServiceName :: bytes
  rcf_ControllerPoolName :: bytes
  rcf_ControllerPort :: int
  rcf_MaxSandboxesPerCtrl :: int
  rcf_MaxControllerReplicas :: int
  rcf_MinControllerReplicas :: int
  rcf_TerminatedRetentionSec :: int
  rcf_ScaleDownCooldown :: duration
  rcf_MTLSDisabled :: bool
  rcf_Client :: ClientConfig

definition NewSessionReconciler :: "ReconcilerConfig \<Rightarrow> ReconcilerConfig" where
  "NewSessionReconciler cfg = cfg\<lparr>
     rcf_MaxSandboxesPerCtrl :=
       (if rcf_MaxSandboxesPerCtrl cfg \<le> 0 then 20 else rcf_MaxSandboxesPerCtrl cfg),
     rcf_MaxControllerReplicas :=
       (if rcf_MaxControllerReplicas cfg \<le> 0 then 50 else rcf_MaxControllerReplicas cfg),
     rcf_MinControllerReplicas :=
       (if rcf_MinControllerReplicas cfg \<le> 0 then 1 else rcf_MinControllerReplicas cfg),
     rcf_TerminatedRetentionSec :=
       (if rcf_TerminatedRetentionSec cfg \<le> 0 then 3600 else rcf_TerminatedRetentionSec cfg),
     rcf_ScaleDownCooldown :=
       (if rcf_ScaleDownCooldown cfg \<le> 0 then 5 * minute else rcf_ScaleDownCooldown cfg),
     rcf_ControllerPort :=
       (if rcf_ControllerPort cfg \<le> 0 then 8080 else rcf_ControllerPort cfg)\<rparr>"

record OperatorMetrics =
  mo_scaleUp :: nat
  mo_scaleDown :: nat
  mo_readyReplicas :: int
  mo_activeSandboxes :: int

text \<open>A nil pointer to the metrics is \<open>None\<close>; every method is then a no-op.\<close>

record operator_state = world +
  op_metrics :: "OperatorMetrics option"

type_synonym 'a op = "(operator_state, 'a) state"

definition on_metrics :: "(OperatorMetrics \<Rightarrow> OperatorMetrics) \<Rightarrow> unit op" where
  "on_metrics f = State_Monad.update (\<lambda>s. s\<lparr>op_metrics := map_option f (op_metrics s)\<rparr>)"

definition ScaledUp :: "unit op" where
  "ScaledUp = on_metrics (\<lambda>m. m\<lparr>mo_scaleUp := mo_scaleUp m + 1\<rparr>)"

definition ScaledDown :: "unit op" where
  "ScaledDown = on_metrics (\<lambda>m. m\<lparr>mo_scaleDown := mo_scaleDown m + 1\<rparr>)"

definition SetPoolState :: "int \<Rightarrow> int \<Rightarrow> unit op" where
  "SetPoolState readyReplicas activeSandboxes =
     on_metrics (\<lambda>m. m\<lparr>mo_readyReplicas := readyReplicas, mo_activeSandboxes := activeSandboxes\<rparr>)"

text \<open>The result of a reconciliation; an error makes the request come back with a back-off.\<close>

record Result =
  re_Requeue :: bool
  re_RequeueAfter :: duration

definition done_result :: Result where
  "done_result = \<lparr>re_Requeue = False, re_RequeueAfter = 0\<rparr>"

definition requeue :: Result where
  "requeue = \<lparr>re_Requeue = True, re_RequeueAfter = 0\<rparr>"

definition requeue_after :: "duration \<Rightarrow> Result" where
  "requeue_after d = \<lparr>re_Requeue = False, re_RequeueAfter = d\<rparr>"

type_synonym reconciled = "go_error + Result"

section \<open>Calls of the API server\<close>

definition get_session :: "kube_env \<Rightarrow> bytes \<Rightarrow> bytes \<Rightarrow> ('z, go_error + Session) kube" where
  "get_session env ns name = k_call (\<lambda>t. k_GetSession env t ns name) (GetSession ns name)"

definition list_sessions :: "kube_env \<Rightarrow> bytes \<Rightarrow> str_map \<Rightarrow> ('z, go_error + Session list) kube" where
  "list_sessions env ns labels = k_call (\<lambda>t. k_ListSessions env t ns labels) (ListSessions ns labels)"

definition list_sandboxes :: "kube_env \<Rightarrow> bytes \<Rightarrow> str_map \<Rightarrow> ('z, go_error + Sandbox list) kube" where
  "list_sandboxes env ns labels = k_call (\<lambda>t. k_ListSandboxes env t ns labels) (ListSandboxes ns labels)"

definition update_session :: "kube_env \<Rightarrow> Session \<Rightarrow> ('z, go_error + Session) kube" where
  "update_session env s = k_call (\<lambda>t. k_UpdateSession env t s) (UpdateSession s)"

definition update_session_status :: "kube_env \<Rightarrow> Session \<Rightarrow> ('z, go_error + Session) kube" where
  "update_session_status env s = k_call (\<lambda>t. k_UpdateSessionStatus env t s) (UpdateSessionStatus s)"

definition patch_session_status :: "kube_env \<Rightarrow> Session \<Rightarrow> Session \<Rightarrow> ('z, go_error + Session) kube" where
  "patch_session_status env old new =
     k_call (\<lambda>t. k_PatchSessionStatus env t old new) (PatchSessionStatus old new)"

definition delete_session :: "kube_env \<Rightarrow> Session \<Rightarrow> ('z, go_error option) kube" where
  "delete_session env s = k_call (\<lambda>t. k_DeleteSession env t s) (DeleteSession s)"

definition get_sts :: "kube_env \<Rightarrow> bytes \<Rightarrow> bytes \<Rightarrow> ('z, go_error + StatefulSet) kube" where
  "get_sts env ns name = k_call (\<lambda>t. k_GetStatefulSet env t ns name) (GetStatefulSet ns name)"

definition update_sts :: "kube_env \<Rightarrow> StatefulSet \<Rightarrow> ('z, go_error + StatefulSet) kube" where
  "update_sts env s = k_call (\<lambda>t. k_UpdateStatefulSet env t s) (UpdateStatefulSet s)"

definition controller_labels :: str_map where
  "controller_labels = [(''app'', ''boxy-controller'')]"

definition list_pods :: "kube_env \<Rightarrow> bytes \<Rightarrow> ('z, go_error + Pod list) kube" where
  "list_pods env ns = k_call (\<lambda>t. k_ListPods env t ns controller_labels) (ListPods ns controller_labels)"

section \<open>Scaling\<close>

definition current_replicas :: "StatefulSet \<Rightarrow> int" where
  "current_replicas sts = (case sts_Replicas sts of None \<Rightarrow> 1 | Some n \<Rightarrow> n)"

definition scaleStatefulSet ::
  "kube_env \<Rightarrow> ReconcilerConfig \<Rightarrow> (int \<Rightarrow> go_error + int) \<Rightarrow> go_error option op" where
  "scaleStatefulSet env cfg adjustFn = do {
     r \<leftarrow> get_sts env (rcf_Namespace cfg) (rcf_StatefulSetName cfg);
     case r of
       Inl e \<Rightarrow> State_Monad.return (Some (wrap_err ''get statefulset: '' e []))
     | Inr sts \<Rightarrow>
         let current = current_replicas sts in
         (case adjustFn current of
            Inl e \<Rightarrow> State_Monad.return (Some e)
          | Inr desired \<Rightarrow>
              if desired = current then State_Monad.return None
              else do {
                u \<leftarrow> update_sts env (sts\<lparr>sts_Replicas := Some desired\<rparr>);
                State_Monad.return
                  (case u of
                     Inl e \<Rightarrow> Some (wrap_err ''update statefulset replicas: '' e [])
                   | Inr _ \<Rightarrow> None)
              })
   }"

definition scaleUp :: "kube_env \<Rightarrow> ReconcilerConfig \<Rightarrow> go_error option op" where
  "scaleUp env cfg = do {
     e \<leftarrow> scaleStatefulSet env cfg (\<lambda>current.
       if current \<ge> rcf_MaxControllerReplicas cfg
       then Inl (ErrText (''already at max controller replicas ('' @
              fmt_int (rcf_MaxControllerReplicas cfg) @ '')''))
       else Inr (current + 1));
     case e of
       Some err \<Rightarrow> State_Monad.return (Some err)
     | None \<Rightarrow> do { _ \<leftarrow> ScaledUp; State_Monad.return None }
   }"

section \<open>Assigning a session to a controller\<close>

definition podRunningReady :: "Pod \<Rightarrow> bool" where
  "podRunningReady p \<longleftrightarrow>
     po_Phase p = ''Running'' \<and> list_ex (\<lambda>c. c = (''Ready'', ''True'')) (po_Conditions p)"

text \<open>The loop that fills the map \<open>podCounts\<close>.\<close>

definition map_count :: "(bytes \<times> int) list \<Rightarrow> bytes \<Rightarrow> int" where
  "map_count m k = (case map_of m k of None \<Rightarrow> 0 | Some n \<Rightarrow> n)"

definition count_session :: "Session \<Rightarrow> (bytes \<times> int) list \<Rightarrow> (bytes \<times> int) list" where
  "count_session s m =
     (if phase s = SandboxPhaseTerminated \<or> phase s = SandboxPhaseDeleting then m
      else if st_ControllerPod (se_Status s) \<noteq> []
      then AList.update (st_ControllerPod (se_Status s)) (map_count m (st_ControllerPod (se_Status s)) + 1) m
      else m)"

definition podCounts :: "Session list \<Rightarrow> (bytes \<times> int) list" where
  "podCounts sessions = fold count_session sessions []"

definition pod_address :: "ReconcilerConfig \<Rightarrow> Pod \<Rightarrow> bytes" where
  "pod_address cfg p =
     om_Name (po_Meta p) @ ''.'' @ rcf_HeadlessServiceName cfg @ ''.'' @ rcf_Namespace cfg @ ''.svc''"

text \<open>One round of the loop over the pods; the state is the best pod so far.\<close>

definition consider_pod ::
  "ReconcilerConfig \<Rightarrow> (bytes \<times> int) list \<Rightarrow> Pod \<Rightarrow> bytes \<times> bytes \<times> int \<Rightarrow> bytes \<times> bytes \<times> int" where
  "consider_pod cfg counts p best =
     (case best of (bestPod, bestAddr, bestRemaining) \<Rightarrow>
        if om_DeletionTimestamp (po_Meta p) \<noteq> None then best
        else if \<not> podRunningReady p then best
        else
          let count = map_count counts (om_Name (po_Meta p));
              remaining = rcf_MaxSandboxesPerCtrl cfg - count
          in if remaining \<le> 0 then best
             else if bestRemaining < 0 \<or> remaining < bestRemaining
             then (om_Name (po_Meta p), pod_address cfg p, remaining)
             else best)"

definition best_pod :: "ReconcilerConfig \<Rightarrow> Session list \<Rightarrow> Pod list \<Rightarrow> bytes \<times> bytes \<times> int" where
  "best_pod cfg sessions pods = fold (consider_pod cfg (podCounts sessions)) pods ([], [], -1)"

definition assignController ::
  "kube_env \<Rightarrow> ReconcilerConfig \<Rightarrow> (go_error + bytes \<times> bytes) op" where
  "assignController env cfg = do {
     ps \<leftarrow> list_pods env (rcf_Namespace cfg);
     case ps of
       Inl e \<Rightarrow> State_Monad.return (Inl (wrap_err ''list controller pods: '' e []))
     | Inr pods \<Rightarrow> do {
         ss \<leftarrow> list_sessions env (rcf_Namespace cfg) [];
         case ss of
           Inl e \<Rightarrow> State_Monad.return (Inl (wrap_err ''list sessions: '' e []))
         | Inr sessions \<Rightarrow>
             (case best_pod cfg sessions pods of (bestPod, bestAddr, bestRemaining) \<Rightarrow>
                if bestPod = [] then do {
                  e \<leftarrow> scaleUp env cfg;
                  State_Monad.return
                    (case e of
                       Some err \<Rightarrow> Inl (wrap_err ''no capacity and scale-up failed: '' err [])
                     | None \<Rightarrow> Inl (ErrText ''no capacity; scaled up, will retry''))
                }
                else State_Monad.return (Inr (bestPod, bestAddr)))
       }
   }"

definition fetchSandboxConfig ::
  "kube_env \<Rightarrow> ReconcilerConfig \<Rightarrow> bytes \<Rightarrow> (go_error + Sandbox option) op" where
  "fetchSandboxConfig env cfg sandboxID = do {
     r \<leftarrow> list_sandboxes env (rcf_Namespace cfg) [(LabelSandboxID, sandboxID)];
     State_Monad.return
       (case r of
          Inl e \<Rightarrow> Inl e
        | Inr items \<Rightarrow>
            Inr (List.find (\<lambda>sb. bs_SandboxID (bx_Spec sb) = sandboxID \<and>
                                 om_DeletionTimestamp (bx_Meta sb) = None) items))
   }"

definition sessionControllerURL :: "ReconcilerConfig \<Rightarrow> Session \<Rightarrow> bytes" where
  "sessionControllerURL cfg session =
     (if rcf_MTLSDisabled cfg then ''http'' else ''https'') @ ''://'' @
     st_ControllerAddress (se_Status session) @ '':'' @ fmt_int (st_Port (se_Status session))"

section \<open>The session reconciler\<close>

text \<open>Writing the status and answering with \<open>r\<close> when that worked.\<close>

definition write_status :: "kube_env \<Rightarrow> Session \<Rightarrow> Result \<Rightarrow> reconciled op" where
  "write_status env session r = do {
     u \<leftarrow> update_session_status env session;
     State_Monad.return (case u of Inl e \<Rightarrow> Inl e | Inr _ \<Rightarrow> Inr r)
   }"

definition config_missing :: "Session \<Rightarrow> Session" where
  "config_missing session = session\<lparr>se_Status := (se_Status session)
     \<lparr>st_Phase := SandboxPhaseDeleting, st_Message := ''sandbox config not found''\<rparr>\<rparr>"

definition handleDeletion ::
  "kube_env \<Rightarrow> ReconcilerConfig \<Rightarrow> Session \<Rightarrow> reconciled op" where
  "handleDeletion env cfg session =
     (if \<not> ContainsFinalizer (se_Meta session) FinalizerSessionCleanup
      then State_Monad.return (Inr done_result)
      else do {
        err \<leftarrow> (if (phase session = SandboxPhaseRunning \<or> phase session = SandboxPhaseCreating) \<and>
                  st_ControllerAddress (se_Status session) \<noteq> []
               then ctl_DeleteSandbox env (rcf_Client cfg) (sessionControllerURL cfg session)
                      \<lparr>dq_SandboxID = ss_SessionID (se_Spec session)\<rparr>
               else State_Monad.return None);
        if err \<noteq> None \<and> \<not> IsStaleRouteError err
        then State_Monad.return (Inr (requeue_after (seconds 5)))
        else do {
          u \<leftarrow> update_session env
                 (session\<lparr>se_Meta := RemoveFinalizer FinalizerSessionCleanup (se_Meta session)\<rparr>);
          State_Monad.return (case u of Inl e \<Rightarrow> Inl e | Inr _ \<Rightarrow> Inr done_result)
        }
      })"

text \<open>The status written when a controller has been found.\<close>

definition assigned ::
  "ReconcilerConfig \<Rightarrow> bytes \<Rightarrow> bytes \<Rightarrow> time \<Rightarrow> Sandbox \<Rightarrow> Session \<Rightarrow> Session" where
  "assigned cfg podName address now sb session = session\<lparr>se_Status := (se_Status session)
     \<lparr>st_Phase := SandboxPhaseCreating, st_ControllerPool := rcf_ControllerPoolName cfg,
      st_ControllerPod := podName, st_ControllerAddress := address,
      st_Port := rcf_ControllerPort cfg, st_CreatedAt := Some now,
      st_ExpiresAt :=
        (if bs_TTLSeconds (bx_Spec sb) > 0
         then Some (now + seconds (bs_TTLSeconds (bx_Spec sb)))
         else st_ExpiresAt (se_Status session))\<rparr>\<rparr>"

definition pending_assign ::
  "kube_env \<Rightarrow> ReconcilerConfig \<Rightarrow> Session \<Rightarrow> reconciled op" where
  "pending_assign env cfg session = do {
     c \<leftarrow> fetchSandboxConfig env cfg (ss_SandboxID (se_Spec session));
     case c of
       Inl e \<Rightarrow> State_Monad.return (Inl e)
     | Inr None \<Rightarrow> write_status env (config_missing session) requeue
     | Inr (Some sb) \<Rightarrow> do {
         a \<leftarrow> assignController env cfg;
         case a of
           Inl e \<Rightarrow> State_Monad.return (Inr (requeue_after (seconds 5)))
         | Inr (podName, address) \<Rightarrow> do {
             now \<leftarrow> time_Now env;
             write_status env (assigned cfg podName address now sb session) requeue
           }
       }
   }"

definition reconcilePending ::
  "kube_env \<Rightarrow> ReconcilerConfig \<Rightarrow> Session \<Rightarrow> reconciled op" where
  "reconcilePending env cfg session =
     (if \<not> ContainsFinalizer (se_Meta session) FinalizerSessionCleanup
      then do {
        u \<leftarrow> update_session env
               (session\<lparr>se_Meta := AddFinalizer FinalizerSessionCleanup (se_Meta session)\<rparr>);
        case u of
          Inl e \<Rightarrow> State_Monad.return (Inl e)
        | Inr session \<Rightarrow> pending_assign env cfg session
      }
      else pending_assign env cfg session)"

definition create_request :: "Session \<Rightarrow> Sandbox \<Rightarrow> CreateSandboxReq" where
  "create_request session sb =
     \<lparr>cq_SandboxID = ss_SessionID (se_Spec session), cq_Env = bs_Env (bx_Spec sb),
      cq_AllowedBinaries = bs_AllowedBinaries (bx_Spec sb), cq_VM = bs_VM (bx_Spec sb),
      cq_Network = bs_Network (bx_Spec sb), cq_Volumes = bs_Volumes (bx_Spec sb),
      cq_Patches = bs_Patches (bx_Spec sb), cq_TTLSeconds = bs_TTLSeconds (bx_Spec sb),
      cq_SetupScript = bs_SetupScript (bx_Spec sb), cq_TeardownScript = bs_TeardownScript (bx_Spec sb),
      cq_ScriptEnv = bs_ScriptEnv (bx_Spec sb)\<rparr>"

text \<open>The status written when the controller cannot be reached or does not know the API.\<close>

definition back_to_pending :: "go_error \<Rightarrow> Session \<Rightarrow> Session" where
  "back_to_pending err session = session\<lparr>se_Status := (se_Status session)
     \<lparr>st_Phase := SandboxPhasePending, st_ControllerPod := [], st_ControllerAddress := [],
      st_Message := ''controller unreachable: '' @ err_msg err\<rparr>\<rparr>"

definition now_running :: "Session \<Rightarrow> Session" where
  "now_running session = session\<lparr>se_Status := (se_Status session)
     \<lparr>st_Phase := SandboxPhaseRunning, st_Message := []\<rparr>\<rparr>"

definition reconcileCreating ::
  "kube_env \<Rightarrow> ReconcilerConfig \<Rightarrow> Session \<Rightarrow> reconciled op" where
  "reconcileCreating env cfg session = do {
     c \<leftarrow> fetchSandboxConfig env cfg (ss_SandboxID (se_Spec session));
     case c of
       Inl e \<Rightarrow> State_Monad.return (Inl e)
     | Inr None \<Rightarrow> write_status env (config_missing session) requeue
     | Inr (Some sb) \<Rightarrow> do {
         err \<leftarrow> ctl_CreateSandbox env (rcf_Client cfg) (sessionControllerURL cfg session)
                  (create_request session sb);
         case err of
           Some e \<Rightarrow>
             if IsStaleRouteError err
             then write_status env (back_to_pending e session) (requeue_after (seconds 2))
             else State_Monad.return (Inr (requeue_after (seconds 5)))
         | None \<Rightarrow> do {
             u \<leftarrow> update_session_status env (now_running session);
             case u of
               Inl e \<Rightarrow> State_Monad.return (Inl e)
             | Inr session \<Rightarrow>
                 (case st_ExpiresAt (se_Status session) of
                    Some t \<Rightarrow> do {
                      now \<leftarrow> time_Now env;
                      State_Monad.return (Inr (requeue_after (time_Sub t now)))
                    }
                  | None \<Rightarrow> State_Monad.return (Inr done_result))
           }
       }
   }"

text \<open>
  The expiry that counts, and the session after a sliding extension has been written:
  \<open>Inl\<close> is the error of the write.
\<close>

definition slide_expiry ::
  "kube_env \<Rightarrow> ReconcilerConfig \<Rightarrow> Session \<Rightarrow> time \<Rightarrow> (go_error + Session \<times> time) op" where
  "slide_expiry env cfg session expiry =
     (case st_LastExecAt (se_Status session) of
        None \<Rightarrow> State_Monad.return (Inr (session, expiry))
      | Some lastExec \<Rightarrow> do {
          c \<leftarrow> fetchSandboxConfig env cfg (ss_SandboxID (se_Spec session));
          case c of
            Inr (Some sb) \<Rightarrow>
              (let slidingExpiry = lastExec + seconds (bs_TTLSeconds (bx_Spec sb)) in
               if bs_TTLSeconds (bx_Spec sb) > 0 \<and> slidingExpiry > expiry
               then do {
                 u \<leftarrow> update_session_status env
                        (session\<lparr>se_Status := (se_Status session)\<lparr>st_ExpiresAt := Some slidingExpiry\<rparr>\<rparr>);
                 State_Monad.return (case u of Inl e \<Rightarrow> Inl e | Inr s \<Rightarrow> Inr (s, slidingExpiry))
               }
               else State_Monad.return (Inr (session, expiry)))
          | _ \<Rightarrow> State_Monad.return (Inr (session, expiry))
        })"

definition check_expiry :: "kube_env \<Rightarrow> time \<Rightarrow> Session \<Rightarrow> time \<Rightarrow> reconciled op" where
  "check_expiry env now session expiry =
     (if now > expiry
      then write_status env (set_phase SandboxPhaseDeleting session) requeue
      else do {
        now \<leftarrow> time_Now env;
        State_Monad.return (Inr (requeue_after (time_Sub expiry now)))
      })"

definition reconcileRunning ::
  "kube_env \<Rightarrow> ReconcilerConfig \<Rightarrow> Session \<Rightarrow> reconciled op" where
  "reconcileRunning env cfg session = do {
     now \<leftarrow> time_Now env;
     case st_ExpiresAt (se_Status session) of
       None \<Rightarrow> State_Monad.return (Inr (requeue_after (5 * minute)))
     | Some expiry \<Rightarrow> do {
         x \<leftarrow> slide_expiry env cfg session expiry;
         case x of
           Inl e \<Rightarrow> State_Monad.return (Inl e)
         | Inr (session, expiry) \<Rightarrow> check_expiry env now session expiry
       }
   }"

definition now_terminated :: "time \<Rightarrow> Session \<Rightarrow> Session" where
  "now_terminated now session = session\<lparr>se_Status := (se_Status session)
     \<lparr>st_Phase := SandboxPhaseTerminated, st_TerminatedAt := Some now, st_Message := []\<rparr>\<rparr>"

definition reconcileDeleting ::
  "kube_env \<Rightarrow> ReconcilerConfig \<Rightarrow> Session \<Rightarrow> reconciled op" where
  "reconcileDeleting env cfg session = do {
     err \<leftarrow> (if st_ControllerAddress (se_Status session) \<noteq> []
            then ctl_DeleteSandbox env (rcf_Client cfg) (sessionControllerURL cfg session)
                   \<lparr>dq_SandboxID = ss_SessionID (se_Spec session)\<rparr>
            else State_Monad.return None);
     if err \<noteq> None \<and> \<not> IsStaleRouteError err
     then State_Monad.return (Inr (requeue_after (seconds 5)))
     else do {
       now \<leftarrow> time_Now env;
       write_status env (now_terminated now session)
         (let retention = seconds (rcf_TerminatedRetentionSec cfg)
          in if retention \<le> 0 then requeue else requeue_after retention)
     }
   }"

definition retained :: "Session \<Rightarrow> bool" where
  "retained session \<longleftrightarrow> map_of (om_Annotations (se_Meta session)) ''boxy.dev/retain'' = Some ''true''"

definition delete_terminated :: "kube_env \<Rightarrow> Session \<Rightarrow> reconciled op" where
  "delete_terminated env session = do {
     d \<leftarrow> delete_session env session;
     State_Monad.return
       (case d of
          Some e \<Rightarrow> if IsNotFound e then Inr done_result else Inl e
        | None \<Rightarrow> Inr done_result)
   }"

definition reconcileTerminated ::
  "kube_env \<Rightarrow> ReconcilerConfig \<Rightarrow> Session \<Rightarrow> reconciled op" where
  "reconcileTerminated env cfg session =
     (if retained session then State_Monad.return (Inr done_result)
      else
        let retention = seconds (rcf_TerminatedRetentionSec cfg) in
        (case st_TerminatedAt (se_Status session) of
           Some t \<Rightarrow>
             if retention > 0 then do {
               now \<leftarrow> time_Now env;
               let elapsed = time_Sub now t;
               if elapsed < retention
               then State_Monad.return (Inr (requeue_after (dur_add retention (- elapsed))))
               else delete_terminated env session
             }
             else delete_terminated env session
         | None \<Rightarrow> delete_terminated env session))"

definition reconcile_session :: "kube_env \<Rightarrow> ReconcilerConfig \<Rightarrow> Session \<Rightarrow> reconciled op" where
  "reconcile_session env cfg session =
     (if om_DeletionTimestamp (se_Meta session) \<noteq> None then handleDeletion env cfg session
      else if phase session = [] \<or> phase session = SandboxPhasePending
      then reconcilePending env cfg session
      else if phase session = SandboxPhaseCreating then reconcileCreating env cfg session
      else if phase session = SandboxPhaseRunning then reconcileRunning env cfg session
      else if phase session = SandboxPhaseDeleting then reconcileDeleting env cfg session
      else if phase session = SandboxPhaseTerminated then reconcileTerminated env cfg session
      else State_Monad.return (Inr done_result))"

definition Reconcile :: "kube_env \<Rightarrow> ReconcilerConfig \<Rightarrow> bytes \<Rightarrow> bytes \<Rightarrow> reconciled op" where
  "Reconcile env cfg ns name = do {
     r \<leftarrow> get_session env ns name;
     case r of
       Inl e \<Rightarrow> State_Monad.return (if IsNotFound e then Inr done_result else Inl e)
     | Inr session \<Rightarrow> reconcile_session env cfg session
   }"

end
