(* ===== verification/Operator_Pool.thy ===== *)
theory Operator_Pool
  imports Operator
begin

text \<open>
  The rest of the operator: scaling the controllers down, the reconciler of controller pools
  and the reconciler of sandbox configurations.
\<close>

section \<open>Scaling down\<close>

text \<open>
  The order of \<open>sort.Slice\<close>, by descending name; names of pods are distinct in a namespace, so
  the order is determined.  Go compares strings bytewise.
\<close>

definition by_name_descending :: "Pod list \<Rightarrow> Pod list" where
  "by_name_descending pods = rev (sort_key (\<lambda>p. om_Name (po_Meta p)) pods)"

text \<open>The loop over the sorted pods; \<open>sts\<close> is refreshed by every update.\<close>

fun scale_down_loop ::
  "kube_env \<Rightarrow> ReconcilerConfig \<Rightarrow> (bytes \<times> int) list \<Rightarrow> Pod list \<Rightarrow> StatefulSet \<Rightarrow> int \<Rightarrow> go_error option op"
where
  "scale_down_loop env cfg counts [] sts current = State_Monad.return None"
| "scale_down_loop env cfg counts (p # pods) sts current =
     (if current \<le> rcf_MinControllerReplicas cfg then State_Monad.return None
      else if map_count counts (om_Name (po_Meta p)) > 0
      then scale_down_loop env cfg counts pods sts current
      else do {
        now \<leftarrow> time_Now env;
        if om_CreationTimestamp (po_Meta p) + rcf_ScaleDownCooldown cfg > now
        then scale_down_loop env cfg counts pods sts current
        else do {
          let desired = current - 1;
          u \<leftarrow> update_sts env (sts\<lparr>sts_Replicas := Some desired\<rparr>);
          case u of
            Inl e \<Rightarrow> State_Monad.return (Some (wrap_err ''scale down: '' e []))
          | Inr sts \<Rightarrow> do {
              _ \<leftarrow> ScaledDown;
              scale_down_loop env cfg counts pods sts desired
            }
        }
      })"

definition tryScaleDown :: "kube_env \<Rightarrow> ReconcilerConfig \<Rightarrow> go_error option op" where
  "tryScaleDown env cfg = do {
     r \<leftarrow> get_sts env (rcf_Namespace cfg) (rcf_StatefulSetName cfg);
     case r of
       Inl e \<Rightarrow> State_Monad.return (Some (wrap_err ''get statefulset: '' e []))
     | Inr sts \<Rightarrow>
         if current_replicas sts \<le> rcf_MinControllerReplicas cfg then State_Monad.return None
         else do {
           ps \<leftarrow> list_pods env (rcf_Namespace cfg);
           case ps of
             Inl e \<Rightarrow> State_Monad.return (Some (wrap_err ''list controller pods: '' e []))
           | Inr pods \<Rightarrow> do {
               ss \<leftarrow> list_sessions env (rcf_Namespace cfg) [];
               case ss of
                 Inl e \<Rightarrow> State_Monad.return (Some (wrap_err ''list sessions: '' e []))
               | Inr sessions \<Rightarrow>
                   scale_down_loop env cfg (podCounts sessions) (by_name_descending pods) sts
                     (current_replicas sts)
             }
         }
   }"

text \<open>The loop that runs until the context is done: \<open>n\<close> ticks of the ticker come before that.\<close>

fun RunScaleDownLoop :: "kube_env \<Rightarrow> ReconcilerConfig \<Rightarrow> nat \<Rightarrow> unit op" where
  "RunScaleDownLoop env cfg 0 = State_Monad.return ()"
| "RunScaleDownLoop env cfg (Suc n) = do {
     _ \<leftarrow> tryScaleDown env cfg;
     RunScaleDownLoop env cfg n
   }"

section \<open>The controller pool reconciler\<close>

text \<open>The counter is an \<open>int32\<close>.\<close>

definition active_phase :: "Session \<Rightarrow> bool" where
  "active_phase s \<longleftrightarrow>
     phase s = SandboxPhasePending \<or> phase s = SandboxPhaseCreating \<or> phase s = SandboxPhaseRunning"

definition countActiveSessions :: "kube_env \<Rightarrow> ReconcilerConfig \<Rightarrow> (go_error + int) op" where
  "countActiveSessions env cfg = do {
     r \<leftarrow> list_sessions env (rcf_Namespace cfg) [];
     State_Monad.return
       (case r of
          Inl e \<Rightarrow> Inl (wrap_err ''list sessions: '' e [])
        | Inr items \<Rightarrow>
            Inr (fold (\<lambda>s n. if active_phase s then signed_take_bit 31 (n + 1) else n) items 0))
   }"

definition readyReplicas :: "kube_env \<Rightarrow> ReconcilerConfig \<Rightarrow> (go_error + int) op" where
  "readyReplicas env cfg = do {
     r \<leftarrow> get_sts env (rcf_Namespace cfg) (rcf_StatefulSetName cfg);
     State_Monad.return
       (case r of
          Inl e \<Rightarrow> if IsNotFound e then Inr 0 else Inl (wrap_err ''get statefulset: '' e [])
        | Inr sts \<Rightarrow> Inr (sts_ReadyReplicas sts))
   }"

abbreviation conditionReady :: bytes where "conditionReady \<equiv> ''Ready''"

text \<open>The loop that overwrites the first condition of the type, keeping its time if its status stays.\<close>

fun put_condition :: "Condition \<Rightarrow> Condition list \<Rightarrow> Condition list" where
  "put_condition updated [] = [updated]"
| "put_condition updated (c # cs) =
     (if cd_Type c = conditionReady
      then (if cd_Status c = cd_Status updated
            then updated\<lparr>cd_LastTransitionTime := cd_LastTransitionTime c\<rparr>
            else updated) # cs
      else c # put_condition updated cs)"

definition ready_condition :: "int \<Rightarrow> int \<Rightarrow> time \<Rightarrow> Condition" where
  "ready_condition minReplicas ready now =
     (if ready < minReplicas
      then \<lparr>cd_Type = conditionReady, cd_Status = ''False'', cd_Reason = ''InsufficientReplicas'',
            cd_Message = ''need '' @ fmt_int minReplicas @ '' ready replicas, have '' @ fmt_int ready,
            cd_LastTransitionTime = now\<rparr>
      else \<lparr>cd_Type = conditionReady, cd_Status = ''True'', cd_Reason = ''PoolReady'',
            cd_Message = fmt_int ready @ ''/'' @ fmt_int minReplicas @ '' replicas ready'',
            cd_LastTransitionTime = now\<rparr>)"

definition setReadyCondition :: "kube_env \<Rightarrow> ControllerPool \<Rightarrow> int \<Rightarrow> ControllerPool op" where
  "setReadyCondition env pool ready = do {
     let minReplicas = (if ps_MinReplicas (cp_Spec pool) \<le> 0 then 1 else ps_MinReplicas (cp_Spec pool));
     now \<leftarrow> time_Now env;
     State_Monad.return (pool\<lparr>cp_Status := (cp_Status pool)\<lparr>pt_Conditions :=
       put_condition (ready_condition minReplicas ready now) (pt_Conditions (cp_Status pool))\<rparr>\<rparr>)
   }"

definition pool_Reconcile :: "kube_env \<Rightarrow> ReconcilerConfig \<Rightarrow> bytes \<Rightarrow> bytes \<Rightarrow> reconciled op" where
  "pool_Reconcile env cfg ns name = do {
     r \<leftarrow> k_call (\<lambda>t. k_GetPool env t ns name) (GetPool ns name);
     case r of
       Inl e \<Rightarrow> State_Monad.return (if IsNotFound e then Inr done_result else Inl e)
     | Inr pool \<Rightarrow> do {
         a \<leftarrow> countActiveSessions env cfg;
         case a of
           Inl e \<Rightarrow> State_Monad.return (Inl e)
         | Inr active \<Rightarrow> do {
             rr \<leftarrow> readyReplicas env cfg;
             case rr of
               Inl e \<Rightarrow> State_Monad.return (Inl e)
             | Inr ready \<Rightarrow> do {
                 let pool = pool\<lparr>cp_Status := (cp_Status pool)
                   \<lparr>pt_ActiveSandboxCount := active, pt_ReadyReplicas := ready\<rparr>\<rparr>;
                 _ \<leftarrow> SetPoolState ready active;
                 pool \<leftarrow> setReadyCondition env pool ready;
                 u \<leftarrow> k_call (\<lambda>t. k_UpdatePoolStatus env t pool) (UpdatePoolStatus pool);
                 State_Monad.return (case u of Inl e \<Rightarrow> Inl e | Inr _ \<Rightarrow> Inr done_result)
               }
           }
       }
   }"

definition sessionToPool :: "kube_env \<Rightarrow> ReconcilerConfig \<Rightarrow> (bytes \<times> bytes) list op" where
  "sessionToPool env cfg = do {
     r \<leftarrow> k_call (\<lambda>t. k_ListPools env t (rcf_Namespace cfg)) (ListPools (rcf_Namespace cfg));
     State_Monad.return
       (case r of
          Inl e \<Rightarrow> []
        | Inr pools \<Rightarrow> map (\<lambda>p. (om_Namespace (cp_Meta p), om_Name (cp_Meta p))) pools)
   }"

section \<open>The sandbox configuration reconciler\<close>

definition update_sandbox :: "kube_env \<Rightarrow> Sandbox \<Rightarrow> ('z, go_error + Sandbox) kube" where
  "update_sandbox env sb = k_call (\<lambda>t. k_UpdateSandbox env t sb) (UpdateSandbox sb)"

text \<open>The loop over the sessions: the number of active ones, each moved to Deleting.\<close>

fun evict_sessions :: "kube_env \<Rightarrow> Session list \<Rightarrow> nat op" where
  "evict_sessions env [] = State_Monad.return 0"
| "evict_sessions env (sess # items) =
     (if phase sess = SandboxPhaseTerminated \<or> om_DeletionTimestamp (se_Meta sess) \<noteq> None
      then evict_sessions env items
      else do {
        _ \<leftarrow> (if phase sess \<noteq> SandboxPhaseDeleting
             then do {
               _ \<leftarrow> patch_session_status env sess (set_phase SandboxPhaseDeleting sess);
               State_Monad.return ()
             }
             else State_Monad.return ());
        n \<leftarrow> evict_sessions env items;
        State_Monad.return (Suc n)
      })"

definition sandbox_handleDeletion ::
  "kube_env \<Rightarrow> ReconcilerConfig \<Rightarrow> Sandbox \<Rightarrow> reconciled op" where
  "sandbox_handleDeletion env cfg sb = do {
     r \<leftarrow> list_sessions env (rcf_Namespace cfg) [(LabelSandboxID, bs_SandboxID (bx_Spec sb))];
     case r of
       Inl e \<Rightarrow> State_Monad.return (Inl e)
     | Inr items \<Rightarrow> do {
         active \<leftarrow> evict_sessions env items;
         if active > 0 then State_Monad.return (Inr (requeue_after (seconds 5)))
         else do {
           u \<leftarrow> update_sandbox env
                  (sb\<lparr>bx_Meta := RemoveFinalizer FinalizerSandboxConfigCleanup (bx_Meta sb)\<rparr>);
           State_Monad.return (case u of Inl e \<Rightarrow> Inl e | Inr _ \<Rightarrow> Inr done_result)
         }
       }
   }"

definition sandbox_Reconcile :: "kube_env \<Rightarrow> ReconcilerConfig \<Rightarrow> bytes \<Rightarrow> bytes \<Rightarrow> reconciled op" where
  "sandbox_Reconcile env cfg ns name = do {
     r \<leftarrow> k_call (\<lambda>t. k_GetSandbox env t ns name) (GetSandbox ns name);
     case r of
       Inl e \<Rightarrow> State_Monad.return (if IsNotFound e then Inr done_result else Inl e)
     | Inr sb \<Rightarrow>
         if \<not> ContainsFinalizer (bx_Meta sb) FinalizerSandboxConfigCleanup
         then do {
           u \<leftarrow> update_sandbox env
                  (sb\<lparr>bx_Meta := AddFinalizer FinalizerSandboxConfigCleanup (bx_Meta sb)\<rparr>);
           State_Monad.return (case u of Inl e \<Rightarrow> Inl e | Inr _ \<Rightarrow> Inr done_result)
         }
         else if om_DeletionTimestamp (bx_Meta sb) = None then State_Monad.return (Inr done_result)
         else sandbox_handleDeletion env cfg sb
   }"

end
