(* ===== verification/Operator_Props.thy ===== *)
theory Operator_Props
  imports Operator_Pool "HOL-Library.Multiset"
begin

text \<open>
  Properties of the operator: which controller a session is assigned to, how the number of
  controllers changes, the life of a session from phase to phase, and what has to happen
  before a finalizer is removed.
\<close>

lemma emits_on_metrics [emits_intros]: "P [] () \<Longrightarrow> emits w_trace P (on_metrics f)"
  by (rule emitsI) (simp add: on_metrics_def State_Monad.update_def)

section \<open>The number of sessions of a controller\<close>

definition counted :: "Session \<Rightarrow> bool" where
  "counted s \<longleftrightarrow> phase s \<noteq> SandboxPhaseTerminated \<and> phase s \<noteq> SandboxPhaseDeleting"

definition load :: "Session list \<Rightarrow> bytes \<Rightarrow> int" where
  "load sessions pod = int (length (filter
     (\<lambda>s. counted s \<and> st_ControllerPod (se_Status s) \<noteq> [] \<and> st_ControllerPod (se_Status s) = pod) sessions))"

lemma map_count_update [simp]:
  "map_count (AList.update k v m) k' = (if k' = k then v else map_count m k')"
  by (simp add: map_count_def update_conv')

lemma fold_count_session:
  "map_count (fold count_session ss m) pod = map_count m pod + load ss pod"
  by (induction ss arbitrary: m) (auto simp: count_session_def load_def counted_def)

lemma podCounts_load: "map_count (podCounts ss) pod = load ss pod"
  by (simp add: podCounts_def fold_count_session) (simp add: map_count_def)

section \<open>The best pod\<close>

definition remaining :: "ReconcilerConfig \<Rightarrow> Session list \<Rightarrow> Pod \<Rightarrow> int" where
  "remaining cfg sessions p =
     rcf_MaxSandboxesPerCtrl cfg - map_count (podCounts sessions) (om_Name (po_Meta p))"

definition eligible :: "ReconcilerConfig \<Rightarrow> Session list \<Rightarrow> Pod \<Rightarrow> bool" where
  "eligible cfg sessions p \<longleftrightarrow>
     om_DeletionTimestamp (po_Meta p) = None \<and> podRunningReady p \<and> remaining cfg sessions p > 0"

definition choice :: "ReconcilerConfig \<Rightarrow> Session list \<Rightarrow> Pod \<Rightarrow> bytes \<times> bytes \<times> int" where
  "choice cfg sessions p = (om_Name (po_Meta p), pod_address cfg p, remaining cfg sessions p)"

text \<open>The specification: the first of the eligible pods with the least room left.\<close>

definition best_fit :: "ReconcilerConfig \<Rightarrow> Session list \<Rightarrow> Pod list \<Rightarrow> Pod option" where
  "best_fit cfg sessions pods =
     (case filter (eligible cfg sessions) pods of
        [] \<Rightarrow> None
      | p # ps \<Rightarrow> Some (arg_min_list (remaining cfg sessions) (p # ps)))"

lemma consider_pod_choice:
  assumes "best = choice cfg ss b" and "remaining cfg ss b > 0"
  shows "consider_pod cfg (podCounts ss) p best =
    choice cfg ss (if eligible cfg ss p \<and> remaining cfg ss p < remaining cfg ss b then p else b)"
  using assms by (auto simp: consider_pod_def choice_def eligible_def remaining_def Let_def)

lemma consider_pod_none:
  "consider_pod cfg (podCounts ss) p ([], [], -1) =
     (if eligible cfg ss p then choice cfg ss p else ([], [], -1))"
  by (auto simp: consider_pod_def choice_def eligible_def remaining_def Let_def)

lemma arg_min_list_Cons2:
  "arg_min_list f (x # y # zs) = arg_min_list f ((if f y < f x then y else x) # zs)"
  for f :: "'a \<Rightarrow> int"
  by (cases zs) (auto simp: Let_def)

lemma fold_consider_choice:
  assumes "remaining cfg ss b > 0"
  shows "fold (consider_pod cfg (podCounts ss)) pods (choice cfg ss b) =
    choice cfg ss (arg_min_list (remaining cfg ss) (b # filter (eligible cfg ss) pods))"
  using assms
proof (induction pods arbitrary: b)
  case (Cons p pods)
  let ?b = "if eligible cfg ss p \<and> remaining cfg ss p < remaining cfg ss b then p else b"
  have "remaining cfg ss ?b > 0" using Cons.prems by (simp add: eligible_def)
  from Cons.IH [OF this] show ?case
    by (simp add: consider_pod_choice [OF refl Cons.prems] arg_min_list_Cons2 del: arg_min_list.simps)
qed simp

lemma best_pod_choice:
  "best_pod cfg sessions pods =
     (case best_fit cfg sessions pods of
        None \<Rightarrow> ([], [], -1)
      | Some p \<Rightarrow> choice cfg sessions p)"
    unfolding best_pod_def
proof (induction pods)
  case Nil
  show ?case by (simp add: best_fit_def)
next
  case (Cons p pods)
  show ?case
  proof (cases "eligible cfg sessions p")
    case True
    then have "remaining cfg sessions p > 0" by (simp add: eligible_def)
    with True show ?thesis
      by (simp add: consider_pod_none fold_consider_choice best_fit_def)
  next
    case False
    with Cons show ?thesis by (simp add: consider_pod_none best_fit_def)
  qed
qed


section \<open>The load of the controllers\<close>

text \<open>
  The sessions of the namespace under the changes the operator and the router make to them,
  one at a time and on an up-to-date list: a session is created without a controller,
  assigned to the best pod, moved on to the next phase, or removed.
\<close>

inductive cluster_step :: "ReconcilerConfig \<Rightarrow> Session list \<Rightarrow> Session list \<Rightarrow> bool" for cfg where
  created: "st_ControllerPod (se_Status s) = [] \<Longrightarrow> cluster_step cfg xs (xs @ [s])"
| assign: "\<lbrakk>i < length xs; best_pod cfg xs pods = (pod, addr, r); pod \<noteq> []\<rbrakk> \<Longrightarrow>
    cluster_step cfg xs (xs[i := assigned cfg pod addr now sb (xs ! i)])"
| missing: "i < length xs \<Longrightarrow> cluster_step cfg xs (xs[i := config_missing (xs ! i)])"
| unreachable: "i < length xs \<Longrightarrow> cluster_step cfg xs (xs[i := back_to_pending e (xs ! i)])"
| running: "\<lbrakk>i < length xs; phase (xs ! i) = SandboxPhaseCreating\<rbrakk> \<Longrightarrow>
    cluster_step cfg xs (xs[i := now_running (xs ! i)])"
| expired: "i < length xs \<Longrightarrow> cluster_step cfg xs (xs[i := set_phase SandboxPhaseDeleting (xs ! i)])"
| terminated: "i < length xs \<Longrightarrow> cluster_step cfg xs (xs[i := now_terminated now (xs ! i)])"
| removed: "cluster_step cfg (xs @ s # ys) (xs @ ys)"

lemma length_filter_update:
  assumes "i < length xs"
  shows "length (filter P (xs[i := y])) + (if P (xs ! i) then 1 else 0) =
    length (filter P xs) + (if P y then 1 else 0)"
proof -
  have "length (filter P xs) = length (filter P (take i xs @ xs ! i # drop (Suc i) xs))"
    using id_take_nth_drop [OF assms] by simp
  then show ?thesis using assms by (simp add: upd_conv_take_nth_drop)
qed

definition on_pod :: "bytes \<Rightarrow> Session \<Rightarrow> bool" where
  "on_pod pod s \<longleftrightarrow> counted s \<and> st_ControllerPod (se_Status s) \<noteq> [] \<and> st_ControllerPod (se_Status s) = pod"

lemma load_on_pod: "load xs pod = int (length (filter (on_pod pod) xs))"
  by (simp add: load_def on_pod_def [abs_def])

lemma load_update_le:
  assumes "i < length xs" and "on_pod pod y \<Longrightarrow> on_pod pod (xs ! i)"
  shows "load (xs[i := y]) pod \<le> load xs pod"
  using length_filter_update [OF assms(1), of "on_pod pod" y] assms(2)
  by (auto simp: load_on_pod split: if_splits)

lemma load_update_bound:
  "\<lbrakk>i < length xs; on_pod pod y \<Longrightarrow> on_pod pod (xs ! i); load xs pod \<le> n\<rbrakk> \<Longrightarrow> load (xs[i := y]) pod \<le> n"
  using load_update_le order_trans by blast

lemma load_update_Suc: "i < length xs \<Longrightarrow> load (xs[i := y]) pod \<le> load xs pod + 1"
  using length_filter_update [of i xs "on_pod pod" y] by (auto simp: load_on_pod split: if_splits)

lemma best_fit_eligible:
  assumes "best_fit cfg xs pods = Some p"
  shows "p \<in> set pods \<and> eligible cfg xs p"
proof -
  have "p \<in> set (filter (eligible cfg xs) pods)"
    using assms arg_min_list_in [of "filter (eligible cfg xs) pods" "remaining cfg xs"]
    unfolding best_fit_def
    by (simp del: arg_min_list.simps set_filter split: list.splits)
  then show ?thesis by simp
qed

lemma best_pod_room:
  assumes "best_pod cfg xs pods = (pod, addr, r)" and "pod \<noteq> []"
  shows "load xs pod < rcf_MaxSandboxesPerCtrl cfg"
proof -
  from assms obtain p where p: "best_fit cfg xs pods = Some p" "choice cfg xs p = (pod, addr, r)"
    using best_pod_choice [of cfg xs pods] by (auto split: option.splits)
  with best_fit_eligible [OF p(1)] show ?thesis
    by (simp add: eligible_def choice_def remaining_def podCounts_load)
qed

inductive cluster_reachable :: "ReconcilerConfig \<Rightarrow> Session list \<Rightarrow> bool" for cfg where
  empty: "cluster_reachable cfg []"
| step: "cluster_reachable cfg xs \<Longrightarrow> cluster_step cfg xs ys \<Longrightarrow> cluster_reachable cfg ys"

lemma cluster_step_load:
  assumes "cluster_step cfg xs ys" and "\<And>pod. load xs pod \<le> max 0 (rcf_MaxSandboxesPerCtrl cfg)"
  shows "load ys pod \<le> max 0 (rcf_MaxSandboxesPerCtrl cfg)"
  using assms(1)
proof cases
  case (created s)
  then show ?thesis using assms(2) [of pod] by (simp add: load_on_pod on_pod_def)
next
  case (assign i pods p addr r now sb)
  have "load xs p < rcf_MaxSandboxesPerCtrl cfg" by (rule best_pod_room [OF assign(3,4)])
  moreover have "load ys pod \<le> load xs pod" if "pod \<noteq> p"
    unfolding assign(1) using that by (intro load_update_le [OF assign(2)]) (simp add: on_pod_def assigned_def)
  ultimately show ?thesis
    using load_update_Suc [OF assign(2), of "assigned cfg p addr now sb (xs ! i)" pod] assms(2) [of pod] assign(1)
    by (cases "pod = p") auto
next
  case (missing i)
  then show ?thesis
    by (auto intro!: load_update_bound assms(2) simp: on_pod_def config_missing_def counted_def)
next
  case (unreachable i e)
  then show ?thesis by (auto intro!: load_update_bound assms(2) simp: on_pod_def back_to_pending_def)
next
  case (running i)
  then show ?thesis
    by (auto intro!: load_update_bound assms(2) simp: on_pod_def now_running_def counted_def)
next
  case (expired i)
  then show ?thesis by (auto intro!: load_update_bound assms(2) simp: on_pod_def set_phase_def counted_def)
next
  case (terminated i now)
  then show ?thesis
    by (auto intro!: load_update_bound assms(2) simp: on_pod_def now_terminated_def counted_def)
next
  case (removed xs' s ys')
  then have "load ys pod \<le> load xs pod" by (simp add: load_on_pod)
  with assms(2) [of pod] show ?thesis by simp
qed


definition demo_meta :: "bytes \<Rightarrow> ObjectMeta" where
  "demo_meta n = \<lparr>om_Name = n, om_Namespace = ''boxy'', om_Labels = [], om_Annotations = [],
     om_Finalizers = [FinalizerSessionCleanup], om_DeletionTimestamp = None, om_CreationTimestamp = 0\<rparr>"

definition demo_status :: SessionStatus where
  "demo_status = \<lparr>st_Phase = [], st_ControllerPool = [], st_ControllerPod = [], st_ControllerAddress = [],
     st_Port = 0, st_CreatedAt = None, st_ExpiresAt = None, st_LastExecAt = None,
     st_TerminatedAt = None, st_Message = []\<rparr>"

definition demo_session :: "bytes \<Rightarrow> Session" where
  "demo_session n = \<lparr>se_Meta = demo_meta n,
     se_Spec = \<lparr>ss_SessionID = n, ss_SandboxID = ''py'', ss_Owner = []\<rparr>, se_Status = demo_status\<rparr>"

definition demo_sandbox :: Sandbox where
  "demo_sandbox = \<lparr>bx_Meta = demo_meta ''py'', bx_Spec = \<lparr>bs_SandboxID = ''py'', bs_TTLSeconds = 60,
     bs_Env = [], bs_AllowedBinaries = [], bs_VM = None, bs_Network = None, bs_Volumes = [],
     bs_Patches = [], bs_SetupScript = [], bs_TeardownScript = [], bs_ScriptEnv = []\<rparr>\<rparr>"

definition demo_pod :: "bytes \<Rightarrow> Pod" where
  "demo_pod n = \<lparr>po_Meta = demo_meta n, po_Phase = ''Running'', po_Conditions = [(''Ready'', ''True'')]\<rparr>"

definition demo_rcf :: ReconcilerConfig where
  "demo_rcf = \<lparr>rcf_Namespace = ''boxy'', rcf_StatefulSetName = ''ctl'', rcf_HeadlessServiceName = ''ctl'',
     rcf_ControllerPoolName = ''pool'', rcf_ControllerPort = 8080, rcf_MaxSandboxesPerCtrl = 1,
     rcf_MaxControllerReplicas = 3, rcf_MinControllerReplicas = 1, rcf_TerminatedRetentionSec = 3600,
     rcf_ScaleDownCooldown = 5 * minute, rcf_MTLSDisabled = True,
     rcf_Client = \<lparr>cl_MTLSDisabled = True, cl_CACertPath = [], cl_ClientCert = [], cl_ClientKey = [],
       cl_ControllerToken = []\<rparr>\<rparr>"

definition demo_assigned :: "Session list" where
  "demo_assigned = [assigned demo_rcf ''ctl-0'' ''ctl-0.ctl.boxy.svc'' 0 demo_sandbox (demo_session ''a'')]"


section \<open>The life of a session\<close>

text \<open>The abstract machine: how the phase of a session may change.\<close>

inductive phase_step :: "bytes \<Rightarrow> bytes \<Rightarrow> bool" where
  assigned: "p \<in> {[], SandboxPhasePending} \<Longrightarrow> phase_step p SandboxPhaseCreating"
| config_gone: "p \<in> {[], SandboxPhasePending, SandboxPhaseCreating} \<Longrightarrow> phase_step p SandboxPhaseDeleting"
| unreachable: "phase_step SandboxPhaseCreating SandboxPhasePending"
| created: "phase_step SandboxPhaseCreating SandboxPhaseRunning"
| extended: "phase_step SandboxPhaseRunning SandboxPhaseRunning"
| expired: "phase_step SandboxPhaseRunning SandboxPhaseDeleting"
| torn_down: "phase_step SandboxPhaseDeleting SandboxPhaseTerminated"

fun phase_path :: "bytes \<Rightarrow> bytes list \<Rightarrow> bool" where
  "phase_path p [] = True"
| "phase_path p (q # qs) \<longleftrightarrow> phase_step p q \<and> phase_path q qs"

text \<open>The phases that a run writes into the status of the session, in order.\<close>

definition written :: "ktrace \<Rightarrow> bytes list" where
  "written es = concat (map (\<lambda>e. case e of
     UpdateSessionStatus s a \<Rightarrow> [phase s]
   | PatchSessionStatus old s a \<Rightarrow> [phase s]
   | _ \<Rightarrow> []) es)"

lemma written_phase_simps [simp]:
  "written [] = []"
  "written (e # es) = (case e of
     UpdateSessionStatus s a \<Rightarrow> [phase s]
   | PatchSessionStatus old s a \<Rightarrow> [phase s]
   | _ \<Rightarrow> []) @ written es"
  "written (es @ es') = written es @ written es'"
  by (simp_all add: written_def)

lemmas api_calls = get_session_def list_sessions_def list_sandboxes_def update_session_def
  update_session_status_def patch_session_status_def delete_session_def get_sts_def update_sts_def
  list_pods_def time_Now_def ctl_CreateSandbox_def ctl_DeleteSandbox_def

abbreviation writes :: "(bytes list \<Rightarrow> 'r \<Rightarrow> bool) \<Rightarrow> ('z, 'r) kube \<Rightarrow> bool" where
  "writes Q m \<equiv> emits w_trace (\<lambda>es r. Q (written es) r) m"

abbreviation silent :: "('z, 'r) kube \<Rightarrow> bool" where
  "silent m \<equiv> writes (\<lambda>ps _. ps = []) m"

lemma silent_bind:
  assumes "silent m" and "\<And>x. writes Q (f x)"
  shows "writes Q (State_Monad.bind m f)"
  by (rule emits_bind [OF assms(1), where Q = "\<lambda>_ _ es y. Q (written es) y"]) (use assms(2) in auto)

lemma silent_calls:
  "silent (get_session env ns name)" "silent (list_sessions env ns labels)"
  "silent (list_sandboxes env ns labels)" "silent (update_session env s)"
  "silent (delete_session env s)" "silent (get_sts env ns name)" "silent (update_sts env st)"
  "silent (list_pods env ns)" "silent (time_Now env)"
  "silent (ctl_CreateSandbox env cc url cr)" "silent (ctl_DeleteSandbox env cc url dr)"
  unfolding api_calls by (rule emits_k_call, simp)+

lemma silent_scaleUp: "silent (scaleUp env cfg)"
  unfolding scaleUp_def scaleStatefulSet_def Let_def ScaledUp_def
  by (intro silent_bind emits_intros silent_calls; simp)

lemma silent_fetchSandboxConfig: "silent (fetchSandboxConfig env cfg i)"
  unfolding fetchSandboxConfig_def by (intro silent_bind emits_intros silent_calls; simp)

lemma silent_assignController: "silent (assignController env cfg)"
  unfolding assignController_def
  by (intro silent_bind emits_intros silent_calls silent_scaleUp; simp)

lemmas silent_ops = silent_calls silent_scaleUp silent_fetchSandboxConfig silent_assignController

lemma writes_write_status: "Q [phase s] (Inr r) \<Longrightarrow> (\<And>e. Q [phase s] (Inl e)) \<Longrightarrow> writes Q (write_status env s r)"
  unfolding write_status_def update_session_status_def
  by (rule emits_call_bind, rule emits_return) (auto split: sum.split)

lemma handleDeletion_path: "silent (handleDeletion env cfg session)"
  unfolding handleDeletion_def by (intro emits_cases silent_bind emits_return silent_ops refl; simp)

lemma pending_assign_path:
  assumes "p \<in> {[], SandboxPhasePending}"
  shows "writes (\<lambda>ps _. phase_path p ps) (pending_assign env cfg session)"
  unfolding pending_assign_def using assms
  by (intro emits_cases silent_bind emits_return silent_ops writes_write_status;
      auto simp: config_missing_def assigned_def phase_step.simps)

lemma reconcilePending_path:
  assumes "p \<in> {[], SandboxPhasePending}"
  shows "writes (\<lambda>ps _. phase_path p ps) (reconcilePending env cfg session)"
  unfolding reconcilePending_def using assms
  by (intro emits_cases silent_bind emits_return silent_ops pending_assign_path; simp)

text \<open>A write of the status whose answer the run goes on with.\<close>

lemma writes_status_bind:
  assumes "\<And>u. writes (\<lambda>ps r. Q (phase s # ps) r) (f u)"
  shows "writes Q (State_Monad.bind (update_session_status env s) f)"
  unfolding update_session_status_def by (rule emits_call_bind) (use assms in simp)

lemma reconcileCreating_path:
  "writes (\<lambda>ps _. phase_path SandboxPhaseCreating ps) (reconcileCreating env cfg session)"
  unfolding reconcileCreating_def
  by (rule emits_cases writes_status_bind silent_bind emits_return silent_ops writes_write_status
      | simp add: config_missing_def back_to_pending_def now_running_def phase_step.simps)+

lemma slide_expiry_path:
  assumes "phase session = SandboxPhaseRunning"
  shows "writes (\<lambda>ps _. ps = [] \<or> ps = [SandboxPhaseRunning]) (slide_expiry env cfg session expiry)"
  unfolding slide_expiry_def Let_def
  by (rule emits_cases writes_status_bind silent_bind emits_return silent_ops
      | simp add: assms)+

lemma check_expiry_path:
  "writes (\<lambda>ps _. ps = [] \<or> ps = [SandboxPhaseDeleting]) (check_expiry env now session expiry)"
  unfolding check_expiry_def
  by (rule emits_cases silent_bind emits_return silent_ops writes_write_status | simp add: set_phase_def)+

lemma reconcileRunning_path:
  assumes "phase session = SandboxPhaseRunning"
  shows "writes (\<lambda>ps _. phase_path SandboxPhaseRunning ps) (reconcileRunning env cfg session)"
proof -
  have check: "writes (\<lambda>ps _. ps = [] \<or> ps = [SandboxPhaseDeleting])
      (case x of
         Inl e \<Rightarrow> State_Monad.return (Inl e)
       | Inr (session, expiry) \<Rightarrow> check_expiry env now session expiry)" for x now
    by (auto split: sum.split intro: emits_return check_expiry_path)
  show ?thesis
    unfolding reconcileRunning_def
    by (intro silent_bind emits_cases emits_return silent_ops emits_bind [OF slide_expiry_path [OF assms] check])
       (auto simp: phase_step.simps)
qed

lemma reconcileDeleting_path:
  "writes (\<lambda>ps _. phase_path SandboxPhaseDeleting ps) (reconcileDeleting env cfg session)"
  unfolding reconcileDeleting_def
  by (rule emits_cases silent_bind emits_return silent_ops writes_write_status refl
      | simp add: now_terminated_def phase_step.simps)+

lemma reconcileTerminated_path: "silent (reconcileTerminated env cfg session)"
  unfolding reconcileTerminated_def delete_terminated_def Let_def
  by (rule emits_cases silent_bind emits_return silent_ops refl | simp)+

lemma reconcile_session_path:
  "writes (\<lambda>ps _. if om_DeletionTimestamp (se_Meta session) \<noteq> None then ps = []
      else phase_path (phase session) ps) (reconcile_session env cfg session)"
  unfolding reconcile_session_def
  using handleDeletion_path [of env cfg session] reconcilePending_path [of "phase session" env cfg session]
    reconcileCreating_path [of env cfg session] reconcileRunning_path [of session env cfg]
    reconcileDeleting_path [of env cfg session]
    emits_mono [OF reconcileTerminated_path [of env cfg session],
      of "\<lambda>es _. phase_path SandboxPhaseTerminated (written es)"]
  by (auto intro: emits_return)

lemma Reconcile_run:
  "run_state (Reconcile env cfg ns name) s =
     (let a = k_GetSession env (w_trace s) ns name;
          s1 = s\<lparr>w_trace := w_trace s @ [GetSession ns name a]\<rparr>
      in case a of
           Inl e \<Rightarrow> ((if IsNotFound e then Inr done_result else Inl e), s1)
         | Inr session \<Rightarrow> run_state (reconcile_session env cfg session) s1)"
  by (simp add: Reconcile_def get_session_def Let_def split: sum.split)

text \<open>
  C3.  Whatever the API server and the controller answer, the phases that one reconciliation
  of a session writes are steps of the abstract machine, starting at the phase the session
  had; nothing is written for a session that is gone or is being deleted.
\<close>

theorem reconcile_refines_lifecycle:
  "case run_state (Reconcile env cfg ns name) s of (r, s') \<Rightarrow>
     \<exists>es. w_trace s' = w_trace s @ es \<and>
       (case k_GetSession env (w_trace s) ns name of
          Inl e \<Rightarrow> written es = []
        | Inr session \<Rightarrow>
            if om_DeletionTimestamp (se_Meta session) \<noteq> None then written es = []
            else phase_path (phase session) (written es))"
proof (cases "k_GetSession env (w_trace s) ns name")
  case (Inl e)
  then show ?thesis by (simp add: Reconcile_run)
next
  case (Inr session)
  let ?s1 = "s\<lparr>w_trace := w_trace s @ [GetSession ns name (Inr session)]\<rparr>"
  obtain r s' where run: "run_state (reconcile_session env cfg session) ?s1 = (r, s')" by fastforce
  from reconcile_session_path [of session env cfg] run obtain es where
    "w_trace s' = w_trace ?s1 @ es"
    "if om_DeletionTimestamp (se_Meta session) \<noteq> None then written es = []
      else phase_path (phase session) (written es)"
    by (rule emitsE)
  then show ?thesis
    by (simp add: Reconcile_run Inr run)
qed

section \<open>Finalizers\<close>

text \<open>An update that takes the finalizer off a session, so that Kubernetes removes it.\<close>

definition drops_finalizer :: "kevent \<Rightarrow> bool" where
  "drops_finalizer e \<longleftrightarrow>
     (case e of UpdateSession s a \<Rightarrow> \<not> ContainsFinalizer (se_Meta s) FinalizerSessionCleanup | _ \<Rightarrow> False)"

text \<open>
  The controller has answered that the sandbox is deleted, or it does not know it, or it
  cannot be reached.
\<close>

definition torn_down :: "ReconcilerConfig \<Rightarrow> Session \<Rightarrow> ktrace \<Rightarrow> bool" where
  "torn_down cfg session es \<longleftrightarrow>
     (\<exists>err. CtlDelete (sessionControllerURL cfg session) \<lparr>dq_SandboxID = ss_SessionID (se_Spec session)\<rparr> err \<in> set es \<and>
        (err = None \<or> IsStaleRouteError err))"

abbreviation keeps_finalizer :: "'a op \<Rightarrow> bool" where
  "keeps_finalizer m \<equiv> emits_all w_trace (\<lambda>e. \<not> drops_finalizer e) m"

lemma keeps_finalizer_calls:
  "keeps_finalizer (get_session env ns name)" "keeps_finalizer (list_sessions env ns labels)"
  "keeps_finalizer (list_sandboxes env ns labels)" "keeps_finalizer (update_session_status env s)"
  "keeps_finalizer (delete_session env s)" "keeps_finalizer (get_sts env ns name)"
  "keeps_finalizer (update_sts env st)" "keeps_finalizer (list_pods env ns)"
  "keeps_finalizer (time_Now env)" "keeps_finalizer (ctl_CreateSandbox env cc url cr)"
  "keeps_finalizer (ctl_DeleteSandbox env cc url dr)"
  "keeps_finalizer (update_session env (s\<lparr>se_Meta := AddFinalizer FinalizerSessionCleanup m\<rparr>))"
  unfolding api_calls
  by (rule emits_k_call, simp add: drops_finalizer_def ContainsFinalizer_def AddFinalizer_def)+

lemma keeps_finalizer_metrics: "keeps_finalizer (on_metrics f)"
  by (rule emits_on_metrics) simp

lemma keeps_finalizer_ops:
  "keeps_finalizer (reconcilePending env cfg session)"
  "keeps_finalizer (reconcileCreating env cfg session)"
  "keeps_finalizer (reconcileRunning env cfg session)"
  "keeps_finalizer (reconcileDeleting env cfg session)"
  "keeps_finalizer (reconcileTerminated env cfg session)"
  unfolding reconcilePending_def pending_assign_def reconcileCreating_def reconcileRunning_def
    slide_expiry_def check_expiry_def reconcileDeleting_def reconcileTerminated_def delete_terminated_def
    write_status_def fetchSandboxConfig_def assignController_def scaleUp_def scaleStatefulSet_def
    ScaledUp_def Let_def
  by (rule emits_cases emits_all_bind emits_return keeps_finalizer_calls keeps_finalizer_metrics | simp)+

text \<open>Removing the finalizer is guarded by the teardown where the session may be on a controller.\<close>

definition guarded_removal :: "ReconcilerConfig \<Rightarrow> Session \<Rightarrow> ktrace \<Rightarrow> bool" where
  "guarded_removal cfg session es \<longleftrightarrow>
     (\<forall>pre e post. es = pre @ e # post \<longrightarrow> drops_finalizer e \<longrightarrow>
        om_DeletionTimestamp (se_Meta session) \<noteq> None \<and>
        ((phase session = SandboxPhaseRunning \<or> phase session = SandboxPhaseCreating) \<and>
           st_ControllerAddress (se_Status session) \<noteq> [] \<longrightarrow> torn_down cfg session pre))"

lemma guarded_removal_none: "list_all (\<lambda>e. \<not> drops_finalizer e) es \<Longrightarrow> guarded_removal cfg session es"
  by (auto simp: guarded_removal_def)

lemma guarded_removal_Cons:
  assumes "guarded_removal cfg session es" and "\<not> drops_finalizer e"
  shows "guarded_removal cfg session (e # es)"
  unfolding guarded_removal_def
proof (intro allI impI)
  fix pre e' post
  assume 1: "e # es = pre @ e' # post" and 2: "drops_finalizer e'"
  with assms(2) obtain pre' where "pre = e # pre'" "es = pre' @ e' # post"
    by (cases pre) auto
  with assms(1) 2 show "om_DeletionTimestamp (se_Meta session) \<noteq> None \<and>
      ((phase session = SandboxPhaseRunning \<or> phase session = SandboxPhaseCreating) \<and>
        st_ControllerAddress (se_Status session) \<noteq> [] \<longrightarrow> torn_down cfg session pre)"
    unfolding guarded_removal_def torn_down_def by (metis list.set_intros(2))
qed

lemma handleDeletion_finalizer:
  assumes "om_DeletionTimestamp (se_Meta session) \<noteq> None"
  shows "emits w_trace (\<lambda>es _. guarded_removal cfg session es) (handleDeletion env cfg session)"
proof (rule emitsI)
  fix w
  have del: "\<not> drops_finalizer (CtlDelete u q e)" for u q e by (simp add: drops_finalizer_def)
  show "\<exists>es. w_trace (snd (run_state (handleDeletion env cfg session) w)) = w_trace w @ es \<and>
      guarded_removal cfg session es"
    using assms
    by (auto simp: handleDeletion_def update_session_def ctl_DeleteSandbox_def guarded_removal_def
        torn_down_def del Cons_eq_append_conv append_eq_Cons_conv split: sum.split)
qed

lemma reconcile_session_finalizer:
  "emits w_trace (\<lambda>es _. guarded_removal cfg session es) (reconcile_session env cfg session)"
proof -
  note other = keeps_finalizer_ops [THEN emits_mono, of "\<lambda>es _. guarded_removal cfg session es",
    OF guarded_removal_none]
  have "guarded_removal cfg session []" by (simp add: guarded_removal_def)
  then show ?thesis
    unfolding reconcile_session_def
    by (auto intro: other handleDeletion_finalizer emits_return [where P = "\<lambda>es _. guarded_removal cfg session es"])
qed


text \<open>
  A session that is being torn down (phase Deleting) and is then deleted loses its finalizer
  without any request to the controller that still has its sandbox.
\<close>

theorem deletion_skips_controller:
  assumes "k_GetSession env (w_trace s) ns name = Inr session"
    and "om_DeletionTimestamp (se_Meta session) \<noteq> None" and "phase session = SandboxPhaseDeleting"
    and "ContainsFinalizer (se_Meta session) FinalizerSessionCleanup"
  shows "\<exists>u. w_trace (snd (run_state (Reconcile env cfg ns name) s)) =
    w_trace s @ [GetSession ns name (Inr session),
      UpdateSession (session\<lparr>se_Meta := RemoveFinalizer FinalizerSessionCleanup (se_Meta session)\<rparr>) u]"
  using assms
  by (simp add: Reconcile_run reconcile_session_def handleDeletion_def update_session_def Let_def)

section \<open>Expiry\<close>

text \<open>
  When a running session expires: at the time in its status, or one TTL after its last
  execution if that is later and the configuration can be read.
\<close>

definition effective_expiry ::
  "kube_env \<Rightarrow> ReconcilerConfig \<Rightarrow> Session \<Rightarrow> ktrace \<Rightarrow> time \<Rightarrow> time" where
  "effective_expiry env cfg session t expiry =
     (case (st_LastExecAt (se_Status session),
            k_ListSandboxes env t (rcf_Namespace cfg) [(LabelSandboxID, ss_SandboxID (se_Spec session))]) of
        (Some l, Inr items) \<Rightarrow>
          (case List.find (\<lambda>sb. bs_SandboxID (bx_Spec sb) = ss_SandboxID (se_Spec session) \<and>
                                om_DeletionTimestamp (bx_Meta sb) = None) items of
             Some sb \<Rightarrow>
               if bs_TTLSeconds (bx_Spec sb) > 0 then max expiry (l + seconds (bs_TTLSeconds (bx_Spec sb)))
               else expiry
           | None \<Rightarrow> expiry)
      | _ \<Rightarrow> expiry)"

lemma slide_expiry_effective:
  assumes "phase session = SandboxPhaseRunning"
  shows "wp (slide_expiry env cfg session expiry) (\<lambda>r s'. \<exists>es. w_trace s' = w_trace s @ es \<and>
      set (written es) \<subseteq> {SandboxPhaseRunning} \<and>
      (case r of
         Inl e \<Rightarrow> True
       | Inr (session', expiry') \<Rightarrow> expiry' = effective_expiry env cfg session (w_trace s) expiry)) s"
  using assms
  by (auto simp: slide_expiry_def fetchSandboxConfig_def list_sandboxes_def update_session_status_def
      effective_expiry_def Let_def wp_simps max_def split: option.split sum.split)

text \<open>
  C22.  A reconciliation of a running session moves it to Deleting only when the time is past
  the effective expiry, and, unless a write fails, always then: a session that was used less
  than its TTL ago is never expired.  A session without an expiry is left alone.
\<close>

theorem running_expiry:
  assumes "phase session = SandboxPhaseRunning"
  shows "case run_state (reconcileRunning env cfg session) s of (r, s') \<Rightarrow>
    \<exists>es. w_trace s' = w_trace s @ es \<and>
      (let now = k_Now env (w_trace s) in
       case st_ExpiresAt (se_Status session) of
         None \<Rightarrow> written es = []
       | Some expiry \<Rightarrow>
           if SandboxPhaseDeleting \<in> set (written es)
           then now > effective_expiry env cfg session (w_trace s @ [Now now]) expiry
           else now \<le> effective_expiry env cfg session (w_trace s @ [Now now]) expiry \<or> (\<exists>e. r = Inl e))"
proof (cases "st_ExpiresAt (se_Status session)")
  case None
  then show ?thesis by (simp add: reconcileRunning_def time_Now_def)
next
  case (Some expiry)
  let ?now = "k_Now env (w_trace s)"
  let ?s1 = "s\<lparr>w_trace := w_trace s @ [Now ?now]\<rparr>"
  let ?eff = "effective_expiry env cfg session (w_trace s @ [Now ?now]) expiry"
  obtain x s2 where run: "run_state (slide_expiry env cfg session expiry) ?s1 = (x, s2)" by fastforce
  from slide_expiry_effective [OF assms, of env cfg expiry ?s1] run obtain es where
    es: "w_trace s2 = w_trace ?s1 @ es" "set (written es) \<subseteq> {SandboxPhaseRunning}"
      "case x of Inl e \<Rightarrow> True | Inr (session', expiry') \<Rightarrow> expiry' = ?eff"
    by (auto simp: wp_def split: sum.splits)
  then have quiet: "SandboxPhaseDeleting \<notin> set (written es)" by auto
  show ?thesis
  proof (cases x)
    case (Inl e)
    with Some run es quiet show ?thesis
      by (auto simp: reconcileRunning_def time_Now_def)
  next
    case (Inr p)
    obtain session' where p: "p = (session', ?eff)" using es(3) Inr by (cases p) auto
    show ?thesis
      using Some run es quiet Inr p
      by (auto simp: reconcileRunning_def time_Now_def check_expiry_def write_status_def
          update_session_status_def set_phase_def)
  qed
qed

text \<open>
  An API server without other writers: a session is what was last written, every write
  succeeds, and there is one ready controller, which answers every request with success.
\<close>

definition last_session :: "Session \<Rightarrow> ktrace \<Rightarrow> Session" where
  "last_session sess t = fold (\<lambda>e x. case e of
     UpdateSession s a \<Rightarrow> s
   | UpdateSessionStatus s a \<Rightarrow> s
   | _ \<Rightarrow> x) t sess"

definition http_ok :: "'a \<Rightarrow> 'a do_result" where
  "http_ok x = Inr \<lparr>hr_Status = 200, hr_ErrBody = None, hr_Decoded = Inr x\<rparr>"

definition demo_user :: UserInfo where
  "demo_user = \<lparr>ui_Username = ''alice'', ui_UID = [], ui_Groups = []\<rparr>"

definition demo_sts :: StatefulSet where
  "demo_sts = \<lparr>sts_Replicas = Some 2, sts_ReadyReplicas = 2\<rparr>"

definition demo_pool :: ControllerPool where
  "demo_pool = \<lparr>cp_Meta = demo_meta ''pool'',
     cp_Spec = \<lparr>ps_MaxSandboxes = 1, ps_MaxReplicas = 3, ps_MinReplicas = 1, ps_Image = [],
       ps_PreinstalledBinaries = []\<rparr>,
     cp_Status = \<lparr>pt_ReadyReplicas = 0, pt_ActiveSandboxCount = 0, pt_LastScaleTime = None,
       pt_Conditions = []\<rparr>\<rparr>"

definition demo_env :: kube_env where
  "demo_env = \<lparr>
     k_GetSession = (\<lambda>t ns n. Inr (last_session (demo_session ''a'') t)),
     k_ListSessions = (\<lambda>t ns l. Inr [last_session (demo_session ''a'') t]),
     k_CreateSession = (\<lambda>t s. Inr s), k_UpdateSession = (\<lambda>t s. Inr s),
     k_UpdateSessionStatus = (\<lambda>t s. Inr s), k_PatchSessionStatus = (\<lambda>t old s. Inr s),
     k_DeleteSession = (\<lambda>t s. None),
     k_GetSandbox = (\<lambda>t ns n. Inr demo_sandbox), k_ListSandboxes = (\<lambda>t ns l. Inr [demo_sandbox]),
     k_CreateSandbox = (\<lambda>t s. Inr s), k_UpdateSandbox = (\<lambda>t s. Inr s),
     k_PatchSandbox = (\<lambda>t old s. Inr s), k_DeleteSandbox = (\<lambda>t s. None),
     k_GetStatefulSet = (\<lambda>t ns n. Inr demo_sts), k_UpdateStatefulSet = (\<lambda>t s. Inr s),
     k_ListPods = (\<lambda>t ns l. Inr [demo_pod ''ctl-0'']),
     k_GetPool = (\<lambda>t ns n. Inr demo_pool), k_ListPools = (\<lambda>t ns. Inr [demo_pool]),
     k_UpdatePoolStatus = (\<lambda>t p. Inr p),
     k_ReviewToken = (\<lambda>t tok. Inr \<lparr>tr_Authenticated = True, tr_User = demo_user, tr_Error = []\<rparr>),
     k_ReviewAccess = (\<lambda>t a. Inr (True, [])),
     k_Plain = (\<lambda>t q. http_ok ()), k_Exec = (\<lambda>t q. http_ok zero_ExecResult),
     k_Stream = (\<lambda>t q. http_ok ([], None)),
     k_ReadFile = (\<lambda>t q. http_ok \<lparr>frr_Path = [], frr_Content = []\<rparr>),
     k_WriteFile = (\<lambda>t q. http_ok \<lparr>fwr_Path = [], fwr_BytesWritten = 0\<rparr>),
     k_EditFile = (\<lambda>t q. http_ok \<lparr>fer_Path = [], fer_Replacements = 0\<rparr>),
     k_Now = (\<lambda>t. int (length t) * 1000000000), k_WaitTick = (\<lambda>t. None),
     k_RandomBytes = (\<lambda>t. ''01234567'')\<rparr>"

definition demo_operator :: operator_state where
  "demo_operator = \<lparr>w_trace = [], op_metrics = None\<rparr>"

definition demo_running :: Session where
  "demo_running = (demo_session ''a'')\<lparr>se_Status := demo_status\<lparr>st_Phase := SandboxPhaseRunning,
     st_ExpiresAt := Some (-1), st_LastExecAt := Some (- seconds 70)\<rparr>\<rparr>"

theorem running_expiry_witness:
  "written (w_trace (snd (run_state (reconcileRunning demo_env demo_rcf demo_running) demo_operator))) =
     [SandboxPhaseDeleting] \<and>
   k_Now demo_env [] > effective_expiry demo_env demo_rcf demo_running [Now (k_Now demo_env [])] (-1)"
proof -
  let ?run = "run_state (reconcileRunning demo_env demo_rcf demo_running) demo_operator"
  have "phase demo_running = SandboxPhaseRunning" by code_simp
  note expiry = running_expiry [OF this, where env = demo_env and cfg = demo_rcf and s = demo_operator]
  have 1: "written (w_trace (snd ?run)) = [SandboxPhaseDeleting]" by code_simp
  have 2: "st_ExpiresAt (se_Status demo_running) = Some (-1)" "w_trace demo_operator = []" by code_simp+
  from expiry 1 2 show ?thesis by (simp add: case_prod_beta Let_def)
qed

section \<open>Scaling\<close>

text \<open>The numbers of replicas that a run asks for, in order.\<close>

definition replicas_written :: "ktrace \<Rightarrow> int list" where
  "replicas_written es = concat (map (\<lambda>e. case e of
     UpdateStatefulSet st a \<Rightarrow> [current_replicas st]
   | _ \<Rightarrow> []) es)"

lemma replicas_written_phase_simps [simp]:
  "replicas_written [] = []"
  "replicas_written (e # es) =
     (case e of UpdateStatefulSet st a \<Rightarrow> [current_replicas st] | _ \<Rightarrow> []) @ replicas_written es"
  "replicas_written (es @ es') = replicas_written es @ replicas_written es'"
  by (simp_all add: replicas_written_def)

lemma current_replicas_Some [simp]: "current_replicas (st\<lparr>sts_Replicas := Some n\<rparr>) = n"
  by (simp add: current_replicas_def)

text \<open>One replica less, \<open>k\<close> times.\<close>

fun down :: "int \<Rightarrow> nat \<Rightarrow> int list" where
  "down n 0 = []"
| "down n (Suc k) = (n - 1) # down (n - 1) k"

text \<open>Replicas are taken away one by one, never below the minimum and at most \<open>b\<close> of them.\<close>

definition scaled_down :: "ReconcilerConfig \<Rightarrow> int \<Rightarrow> nat \<Rightarrow> int list \<Rightarrow> bool" where
  "scaled_down cfg n b ns \<longleftrightarrow>
     (\<exists>k. ns = down n k \<and> k \<le> b \<and> (k = 0 \<or> n - int k \<ge> rcf_MinControllerReplicas cfg))"

lemma scaled_down_Nil: "scaled_down cfg n b []"
  by (auto simp: scaled_down_def intro: exI [of _ 0])

lemma scaled_down_mono: "scaled_down cfg n b ns \<Longrightarrow> b \<le> b' \<Longrightarrow> scaled_down cfg n b' ns"
  by (auto simp: scaled_down_def)

lemma scaled_down_Cons:
  assumes "n > rcf_MinControllerReplicas cfg" and "scaled_down cfg (n - 1) b ns"
  shows "scaled_down cfg n (Suc b) ((n - 1) # ns)"
proof -
  from assms(2) obtain k where "ns = down (n - 1) k" "k \<le> b"
    "k = 0 \<or> n - 1 - int k \<ge> rcf_MinControllerReplicas cfg"
    unfolding scaled_down_def by blast
  with assms(1) show ?thesis unfolding scaled_down_def by (intro exI [of _ "Suc k"]) auto
qed

abbreviation idle :: "(bytes \<times> int) list \<Rightarrow> Pod \<Rightarrow> bool" where
  "idle counts p \<equiv> map_count counts (om_Name (po_Meta p)) \<le> 0"

lemma scale_down_loop_down:
  "emits w_trace (\<lambda>es _. scaled_down cfg current (length (filter (idle counts) pods)) (replicas_written es))
     (scale_down_loop env cfg counts pods sts current)"
proof (induction pods arbitrary: sts current)
  case Nil
  show ?case by (simp, rule emits_return, simp add: scaled_down_Nil)
next
  case (Cons p pods)
  let ?b = "length (filter (idle counts) pods)"
  have skip: "emits w_trace (\<lambda>es _. scaled_down cfg current (Suc ?b) (replicas_written es))
      (scale_down_loop env cfg counts pods sts current)"
    by (rule emits_mono [OF Cons.IH]) (simp add: scaled_down_mono)
  have less: "emits w_trace (\<lambda>es _. scaled_down cfg current (Suc ?b) ((current - 1) # replicas_written es))
      (do { _ \<leftarrow> ScaledDown; scale_down_loop env cfg counts pods sts' (current - 1) })"
    if "current > rcf_MinControllerReplicas cfg" for sts'
    unfolding ScaledDown_def
    by (rule emits_bind [OF emits_on_metrics, where P = "\<lambda>es _. es = []", OF refl Cons.IH])
      (simp add: scaled_down_Cons that)
  have one: "current > rcf_MinControllerReplicas cfg \<Longrightarrow> scaled_down cfg current (Suc ?b) [current - 1]"
    by (rule scaled_down_Cons) (auto intro: scaled_down_Nil)
  show ?case
    using skip Cons.IH
    by (auto simp: time_Now_def update_sts_def Let_def
        intro!: emits_return emits_call_bind emits_cases less one intro: scaled_down_Nil)
qed

lemma length_filter_by_name: "length (filter P (by_name_descending pods)) = length (filter P pods)"
proof -
  have "mset (filter P (by_name_descending pods)) = mset (filter P pods)"
    by (simp add: by_name_descending_def)
  then show ?thesis by (metis size_mset)
qed

lemma scale_down_loop_load:
  "\<exists>es. w_trace (snd (run_state (scale_down_loop env cfg (podCounts sessions)
       (by_name_descending pods) sts (current_replicas sts)) w)) = w_trace w @ es \<and>
     scaled_down cfg (current_replicas sts)
       (length (filter (\<lambda>p. load sessions (om_Name (po_Meta p)) \<le> 0) pods)) (replicas_written es)"
  using scale_down_loop_down [of cfg "current_replicas sts" "podCounts sessions" "by_name_descending pods" env sts]
  by (simp add: emits_def length_filter_by_name podCounts_load)

text \<open>What a run of \<open>tryScaleDown\<close> may write, given the stateful set it reads.\<close>

definition idle_scale_down :: "ReconcilerConfig \<Rightarrow> StatefulSet \<Rightarrow> ktrace \<Rightarrow> bool" where
  "idle_scale_down cfg sts es \<longleftrightarrow>
     replicas_written es = [] \<or>
     (\<exists>pods sessions.
        ListPods (rcf_Namespace cfg) controller_labels (Inr pods) \<in> set es \<and>
        ListSessions (rcf_Namespace cfg) [] (Inr sessions) \<in> set es \<and>
        scaled_down cfg (current_replicas sts)
          (length (filter (\<lambda>p. load sessions (om_Name (po_Meta p)) \<le> 0) pods)) (replicas_written es))"

lemma tryScaleDown_idle:
  assumes Get: "k_GetStatefulSet env (w_trace s) (rcf_Namespace cfg) (rcf_StatefulSetName cfg) = Inr sts"
  shows "\<exists>es. w_trace (snd (run_state (tryScaleDown env cfg) s)) = w_trace s @ es \<and> idle_scale_down cfg sts es"
proof -
  let ?ns = "rcf_Namespace cfg"
  let ?t1 = "w_trace s @ [GetStatefulSet ?ns (rcf_StatefulSetName cfg) (Inr sts)]"
  let ?t2 = "?t1 @ [ListPods ?ns controller_labels (k_ListPods env ?t1 ?ns controller_labels)]"
  let ?t3 = "?t2 @ [ListSessions ?ns [] (k_ListSessions env ?t2 ?ns [])]"
  show ?thesis
  proof (cases "\<exists>pods sessions. current_replicas sts > rcf_MinControllerReplicas cfg \<and>
      k_ListPods env ?t1 ?ns controller_labels = Inr pods \<and> k_ListSessions env ?t2 ?ns [] = Inr sessions")
    case True
    then obtain pods sessions where ps: "current_replicas sts > rcf_MinControllerReplicas cfg"
      "k_ListPods env ?t1 ?ns controller_labels = Inr pods" "k_ListSessions env ?t2 ?ns [] = Inr sessions"
      by blast
    obtain es where es: "w_trace (snd (run_state (scale_down_loop env cfg (podCounts sessions)
        (by_name_descending pods) sts (current_replicas sts)) (s\<lparr>w_trace := ?t3\<rparr>))) = ?t3 @ es"
      "scaled_down cfg (current_replicas sts)
        (length (filter (\<lambda>p. load sessions (om_Name (po_Meta p)) \<le> 0) pods)) (replicas_written es)"
      using scale_down_loop_load [of env cfg sessions pods sts "s\<lparr>w_trace := ?t3\<rparr>"] by auto
    with Get ps show ?thesis
      by (auto simp: tryScaleDown_def get_sts_def list_pods_def list_sessions_def case_prod_beta idle_scale_down_def)
  next
    case False
    with Get show ?thesis
      by (auto simp: tryScaleDown_def get_sts_def list_pods_def list_sessions_def idle_scale_down_def
          split: sum.split)
  qed
qed

text \<open>
  C27.  Scaling changes the number of controllers by one at a time: scaling up writes one more
  than the current number and not more than the maximum; scaling down counts down from the
  current number, not below the minimum, and takes away at most as many replicas as there
  are pods without sessions.
\<close>

theorem scaling_bounds:
  "\<exists>es es'.
     w_trace (snd (run_state (scaleUp env cfg) s)) = w_trace s @ es \<and>
     w_trace (snd (run_state (tryScaleDown env cfg) s)) = w_trace s @ es' \<and>
     (case k_GetStatefulSet env (w_trace s) (rcf_Namespace cfg) (rcf_StatefulSetName cfg) of
        Inl e \<Rightarrow> replicas_written es = [] \<and> replicas_written es' = []
      | Inr sts \<Rightarrow>
          replicas_written es =
            (if current_replicas sts < rcf_MaxControllerReplicas cfg then [current_replicas sts + 1] else []) \<and>
          idle_scale_down cfg sts es')"
proof (cases "k_GetStatefulSet env (w_trace s) (rcf_Namespace cfg) (rcf_StatefulSetName cfg)")
  case (Inl e)
  then show ?thesis by (simp add: tryScaleDown_def scaleUp_def scaleStatefulSet_def get_sts_def)
next
  case (Inr sts)
  with tryScaleDown_idle [OF Inr] show ?thesis
    by (auto simp: scaleUp_def scaleStatefulSet_def get_sts_def update_sts_def ScaledUp_def on_metrics_def
        State_Monad.update_def Let_def split: sum.split)
qed

text \<open>
  The replica that Kubernetes takes away is the one with the highest ordinal.  Here the idle
  controller is \<open>ctl-0\<close> and the session runs on \<open>ctl-1\<close>; scaling down to one replica removes
  the controller that has the session.
\<close>

definition busy_last_env :: kube_env where
  "busy_last_env = demo_env\<lparr>
     k_ListPods := (\<lambda>t ns l. Inr [demo_pod ''ctl-0'', demo_pod ''ctl-1'']),
     k_ListSessions := (\<lambda>t ns l. Inr [assigned demo_rcf ''ctl-1'' [] 0 demo_sandbox (demo_session ''a'')]),
     k_Now := (\<lambda>t. 10 * minute)\<rparr>"

theorem scale_down_hits_busy_controller:
  "replicas_written (w_trace (snd (run_state (tryScaleDown busy_last_env demo_rcf) demo_operator))) = [1] \<and>
   load [assigned demo_rcf ''ctl-1'' [] 0 demo_sandbox (demo_session ''a'')] ''ctl-1'' = 1"
  by code_simp

section \<open>Removing a sandbox configuration\<close>

definition live :: "Session \<Rightarrow> bool" where
  "live x \<longleftrightarrow> phase x \<noteq> SandboxPhaseTerminated \<and> om_DeletionTimestamp (se_Meta x) = None"

text \<open>The sessions whose status is patched, and the configurations that are updated, in order.\<close>

definition patched :: "ktrace \<Rightarrow> (Session \<times> Session) list" where
  "patched es = concat (map (\<lambda>e. case e of PatchSessionStatus old x a \<Rightarrow> [(old, x)] | _ \<Rightarrow> []) es)"

definition sandbox_updates :: "ktrace \<Rightarrow> Sandbox list" where
  "sandbox_updates es = concat (map (\<lambda>e. case e of UpdateSandbox sb a \<Rightarrow> [sb] | _ \<Rightarrow> []) es)"

lemma patched_simps [simp]:
  "patched [] = []"
  "patched (e # es) = (case e of PatchSessionStatus old x a \<Rightarrow> [(old, x)] | _ \<Rightarrow> []) @ patched es"
  "patched (es @ es') = patched es @ patched es'"
  by (simp_all add: patched_def)

lemma sandbox_updates_simps [simp]:
  "sandbox_updates [] = []"
  "sandbox_updates (e # es) = (case e of UpdateSandbox sb a \<Rightarrow> [sb] | _ \<Rightarrow> []) @ sandbox_updates es"
  "sandbox_updates (es @ es') = sandbox_updates es @ sandbox_updates es'"
  by (simp_all add: sandbox_updates_def)

definition to_deleting :: "Session list \<Rightarrow> (Session \<times> Session) list" where
  "to_deleting items = map (\<lambda>x. (x, set_phase SandboxPhaseDeleting x))
     (filter (\<lambda>x. live x \<and> phase x \<noteq> SandboxPhaseDeleting) items)"

lemma evict_sessions_events:
  "\<exists>es. w_trace (snd (run_state (evict_sessions env items) s)) = w_trace s @ es \<and>
     patched es = to_deleting items \<and> sandbox_updates es = [] \<and>
     fst (run_state (evict_sessions env items) s) = length (filter live items)"
proof (induction items arbitrary: s)
  case (Cons x items)
  show ?case
    using Cons.IH [of s]
      Cons.IH [of "s\<lparr>w_trace := w_trace s @ [PatchSessionStatus x (set_phase SandboxPhaseDeleting x)
        (k_PatchSessionStatus env (w_trace s) x (set_phase SandboxPhaseDeleting x))]\<rparr>"]
    by (auto simp: live_def to_deleting_def patch_session_status_def case_prod_beta)
qed (simp add: to_deleting_def)

text \<open>
  C28.  When a sandbox configuration is deleted, every session of it that is neither terminated
  nor being deleted is moved to Deleting, and the finalizer of the configuration is taken off
  exactly when there is no such session any more; otherwise the deletion is tried again later.
\<close>

theorem sandbox_deletion:
  "case run_state (sandbox_handleDeletion env cfg sb) s of (r, s') \<Rightarrow>
     \<exists>es. w_trace s' = w_trace s @ es \<and>
       (case k_ListSessions env (w_trace s) (rcf_Namespace cfg) [(LabelSandboxID, bs_SandboxID (bx_Spec sb))] of
          Inl e \<Rightarrow> r = Inl e \<and> patched es = [] \<and> sandbox_updates es = []
        | Inr items \<Rightarrow>
            patched es = to_deleting items \<and>
            (if filter live items = []
             then sandbox_updates es =
               [sb\<lparr>bx_Meta := RemoveFinalizer FinalizerSandboxConfigCleanup (bx_Meta sb)\<rparr>]
             else sandbox_updates es = [] \<and> r = Inr (requeue_after (seconds 5))))"
proof (cases "k_ListSessions env (w_trace s) (rcf_Namespace cfg) [(LabelSandboxID, bs_SandboxID (bx_Spec sb))]")
  case (Inl e)
  then show ?thesis by (simp add: sandbox_handleDeletion_def list_sessions_def)
next
  case (Inr items)
  let ?s1 = "s\<lparr>w_trace := w_trace s @ [ListSessions (rcf_Namespace cfg)
    [(LabelSandboxID, bs_SandboxID (bx_Spec sb))] (Inr items)]\<rparr>"
  obtain n s2 where run: "run_state (evict_sessions env items) ?s1 = (n, s2)" by fastforce
  with evict_sessions_events [of env items ?s1] obtain es where
    "w_trace s2 = w_trace ?s1 @ es" "patched es = to_deleting items" "sandbox_updates es = []"
    "n = length (filter live items)"
    by auto
  with Inr run show ?thesis
    by (auto simp: sandbox_handleDeletion_def list_sessions_def update_sandbox_def)
qed

section \<open>Starting a session\<close>

lemma last_session_simps [simp]:
  "last_session x [] = x"
  "last_session x (e # es) = last_session (case e of
     UpdateSession s a \<Rightarrow> s
   | UpdateSessionStatus s a \<Rightarrow> s
   | _ \<Rightarrow> x) es"
  "last_session x (es @ es') = last_session (last_session x es) es'"
  by (simp_all add: last_session_def)

text \<open>
  What the API server and the controller do when nothing interferes: reads of the session
  return what was written last, writes succeed, the configuration of the session is found,
  some controller is always ready and has room, and it answers requests with success.
\<close>

definition undisturbed :: "kube_env \<Rightarrow> ReconcilerConfig \<Rightarrow> bytes \<Rightarrow> Session \<Rightarrow> Sandbox \<Rightarrow> bool" where
  "undisturbed env cfg name sess sb \<longleftrightarrow>
     (\<forall>t. k_GetSession env t (rcf_Namespace cfg) name = Inr (last_session sess t)) \<and>
     (\<forall>t x. k_UpdateSession env t x = Inr x \<and> k_UpdateSessionStatus env t x = Inr x) \<and>
     (\<forall>t. k_ListSandboxes env t (rcf_Namespace cfg) [(LabelSandboxID, ss_SandboxID (se_Spec sess))] = Inr [sb]) \<and>
     bs_SandboxID (bx_Spec sb) = ss_SandboxID (se_Spec sess) \<and> om_DeletionTimestamp (bx_Meta sb) = None \<and>
     (\<forall>t t'. \<exists>pods ss. k_ListPods env t (rcf_Namespace cfg) controller_labels = Inr pods \<and>
        k_ListSessions env t' (rcf_Namespace cfg) [] = Inr ss \<and>
        list_ex (eligible cfg ss) pods \<and> list_all (\<lambda>p. om_Name (po_Meta p) \<noteq> []) pods) \<and>
     (\<forall>t q. \<exists>r. k_Plain env t q = Inr r \<and> hr_Status r < 300)"

lemma undisturbedD:
  assumes "undisturbed env cfg name sess sb"
  shows "k_GetSession env t (rcf_Namespace cfg) name = Inr (last_session sess t)"
    "k_UpdateSession env t x = Inr x" "k_UpdateSessionStatus env t x = Inr x"
    "k_ListSandboxes env t (rcf_Namespace cfg) [(LabelSandboxID, ss_SandboxID (se_Spec sess))] = Inr [sb]"
    "bs_SandboxID (bx_Spec sb) = ss_SandboxID (se_Spec sess)" "om_DeletionTimestamp (bx_Meta sb) = None"
    "\<exists>pods ss. k_ListPods env t (rcf_Namespace cfg) controller_labels = Inr pods \<and>
        k_ListSessions env t' (rcf_Namespace cfg) [] = Inr ss \<and>
        list_ex (eligible cfg ss) pods \<and> list_all (\<lambda>p. om_Name (po_Meta p) \<noteq> []) pods"
    "\<exists>r. k_Plain env t q = Inr r \<and> hr_Status r < 300"
  using assms unfolding undisturbed_def by blast+

lemma best_pod_found:
  assumes "list_ex (eligible cfg ss) pods" and "list_all (\<lambda>p. om_Name (po_Meta p) \<noteq> []) pods"
  shows "fst (best_pod cfg ss pods) \<noteq> []"
proof -
  from assms(1) have "filter (eligible cfg ss) pods \<noteq> []" by (auto simp: list_ex_iff filter_empty_conv)
  then obtain p where p: "best_fit cfg ss pods = Some p"
    by (cases "filter (eligible cfg ss) pods") (simp_all add: best_fit_def del: arg_min_list.simps)
  with best_fit_eligible [OF p] assms(2) show ?thesis
    by (simp add: best_pod_choice choice_def list_all_iff)
qed

text \<open>A run that does not write the session, and one that leaves it as \<open>y\<close>.\<close>

definition untouched :: "ktrace \<Rightarrow> ktrace \<Rightarrow> bool" where
  "untouched t t' \<longleftrightarrow> (\<exists>es. t' = t @ es \<and> (\<forall>x. last_session x es = x))"

definition leaves :: "Session \<Rightarrow> ktrace \<Rightarrow> ktrace \<Rightarrow> bool" where
  "leaves y t t' \<longleftrightarrow> (\<exists>es. t' = t @ es \<and> (\<forall>x. last_session x es = y))"

lemma untouched_refl: "untouched t t"
  by (auto simp: untouched_def)

lemma untouched_snoc:
  assumes "untouched t t'" and "\<And>x. last_session x [e] = x"
  shows "untouched t (t' @ [e])"
proof -
  from assms(1) obtain es where "t' = t @ es" "\<forall>x. last_session x es = x" by (auto simp: untouched_def)
  with assms(2) show ?thesis unfolding untouched_def by (intro exI [of _ "es @ [e]"]) (simp del: last_session_simps(2))
qed

lemma leaves_write:
  assumes "untouched t t'"
  shows "leaves y t (t' @ [UpdateSessionStatus y a])"
proof -
  from assms obtain es where "t' = t @ es" by (auto simp: untouched_def)
  then show ?thesis unfolding leaves_def by (intro exI [of _ "es @ [UpdateSessionStatus y a]"]) simp
qed

lemma leaves_snoc:
  assumes "leaves y t t'" and "\<And>x. last_session x [e] = x"
  shows "leaves y t (t' @ [e])"
proof -
  from assms(1) obtain es where "t' = t @ es" "\<forall>x. last_session x es = y" by (auto simp: leaves_def)
  with assms(2) show ?thesis unfolding leaves_def by (intro exI [of _ "es @ [e]"]) (simp del: last_session_simps(2))
qed

lemma CreateSandbox_ok:
  "\<exists>r. send (http_NewRequest ''POST'' (url @ ''/v1/sandboxes'') (SendCreate req)) = Inr r \<and> hr_Status r < 300 \<Longrightarrow>
     CreateSandbox send url req = None"
  by (auto simp: CreateSandbox_def postJSON_def)

lemma NewClient_ok:
  assumes "\<And>q. \<exists>r. send q = Inr r \<and> hr_Status r < 300"
  shows "\<exists>r. NewClient cc send q = Inr r \<and> hr_Status r < 300"
  using assms by (simp add: NewClient_def RoundTrip_def)

lemma fetch_found:
  assumes "undisturbed env cfg name sess sb"
    and "ss_SandboxID (se_Spec session) = ss_SandboxID (se_Spec sess)" and "untouched t (w_trace s)"
  shows "wp (fetchSandboxConfig env cfg (ss_SandboxID (se_Spec session)))
      (\<lambda>r s'. r = Inr (Some sb) \<and> untouched t (w_trace s')) s"
  using undisturbedD(4-6) [OF assms(1)] assms(2,3)
  by (simp add: fetchSandboxConfig_def list_sandboxes_def wp_simps untouched_snoc)

lemma assignController_finds:
  assumes "undisturbed env cfg name sess sb" and "untouched t (w_trace s)"
  shows "wp (assignController env cfg)
    (\<lambda>r s'. (\<exists>pod addr. r = Inr (pod, addr)) \<and> untouched t (w_trace s')) s"
proof -
  let ?ps = "k_ListPods env (w_trace s) (rcf_Namespace cfg) controller_labels"
  let ?t = "w_trace s @ [ListPods (rcf_Namespace cfg) controller_labels ?ps]"
  from undisturbedD(7) [OF assms(1), of "w_trace s" ?t] obtain pods ss where
    found: "?ps = Inr pods" "k_ListSessions env ?t (rcf_Namespace cfg) [] = Inr ss"
    "fst (best_pod cfg ss pods) \<noteq> []"
    using best_pod_found by blast
  obtain pod addr r where "best_pod cfg ss pods = (pod, addr, r)" by (cases "best_pod cfg ss pods")
  moreover have "untouched t (?t @ [e])" if "\<And>x. last_session x [e] = x" for e
    using that by (intro untouched_snoc assms(2)) simp_all
  ultimately show ?thesis
    using found by (simp add: assignController_def list_pods_def list_sessions_def wp_simps)
qed

lemma pending_to_creating:
  assumes "undisturbed env cfg name sess sb"
    and "ss_SandboxID (se_Spec session) = ss_SandboxID (se_Spec sess)" and "untouched t (w_trace s)"
  shows "wp (pending_assign env cfg session) (\<lambda>r s'. r = Inr requeue \<and>
    (\<exists>pod addr now. leaves (assigned cfg pod addr now sb session) t (w_trace s'))) s"
proof -
  have put: "wp (do {
        now \<leftarrow> time_Now env;
        write_status env (assigned cfg pod addr now sb session) requeue
      }) (\<lambda>r s'. r = Inr requeue \<and>
        (\<exists>pod addr now. leaves (assigned cfg pod addr now sb session) t (w_trace s'))) s1"
    if "untouched t (w_trace s1)" for s1 pod addr
  proof -
    let ?now = "k_Now env (w_trace s1)"
    let ?y = "assigned cfg pod addr ?now sb session"
    have "leaves ?y t ((w_trace s1 @ [Now ?now]) @ [UpdateSessionStatus ?y (Inr ?y)])"
      by (intro leaves_write untouched_snoc that) simp
    then show ?thesis
      using undisturbedD(3) [OF assms(1)]
      by (simp add: time_Now_def write_status_def update_session_status_def wp_simps) blast
  qed
  show ?thesis
    unfolding pending_assign_def wp_bind [of "fetchSandboxConfig env cfg i" for i]
  proof (rule wp_mono [OF fetch_found [OF assms]], elim conjE, simp only: sum.case option.case wp_bind [of "assignController env cfg"])
    fix s1 :: operator_state
    assume "untouched t (w_trace s1)"
    then show "wp (assignController env cfg) (\<lambda>x. wp (case x of
          Inl e \<Rightarrow> State_Monad.return (Inr (requeue_after (seconds 5)))
        | Inr (pod, addr) \<Rightarrow> do {
            now \<leftarrow> time_Now env;
            write_status env (assigned cfg pod addr now sb session) requeue
          }) (\<lambda>r s'. r = Inr requeue \<and>
        (\<exists>pod addr now. leaves (assigned cfg pod addr now sb session) t (w_trace s')))) s1"
      by (rule wp_mono [OF assignController_finds [OF assms(1)]]) (auto intro: put)
  qed
qed

lemma creating_to_running:
  assumes "undisturbed env cfg name sess sb"
    and "ss_SandboxID (se_Spec session) = ss_SandboxID (se_Spec sess)" and "untouched t (w_trace s)"
  shows "wp (reconcileCreating env cfg session)
    (\<lambda>r s'. (\<exists>x. r = Inr x) \<and> leaves (now_running session) t (w_trace s')) s"
proof -
  have ok: "CreateSandbox (NewClient cc (k_Plain env t)) url req = None" for cc t url req
    by (rule CreateSandbox_ok) (rule NewClient_ok, rule undisturbedD(8) [OF assms(1)])
  have steps: "leaves (now_running session) t (t1 @ [CtlCreate u q e, UpdateSessionStatus (now_running session) a])"
    "leaves (now_running session) t (t1 @ [CtlCreate u q e, UpdateSessionStatus (now_running session) a, Now n])"
    if "untouched t t1" for t1 u q e a n
  proof -
    have 1: "leaves (now_running session) t ((t1 @ [CtlCreate u q e]) @ [UpdateSessionStatus (now_running session) a])"
      by (intro leaves_write untouched_snoc that) simp
    have "leaves (now_running session) t
        (((t1 @ [CtlCreate u q e]) @ [UpdateSessionStatus (now_running session) a]) @ [Now n])"
      by (intro leaves_snoc 1) simp
    with 1 show "leaves (now_running session) t (t1 @ [CtlCreate u q e, UpdateSessionStatus (now_running session) a])"
      "leaves (now_running session) t (t1 @ [CtlCreate u q e, UpdateSessionStatus (now_running session) a, Now n])"
      by simp_all
  qed
  show ?thesis
    unfolding reconcileCreating_def wp_bind [of "fetchSandboxConfig env cfg i" for i]
    by (rule wp_mono [OF fetch_found [OF assms]])
      (auto simp: ctl_CreateSandbox_def ok update_session_status_def undisturbedD(3) [OF assms(1)] time_Now_def
        wp_simps steps split: option.split)
qed

lemma leaves_last: "leaves y t t' \<Longrightarrow> last_session x t' = y"
  by (auto simp: leaves_def)

definition placed :: "Session \<Rightarrow> Session \<Rightarrow> bool" where
  "placed session y \<longleftrightarrow> phase y = SandboxPhaseCreating \<and> se_Spec y = se_Spec session \<and>
     om_DeletionTimestamp (se_Meta y) = om_DeletionTimestamp (se_Meta session)"

lemma reconcilePending_step:
  assumes "undisturbed env cfg name sess sb"
    and "ss_SandboxID (se_Spec session) = ss_SandboxID (se_Spec sess)"
  shows "wp (reconcilePending env cfg session) (\<lambda>r s'. placed session (last_session x (w_trace s'))) s"
proof -
  have assign: "wp (pending_assign env cfg session') (\<lambda>r s'. placed session (last_session x (w_trace s'))) s1"
    if "se_Spec session' = se_Spec session"
      "om_DeletionTimestamp (se_Meta session') = om_DeletionTimestamp (se_Meta session)" for session' s1
    by (rule wp_mono [OF pending_to_creating [OF assms(1) _ untouched_refl]])
      (use that assms(2) in \<open>auto simp: leaves_last assigned_def placed_def\<close>)
  show ?thesis
    using undisturbedD(2) [OF assms(1)]
    by (simp add: reconcilePending_def wp_simps update_session_def AddFinalizer_def assign)
qed

lemma undisturbed_Reconcile:
  assumes "undisturbed env cfg name sess sb"
    and "wp (reconcile_session env cfg (last_session sess (w_trace s))) (\<lambda>r s'. P (w_trace s'))
      (s\<lparr>w_trace := w_trace s @ [GetSession (rcf_Namespace cfg) name (Inr (last_session sess (w_trace s)))]\<rparr>)"
  shows "P (w_trace (snd (run_state (Reconcile env cfg (rcf_Namespace cfg) name) s)))"
  using assms(2) undisturbedD(1) [OF assms(1)]
  by (simp add: Reconcile_run wp_def case_prod_beta)

text \<open>
  C21.  When nothing interferes, a new session runs after two reconciliations: the first one
  assigns it to a controller, the second one creates its sandbox there.
\<close>

theorem session_starts:
  assumes env: "undisturbed env cfg name sess sb"
    and "phase sess \<in> {[], SandboxPhasePending}" and "om_DeletionTimestamp (se_Meta sess) = None"
    and "w_trace s = []"
  shows "let m = Reconcile env cfg (rcf_Namespace cfg) name;
             s1 = snd (run_state m s);
             s2 = snd (run_state m s1)
         in phase (last_session sess (w_trace s1)) = SandboxPhaseCreating \<and>
            phase (last_session sess (w_trace s2)) = SandboxPhaseRunning"
proof -
  let ?m = "Reconcile env cfg (rcf_Namespace cfg) name"
  define s1 where "s1 = snd (run_state ?m s)"
  define y where "y = last_session sess (w_trace s1)"
  have "placed sess y"
    unfolding y_def s1_def
    by (rule undisturbed_Reconcile [OF env])
      (use assms(2-4) reconcilePending_step [OF env refl] in \<open>auto simp: reconcile_session_def\<close>)
  then have y: "phase y = SandboxPhaseCreating" "se_Spec y = se_Spec sess" "om_DeletionTimestamp (se_Meta y) = None"
    using assms(3) by (simp_all add: placed_def)
  have "phase (last_session sess (w_trace (snd (run_state ?m s1)))) = SandboxPhaseRunning"
  proof (rule undisturbed_Reconcile [OF env], fold y_def)
    show "wp (reconcile_session env cfg y) (\<lambda>r s'. phase (last_session sess (w_trace s')) = SandboxPhaseRunning)
      (s1\<lparr>w_trace := w_trace s1 @ [GetSession (rcf_Namespace cfg) name (Inr y)]\<rparr>)"
      using y
      by (auto simp: reconcile_session_def leaves_last now_running_def
          intro: wp_mono [OF creating_to_running [OF env _ untouched_refl]])
  qed
  with y(1) show ?thesis by (simp add: s1_def y_def Let_def)
qed

definition calm_env :: kube_env where
  "calm_env = demo_env\<lparr>k_ListSessions := (\<lambda>t ns l. Inr [])\<rparr>"

lemma calm_undisturbed: "undisturbed calm_env demo_rcf ''a'' (demo_session ''a'') demo_sandbox"
proof -
  have "eligible demo_rcf [] (demo_pod ''ctl-0'')" "om_Name (po_Meta (demo_pod ''ctl-0'')) \<noteq> []"
    "bs_SandboxID (bx_Spec demo_sandbox) = ss_SandboxID (se_Spec (demo_session ''a''))"
    "om_DeletionTimestamp (bx_Meta demo_sandbox) = None"
    by code_simp+
  then show ?thesis
    by (simp add: undisturbed_def calm_env_def demo_env_def http_ok_def)
qed

theorem session_starts_witness:
  "phase (last_session (demo_session ''a'') (w_trace (snd (run_state
     (Reconcile calm_env demo_rcf ''boxy'' ''a'') demo_operator)))) = SandboxPhaseCreating"
proof -
  have "phase (demo_session ''a'') \<in> {[], SandboxPhasePending}"
    "om_DeletionTimestamp (se_Meta (demo_session ''a'')) = None" "w_trace demo_operator = []"
    "rcf_Namespace demo_rcf = ''boxy''"
    by code_simp+
  with session_starts [OF calm_undisturbed, of demo_operator] show ?thesis by (simp add: Let_def)
qed

section \<open>The condition of a pool\<close>

definition ready_conditions :: "Condition list \<Rightarrow> Condition list" where
  "ready_conditions cs = filter (\<lambda>c. cd_Type c = conditionReady) cs"

text \<open>
  The condition is replaced in place: the other conditions stay, there is one condition of
  the type afterwards if there was at most one before, and its transition time changes
  exactly when its status does.
\<close>

lemma put_condition_spec:
  assumes "cd_Type u = conditionReady" and "length (ready_conditions cs) \<le> 1"
  shows "filter (\<lambda>c. cd_Type c \<noteq> conditionReady) (put_condition u cs) = filter (\<lambda>c. cd_Type c \<noteq> conditionReady) cs \<and>
    ready_conditions (put_condition u cs) =
      [case ready_conditions cs of
         c # _ \<Rightarrow> if cd_Status c = cd_Status u then u\<lparr>cd_LastTransitionTime := cd_LastTransitionTime c\<rparr> else u
       | [] \<Rightarrow> u]"
  using assms by (induction u cs rule: put_condition.induct) (auto simp: ready_conditions_def)

end
