(* ===== verification/Router_Cache.thy ===== *)
theory Router_Cache
  imports Router_Props
begin

text \<open>
  The token cache of the router over the whole life of the server: which users it can be
  served for, and for how long.
\<close>

section \<open>The life of the server\<close>

text \<open>
  Requests, ticks of the loop that drops old entries, and the goroutines that requests have
  started, one after the other.
\<close>

inductive served :: "kube_env \<Rightarrow> Config \<Rightarrow> router_state \<Rightarrow> bool" for env cfg where
  start: "served env cfg server_start"
| request: "served env cfg s \<Longrightarrow> served env cfg (snd (run_state (serve env cfg fuel metrics calls render r) s))"
| tick: "served env cfg s \<Longrightarrow> served env cfg (snd (run_state (evictLoop_tick env cfg) s))"
| touch: "\<lbrakk>served env cfg s; Spawn sess \<in> set (w_trace s)\<rbrakk> \<Longrightarrow>
    served env cfg (snd (run_state (touchLastExecSession env sess) s))"

text \<open>
  The API server has accepted a token with this hash for this user, and the clock was read
  next, at \<open>t0\<close>.
\<close>

definition reviewed :: "ktrace \<Rightarrow> bytes \<Rightarrow> UserInfo \<Rightarrow> time \<Rightarrow> bool" where
  "reviewed tr h u t0 \<longleftrightarrow>
     (\<exists>xs tok st ys. tr = xs @ ReviewToken tok (Inr st) # Now t0 # ys \<and>
        tokenHash tok = h \<and> tr_Authenticated st \<and> tr_User st = u)"

definition cache_ok :: "router_state \<Rightarrow> bool" where
  "cache_ok s \<longleftrightarrow> (\<forall>(h, e) \<in> set (rt_entries s). reviewed (w_trace s) h (ca_user e) (ca_storedAt e))"

lemma reviewed_append: "reviewed tr h u t0 \<Longrightarrow> reviewed (tr @ es) h u t0"
  by (fastforce simp: reviewed_def)

lemma cache_ok_mono:
  assumes "cache_ok s" and "set (rt_entries s') \<subseteq> set (rt_entries s)" and "w_trace s' = w_trace s @ es"
  shows "cache_ok s'"
  using assms reviewed_append unfolding cache_ok_def by fastforce

text \<open>What an accepted token rests on: \<open>authenticate\<close> took the user from \<open>tr\<close>, the trace it leaves.\<close>

definition vouched :: "Config \<Rightarrow> bytes \<Rightarrow> UserInfo \<Rightarrow> ktrace \<Rightarrow> bool" where
  "vouched cfg tok u tr \<longleftrightarrow>
     rf_DevToken cfg \<noteq> [] \<and> tok = rf_DevToken cfg \<and> u = dev_user \<or>
     (\<exists>t0 now xs. reviewed tr (tokenHash tok) u t0 \<and> tr = xs @ [Now now] \<and>
        time_Sub now t0 < rf_AuthCacheTTL cfg)"

lemma set_alist_update: "set (AList.update k v xs) \<subseteq> insert (k, v) (set xs)"
  by (induction xs) auto

lemma review_token_vouched:
  assumes "cache_ok s" and "run_state (review_token env tok) s = (x, s')" and "0 < rf_AuthCacheTTL cfg"
  shows "cache_ok s' \<and> (case x of Inl e \<Rightarrow> True | Inr u \<Rightarrow> vouched cfg tok u (w_trace s'))"
proof (cases x)
  case (Inl e)
  with assms(2) review_token_refused [of env tok s e] have "same_state s s'" by simp
  moreover from assms(2) Inl obtain es where "w_trace s' = w_trace s @ es"
    by (auto simp: review_token_def time_Now_def State_Monad.update_def split: sum.splits if_splits)
  ultimately show ?thesis using cache_ok_mono [OF assms(1), of s' es] Inl by (auto simp: same_state_def)
next
  case (Inr u)
  let ?ask = "k_ReviewToken env (w_trace s) tok"
  from assms(2) Inr obtain st where st: "?ask = Inr st" "tr_Authenticated st" "u = tr_User st"
    by (auto simp: review_token_def time_Now_def State_Monad.update_def split: sum.splits if_splits)
  let ?t0 = "k_Now env (w_trace s @ [ReviewToken tok ?ask])"
  from assms(2) Inr st have s': "w_trace s' = w_trace s @ [ReviewToken tok (Inr st), Now ?t0]"
    "rt_entries s' = AList.update (tokenHash tok) \<lparr>ca_user = u, ca_storedAt = ?t0\<rparr> (rt_entries s)"
    by (auto simp: review_token_def time_Now_def State_Monad.update_def)
  have rev: "reviewed (w_trace s') (tokenHash tok) u ?t0"
    unfolding reviewed_def s' using st by fastforce
  have "cache_ok s'"
    unfolding cache_ok_def
  proof (intro ballI)
    fix he assume "he \<in> set (rt_entries s')"
    then have "he \<in> set (rt_entries s) \<or> he = (tokenHash tok, \<lparr>ca_user = u, ca_storedAt = ?t0\<rparr>)"
      unfolding s' using set_alist_update by fastforce
    then show "case he of (h, e) \<Rightarrow> reviewed (w_trace s') h (ca_user e) (ca_storedAt e)"
      using assms(1) rev reviewed_append unfolding cache_ok_def s'(1) by fastforce
  qed
  moreover have "vouched cfg tok u (w_trace s')"
    unfolding vouched_def using rev assms(3)
    by (intro disjI2 exI [of _ ?t0] exI [of _ "w_trace s @ [ReviewToken tok (Inr st)]"])
       (simp add: s' time_Sub_def)
  ultimately show ?thesis using Inr by simp
qed

lemma authenticate_vouched:
  assumes "cache_ok s" and "run_state (authenticate env cfg tok) s = (x, s')" and "0 < rf_AuthCacheTTL cfg"
  shows "cache_ok s' \<and> (case x of Inl e \<Rightarrow> True | Inr u \<Rightarrow> vouched cfg tok u (w_trace s'))"
proof (cases "rf_DevToken cfg \<noteq> [] \<and> tok = rf_DevToken cfg")
  case True
  with assms show ?thesis by (auto simp: authenticate_def vouched_def)
next
  case not_dev: False
  show ?thesis
  proof (cases "map_of (rt_entries s) (tokenHash tok)")
    case None
    with not_dev assms(2) have "run_state (review_token env tok) s = (x, s')"
      by (auto simp: authenticate_def)
    then show ?thesis by (rule review_token_vouched [OF assms(1) _ assms(3)])
  next
    case (Some e)
    let ?now = "k_Now env (w_trace s)"
    let ?s1 = "s\<lparr>w_trace := w_trace s @ [Now ?now]\<rparr>"
    have ok1: "cache_ok ?s1" by (rule cache_ok_mono [OF assms(1)]) simp_all
    show ?thesis
    proof (cases "time_Sub ?now (ca_storedAt e) < rf_AuthCacheTTL cfg")
      case True
      with not_dev Some assms(2) have x: "x = Inr (ca_user e)" "s' = ?s1"
        by (auto simp: authenticate_def time_Now_def)
      from Some assms(1) have "reviewed (w_trace s) (tokenHash tok) (ca_user e) (ca_storedAt e)"
        by (auto simp: cache_ok_def dest: map_of_SomeD)
      then have "reviewed (w_trace ?s1) (tokenHash tok) (ca_user e) (ca_storedAt e)"
        by (simp add: reviewed_append)
      with True have "vouched cfg tok (ca_user e) (w_trace ?s1)"
        unfolding vouched_def
        by (intro disjI2 exI [of _ "ca_storedAt e"] exI [of _ ?now] exI [of _ "w_trace s"]) simp
      with x ok1 show ?thesis by simp
    next
      case False
      with not_dev Some assms(2) have "run_state (review_token env tok) ?s1 = (x, s')"
        by (auto simp: authenticate_def time_Now_def)
      then show ?thesis by (rule review_token_vouched [OF ok1 _ assms(3)])
    qed
  qed
qed

section \<open>The cache over the life of the server\<close>

lemma cache_ok_withAuth:
  assumes "cache_ok s" and "0 < rf_AuthCacheTTL cfg" and "protected env cfg r h"
    and "run_state h s = (a, s')"
  shows "cache_ok s'"
proof -
  from assms(3) obtain "next" where h: "h = withAuth env cfg r next"
    and ok: "\<And>u P. obedient cfg u P (next (Some u))" and keep: "\<And>u. keeps frame (next (Some u))"
    by (auto simp: protected_def)
  show ?thesis
  proof (cases "extractBearer r")
    case None
    with assms h show ?thesis by (auto simp: withAuth_def reply_err_def reply_def)
  next
    case (Some tok)
    obtain x s1 where x: "run_state (authenticate env cfg tok) s = (x, s1)" by fastforce
    with authenticate_vouched [OF assms(1) x assms(2)] have ok1: "cache_ok s1" by simp
    show ?thesis
    proof (cases x)
      case (Inl e)
      with Some x assms(4) h have "s' = s1" by (auto simp: withAuth_def reply_err_def reply_def)
      with ok1 show ?thesis by simp
    next
      case (Inr u)
      with Some x assms(4) h have run: "run_state (next (Some u)) s1 = (a, s')" by (auto simp: withAuth_def)
      from ok run obtain es where "w_trace s' = w_trace s1 @ es" by (rule governed_run)
      moreover from keep [of u] run have "rt_entries s' = rt_entries s1"
        by (auto simp: keeps_def frame_def dest: spec [of _ s1])
      ultimately show ?thesis using cache_ok_mono [OF ok1] by simp
    qed
  qed
qed

lemma cache_ok_serve:
  assumes "cache_ok s" and "0 < rf_AuthCacheTTL cfg"
  shows "cache_ok (snd (run_state (serve env cfg fuel metrics calls render r) s))"
proof -
  obtain a s' where run: "run_state (serve env cfg fuel metrics calls render r) s = (a, s')" by fastforce
  have "cache_ok s'"
  proof (cases rule: serve_cases [of env cfg r fuel metrics calls render])
    case (protected h pat)
    from run [unfolded protected(2)] obtain s0 s1 where
      s0: "s0 = s \<or> s0 = s\<lparr>rt_inflight := rt_inflight s + 1\<rparr>" and s1: "run_state h s0 = (a, s1)"
        "w_trace s' = w_trace s1" "rt_entries s' = rt_entries s1" by (rule middleware_run)
    from s0 assms(1) have "cache_ok s0" by (auto simp: cache_ok_def)
    from cache_ok_withAuth [OF this assms(2) protected(1) s1(1)] s1(2,3) show ?thesis
      by (simp add: cache_ok_def)
  next
    case (public x pat)
    from run [unfolded public(2)] obtain s0 s1 where
      "s0 = s \<or> s0 = s\<lparr>rt_inflight := rt_inflight s + 1\<rparr>" and "run_state (reply x) s0 = (a, s1)"
        "w_trace s' = w_trace s1" "rt_entries s' = rt_entries s1" by (rule middleware_run)
    with assms(1) show ?thesis by (auto simp: cache_ok_def reply_def)
  qed
  with run show ?thesis by simp
qed

text \<open>The loop that drops entries keeps some of them, and only reads the clock.\<close>

lemma drop_old_subset:
  "emits w_trace (\<lambda>es ys. set ys \<subseteq> set xs) (drop_old env cfg xs)"
proof (induction xs)
  case (Cons x xs)
  obtain k e where x: "x = (k, e)" by fastforce
  show ?case
    unfolding x drop_old.simps time_Now_def
    by (intro emits_call_bind emits_bind [OF Cons.IH, where Q = "\<lambda>es x es' ys. set ys \<subseteq> set ((k, e) # xs)"])
       (auto intro!: emits_return)
qed (simp add: emits_return)

lemma cache_ok_tick:
  assumes "cache_ok s"
  shows "cache_ok (snd (run_state (evictLoop_tick env cfg) s))"
proof -
  obtain ys s1 where run: "run_state (drop_old env cfg (rt_entries s)) s = (ys, s1)" by fastforce
  from drop_old_subset run obtain es where "w_trace s1 = w_trace s @ es" "set ys \<subseteq> set (rt_entries s)"
    by (rule emitsE)
  moreover have "snd (run_state (evictLoop_tick env cfg) s) = s1\<lparr>rt_entries := ys\<rparr>"
    by (simp add: evictLoop_tick_def State_Monad.update_def run)
  ultimately show ?thesis using cache_ok_mono [OF assms, of "s1\<lparr>rt_entries := ys\<rparr>" es] by simp
qed

lemma cache_ok_touch:
  assumes "cache_ok s"
  shows "cache_ok (snd (run_state (touchLastExecSession env sess) s))"
proof -
  let ?s' = "snd (run_state (touchLastExecSession env sess) s)"
  have "emits w_trace (\<lambda>_ _. True) (touchLastExecSession env sess)"
    unfolding touchLastExecSession_def time_Now_def rt_patch_status_def
    by (intro emits_call_bind emits_return) simp
  then obtain es where "w_trace ?s' = w_trace s @ es" unfolding emits_def by blast
  moreover have "rt_entries ?s' = rt_entries s"
    by (simp add: touchLastExecSession_def time_Now_def rt_patch_status_def)
  ultimately show ?thesis using cache_ok_mono [OF assms] by simp
qed

lemma NewServer_TTL: "0 < rf_AuthCacheTTL (NewServer cfg)"
  by (simp add: NewServer_def seconds_def)

lemma served_cache_ok: "served env (NewServer cfg) s \<Longrightarrow> cache_ok s"
proof (induction rule: served.induct)
  case start
  show ?case by (simp add: cache_ok_def server_start_def)
qed (simp_all add: cache_ok_serve NewServer_TTL cache_ok_tick cache_ok_touch)



definition alice :: UserInfo where
  "alice = \<lparr>ui_Username = ''alice'', ui_UID = ''1'', ui_Groups = [''dev'']\<rparr>"

definition accepting :: "kube_env \<Rightarrow> kube_env" where
  "accepting env = env\<lparr>k_ReviewToken := (\<lambda>_ _. Inr \<lparr>tr_Authenticated = True, tr_User = alice, tr_Error = []\<rparr>)\<rparr>"



section \<open>Slots and metrics\<close>

lemma authenticate_keeps_counts:
  "run_state (authenticate env cfg tok) s = (x, s') \<Longrightarrow>
     rt_sem s' = rt_sem s \<and> rt_inflight s' = rt_inflight s \<and> rt_requests s' = rt_requests s"
  by (auto simp: authenticate_def review_token_def time_Now_def State_Monad.update_def
      split: option.splits sum.splits if_splits)

lemma protected_keeps_counts:
  assumes "protected env cfg r h" and "run_state h s = (a, s')"
  shows "rt_sem s' = rt_sem s \<and> rt_inflight s' = rt_inflight s \<and> rt_requests s' = rt_requests s"
proof -
  from assms(1) obtain "next" where h: "h = withAuth env cfg r next"
    and keep: "\<And>u. keeps frame (next (Some u))" by (auto simp: protected_def)
  show ?thesis
  proof (cases "extractBearer r")
    case None
    with assms(2) h show ?thesis by (auto simp: withAuth_def reply_err_def reply_def)
  next
    case (Some tok)
    obtain x s1 where x: "run_state (authenticate env cfg tok) s = (x, s1)" by fastforce
    note counts = authenticate_keeps_counts [OF x]
    show ?thesis
    proof (cases x)
      case (Inl e)
      with Some x assms(2) h counts show ?thesis by (auto simp: withAuth_def reply_err_def reply_def)
    next
      case (Inr u)
      with Some x assms(2) h have "run_state (next (Some u)) s1 = (a, s')" by (auto simp: withAuth_def)
      with keep [of u] counts show ?thesis by (auto simp: keeps_def frame_def dest: spec [of _ s1])
    qed
  qed
qed

text \<open>
  C25.  Answering a request leaves as many slots of the semaphore taken and as many requests
  in flight as there were, and with metrics enabled it counts the request once, with
  the status of the answer.  When all slots are taken, an execution is refused with 429 and
  nothing happens, over the REST routes and for every tool.
\<close>

theorem slots_and_metrics:
  "(case run_state (serve env cfg fuel metrics calls render r) s of
      (None, s') \<Rightarrow> True
    | (Some x, s') \<Rightarrow>
        rt_sem s' = rt_sem s \<and> rt_inflight s' = rt_inflight s \<and>
        (\<exists>route. rt_requests s' =
           (if metrics = None then rt_requests s else rt_requests s @ [(route, ro_Status x, rq_Meth r)]))) \<and>
   (if int (rt_sem s) < rf_MaxConcurrency cfg then True
    else run_state (handleSessionExec env cfg fuel user r) s =
           (Some (jsonErr 429 ''concurrency limit'' ''too_many_in_flight''), s) \<and>
         run_state (handleSessionExecStream env cfg fuel user r) s =
           (Some (jsonErr 429 ''concurrency limit'' ''too_many_in_flight''), s) \<and>
         run_state (with_sem cfg (Some (toolErrResult ''concurrency limit reached, try again later'')) tool) s =
           (Some (toolErrResult ''concurrency limit reached, try again later''), s))"
proof (rule conjI)
  obtain a s' where run: "run_state (serve env cfg fuel metrics calls render r) s = (a, s')" by fastforce
  have "\<exists>h pat. serve env cfg fuel metrics calls render r = middleware (metrics \<noteq> None) r (pat, h) \<and>
      (\<forall>s0 b s1. run_state h s0 = (b, s1) \<longrightarrow>
         rt_sem s1 = rt_sem s0 \<and> rt_inflight s1 = rt_inflight s0 \<and> rt_requests s1 = rt_requests s0)"
  proof (cases rule: serve_cases [of env cfg r fuel metrics calls render])
    case (protected h pat)
    then show ?thesis using protected_keeps_counts by blast
  next
    case (public x pat)
    then show ?thesis by (intro exI [of _ "reply x"] exI [of _ pat]) (auto simp: reply_def)
  qed
  then obtain h pat where serve: "serve env cfg fuel metrics calls render r = middleware (metrics \<noteq> None) r (pat, h)"
    and keep: "\<And>s0 b s1. run_state h s0 = (b, s1) \<Longrightarrow>
         rt_sem s1 = rt_sem s0 \<and> rt_inflight s1 = rt_inflight s0 \<and> rt_requests s1 = rt_requests s0" by blast
  obtain b s1 where h: "run_state h (if metrics = None then s else s\<lparr>rt_inflight := rt_inflight s + 1\<rparr>) = (b, s1)"
    by fastforce
  with run keep [OF h] show "case run_state (serve env cfg fuel metrics calls render r) s of
      (None, s') \<Rightarrow> True
    | (Some x, s') \<Rightarrow>
        rt_sem s' = rt_sem s \<and> rt_inflight s' = rt_inflight s \<and>
        (\<exists>route. rt_requests s' =
           (if metrics = None then rt_requests s else rt_requests s @ [(route, ro_Status x, rq_Meth r)]))"
    unfolding serve
    by (cases metrics; cases b) (auto simp: middleware_def State_Monad.update_def)
qed (simp add: handleSessionExec_def handleSessionExecStream_def with_sem_def)

end
