(* ===== verification/Router_Answers.thy ===== *)
theory Router_Answers
  imports Router_Props
begin

text \<open>
  Every request to the router is answered: the loop that waits for a session ends when the
  clock advances, and nothing else waits.
\<close>

section \<open>The waiting loop ends\<close>

abbreviation poll_interval :: duration where "poll_interval \<equiv> 250000000"

text \<open>
  The clock never goes back over one call, and advances by at least the time waited between
  two rounds of the loop: after a reading, a wait of 250 milliseconds and one more call, the
  next reading is that much later.
\<close>

definition ticking :: "kube_env \<Rightarrow> bool" where
  "ticking env \<longleftrightarrow>
     (\<forall>tr t e. t \<le> k_Now env (tr @ [Now t, e]) \<and>
        t + poll_interval \<le> k_Now env (tr @ [Now t, WaitTick None, e]))"

text \<open>Rounds enough to pass the deadline.\<close>

definition wait_rounds :: "Config \<Rightarrow> nat" where
  "wait_rounds cfg = nat (create_timeout cfg div poll_interval) + 2"

lemma poll_session_later:
  assumes "ticking env" and "w_trace s = tr @ [Now t, WaitTick None]" and "t \<le> deadline"
    and "deadline - t < int fuel * poll_interval"
  shows "\<exists>r. fst (run_state (poll_session env ns n deadline fuel) s) = Some r"
  using assms(2-)
proof (induction fuel arbitrary: s t tr)
  case (Suc fuel)
  let ?g = "GetSession ns n (k_GetSession env (w_trace s) ns n)"
  let ?now = "k_Now env (w_trace s @ [?g])"
  from assms(1) Suc.prems(1) have later: "t + poll_interval \<le> ?now" by (simp add: ticking_def)
  show ?case
  proof (cases "?now \<le> deadline")
    case True
    let ?s = "s\<lparr>w_trace := w_trace s @ [?g, Now ?now, WaitTick None]\<rparr>"
    have "deadline - ?now < int fuel * poll_interval"
      using later Suc.prems(3) by (simp add: algebra_simps)
    from Suc.IH [of ?s "w_trace s @ [?g]" ?now, OF _ True this]
    show ?thesis by (auto simp: time_Now_def split: sum.split option.split)
  next
    case False
    then show ?thesis by (auto simp: time_Now_def split: sum.split)
  qed
qed simp

lemma ticking_next: "ticking env \<Longrightarrow> t \<le> k_Now env (tr @ [Now t, e])"
  by (simp add: ticking_def)

definition answered :: "'a option \<Rightarrow> bool" where
  "answered x \<longleftrightarrow> x \<noteq> None"

lemma answered_simps [simp]: "answered (Some x)" "\<not> answered None"
  by (simp_all add: answered_def)

abbreviation answers :: "('s, 'a option) state \<Rightarrow> bool" where "answers \<equiv> returns answered"

lemma createAndWait_answers:
  assumes "ticking env" and "wait_rounds cfg \<le> fuel"
  shows "answers (createAndWaitForSession env cfg fuel i b owner)"
  unfolding returns_def answered_def
proof
  fix s :: router_state
  from assms(2) obtain f where f: "fuel = Suc f" and "nat (create_timeout cfg div poll_interval) + 1 \<le> f"
    by (cases fuel) (auto simp: wait_rounds_def)
  then have enough: "create_timeout cfg < int f * poll_interval" by linarith
  let ?ns = "rf_SandboxNamespace cfg" and ?c = "new_session_cr cfg i b owner"
  let ?s1 = "s\<lparr>w_trace := w_trace s @ [CreateSession ?c (k_CreateSession env (w_trace s) ?c)]\<rparr>"
  let ?now = "k_Now env (w_trace ?s1)"
  let ?s2 = "?s1\<lparr>w_trace := w_trace ?s1 @ [Now ?now]\<rparr>"
  let ?d = "?now + create_timeout cfg"
  let ?g = "GetSession ?ns i (k_GetSession env (w_trace ?s2) ?ns i)"
  let ?now' = "k_Now env (w_trace ?s2 @ [?g])"
  have later: "?now \<le> ?now'" using ticking_next [OF assms(1), of ?now "w_trace ?s1" ?g] by simp
  have "\<exists>r. fst (run_state (poll_session env ?ns i ?d fuel) ?s2) = Some r"
  proof (cases "?now' \<le> ?d")
    case True
    from later enough have "?d - ?now' < int f * poll_interval" by simp
    from poll_session_later [OF assms(1) _ True this,
        of "?s2\<lparr>w_trace := w_trace ?s2 @ [?g, Now ?now', WaitTick None]\<rparr>" "w_trace ?s2 @ [?g]"]
    show ?thesis unfolding f by (auto simp: time_Now_def split: sum.split option.split)
  next
    case False
    then show ?thesis unfolding f by (auto simp: time_Now_def split: sum.split)
  qed
  then show "fst (run_state (createAndWaitForSession env cfg fuel i b owner) s) \<noteq> None"
    by (auto simp: createAndWaitForSession_def time_Now_def Let_def split: sum.splits)
qed

section \<open>Every handler answers\<close>

lemma answers_replies [returns_intros]:
  "answers (reply r)" "answers (reply_err c m e)" "answers (toolError t)" "answers (toolText t)"
  by (simp_all add: reply_def reply_err_def toolError_def toolText_def returns_def)

lemma answers_some [returns_intros]: "answers (State_Monad.return (Some x))"
  by (simp add: returns_def)

lemma answers_bind: "answers m \<Longrightarrow> (\<And>y. answers (f (Some y))) \<Longrightarrow> answers (State_Monad.bind m f)"
  by (rule returns_bind_value [where R = answered]) (auto simp: answered_def)

lemma answers_with_sem [returns_intros]: "answers body \<Longrightarrow> answers (with_sem cfg (Some busy) body)"
  by (simp add: with_sem_def returns_def case_prod_beta State_Monad.update_def)

lemma answers_guards [returns_intros]:
  "(\<And>v. answers (f v)) \<Longrightarrow> answers (decodeBody cfg b f)"
  "answers g \<Longrightarrow> answers (requireResourceAccess env cfg user v res n g)"
  "(\<And>i. answers (h i)) \<Longrightarrow> answers (with_path_id field validate pv h)"
  "(\<And>i. answers (k i)) \<Longrightarrow> answers (with_session_id env body k)"
  unfolding decodeBody_def requireResourceAccess_def with_path_id_def with_session_id_def Let_def
  by (intro returns_intros; assumption)+

text \<open>What the handlers rely on: the wait for a session ends.\<close>

definition wait_ends :: "kube_env \<Rightarrow> Config \<Rightarrow> nat \<Rightarrow> bool" where
  "wait_ends env cfg fuel \<longleftrightarrow> (\<forall>i b owner. answers (createAndWaitForSession env cfg fuel i b owner))"

lemma answers_createAndWait:
  assumes "wait_ends env cfg fuel"
    and "\<And>e. answers (f (Some (Inl e)))" and "\<And>sess. answers (f (Some (Inr sess)))"
  shows "answers (State_Monad.bind (createAndWaitForSession env cfg fuel i b owner) f)"
proof (rule answers_bind)
  show "answers (f (Some y))" for y using assms(2,3) by (cases y) simp_all
qed (use assms(1) in \<open>simp add: wait_ends_def\<close>)

lemma answers_exec_session:
  assumes "wait_ends env cfg fuel" and "\<And>body i c sess. answers (f body i c sess)"
  shows "answers (exec_session env cfg fuel user r f)"
  unfolding exec_session_def fresh_session_def Let_def
  by (intro answers_createAndWait [OF assms(1)] assms(2) returns_intros) simp_all

lemma answers_handlers:
  "answers (handleSessionList env cfg user r)" "answers (handleSessionGet env cfg user i)"
  "answers (handleSessionDelete env cfg user i)" "answers (handleSandboxCreate env cfg user r)"
  "answers (handleSandboxGet env cfg user i)" "answers (handleSandboxDelete env cfg user i)"
  "answers (handleSandboxList env cfg user)" "answers (handleSandboxUpdate env cfg user i r)"
  "answers (handleSandboxEvict env cfg user i)" "answers (handleSandboxSessions env cfg user i)"
  unfolding handleSessionList_def handleSessionGet_def handleSessionDelete_def handleSandboxCreate_def
    handleSandboxGet_def handleSandboxDelete_def handleSandboxList_def handleSandboxUpdate_def
    handleSandboxEvict_def handleSandboxSessions_def Let_def
  by (intro returns_intros)+

lemma answers_waiting_handlers:
  assumes "wait_ends env cfg fuel"
  shows "answers (handleSessionExec env cfg fuel user r)"
    and "answers (handleSessionExecStream env cfg fuel user r)"
    and "answers (handleSessionCreate env cfg fuel user r)"
  unfolding handleSessionExec_def handleSessionExecStream_def handleSessionCreate_def Let_def
  by (intro answers_exec_session [OF assms] answers_createAndWait [OF assms] returns_intros; simp)+

section \<open>Every tool answers\<close>

lemma answers_ensureSession:
  assumes "wait_ends env cfg fuel"
  shows "answers (ensureSession env cfg fuel user i b owner)"
  unfolding ensureSession_def
  by (intro answers_createAndWait [OF assms] returns_intros) simp_all

lemma answers_resolveDefaultSession:
  assumes "wait_ends env cfg fuel"
  shows "answers (resolveDefaultSession env cfg fuel user given)"
  unfolding resolveDefaultSession_def resolveSandboxSession_def Let_def
  by (intro answers_ensureSession [OF assms] returns_intros) simp_all

lemma answers_resolved_session: "answers (resolved_session env cfg prefix (Some r))"
  unfolding resolved_session_def
  by (cases r) (auto intro!: returns_intros split: sum.splits option.splits)

lemma answers_find_tool_session:
  assumes "wait_ends env cfg fuel"
  shows "answers (find_tool_session env cfg fuel user b i)"
proof -
  have e: "answers (State_Monad.bind (ensureSession env cfg fuel user i b i)
      (resolved_session env cfg ''session unavailable: ''))"
    by (rule answers_bind [OF answers_ensureSession [OF assms]]) (rule answers_resolved_session)
  have d: "answers (State_Monad.bind (if b \<noteq> [] then resolveSandboxSession env cfg fuel user b
        else resolveDefaultSession env cfg fuel user b)
      (resolved_session env cfg ''no session specified and session unavailable: ''))"
    by (rule answers_bind)
       (simp_all add: resolveSandboxSession_def answers_ensureSession [OF assms]
         answers_resolveDefaultSession [OF assms] answers_resolved_session)
  show ?thesis
    unfolding find_tool_session_def by (intro e d returns_intros) simp_all
qed

lemma answers_with_tool_session:
  assumes "wait_ends env cfg fuel" and "\<And>sess. answers (f sess)"
  shows "answers (with_tool_session env cfg fuel user b i f)"
proof -
  have "answers (resolveToolSession env cfg fuel user b i)"
    unfolding resolveToolSession_def Let_def
    by (intro returns_cases answers_bind [OF answers_find_tool_session [OF assms(1)]])
       (auto intro!: returns_intros split: sum.split)
  then show ?thesis
    unfolding with_tool_session_def
    by (rule answers_bind) (auto intro!: returns_intros assms(2) split: sum.split)
qed

lemma answers_run_tool:
  assumes "wait_ends env cfg fuel"
  shows "answers (run_tool env cfg fuel user b i c)"
  unfolding run_tool_def mcpBashTool_def mcpReadFileTool_def mcpWriteFileTool_def mcpEditFileTool_def
    bash_done_def Let_def
  by (cases c) (auto intro!: returns_intros answers_with_tool_session [OF assms])

lemma answers_mcp:
  assumes "wait_ends env cfg fuel"
  shows "answers (newMCPHandler env cfg fuel calls render r user)"
proof -
  have "answers (run_tools env cfg fuel user b i cs)" for b i cs
  proof (induction cs)
    case (Cons c cs)
    show ?case
      unfolding run_tools.simps
      by (rule answers_bind [OF answers_run_tool [OF assms]], unfold option.case, rule answers_bind [OF Cons.IH])
         (simp add: returns_def)
  qed (simp add: returns_def)
  then show ?thesis unfolding newMCPHandler_def by (rule answers_bind) (simp add: returns_def)
qed

section \<open>The server answers\<close>

lemma answers_withAuth: "(\<And>u. answers (next u)) \<Longrightarrow> answers (withAuth env cfg r next)"
  unfolding withAuth_def by (intro returns_intros)

lemma answers_middleware: "answers h \<Longrightarrow> answers (middleware b r (pat, h))"
  by (auto simp: middleware_def returns_def answered_def case_prod_beta split: option.split)

lemma answers_routes:
  assumes "wait_ends env cfg fuel"
    and "(p, h) \<in> set (rt_routes env cfg fuel metrics (newMCPHandler env cfg fuel calls render r) r)"
  shows "answers h"
  using assms(2)
  by (auto simp: rt_routes_def Let_def withAuthHandler_eq split: option.splits
      intro!: answers_withAuth answers_handlers answers_waiting_handlers answers_mcp answers_replies assms(1))

text \<open>
  C11.  When the clock advances, every request is answered: the waiting loop passes its
  deadline after at most the number of rounds that fit into the timeout, and with so many
  rounds every handler and every tool returns, whatever the API server and the controllers
  answer.
\<close>

theorem requests_answered:
  assumes "ticking env" and "wait_rounds cfg \<le> fuel"
  shows "\<exists>x. fst (run_state (serve env cfg fuel metrics calls render r) s) = Some x"
proof -
  let ?routes = "rt_routes env cfg fuel metrics (newMCPHandler env cfg fuel calls render r) r"
  have ends: "wait_ends env cfg fuel"
    using createAndWait_answers [OF assms] by (simp add: wait_ends_def)
  have "answers (snd (rt_mux ?routes r))"
    by (cases rule: mux_handler [of ?routes r]) (auto simp: answers_replies intro: answers_routes [OF ends])
  then have "answers (serve env cfg fuel metrics calls render r)"
    unfolding serve_def Handler_def by (cases "rt_mux ?routes r") (simp add: answers_middleware)
  then show ?thesis by (simp add: returns_def answered_def)
qed

definition steady_clock :: "kube_env \<Rightarrow> kube_env" where
  "steady_clock env = env\<lparr>k_Now := (\<lambda>tr.
     fold (\<lambda>e m. case e of Now t \<Rightarrow> max t m | _ \<Rightarrow> m) tr 0 + poll_interval)\<rparr>"

lemma ticking_steady_clock: "ticking (steady_clock env)"
  by (auto simp: ticking_def steady_clock_def split: kevent.split)

theorem requests_answered_witness:
  "\<forall>env cfg metrics calls render r s. let cfg = cfg\<lparr>rf_CreateTimeout := 0\<rparr> in
     ticking (steady_clock env) \<and> wait_rounds cfg = 122 \<and>
     (\<exists>x. fst (run_state (serve (steady_clock env) cfg 122 metrics calls render r) s) = Some x)"
proof (intro allI)
  fix env :: kube_env and cfg :: Config and metrics calls render r s
  let ?cfg = "cfg\<lparr>rf_CreateTimeout := 0\<rparr>"
  have w: "wait_rounds ?cfg = 122" by (simp add: wait_rounds_def create_timeout_def seconds_def)
  with requests_answered [OF ticking_steady_clock, of ?cfg 122 env metrics calls render r s] ticking_steady_clock
  show "let cfg = ?cfg in ticking (steady_clock env) \<and> wait_rounds cfg = 122 \<and>
     (\<exists>x. fst (run_state (serve (steady_clock env) cfg 122 metrics calls render r) s) = Some x)"
    by simp
qed

end
