(* ===== verification/Router_Objects.thy ===== *)
theory Router_Objects
  imports Router_Props
begin

text \<open>
  The objects the router creates are well formed: whatever the requests, the names and labels
  of the sessions and the contents of the configurations it writes are valid.
\<close>

section \<open>Well-formed objects\<close>

definition session_wf :: "Config \<Rightarrow> Session \<Rightarrow> bool" where
  "session_wf cfg s \<longleftrightarrow>
     (let i = om_Name (se_Meta s) in
      valid_name i \<and> om_Namespace (se_Meta s) = rf_SandboxNamespace cfg \<and>
      ss_SessionID (se_Spec s) = i \<and> valid_name (ss_SandboxID (se_Spec s)) \<and>
      valid_label_value (ss_Owner (se_Spec s)) \<and>
      map_of (om_Labels (se_Meta s)) LabelSessionID = Some i \<and>
      map_of (om_Labels (se_Meta s)) LabelSandboxID = Some (ss_SandboxID (se_Spec s)) \<and>
      map_of (om_Labels (se_Meta s)) LabelOwner = Some (ss_Owner (se_Spec s)) \<and>
      phase s = [])"

definition spec_wf :: "Config \<Rightarrow> SandboxSpec \<Rightarrow> bool" where
  "spec_wf cfg b \<longleftrightarrow>
     0 \<le> bs_TTLSeconds b \<and> (rf_MaxSandboxTTLSec cfg \<le> 0 \<or> bs_TTLSeconds b \<le> rf_MaxSandboxTTLSec cfg) \<and>
     length (bs_Env b) \<le> 64 \<and>
     list_all (\<lambda>(k, v). env_key_ok k \<and> RuneCountInString v \<le> 16384) (bs_Env b)"

definition sandbox_wf :: "Config \<Rightarrow> Sandbox \<Rightarrow> bool" where
  "sandbox_wf cfg sb \<longleftrightarrow>
     (let i = om_Name (bx_Meta sb) in
      valid_name i \<and> om_Namespace (bx_Meta sb) = rf_SandboxNamespace cfg \<and>
      bs_SandboxID (bx_Spec sb) = i \<and> map_of (om_Labels (bx_Meta sb)) LabelSandboxID = Some i \<and>
      spec_wf cfg (bx_Spec sb))"

fun writes_wf :: "Config \<Rightarrow> kevent \<Rightarrow> bool" where
  "writes_wf cfg (CreateSession s r) = session_wf cfg s"
| "writes_wf cfg (CreateSandboxCR sb r) = sandbox_wf cfg sb"
| "writes_wf cfg (PatchSandbox old new r) =
     (bx_Meta new = bx_Meta old \<and> bs_SandboxID (bx_Spec new) = bs_SandboxID (bx_Spec old) \<and>
      spec_wf cfg (bx_Spec new))"
| "writes_wf cfg e = True"

abbreviation well :: "Config \<Rightarrow> 'a rt \<Rightarrow> bool" where
  "well cfg \<equiv> emits_all w_trace (writes_wf cfg)"

text \<open>
  What this rests on: the random source fills its buffer of eight bytes, and the default
  configuration, which is not validated when it is read, is valid.
\<close>

definition random_full :: "kube_env \<Rightarrow> bool" where
  "random_full env \<longleftrightarrow> (\<forall>t. length (k_RandomBytes env t) = 8)"

definition default_wf :: "Config \<Rightarrow> bool" where
  "default_wf cfg \<longleftrightarrow>
     (case rf_DefaultSandboxConfig cfg of
        None \<Rightarrow> True
      | Some body \<Rightarrow> ValidateSandboxCreate (Some body) (rf_MaxSandboxTTLSec cfg) = None)"

section \<open>Names\<close>

lemma lower_alnum_hex: "n < 16 \<Longrightarrow> lower_alnum (hex_digit n)"
proof -
  have "list_all (\<lambda>n. lower_alnum (hex_digit n)) [0..<16]" by code_simp
  then show "n < 16 \<Longrightarrow> lower_alnum (hex_digit n)" by (simp add: list_all_iff)
qed

lemma lower_alnum_hex_bytes: "list_all lower_alnum (hex_EncodeToString (map byte b))"
proof (induction b)
  case (Cons c b)
  have "byte c < (256::nat)" by (cases c) simp
  then have "byte c div 16 < (16::nat)" "byte c mod 16 < (16::nat)"
    by (simp_all add: div_less_iff_less_mult)
  with Cons show ?case by (simp add: hex_EncodeToString_def lower_alnum_hex)
qed (simp add: hex_EncodeToString_def)

lemma generated_name:
  assumes "length b = 8"
  shows "valid_name (''sess-'' @ hex_EncodeToString (map byte b))"
proof -
  let ?h = "hex_EncodeToString (map byte b)"
  have len: "length ?h = 16" using assms by (simp add: length_hex)
  then have "?h \<noteq> []" by auto
  with lower_alnum_hex_bytes [of b] have "lower_alnum (last ?h)" by (simp add: list_all_iff)
  with len \<open>?h \<noteq> []\<close> lower_alnum_hex_bytes [of b] show ?thesis
    by (auto simp: valid_name_def list_all_iff lower_alnum_def byte_in_def)
qed

lemma shared_name:
  assumes "valid_name i"
  shows "valid_name (shared_session_id i)"
proof -
  let ?t = "take 55 i"
  from assms have "?t \<noteq> []" "hd ?t = hd i" by (auto simp: valid_name_def hd_take)
  moreover have "list_all (\<lambda>c. lower_alnum c \<or> c = CHR ''.'' \<or> c = CHR ''-'') ?t"
    using assms by (auto simp: valid_name_def list_all_iff dest: in_set_takeD)
  moreover have "shared_session_id i = ?t @ ''-session''" by (simp add: shared_session_id_def)
  ultimately show ?thesis using assms
    by (simp add: valid_name_def) (simp add: lower_alnum_def byte_in_def)
qed

lemma name_is_label: "valid_name i \<Longrightarrow> valid_label_value i"
  by (auto simp: valid_name_def valid_label_value_def ascii_alnum_def list_all_iff)

lemma session_cr_wf:
  "\<lbrakk>valid_name i; valid_name b; valid_label_value owner\<rbrakk> \<Longrightarrow> session_wf cfg (new_session_cr cfg i b owner)"
  by (simp add: session_wf_def new_session_cr_def)

lemma sandbox_cr_wf:
  "ValidateSandboxCreate (Some body) (rf_MaxSandboxTTLSec cfg) = None \<Longrightarrow> sandbox_wf cfg (sandbox_cr cfg body)"
  unfolding accepted_sandbox_body by (simp add: sandbox_wf_def spec_wf_def sandbox_cr_def)

section \<open>Handlers that write\<close>

lemma emits_returns:
  "emits tr P m \<Longrightarrow> returns R m \<Longrightarrow> emits tr (\<lambda>es x. P es x \<and> R x) m"
  by (auto simp: emits_def returns_def)

lemma well_bind_value:
  "\<lbrakk>well cfg m; returns R m; \<And>x. R x \<Longrightarrow> well cfg (f x)\<rbrakk> \<Longrightarrow> well cfg (State_Monad.bind m f)"
  by (rule emits_bind [OF emits_returns [of w_trace _ m R]]) auto

lemma generateSessionID_valid: "random_full env \<Longrightarrow> returns valid_name (generateSessionID env)"
  using generated_name by (simp add: generateSessionID_def returns_def random_full_def)

lemma well_calls [emits_intros]:
  "well cfg (time_Now env)" "well cfg (lookupSession env cfg' i)" "well cfg (lookupSandbox env cfg' i)"
  "well cfg (rt_list_sessions env cfg' l)" "well cfg (rt_list_sandboxes env cfg' l)"
  "well cfg (rt_delete_session env x)" "well cfg (rt_patch_status env x y)"
  "well cfg (countSessionsForSandbox env cfg' i)" "well cfg (generateSessionID env)"
  "well cfg (spawn_touch x)" "well cfg (authorizeResource env cfg' user ns v res n)"
  "well cfg (canResourceAccess env cfg' user v res n)"
  unfolding time_Now_def lookupSession_def lookupSandbox_def rt_list_sessions_def rt_list_sandboxes_def
    rt_delete_session_def rt_patch_status_def countSessionsForSandbox_def generateSessionID_def
    spawn_touch_def canResourceAccess_def authorizeResource_def Let_def
  by (intro emits_intros; simp)+

lemma well_replies [emits_intros]:
  "well cfg (reply r)" "well cfg (reply_err c m e)" "well cfg (toolError t)" "well cfg (toolText t)"
  unfolding reply_def reply_err_def toolError_def toolText_def by (intro emits_intros; simp)+

lemma well_with_sem [emits_intros]: "well cfg body \<Longrightarrow> well cfg (with_sem cfg' busy body)"
  unfolding with_sem_def by (intro emits_intros) auto

lemma well_guards [emits_intros]:
  "(\<And>v. well cfg (f v)) \<Longrightarrow> well cfg (decodeBody cfg' b f)"
  "well cfg g \<Longrightarrow> well cfg (requireResourceAccess env cfg' user v res n g)"
  "(\<And>i. well cfg (h i)) \<Longrightarrow> well cfg (with_path_id field validate pv h)"
  unfolding decodeBody_def requireResourceAccess_def with_path_id_def Let_def
  by (intro emits_intros; assumption)+

lemma well_with_session_id:
  assumes "random_full env" and "\<And>i. valid_name i \<Longrightarrow> well cfg (k i)"
  shows "well cfg (with_session_id env body k)"
  unfolding with_session_id_def Let_def
  by (intro emits_cases well_replies well_bind_value [OF _ generateSessionID_valid [OF assms(1)]]
        assms(2) well_calls)
     (simp_all add: ValidateSessionID_def validateLabelBackedName_None)

lemma well_loops [emits_intros]:
  "well cfg (poll_session env ns n d fuel)" "well cfg (list_configs env cfg' sbs)"
  "well cfg (evict_loop env items)" "well cfg (notify_all k es)"
proof -
  show "well cfg (poll_session env ns n d fuel)"
    by (induction fuel) (auto simp only: poll_session.simps intro!: emits_intros; simp)+
  show "well cfg (list_configs env cfg' sbs)"
    by (induction sbs) (auto simp only: list_configs.simps intro!: emits_intros; simp)+
  show "well cfg (evict_loop env items)"
    by (induction items) (auto simp only: evict_loop.simps intro!: emits_intros; simp)+
  show "well cfg (notify_all k es)"
    by (induction k es rule: notify_all.induct) (auto simp only: notify_all.simps intro!: emits_intros; simp)+
qed

lemma well_createAndWait:
  "\<lbrakk>valid_name i; valid_name b; valid_label_value owner\<rbrakk> \<Longrightarrow>
     well cfg (createAndWaitForSession env cfg fuel i b owner)"
  unfolding createAndWaitForSession_def Let_def
  by (intro emits_intros) (simp_all add: session_cr_wf)

lemma well_exec_session:
  assumes "random_full env" and "\<And>body i c sess. well cfg (f body i c sess)"
  shows "well cfg (exec_session env cfg fuel user r f)"
  unfolding exec_session_def fresh_session_def Let_def
  by (intro emits_intros well_with_session_id [OF assms(1)] well_createAndWait assms(2))
     (auto dest: accepted_exec_ids)

lemma well_writers:
  assumes "random_full env"
  shows "well cfg (handleSessionExec env cfg fuel user r)"
    and "well cfg (handleSessionExecStream env cfg fuel user r)"
    and "well cfg (handleSessionCreate env cfg fuel user r)"
proof -
  show "well cfg (handleSessionExec env cfg fuel user r)"
    unfolding handleSessionExec_def ctl_Exec_def
    by (intro emits_intros well_exec_session [OF assms]) simp_all
  show "well cfg (handleSessionExecStream env cfg fuel user r)"
    unfolding handleSessionExecStream_def ctl_ExecStream_def Let_def
    by (intro emits_intros well_exec_session [OF assms]) simp_all
  have chosen: "returns valid_name (if TrimSpace (sc_SessionID b) = [] then generateSessionID env
      else State_Monad.return (TrimSpace (sc_SessionID b)))" if "ValidateSessionCreate (Some b) = None" for b
    using accepted_session_ids(2) [OF that] generateSessionID_valid [OF assms]
    by (auto simp: returns_def valid_name_TrimSpace valid_name_nonempty)
  show "well cfg (handleSessionCreate env cfg fuel user r)"
    unfolding handleSessionCreate_def Let_def
    by (rule well_guards, rule emits_cases, rule well_bind_value [OF _ chosen])
       (auto intro!: emits_intros well_createAndWait dest: accepted_session_ids)
qed

lemma well_sandbox_create: "well cfg (handleSandboxCreate env cfg user r)"
  unfolding handleSandboxCreate_def createSandboxFromBody_def
  by (intro emits_intros) (simp_all add: sandbox_cr_wf)

lemma well_sandbox_update: "well cfg (handleSandboxUpdate env cfg user i r)"
proof -
  have "writes_wf cfg (PatchSandbox sb (updated_sandbox body sb) x)"
    if "ValidateSandboxCreate (Some body) (rf_MaxSandboxTTLSec cfg) = None" for body sb x
    using that unfolding accepted_sandbox_body by (simp add: updated_sandbox_def spec_wf_def)
  then show ?thesis
    unfolding handleSandboxUpdate_def Let_def by (intro emits_intros) simp_all
qed

lemma well_handlers:
  "well cfg (handleSessionList env cfg user r)" "well cfg (handleSessionGet env cfg user i)"
  "well cfg (handleSessionDelete env cfg user i)" "well cfg (handleSandboxGet env cfg user i)"
  "well cfg (handleSandboxDelete env cfg user i)" "well cfg (handleSandboxList env cfg user)"
  "well cfg (handleSandboxEvict env cfg user i)" "well cfg (handleSandboxSessions env cfg user i)"
  unfolding handleSessionList_def handleSessionGet_def handleSessionDelete_def handleSandboxGet_def
    handleSandboxDelete_def handleSandboxList_def handleSandboxEvict_def handleSandboxSessions_def
  by (intro emits_intros; simp)+

section \<open>Tools\<close>

lemma well_ensureSession:
  "\<lbrakk>valid_name i; valid_name b; valid_label_value owner\<rbrakk> \<Longrightarrow>
     well cfg (ensureSession env cfg fuel user i b owner)"
  unfolding ensureSession_def by (intro emits_intros well_createAndWait) simp_all

lemma system_owner: "valid_label_value ''system''"
  by code_simp

lemma well_resolveSandboxSession:
  "valid_name b \<Longrightarrow> well cfg (resolveSandboxSession env cfg fuel user b)"
  unfolding resolveSandboxSession_def by (intro well_ensureSession shared_name system_owner)

lemma well_resolveDefaultSession:
  assumes "default_wf cfg"
  shows "well cfg (resolveDefaultSession env cfg fuel user [])"
proof -
  have "valid_name (sb_SandboxID body)" "sandbox_wf cfg (sandbox_cr cfg body)"
    if "rf_DefaultSandboxConfig cfg = Some body" for body
    using assms that sandbox_cr_wf [of body cfg] by (auto simp: default_wf_def accepted_sandbox_body)
  then show ?thesis
    unfolding resolveDefaultSession_def createSandboxFromBody_def Let_def
    by (intro emits_intros well_resolveSandboxSession) simp_all
qed

lemma well_resolved_session [emits_intros]: "well cfg (resolved_session env cfg prefix r)"
  unfolding resolved_session_def by (intro emits_intros) simp_all

lemma well_resolveToolSession:
  assumes "default_wf cfg"
  shows "well cfg (resolveToolSession env cfg fuel user b i)"
proof -
  have "well cfg (find_tool_session env cfg fuel user b i)" if "b = [] \<or> valid_name b" for b i
    unfolding find_tool_session_def using that
    by (intro emits_intros well_ensureSession well_resolveSandboxSession)
       (auto simp: ValidateSessionID_def validateLabelBackedName_None name_is_label
         intro: well_resolveDefaultSession [OF assms])
  then show ?thesis
    unfolding resolveToolSession_def Let_def
    by (intro emits_intros) (auto simp: ValidateSandboxID_def validateLabelBackedName_None)
qed

lemma well_run_tool:
  assumes "default_wf cfg"
  shows "well cfg (run_tool env cfg fuel user b i c)"
  unfolding run_tool_def mcpBashTool_def mcpReadFileTool_def mcpWriteFileTool_def mcpEditFileTool_def
    with_tool_session_def bash_done_def ctl_Exec_def ctl_ExecStream_def ctl_ReadFile_def ctl_WriteFile_def
    ctl_EditFile_def Let_def
  by (cases c) (simp_all only: tool_call.case, (intro emits_intros well_resolveToolSession [OF assms]; simp)+)

lemma well_mcp:
  assumes "default_wf cfg"
  shows "well cfg (newMCPHandler env cfg fuel calls render r user)"
proof -
  have "well cfg (run_tools env cfg fuel user b i cs)" for b i cs
    by (induction cs) (auto simp only: run_tools.simps intro!: emits_intros well_run_tool [OF assms]; simp)+
  then show ?thesis unfolding newMCPHandler_def by (intro emits_intros) simp_all
qed

section \<open>The server\<close>

lemma asks_who_wf: "asks_who e \<Longrightarrow> writes_wf cfg e"
  by (cases e) simp_all

lemma well_withAuth: "(\<And>u. well cfg (next u)) \<Longrightarrow> well cfg (withAuth env cfg r next)"
  unfolding withAuth_def
  by (intro emits_intros emits_mono [OF authenticate_asks]) (auto simp: list_all_iff asks_who_wf)

lemma well_middleware: "well cfg h \<Longrightarrow> well cfg (middleware b r (pat, h))"
  unfolding middleware_def by (intro emits_intros) auto

lemma well_routes:
  assumes "random_full env" and "default_wf cfg"
    and "(p, h) \<in> set (rt_routes env cfg fuel metrics (newMCPHandler env cfg fuel calls render r) r)"
  shows "well cfg h"
  using assms(3)
  by (auto simp: rt_routes_def Let_def withAuthHandler_eq split: option.splits
      intro!: well_withAuth well_handlers well_writers well_sandbox_create well_sandbox_update well_mcp
        well_replies assms(1,2))



definition default_body :: SandboxCreateBody where
  "default_body = \<lparr>sb_SandboxID = ''default'', sb_TTLSeconds = 60, sb_Env = [(''LANG'', ''C'')],
     sb_AllowedBinaries = [], sb_VM = None, sb_Network = None, sb_Volumes = [], sb_Patches = [],
     sb_SetupScript = [], sb_TeardownScript = [], sb_ScriptEnv = []\<rparr>"


end
