(* ===== verification/Kube_Deepcopy.thy ===== *)
theory Kube_Deepcopy
  imports Kube
begin

text \<open>
  The copies of the custom resources, \<open>api/v1alpha1/zz_generated.deepcopy.go\<close>, on an explicit
  store.  Elsewhere an object is a value; in Go its maps, slices and pointers are references,
  and a copy must not share them.  Here a struct is a record in which a reference is an
  address, or \<open>None\<close> for nil, and the store maps addresses to what they refer to.  \<open>'m\<close> is the
  type of object metadata, whose copy is library code.
\<close>

section \<open>The store\<close>

type_synonym addr = nat

record VMConfig_mem =
  vmm_Image :: bytes
  vmm_MemoryMB :: int
  vmm_VCPUs :: int
  vmm_Workdir :: bytes
  vmm_Shell :: bytes
  vmm_Hostname :: bytes
  vmm_User :: bytes
  vmm_MaxDurationSec :: int
  vmm_IdleTimeoutSec :: int
  vmm_Rlimits :: "addr option"
  vmm_Scripts :: "addr option"
  vmm_SeccompString :: bytes
  vmm_CloneNewTime :: bool

record SandboxNetworkConfig_mem =
  nem_Enabled :: "addr option"
  nem_AllowInternetAccess :: bool
  nem_Macvlan :: "addr option"
  nem_UsePasta :: bool

record SandboxSpec_mem =
  bsm_SandboxID :: bytes
  bsm_TTLSeconds :: int
  bsm_Env :: "addr option"
  bsm_AllowedBinaries :: "addr option"
  bsm_VM :: "addr option"
  bsm_Network :: "addr option"
  bsm_Volumes :: "addr option"
  bsm_Patches :: "addr option"
  bsm_SetupScript :: bytes
  bsm_TeardownScript :: bytes
  bsm_ScriptEnv :: "addr option"

record SessionStatus_mem =
  stm_Phase :: bytes
  stm_ControllerPool :: bytes
  stm_ControllerPod :: bytes
  stm_ControllerAddress :: bytes
  stm_Port :: int
  stm_CreatedAt :: "addr option"
  stm_ExpiresAt :: "addr option"
  stm_LastExecAt :: "addr option"
  stm_TerminatedAt :: "addr option"
  stm_Message :: bytes

record ControllerPoolSpec_mem =
  psm_MaxSandboxes :: int
  psm_MaxReplicas :: int
  psm_MinReplicas :: int
  psm_Image :: bytes
  psm_PreinstalledBinaries :: "addr option"

record ControllerPoolStatus_mem =
  ptm_ReadyReplicas :: int
  ptm_ActiveSandboxCount :: int
  ptm_LastScaleTime :: "addr option"
  ptm_Conditions :: "addr option"

record 'm Sandbox_mem =
  bxm_Meta :: 'm
  bxm_Spec :: SandboxSpec_mem

record 'm Session_mem =
  sem_Meta :: 'm
  sem_Spec :: SessionSpec
  sem_Status :: SessionStatus_mem

record 'm ControllerPool_mem =
  cpm_Meta :: 'm
  cpm_Spec :: ControllerPoolSpec_mem
  cpm_Status :: ControllerPoolStatus_mem

text \<open>The three list types differ only in the type of their items.\<close>

record 'm List_mem =
  lim_Meta :: 'm
  lim_Items :: "addr option"

text \<open>What an address refers to: a map, the array of a slice, or the target of a pointer.\<close>

datatype 'm cell =
    CMap str_map
  | CStrings "bytes list"
  | CVolumes "VolumeMount list"
  | CPatches "SandboxPatch list"
  | CRlimits "VMRlimit list"
  | CScripts "VMScript list"
  | CConditions "Condition list"
  | CBool bool
  | CMacvlan MacvlanConfig
  | CTime time
  | CVM VMConfig_mem
  | CNetwork SandboxNetworkConfig_mem
  | CSandboxSpec SandboxSpec_mem
  | CSessionSpec SessionSpec
  | CSessionStatus SessionStatus_mem
  | CPoolSpec ControllerPoolSpec_mem
  | CPoolStatus ControllerPoolStatus_mem
  | CSandbox "'m Sandbox_mem"
  | CSession "'m Session_mem"
  | CPool "'m ControllerPool_mem"
  | CSandboxes "'m Sandbox_mem list"
  | CSessions "'m Session_mem list"
  | CPools "'m ControllerPool_mem list"
  | CList "'m List_mem"

text \<open>Addresses from \<open>hp_next\<close> on are free.\<close>

record 'm heap =
  hp_cells :: "addr \<Rightarrow> 'm cell"
  hp_next :: addr

type_synonym ('m, 'a) hm = "('m heap, 'a) state"

definition push_cell :: "'m cell \<Rightarrow> 'm heap \<Rightarrow> 'm heap" where
  "push_cell c h = h\<lparr>hp_cells := (hp_cells h)(hp_next h := c), hp_next := Suc (hp_next h)\<rparr>"

lemma push_cell_simps [simp]:
  "hp_next (push_cell c h) = Suc (hp_next h)"
  "hp_cells (push_cell c h) (hp_next h) = c"
  by (simp_all add: push_cell_def)

definition alloc :: "'m cell \<Rightarrow> ('m, addr) hm" where
  "alloc c = State (\<lambda>h. (hp_next h, push_cell c h))"

definition deref :: "addr \<Rightarrow> ('m, 'm cell) hm" where
  "deref a = State (\<lambda>h. (hp_cells h a, h))"

definition write_cell :: "addr \<Rightarrow> 'm cell \<Rightarrow> 'm heap \<Rightarrow> 'm heap" where
  "write_cell a c h = h\<lparr>hp_cells := (hp_cells h)(a := c)\<rparr>"

lemma wp_alloc [wp_simps]: "wp (alloc c) Q h = Q (hp_next h) (push_cell c h)"
  by (simp add: wp_def alloc_def)

lemma wp_deref [wp_simps]: "wp (deref a) Q h = Q (hp_cells h a) h"
  by (simp add: wp_def deref_def)

section \<open>Reading structs\<close>

definition as_map :: "'m cell \<Rightarrow> str_map" where "as_map c = (case c of CMap m \<Rightarrow> m | _ \<Rightarrow> [])"
definition as_strings :: "'m cell \<Rightarrow> bytes list" where "as_strings c = (case c of CStrings x \<Rightarrow> x | _ \<Rightarrow> [])"
definition as_volumes :: "'m cell \<Rightarrow> VolumeMount list" where "as_volumes c = (case c of CVolumes x \<Rightarrow> x | _ \<Rightarrow> [])"
definition as_patches :: "'m cell \<Rightarrow> SandboxPatch list" where "as_patches c = (case c of CPatches x \<Rightarrow> x | _ \<Rightarrow> [])"
definition as_rlimits :: "'m cell \<Rightarrow> VMRlimit list" where "as_rlimits c = (case c of CRlimits x \<Rightarrow> x | _ \<Rightarrow> [])"
definition as_scripts :: "'m cell \<Rightarrow> VMScript list" where "as_scripts c = (case c of CScripts x \<Rightarrow> x | _ \<Rightarrow> [])"
definition as_conditions :: "'m cell \<Rightarrow> Condition list" where "as_conditions c = (case c of CConditions x \<Rightarrow> x | _ \<Rightarrow> [])"
definition as_bool :: "'m cell \<Rightarrow> bool option" where "as_bool c = (case c of CBool x \<Rightarrow> Some x | _ \<Rightarrow> None)"
definition as_macvlan :: "'m cell \<Rightarrow> MacvlanConfig option" where "as_macvlan c = (case c of CMacvlan x \<Rightarrow> Some x | _ \<Rightarrow> None)"
definition as_time :: "'m cell \<Rightarrow> time option" where "as_time c = (case c of CTime x \<Rightarrow> Some x | _ \<Rightarrow> None)"
definition as_vm :: "'m cell \<Rightarrow> VMConfig_mem option" where "as_vm c = (case c of CVM x \<Rightarrow> Some x | _ \<Rightarrow> None)"
definition as_network :: "'m cell \<Rightarrow> SandboxNetworkConfig_mem option" where "as_network c = (case c of CNetwork x \<Rightarrow> Some x | _ \<Rightarrow> None)"
definition as_sandbox_spec :: "'m cell \<Rightarrow> SandboxSpec_mem option" where "as_sandbox_spec c = (case c of CSandboxSpec x \<Rightarrow> Some x | _ \<Rightarrow> None)"
definition as_session_spec :: "'m cell \<Rightarrow> SessionSpec option" where "as_session_spec c = (case c of CSessionSpec x \<Rightarrow> Some x | _ \<Rightarrow> None)"
definition as_session_status :: "'m cell \<Rightarrow> SessionStatus_mem option" where "as_session_status c = (case c of CSessionStatus x \<Rightarrow> Some x | _ \<Rightarrow> None)"
definition as_pool_spec :: "'m cell \<Rightarrow> ControllerPoolSpec_mem option" where "as_pool_spec c = (case c of CPoolSpec x \<Rightarrow> Some x | _ \<Rightarrow> None)"
definition as_pool_status :: "'m cell \<Rightarrow> ControllerPoolStatus_mem option" where "as_pool_status c = (case c of CPoolStatus x \<Rightarrow> Some x | _ \<Rightarrow> None)"
definition as_list :: "'m cell \<Rightarrow> 'm List_mem option" where "as_list c = (case c of CList x \<Rightarrow> Some x | _ \<Rightarrow> None)"
definition as_sandbox :: "'m cell \<Rightarrow> 'm Sandbox_mem option" where "as_sandbox c = (case c of CSandbox x \<Rightarrow> Some x | _ \<Rightarrow> None)"
definition as_session :: "'m cell \<Rightarrow> 'm Session_mem option" where "as_session c = (case c of CSession x \<Rightarrow> Some x | _ \<Rightarrow> None)"
definition as_pool :: "'m cell \<Rightarrow> 'm ControllerPool_mem option" where "as_pool c = (case c of CPool x \<Rightarrow> Some x | _ \<Rightarrow> None)"
definition as_sandboxes :: "'m cell \<Rightarrow> 'm Sandbox_mem list" where "as_sandboxes c = (case c of CSandboxes x \<Rightarrow> x | _ \<Rightarrow> [])"
definition as_sessions :: "'m cell \<Rightarrow> 'm Session_mem list" where "as_sessions c = (case c of CSessions x \<Rightarrow> x | _ \<Rightarrow> [])"
definition as_pools :: "'m cell \<Rightarrow> 'm ControllerPool_mem list" where "as_pools c = (case c of CPools x \<Rightarrow> x | _ \<Rightarrow> [])"

lemmas readers = as_map_def as_strings_def as_volumes_def as_patches_def as_rlimits_def as_scripts_def
  as_conditions_def as_bool_def as_macvlan_def as_time_def as_vm_def as_network_def
  as_sandbox_spec_def as_session_spec_def as_session_status_def as_pool_spec_def as_pool_status_def
  as_sandbox_def as_session_def as_pool_def as_sandboxes_def as_sessions_def as_pools_def as_list_def

section \<open>Copying references\<close>

text \<open>
  A nil reference stays nil.  A map or a slice of values without references is copied into a
  new cell; a pointer to a struct, and a slice of structs, into a new cell with copies of the
  structs.
\<close>

definition copy_cell :: "addr option \<Rightarrow> ('m, addr option) hm" where
  "copy_cell r =
     (case r of
        None \<Rightarrow> State_Monad.return None
      | Some a \<Rightarrow> do { c \<leftarrow> deref a; b \<leftarrow> alloc c; State_Monad.return (Some b) })"

definition copy_ptr ::
  "('s \<Rightarrow> 'm cell) \<Rightarrow> ('m cell \<Rightarrow> 's option) \<Rightarrow> ('s \<Rightarrow> ('m, 's) hm) \<Rightarrow> addr option \<Rightarrow> ('m, addr option) hm" where
  "copy_ptr wrap unwrap copy r =
     (case r of
        None \<Rightarrow> State_Monad.return None
      | Some a \<Rightarrow> do {
          c \<leftarrow> deref a;
          case unwrap c of
            None \<Rightarrow> State_Monad.return None
          | Some v \<Rightarrow> do { v' \<leftarrow> copy v; b \<leftarrow> alloc (wrap v'); State_Monad.return (Some b) }
        })"

fun copy_each :: "('s \<Rightarrow> ('m, 's) hm) \<Rightarrow> 's list \<Rightarrow> ('m, 's list) hm" where
  "copy_each copy [] = State_Monad.return []"
| "copy_each copy (v # vs) = do { v' \<leftarrow> copy v; vs' \<leftarrow> copy_each copy vs; State_Monad.return (v' # vs') }"

definition copy_slice ::
  "('s list \<Rightarrow> 'm cell) \<Rightarrow> ('m cell \<Rightarrow> 's list) \<Rightarrow> ('s \<Rightarrow> ('m, 's) hm) \<Rightarrow> addr option \<Rightarrow> ('m, addr option) hm" where
  "copy_slice wrap unwrap copy = copy_ptr wrap (\<lambda>c. Some (unwrap c)) (copy_each copy)"

section \<open>The interface of a deep copy\<close>

text \<open>The store after some allocations: what was there is unchanged.\<close>

definition grows :: "'m heap \<Rightarrow> 'm heap \<Rightarrow> bool" where
  "grows h h' \<longleftrightarrow> hp_next h \<le> hp_next h' \<and> (\<forall>a < hp_next h. hp_cells h' a = hp_cells h a)"

lemma grows_refl [simp]: "grows h h"
  by (simp add: grows_def)

lemma grows_trans: "grows h h1 \<Longrightarrow> grows h1 h2 \<Longrightarrow> grows h h2"
  by (auto simp: grows_def)

lemma grows_push [simp]: "grows h (push_cell c h)"
  by (simp add: grows_def push_cell_def)

definition lasting :: "('m heap \<Rightarrow> bool) \<Rightarrow> bool" where
  "lasting P \<longleftrightarrow> (\<forall>h h'. grows h h' \<longrightarrow> P h \<longrightarrow> P h')"

named_theorems lasting_intros
named_theorems copy_firsts
named_theorems copy_nexts

lemma lasting_grows [lasting_intros]: "lasting (grows h)"
  by (auto simp: lasting_def intro: grows_trans)

lemma lasting_conj [lasting_intros]: "lasting P \<Longrightarrow> lasting Q \<Longrightarrow> lasting (\<lambda>h. P h \<and> Q h)"
  by (auto simp: lasting_def)

text \<open>
  \<open>fresh_copy refs val h h' r r'\<close>: \<open>r'\<close> has in \<open>h'\<close> the value that \<open>r\<close> had in \<open>h\<close>, and refers
  only to cells allocated since.
\<close>

definition fresh_copy ::
  "('m heap \<Rightarrow> 'r \<Rightarrow> addr set) \<Rightarrow> ('m heap \<Rightarrow> 'r \<Rightarrow> 'v) \<Rightarrow> 'm heap \<Rightarrow> 'm heap \<Rightarrow> 'r \<Rightarrow> 'r \<Rightarrow> bool" where
  "fresh_copy refs val h h' r r' \<longleftrightarrow>
     refs h' r' \<subseteq> {hp_next h..<hp_next h'} \<and> val h' r' = val h r"

definition ptr_refs ::
  "('m cell \<Rightarrow> 's option) \<Rightarrow> ('m heap \<Rightarrow> 's \<Rightarrow> addr set) \<Rightarrow> 'm heap \<Rightarrow> addr option \<Rightarrow> addr set" where
  "ptr_refs unwrap refs h r =
     (case r of
        None \<Rightarrow> {}
      | Some a \<Rightarrow> insert a (case unwrap (hp_cells h a) of None \<Rightarrow> {} | Some v \<Rightarrow> refs h v))"

definition ptr_val ::
  "('m cell \<Rightarrow> 's option) \<Rightarrow> ('m heap \<Rightarrow> 's \<Rightarrow> 'v) \<Rightarrow> 'm heap \<Rightarrow> addr option \<Rightarrow> 'v option" where
  "ptr_val unwrap val h r =
     (case r of None \<Rightarrow> None | Some a \<Rightarrow> map_option (val h) (unwrap (hp_cells h a)))"

definition each_refs :: "('m heap \<Rightarrow> 's \<Rightarrow> addr set) \<Rightarrow> 'm heap \<Rightarrow> 's list \<Rightarrow> addr set" where
  "each_refs refs h vs = (\<Union>v \<in> set vs. refs h v)"

definition each_val :: "('m heap \<Rightarrow> 's \<Rightarrow> 'v) \<Rightarrow> 'm heap \<Rightarrow> 's list \<Rightarrow> 'v list" where
  "each_val val h vs = map (val h) vs"

definition slice_refs ::
  "('m cell \<Rightarrow> 's list) \<Rightarrow> ('m heap \<Rightarrow> 's \<Rightarrow> addr set) \<Rightarrow> 'm heap \<Rightarrow> addr option \<Rightarrow> addr set" where
  "slice_refs unwrap refs = ptr_refs (\<lambda>c. Some (unwrap c)) (each_refs refs)"

definition slice_val ::
  "('m cell \<Rightarrow> 's list) \<Rightarrow> ('m heap \<Rightarrow> 's \<Rightarrow> 'v) \<Rightarrow> 'm heap \<Rightarrow> addr option \<Rightarrow> 'v list" where
  "slice_val unwrap val h r = (case ptr_val (\<lambda>c. Some (unwrap c)) (each_val val) h r of None \<Rightarrow> [] | Some vs \<Rightarrow> vs)"

locale deep_copy =
  fixes copy :: "'r \<Rightarrow> ('m, 'r) hm"
    and refs :: "'m heap \<Rightarrow> 'r \<Rightarrow> addr set"
    and val :: "'m heap \<Rightarrow> 'r \<Rightarrow> 'v"
  assumes frame: "(\<And>a. a \<in> refs h r \<Longrightarrow> hp_cells h' a = hp_cells h a) \<Longrightarrow>
      refs h' r = refs h r \<and> val h' r = val h r"
    and copies: "refs h r \<subseteq> {..<hp_next h} \<Longrightarrow>
      wp (copy r) (\<lambda>r' h'. grows h h' \<and> fresh_copy refs val h h' r r') h"
begin

lemma frame_grows:
  "grows h h' \<Longrightarrow> refs h r \<subseteq> {..<hp_next h} \<Longrightarrow> refs h' r = refs h r \<and> val h' r = val h r"
  by (rule frame) (auto simp: grows_def)

text \<open>A copy stays one while the store grows.\<close>

lemma fresh_copy_grows:
  assumes "fresh_copy refs val h h1 r r'" and "grows h1 h2"
  shows "fresh_copy refs val h h2 r r'"
proof -
  have "refs h1 r' \<subseteq> {..<hp_next h1}" using assms(1) by (auto simp: fresh_copy_def)
  from frame_grows [OF assms(2) this] assms show ?thesis by (auto simp: fresh_copy_def grows_def)
qed

lemma lasting_fresh_copy [lasting_intros]: "lasting (\<lambda>h'. fresh_copy refs val h h' r r')"
  by (auto simp: lasting_def intro: fresh_copy_grows)

text \<open>
  A step of a sequence of copies that began in \<open>start\<close>: \<open>P\<close> is what the earlier steps have
  established.
\<close>

lemma copy_bind:
  assumes "P h" and "lasting P" and "\<And>h. P h \<Longrightarrow> grows start h" and "refs start r \<subseteq> {..<hp_next start}"
    and "\<And>r' h'. P h' \<and> fresh_copy refs val start h' r r' \<Longrightarrow> wp (f r') Q h'"
  shows "wp (State_Monad.bind (copy r) f) Q h"
  unfolding wp_bind
proof (rule wp_mono [OF copies])
  have gs: "grows start h" by (rule assms(3)) (rule assms(1))
  from frame_grows [OF gs assms(4)] have same: "refs h r = refs start r" "val h r = val start r" by auto
  with gs assms(4) show "refs h r \<subseteq> {..<hp_next h}" by (auto simp: grows_def)
  fix r' h' assume *: "grows h h' \<and> fresh_copy refs val h h' r r'"
  with assms(1,2) have "P h'" by (auto simp: lasting_def)
  moreover from * gs same have "fresh_copy refs val start h' r r'" by (auto simp: fresh_copy_def grows_def)
  ultimately show "wp (f r') Q h'" by (intro assms(5) conjI)
qed

lemma copy_first [copy_firsts]:
  assumes "refs h r \<subseteq> {..<hp_next h}"
    and "\<And>r' h'. grows h h' \<and> fresh_copy refs val h h' r r' \<Longrightarrow> wp (f r') Q h'"
  shows "wp (State_Monad.bind (copy r) f) Q h"
  by (rule copy_bind [where P = "grows h" and start = h]) (simp_all add: assms lasting_grows)

lemma copy_next [copy_nexts]:
  assumes "grows start h \<and> P h" and "lasting P" and "refs start r \<subseteq> {..<hp_next start}"
    and "\<And>r' h'. grows start h' \<and> P h' \<and> fresh_copy refs val start h' r r' \<Longrightarrow> wp (f r') Q h'"
  shows "wp (State_Monad.bind (copy r) f) Q h"
  by (rule copy_bind [where P = "\<lambda>h. grows start h \<and> P h" and start = start])
    (use assms in \<open>auto intro: lasting_intros\<close>)

lemma frame_write: "a \<notin> refs h r \<Longrightarrow> val (write_cell a c h) r = val h r"
proof -
  assume "a \<notin> refs h r"
  then have "hp_cells (write_cell a c h) b = hp_cells h b" if "b \<in> refs h r" for b
    using that by (auto simp: write_cell_def)
  from frame [of h r "write_cell a c h", OF this] show ?thesis by simp
qed

text \<open>
  A copy and its original are independent: writing through a reference of the one does not change the
  value of the other.
\<close>

lemma independent:
  assumes "refs h r \<subseteq> {..<hp_next h}" and "run_state (copy r) h = (r', h')"
  shows "val h' r' = val h r" "val h' r = val h r" "refs h' r' \<inter> refs h' r = {}"
    "a \<in> refs h' r \<Longrightarrow> val (write_cell a c h') r' = val h r"
    "b \<in> refs h' r' \<Longrightarrow> val (write_cell b c h') r = val h r"
proof -
  from copies [OF assms(1)] assms(2) have g: "grows h h'" and f: "fresh_copy refs val h h' r r'"
    by (simp_all add: wp_def)
  from frame_grows [OF g assms(1)] have same: "refs h' r = refs h r" "val h' r = val h r" by auto
  show v: "val h' r' = val h r" using f by (simp add: fresh_copy_def)
  show "val h' r = val h r" by (rule same(2))
  show disj: "refs h' r' \<inter> refs h' r = {}"
    using f same(1) assms(1) by (fastforce simp: fresh_copy_def)
  show "val (write_cell a c h') r' = val h r" if "a \<in> refs h' r"
    using frame_write [of a h' r'] disj that v by auto
  show "val (write_cell b c h') r = val h r" if "b \<in> refs h' r'"
    using frame_write [of b h' r] disj that same by auto
qed

text \<open>A deep copy of structs gives one of pointers to them, and one of slices of them.\<close>

lemma push_copy:
  assumes "fresh_copy refs val h h1 v v'" and "grows h h1"
  shows "grows h (push_cell c h1) \<and> hp_next h \<le> hp_next h1"
    "refs (push_cell c h1) v' \<subseteq> {hp_next h..<Suc (hp_next h1)}" "val (push_cell c h1) v' = val h v"
  using assms(2) grows_trans [OF assms(2) grows_push] fresh_copy_grows [OF assms(1) grows_push]
  by (simp_all add: fresh_copy_def, simp add: grows_def)

lemma in_ptr:
  assumes "\<And>v. unwrap (wrap v) = Some v"
  shows "deep_copy (copy_ptr wrap unwrap copy) (ptr_refs unwrap refs) (ptr_val unwrap val)"
proof
  show "ptr_refs unwrap refs h' r = ptr_refs unwrap refs h r \<and>
      ptr_val unwrap val h' r = ptr_val unwrap val h r"
    if same: "\<And>a. a \<in> ptr_refs unwrap refs h r \<Longrightarrow> hp_cells h' a = hp_cells h a" for h h' r
  proof (cases r)
    case (Some a)
    with same have a: "hp_cells h' a = hp_cells h a" by (simp add: ptr_refs_def)
    show ?thesis
    proof (cases "unwrap (hp_cells h a)")
      case (Some v)
      with same \<open>r = Some a\<close> have "hp_cells h' b = hp_cells h b" if "b \<in> refs h v" for b
        using that by (simp add: ptr_refs_def)
      from frame [OF this] Some \<open>r = Some a\<close> a show ?thesis by (simp add: ptr_refs_def ptr_val_def)
    qed (simp add: Some a ptr_refs_def ptr_val_def)
  qed (simp add: ptr_refs_def ptr_val_def)
  show "wp (copy_ptr wrap unwrap copy r) (\<lambda>r' h'. grows h h' \<and>
      fresh_copy (ptr_refs unwrap refs) (ptr_val unwrap val) h h' r r') h"
    if below: "ptr_refs unwrap refs h r \<subseteq> {..<hp_next h}" for h r
  proof (cases r)
    case (Some a)
    show ?thesis
    proof (cases "unwrap (hp_cells h a)")
      case (Some v)
      with \<open>r = Some a\<close> below have "refs h v \<subseteq> {..<hp_next h}" by (simp add: ptr_refs_def)
      then have "wp (copy v) (\<lambda>v' h1. grows h (push_cell (wrap v') h1) \<and>
          fresh_copy (ptr_refs unwrap refs) (ptr_val unwrap val) h (push_cell (wrap v') h1)
            (Some a) (Some (hp_next h1))) h"
      proof (rule wp_mono [OF copies])
        fix v' h1 assume "grows h h1 \<and> fresh_copy refs val h h1 v v'"
        then have "fresh_copy refs val h h1 v v'" "grows h h1" by auto
        from push_copy [OF this, of "wrap v'"] Some
        show "grows h (push_cell (wrap v') h1) \<and>
            fresh_copy (ptr_refs unwrap refs) (ptr_val unwrap val) h (push_cell (wrap v') h1)
              (Some a) (Some (hp_next h1))"
          by (simp add: fresh_copy_def ptr_refs_def ptr_val_def assms)
      qed
      with Some \<open>r = Some a\<close> show ?thesis
        by (simp add: copy_ptr_def wp_simps) (erule wp_mono, simp add: wp_simps)
    qed (simp add: Some copy_ptr_def wp_simps fresh_copy_def ptr_refs_def ptr_val_def)
  qed (simp add: copy_ptr_def wp_simps fresh_copy_def ptr_refs_def ptr_val_def)
qed

lemma in_view: "deep_copy copy refs (\<lambda>h r. f (val h r))"
proof
  show "refs h' r = refs h r \<and> f (val h' r) = f (val h r)"
    if "\<And>a. a \<in> refs h r \<Longrightarrow> hp_cells h' a = hp_cells h a" for h h' r
    using frame [OF that] by simp
  show "wp (copy r) (\<lambda>r' h'. grows h h' \<and> fresh_copy refs (\<lambda>h r. f (val h r)) h h' r r') h"
    if "refs h r \<subseteq> {..<hp_next h}" for h r
    by (rule wp_mono [OF copies [OF that]]) (simp add: fresh_copy_def)
qed

lemma each_copies:
  assumes "P h" and "lasting P" and "\<And>h. P h \<Longrightarrow> grows start h" and "each_refs refs start vs \<subseteq> {..<hp_next start}"
    and "\<And>vs' h'. P h' \<and> fresh_copy (each_refs refs) (each_val val) start h' vs vs' \<Longrightarrow> Q vs' h'"
  shows "wp (copy_each copy vs) Q h"
  using assms
proof (induction vs arbitrary: h P Q)
  case (Cons v vs)
  show ?case
    unfolding copy_each.simps
  proof (rule copy_bind [where P = P and start = start])
    fix v' h1 assume h1: "P h1 \<and> fresh_copy refs val start h1 v v'"
    show "wp (State_Monad.bind (copy_each copy vs) (\<lambda>vs'. State_Monad.return (v' # vs'))) Q h1"
      unfolding wp_bind
    proof (rule Cons.IH [where P = "\<lambda>h. P h \<and> fresh_copy refs val start h v v'", OF h1])
      fix vs' h2
      assume "(P h2 \<and> fresh_copy refs val start h2 v v') \<and>
        fresh_copy (each_refs refs) (each_val val) start h2 vs vs'"
      then show "wp (State_Monad.return (v' # vs')) Q h2"
        by (auto simp: wp_simps fresh_copy_def each_refs_def each_val_def intro!: Cons.prems(5))
    qed (use Cons.prems(2-4) in \<open>auto simp: each_refs_def intro: lasting_intros\<close>)
  qed (use Cons.prems(1-4) in \<open>auto simp: each_refs_def\<close>)
qed (simp add: wp_simps fresh_copy_def each_refs_def each_val_def)

lemma in_each: "deep_copy (copy_each copy) (each_refs refs) (each_val val)"
proof
  show "each_refs refs h' vs = each_refs refs h vs \<and> each_val val h' vs = each_val val h vs"
    if same: "\<And>a. a \<in> each_refs refs h vs \<Longrightarrow> hp_cells h' a = hp_cells h a" for h h' vs
  proof -
    have "refs h' v = refs h v \<and> val h' v = val h v" if "v \<in> set vs" for v
      using that by (intro frame same) (auto simp: each_refs_def)
    then show ?thesis by (auto simp: each_refs_def each_val_def)
  qed
  show "wp (copy_each copy vs) (\<lambda>vs' h'. grows h h' \<and>
      fresh_copy (each_refs refs) (each_val val) h h' vs vs') h"
    if "each_refs refs h vs \<subseteq> {..<hp_next h}" for h vs
    by (rule each_copies [where P = "grows h" and start = h]) (use that in \<open>simp_all add: lasting_grows\<close>)
qed

lemma in_slice:
  assumes "\<And>vs. unwrap (wrap vs) = vs"
  shows "deep_copy (copy_slice wrap unwrap copy) (slice_refs unwrap refs) (slice_val unwrap val)"
  unfolding copy_slice_def slice_refs_def slice_val_def
  by (rule deep_copy.in_view [OF deep_copy.in_ptr [OF in_each], where f = "\<lambda>v. case v of None \<Rightarrow> [] | Some vs \<Rightarrow> vs"])
    (simp add: assms)

end

section \<open>The copies of the structs\<close>

text \<open>A reference to something without references of its own, and what it stands for.\<close>

definition cell_refs :: "'m heap \<Rightarrow> addr option \<Rightarrow> addr set" where
  "cell_refs h r = set_option r"

definition cell_of :: "'m heap \<Rightarrow> addr option \<Rightarrow> 'm cell option" where
  "cell_of h r = map_option (hp_cells h) r"

definition cell_val :: "'v \<Rightarrow> ('m cell \<Rightarrow> 'v) \<Rightarrow> 'm heap \<Rightarrow> addr option \<Rightarrow> 'v" where
  "cell_val d get h r = (case cell_of h r of None \<Rightarrow> d | Some c \<Rightarrow> get c)"

interpretation plain: deep_copy copy_cell cell_refs cell_of
  by unfold_locales (auto simp: cell_refs_def cell_of_def copy_cell_def wp_simps fresh_copy_def
      intro!: option.map_cong split: option.splits)

definition vm_refs :: "'m heap \<Rightarrow> VMConfig_mem \<Rightarrow> addr set" where
  "vm_refs h v = cell_refs h (vmm_Rlimits v) \<union> cell_refs h (vmm_Scripts v)"

definition vm_val :: "'m heap \<Rightarrow> VMConfig_mem \<Rightarrow> VMConfig" where
  "vm_val h v =
     \<lparr>vm_Image = vmm_Image v, vm_MemoryMB = vmm_MemoryMB v, vm_VCPUs = vmm_VCPUs v,
      vm_Workdir = vmm_Workdir v, vm_Shell = vmm_Shell v, vm_Hostname = vmm_Hostname v,
      vm_User = vmm_User v, vm_MaxDurationSec = vmm_MaxDurationSec v,
      vm_IdleTimeoutSec = vmm_IdleTimeoutSec v,
      vm_Rlimits = cell_val [] as_rlimits h (vmm_Rlimits v),
      vm_Scripts = cell_val [] as_scripts h (vmm_Scripts v),
      vm_SeccompString = vmm_SeccompString v, vm_CloneNewTime = vmm_CloneNewTime v\<rparr>"

definition deepCopyVMConfig :: "VMConfig_mem \<Rightarrow> ('m, VMConfig_mem) hm" where
  "deepCopyVMConfig v = do {
     rlimits \<leftarrow> copy_cell (vmm_Rlimits v);
     scripts \<leftarrow> copy_cell (vmm_Scripts v);
     State_Monad.return (v\<lparr>vmm_Rlimits := rlimits, vmm_Scripts := scripts\<rparr>)
   }"

definition net_refs :: "'m heap \<Rightarrow> SandboxNetworkConfig_mem \<Rightarrow> addr set" where
  "net_refs h v = cell_refs h (nem_Enabled v) \<union> cell_refs h (nem_Macvlan v)"

definition net_val :: "'m heap \<Rightarrow> SandboxNetworkConfig_mem \<Rightarrow> SandboxNetworkConfig" where
  "net_val h v =
     \<lparr>net_Enabled = cell_val None as_bool h (nem_Enabled v),
      net_AllowInternetAccess = nem_AllowInternetAccess v,
      net_Macvlan = cell_val None as_macvlan h (nem_Macvlan v),
      net_UsePasta = nem_UsePasta v\<rparr>"

definition deepCopyNetworkConfig :: "SandboxNetworkConfig_mem \<Rightarrow> ('m, SandboxNetworkConfig_mem) hm" where
  "deepCopyNetworkConfig v = do {
     enabled \<leftarrow> copy_cell (nem_Enabled v);
     macvlan \<leftarrow> copy_cell (nem_Macvlan v);
     State_Monad.return (v\<lparr>nem_Enabled := enabled, nem_Macvlan := macvlan\<rparr>)
   }"

text \<open>
  The proofs below run through the fields: the first copy, the copies after it, and what they have
  established of the struct.
\<close>

interpretation vm: deep_copy deepCopyVMConfig vm_refs vm_val
proof unfold_locales
  show "vm_refs h' v = vm_refs h v \<and> vm_val h' v = vm_val h v"
    if "\<And>a. a \<in> vm_refs h v \<Longrightarrow> hp_cells h' a = hp_cells h a" for h h' :: "'m heap" and v
    using that plain.frame [of h _ h'] by (simp add: vm_refs_def vm_val_def cell_val_def)
  show "wp (deepCopyVMConfig v) (\<lambda>v' h'. grows h h' \<and> fresh_copy vm_refs vm_val h h' v v') h"
    if "vm_refs h v \<subseteq> {..<hp_next h}" for h :: "'m heap" and v
    using that unfolding deepCopyVMConfig_def vm_refs_def [abs_def] Un_subset_iff
    by (elim conjE)
      (rule copy_firsts, assumption, (rule copy_nexts, assumption, intro lasting_intros, assumption)+,
       simp add: wp_simps fresh_copy_def vm_val_def cell_val_def)
qed

interpretation vm_ptr: deep_copy "copy_ptr CVM as_vm deepCopyVMConfig" "ptr_refs as_vm vm_refs" "ptr_val as_vm vm_val"
  by (rule vm.in_ptr) (simp add: as_vm_def)

interpretation net: deep_copy deepCopyNetworkConfig net_refs net_val
proof unfold_locales
  show "net_refs h' v = net_refs h v \<and> net_val h' v = net_val h v"
    if "\<And>a. a \<in> net_refs h v \<Longrightarrow> hp_cells h' a = hp_cells h a" for h h' :: "'m heap" and v
    using that plain.frame [of h _ h'] by (simp add: net_refs_def net_val_def cell_val_def)
  show "wp (deepCopyNetworkConfig v) (\<lambda>v' h'. grows h h' \<and> fresh_copy net_refs net_val h h' v v') h"
    if "net_refs h v \<subseteq> {..<hp_next h}" for h :: "'m heap" and v
    using that unfolding deepCopyNetworkConfig_def net_refs_def [abs_def] Un_subset_iff
    by (elim conjE)
      (rule copy_firsts, assumption, (rule copy_nexts, assumption, intro lasting_intros, assumption)+,
       simp add: wp_simps fresh_copy_def net_val_def cell_val_def)
qed

interpretation net_ptr: deep_copy "copy_ptr CNetwork as_network deepCopyNetworkConfig"
    "ptr_refs as_network net_refs" "ptr_val as_network net_val"
  by (rule net.in_ptr) (simp add: as_network_def)

definition spec_refs :: "'m heap \<Rightarrow> SandboxSpec_mem \<Rightarrow> addr set" where
  "spec_refs h s =
     cell_refs h (bsm_Env s) \<union> cell_refs h (bsm_AllowedBinaries s) \<union>
     ptr_refs as_vm vm_refs h (bsm_VM s) \<union> ptr_refs as_network net_refs h (bsm_Network s) \<union>
     cell_refs h (bsm_Volumes s) \<union> cell_refs h (bsm_Patches s) \<union> cell_refs h (bsm_ScriptEnv s)"

definition spec_val :: "'m heap \<Rightarrow> SandboxSpec_mem \<Rightarrow> SandboxSpec" where
  "spec_val h s =
     \<lparr>bs_SandboxID = bsm_SandboxID s, bs_TTLSeconds = bsm_TTLSeconds s,
      bs_Env = cell_val [] as_map h (bsm_Env s),
      bs_AllowedBinaries = cell_val [] as_strings h (bsm_AllowedBinaries s),
      bs_VM = ptr_val as_vm vm_val h (bsm_VM s),
      bs_Network = ptr_val as_network net_val h (bsm_Network s),
      bs_Volumes = cell_val [] as_volumes h (bsm_Volumes s),
      bs_Patches = cell_val [] as_patches h (bsm_Patches s),
      bs_SetupScript = bsm_SetupScript s, bs_TeardownScript = bsm_TeardownScript s,
      bs_ScriptEnv = cell_val [] as_map h (bsm_ScriptEnv s)\<rparr>"

definition SandboxSpec_DeepCopyInto :: "SandboxSpec_mem \<Rightarrow> ('m, SandboxSpec_mem) hm" where
  "SandboxSpec_DeepCopyInto s = do {
     env \<leftarrow> copy_cell (bsm_Env s);
     bins \<leftarrow> copy_cell (bsm_AllowedBinaries s);
     vm \<leftarrow> copy_ptr CVM as_vm deepCopyVMConfig (bsm_VM s);
     network \<leftarrow> copy_ptr CNetwork as_network deepCopyNetworkConfig (bsm_Network s);
     volumes \<leftarrow> copy_cell (bsm_Volumes s);
     patches \<leftarrow> copy_cell (bsm_Patches s);
     scriptEnv \<leftarrow> copy_cell (bsm_ScriptEnv s);
     State_Monad.return (s\<lparr>bsm_Env := env, bsm_AllowedBinaries := bins, bsm_VM := vm,
       bsm_Network := network, bsm_Volumes := volumes, bsm_Patches := patches,
       bsm_ScriptEnv := scriptEnv\<rparr>)
   }"

interpretation spec: deep_copy SandboxSpec_DeepCopyInto spec_refs spec_val
proof unfold_locales
  show "spec_refs h' s = spec_refs h s \<and> spec_val h' s = spec_val h s"
    if "\<And>a. a \<in> spec_refs h s \<Longrightarrow> hp_cells h' a = hp_cells h a" for h h' :: "'m heap" and s
    using that plain.frame [of h _ h'] vm_ptr.frame [of h _ h'] net_ptr.frame [of h _ h']
    by (simp add: spec_refs_def spec_val_def cell_val_def)
  show "wp (SandboxSpec_DeepCopyInto s) (\<lambda>s' h'. grows h h' \<and> fresh_copy spec_refs spec_val h h' s s') h"
    if "spec_refs h s \<subseteq> {..<hp_next h}" for h :: "'m heap" and s
    using that unfolding SandboxSpec_DeepCopyInto_def spec_refs_def [abs_def] Un_subset_iff
    by (elim conjE)
      (rule copy_firsts, assumption, (rule copy_nexts, assumption, intro lasting_intros, assumption)+,
       simp add: wp_simps fresh_copy_def spec_val_def cell_val_def)
qed

section \<open>The copies of the objects\<close>

text \<open>
  What the code calls of the library: the copies of the metadata of an object and of a list, of a time
  and of a condition.  \<open>lib_copies\<close> states what the library promises of them: they are deep
  copies.
\<close>

record 'm meta_lib =
  ml_ObjectMeta :: "'m \<Rightarrow> ('m, 'm) hm"
  ml_ListMeta :: "'m \<Rightarrow> ('m, 'm) hm"
  ml_Time :: "time \<Rightarrow> ('m, time) hm"
  ml_Condition :: "Condition \<Rightarrow> ('m, Condition) hm"

definition no_refs :: "'m heap \<Rightarrow> 'r \<Rightarrow> addr set" where "no_refs h r = {}"

definition itself :: "'m heap \<Rightarrow> 'r \<Rightarrow> 'r" where "itself h r = r"

definition lib_copies ::
  "'m meta_lib \<Rightarrow> ('m heap \<Rightarrow> 'm \<Rightarrow> addr set) \<Rightarrow> ('m heap \<Rightarrow> 'm \<Rightarrow> ObjectMeta) \<Rightarrow> ('m heap \<Rightarrow> 'm \<Rightarrow> 'l) \<Rightarrow> bool" where
  "lib_copies lib mrefs mval lval \<longleftrightarrow>
     deep_copy (ml_ObjectMeta lib) mrefs mval \<and> deep_copy (ml_ListMeta lib) mrefs lval \<and>
     deep_copy (ml_Time lib) no_refs itself \<and> deep_copy (ml_Condition lib) no_refs itself"

definition SessionSpec_DeepCopyInto :: "SessionSpec \<Rightarrow> ('m, SessionSpec) hm" where
  "SessionSpec_DeepCopyInto s = State_Monad.return s"

interpretation session_spec: deep_copy SessionSpec_DeepCopyInto no_refs itself
  by unfold_locales (simp_all add: SessionSpec_DeepCopyInto_def no_refs_def itself_def wp_simps fresh_copy_def)

abbreviation time_refs :: "'m heap \<Rightarrow> addr option \<Rightarrow> addr set" where
  "time_refs \<equiv> ptr_refs as_time no_refs"

abbreviation time_val :: "'m heap \<Rightarrow> addr option \<Rightarrow> time option" where
  "time_val \<equiv> ptr_val as_time itself"

definition status_refs :: "'m heap \<Rightarrow> SessionStatus_mem \<Rightarrow> addr set" where
  "status_refs h s =
     time_refs h (stm_CreatedAt s) \<union> time_refs h (stm_ExpiresAt s) \<union>
     time_refs h (stm_LastExecAt s) \<union> time_refs h (stm_TerminatedAt s)"

definition status_val :: "'m heap \<Rightarrow> SessionStatus_mem \<Rightarrow> SessionStatus" where
  "status_val h s =
     \<lparr>st_Phase = stm_Phase s, st_ControllerPool = stm_ControllerPool s,
      st_ControllerPod = stm_ControllerPod s, st_ControllerAddress = stm_ControllerAddress s,
      st_Port = stm_Port s, st_CreatedAt = time_val h (stm_CreatedAt s),
      st_ExpiresAt = time_val h (stm_ExpiresAt s), st_LastExecAt = time_val h (stm_LastExecAt s),
      st_TerminatedAt = time_val h (stm_TerminatedAt s), st_Message = stm_Message s\<rparr>"

definition SessionStatus_DeepCopyInto :: "'m meta_lib \<Rightarrow> SessionStatus_mem \<Rightarrow> ('m, SessionStatus_mem) hm" where
  "SessionStatus_DeepCopyInto lib s = do {
     created \<leftarrow> copy_ptr CTime as_time (ml_Time lib) (stm_CreatedAt s);
     expires \<leftarrow> copy_ptr CTime as_time (ml_Time lib) (stm_ExpiresAt s);
     lastExec \<leftarrow> copy_ptr CTime as_time (ml_Time lib) (stm_LastExecAt s);
     terminated \<leftarrow> copy_ptr CTime as_time (ml_Time lib) (stm_TerminatedAt s);
     State_Monad.return (s\<lparr>stm_CreatedAt := created, stm_ExpiresAt := expires,
       stm_LastExecAt := lastExec, stm_TerminatedAt := terminated\<rparr>)
   }"

lemma time_copies:
  "lib_copies lib mrefs mval lval \<Longrightarrow> deep_copy (copy_ptr CTime as_time (ml_Time lib)) time_refs time_val"
  by (rule deep_copy.in_ptr) (simp_all add: lib_copies_def as_time_def)

lemma status_copies:
  fixes lib :: "'m meta_lib"
  assumes "lib_copies lib mrefs mval lval"
  shows "deep_copy (SessionStatus_DeepCopyInto lib) status_refs status_val"
proof
  note time = time_copies [OF assms]
  show "status_refs h' s = status_refs h s \<and> status_val h' s = status_val h s"
    if "\<And>a. a \<in> status_refs h s \<Longrightarrow> hp_cells h' a = hp_cells h a" for h h' :: "'m heap" and s
    using that deep_copy.frame [OF time, of h _ h'] by (simp add: status_refs_def status_val_def)
  show "wp (SessionStatus_DeepCopyInto lib s) (\<lambda>s' h'. grows h h' \<and> fresh_copy status_refs status_val h h' s s') h"
    if "status_refs h s \<subseteq> {..<hp_next h}" for h :: "'m heap" and s
    using that unfolding SessionStatus_DeepCopyInto_def status_refs_def [abs_def] Un_subset_iff
    by (elim conjE)
      (rule deep_copy.copy_first [OF time], assumption,
       (rule deep_copy.copy_next [OF time], assumption,
        intro lasting_intros deep_copy.lasting_fresh_copy [OF time], assumption)+,
       simp add: wp_simps fresh_copy_def status_val_def)
qed

definition pool_spec_refs :: "'m heap \<Rightarrow> ControllerPoolSpec_mem \<Rightarrow> addr set" where
  "pool_spec_refs h s = cell_refs h (psm_PreinstalledBinaries s)"

definition pool_spec_val :: "'m heap \<Rightarrow> ControllerPoolSpec_mem \<Rightarrow> ControllerPoolSpec" where
  "pool_spec_val h s =
     \<lparr>ps_MaxSandboxes = psm_MaxSandboxes s, ps_MaxReplicas = psm_MaxReplicas s,
      ps_MinReplicas = psm_MinReplicas s, ps_Image = psm_Image s,
      ps_PreinstalledBinaries = cell_val [] as_strings h (psm_PreinstalledBinaries s)\<rparr>"

definition ControllerPoolSpec_DeepCopyInto :: "ControllerPoolSpec_mem \<Rightarrow> ('m, ControllerPoolSpec_mem) hm" where
  "ControllerPoolSpec_DeepCopyInto s = do {
     bins \<leftarrow> copy_cell (psm_PreinstalledBinaries s);
     State_Monad.return (s\<lparr>psm_PreinstalledBinaries := bins\<rparr>)
   }"

interpretation pool_spec: deep_copy ControllerPoolSpec_DeepCopyInto pool_spec_refs pool_spec_val
proof unfold_locales
  show "pool_spec_refs h' s = pool_spec_refs h s \<and> pool_spec_val h' s = pool_spec_val h s"
    if "\<And>a. a \<in> pool_spec_refs h s \<Longrightarrow> hp_cells h' a = hp_cells h a" for h h' :: "'m heap" and s
    using that plain.frame [of h _ h'] by (simp add: pool_spec_refs_def pool_spec_val_def cell_val_def)
  show "wp (ControllerPoolSpec_DeepCopyInto s)
      (\<lambda>s' h'. grows h h' \<and> fresh_copy pool_spec_refs pool_spec_val h h' s s') h"
    if "pool_spec_refs h s \<subseteq> {..<hp_next h}" for h :: "'m heap" and s
    using that unfolding ControllerPoolSpec_DeepCopyInto_def pool_spec_refs_def [abs_def]
    by - (rule copy_firsts, assumption, simp add: wp_simps fresh_copy_def pool_spec_val_def cell_val_def)
qed

definition pool_status_refs :: "'m heap \<Rightarrow> ControllerPoolStatus_mem \<Rightarrow> addr set" where
  "pool_status_refs h s =
     time_refs h (ptm_LastScaleTime s) \<union> slice_refs as_conditions no_refs h (ptm_Conditions s)"

definition pool_status_val :: "'m heap \<Rightarrow> ControllerPoolStatus_mem \<Rightarrow> ControllerPoolStatus" where
  "pool_status_val h s =
     \<lparr>pt_ReadyReplicas = ptm_ReadyReplicas s, pt_ActiveSandboxCount = ptm_ActiveSandboxCount s,
      pt_LastScaleTime = time_val h (ptm_LastScaleTime s),
      pt_Conditions = slice_val as_conditions itself h (ptm_Conditions s)\<rparr>"

definition ControllerPoolStatus_DeepCopyInto ::
  "'m meta_lib \<Rightarrow> ControllerPoolStatus_mem \<Rightarrow> ('m, ControllerPoolStatus_mem) hm" where
  "ControllerPoolStatus_DeepCopyInto lib s = do {
     scaled \<leftarrow> copy_ptr CTime as_time (ml_Time lib) (ptm_LastScaleTime s);
     conditions \<leftarrow> copy_slice CConditions as_conditions (ml_Condition lib) (ptm_Conditions s);
     State_Monad.return (s\<lparr>ptm_LastScaleTime := scaled, ptm_Conditions := conditions\<rparr>)
   }"

lemma condition_copies:
  "lib_copies lib mrefs mval lval \<Longrightarrow>
   deep_copy (copy_slice CConditions as_conditions (ml_Condition lib)) (slice_refs as_conditions no_refs)
     (slice_val as_conditions itself)"
  by (rule deep_copy.in_slice) (simp_all add: lib_copies_def as_conditions_def)

lemma pool_status_copies:
  fixes lib :: "'m meta_lib"
  assumes "lib_copies lib mrefs mval lval"
  shows "deep_copy (ControllerPoolStatus_DeepCopyInto lib) pool_status_refs pool_status_val"
proof
  note time = time_copies [OF assms] and conditions = condition_copies [OF assms]
  show "pool_status_refs h' s = pool_status_refs h s \<and> pool_status_val h' s = pool_status_val h s"
    if "\<And>a. a \<in> pool_status_refs h s \<Longrightarrow> hp_cells h' a = hp_cells h a" for h h' :: "'m heap" and s
    using that deep_copy.frame [OF time, of h _ h'] deep_copy.frame [OF conditions, of h _ h']
    by (simp add: pool_status_refs_def pool_status_val_def)
  show "wp (ControllerPoolStatus_DeepCopyInto lib s)
      (\<lambda>s' h'. grows h h' \<and> fresh_copy pool_status_refs pool_status_val h h' s s') h"
    if "pool_status_refs h s \<subseteq> {..<hp_next h}" for h :: "'m heap" and s
    using that unfolding ControllerPoolStatus_DeepCopyInto_def pool_status_refs_def [abs_def] Un_subset_iff
    by (elim conjE)
      (rule deep_copy.copy_first [OF time], assumption,
       rule deep_copy.copy_next [OF conditions], assumption,
       rule deep_copy.lasting_fresh_copy [OF time], assumption,
       simp add: wp_simps fresh_copy_def pool_status_val_def)
qed

definition Sandbox_DeepCopyInto :: "'m meta_lib \<Rightarrow> 'm Sandbox_mem \<Rightarrow> ('m, 'm Sandbox_mem) hm" where
  "Sandbox_DeepCopyInto lib s = do {
     meta \<leftarrow> ml_ObjectMeta lib (bxm_Meta s);
     spec \<leftarrow> SandboxSpec_DeepCopyInto (bxm_Spec s);
     State_Monad.return (s\<lparr>bxm_Meta := meta, bxm_Spec := spec\<rparr>)
   }"

definition ControllerPool_DeepCopyInto :: "'m meta_lib \<Rightarrow> 'm ControllerPool_mem \<Rightarrow> ('m, 'm ControllerPool_mem) hm" where
  "ControllerPool_DeepCopyInto lib p = do {
     meta \<leftarrow> ml_ObjectMeta lib (cpm_Meta p);
     spec \<leftarrow> ControllerPoolSpec_DeepCopyInto (cpm_Spec p);
     status \<leftarrow> ControllerPoolStatus_DeepCopyInto lib (cpm_Status p);
     State_Monad.return (p\<lparr>cpm_Meta := meta, cpm_Spec := spec, cpm_Status := status\<rparr>)
   }"

definition Session_DeepCopyInto :: "'m meta_lib \<Rightarrow> 'm Session_mem \<Rightarrow> ('m, 'm Session_mem) hm" where
  "Session_DeepCopyInto lib s = do {
     meta \<leftarrow> ml_ObjectMeta lib (sem_Meta s);
     status \<leftarrow> SessionStatus_DeepCopyInto lib (sem_Status s);
     State_Monad.return (s\<lparr>sem_Meta := meta, sem_Status := status\<rparr>)
   }"

definition sandbox_refs :: "('m heap \<Rightarrow> 'm \<Rightarrow> addr set) \<Rightarrow> 'm heap \<Rightarrow> 'm Sandbox_mem \<Rightarrow> addr set" where
  "sandbox_refs mrefs h s = mrefs h (bxm_Meta s) \<union> spec_refs h (bxm_Spec s)"

definition sandbox_val :: "('m heap \<Rightarrow> 'm \<Rightarrow> ObjectMeta) \<Rightarrow> 'm heap \<Rightarrow> 'm Sandbox_mem \<Rightarrow> Sandbox" where
  "sandbox_val mval h s = \<lparr>bx_Meta = mval h (bxm_Meta s), bx_Spec = spec_val h (bxm_Spec s)\<rparr>"

definition session_refs :: "('m heap \<Rightarrow> 'm \<Rightarrow> addr set) \<Rightarrow> 'm heap \<Rightarrow> 'm Session_mem \<Rightarrow> addr set" where
  "session_refs mrefs h s = mrefs h (sem_Meta s) \<union> status_refs h (sem_Status s)"

definition session_val :: "('m heap \<Rightarrow> 'm \<Rightarrow> ObjectMeta) \<Rightarrow> 'm heap \<Rightarrow> 'm Session_mem \<Rightarrow> Session" where
  "session_val mval h s =
     \<lparr>se_Meta = mval h (sem_Meta s), se_Spec = sem_Spec s, se_Status = status_val h (sem_Status s)\<rparr>"

definition pool_refs :: "('m heap \<Rightarrow> 'm \<Rightarrow> addr set) \<Rightarrow> 'm heap \<Rightarrow> 'm ControllerPool_mem \<Rightarrow> addr set" where
  "pool_refs mrefs h p =
     mrefs h (cpm_Meta p) \<union> pool_spec_refs h (cpm_Spec p) \<union> pool_status_refs h (cpm_Status p)"

definition pool_val :: "('m heap \<Rightarrow> 'm \<Rightarrow> ObjectMeta) \<Rightarrow> 'm heap \<Rightarrow> 'm ControllerPool_mem \<Rightarrow> ControllerPool" where
  "pool_val mval h p =
     \<lparr>cp_Meta = mval h (cpm_Meta p), cp_Spec = pool_spec_val h (cpm_Spec p),
      cp_Status = pool_status_val h (cpm_Status p)\<rparr>"

lemma sandbox_copies:
  fixes lib :: "'m meta_lib"
  assumes "lib_copies lib mrefs mval lval"
  shows "deep_copy (Sandbox_DeepCopyInto lib) (sandbox_refs mrefs) (sandbox_val mval)"
proof
  from assms have meta: "deep_copy (ml_ObjectMeta lib) mrefs mval" by (simp add: lib_copies_def)
  show "sandbox_refs mrefs h' s = sandbox_refs mrefs h s \<and> sandbox_val mval h' s = sandbox_val mval h s"
    if "\<And>a. a \<in> sandbox_refs mrefs h s \<Longrightarrow> hp_cells h' a = hp_cells h a" for h h' :: "'m heap" and s
    using that deep_copy.frame [OF meta, of h _ h'] spec.frame [of h _ h']
    by (simp add: sandbox_refs_def sandbox_val_def)
  show "wp (Sandbox_DeepCopyInto lib s)
      (\<lambda>s' h'. grows h h' \<and> fresh_copy (sandbox_refs mrefs) (sandbox_val mval) h h' s s') h"
    if "sandbox_refs mrefs h s \<subseteq> {..<hp_next h}" for h :: "'m heap" and s
    using that unfolding Sandbox_DeepCopyInto_def sandbox_refs_def [abs_def] Un_subset_iff
    by (elim conjE)
      (rule deep_copy.copy_first [OF meta], assumption,
       rule copy_nexts, assumption, rule deep_copy.lasting_fresh_copy [OF meta], assumption,
       simp add: wp_simps fresh_copy_def sandbox_val_def)
qed

lemma session_copies:
  fixes lib :: "'m meta_lib"
  assumes "lib_copies lib mrefs mval lval"
  shows "deep_copy (Session_DeepCopyInto lib) (session_refs mrefs) (session_val mval)"
proof
  from assms have meta: "deep_copy (ml_ObjectMeta lib) mrefs mval" by (simp add: lib_copies_def)
  note status = status_copies [OF assms]
  show "session_refs mrefs h' s = session_refs mrefs h s \<and> session_val mval h' s = session_val mval h s"
    if "\<And>a. a \<in> session_refs mrefs h s \<Longrightarrow> hp_cells h' a = hp_cells h a" for h h' :: "'m heap" and s
    using that deep_copy.frame [OF meta, of h _ h'] deep_copy.frame [OF status, of h _ h']
    by (simp add: session_refs_def session_val_def)
  show "wp (Session_DeepCopyInto lib s)
      (\<lambda>s' h'. grows h h' \<and> fresh_copy (session_refs mrefs) (session_val mval) h h' s s') h"
    if "session_refs mrefs h s \<subseteq> {..<hp_next h}" for h :: "'m heap" and s
    using that unfolding Session_DeepCopyInto_def session_refs_def [abs_def] Un_subset_iff
    by (elim conjE)
      (rule deep_copy.copy_first [OF meta], assumption,
       rule deep_copy.copy_next [OF status], assumption, rule deep_copy.lasting_fresh_copy [OF meta], assumption,
       simp add: wp_simps fresh_copy_def session_val_def)
qed

lemma pool_copies:
  fixes lib :: "'m meta_lib"
  assumes "lib_copies lib mrefs mval lval"
  shows "deep_copy (ControllerPool_DeepCopyInto lib) (pool_refs mrefs) (pool_val mval)"
proof
  from assms have meta: "deep_copy (ml_ObjectMeta lib) mrefs mval" by (simp add: lib_copies_def)
  note status = pool_status_copies [OF assms]
  show "pool_refs mrefs h' s = pool_refs mrefs h s \<and> pool_val mval h' s = pool_val mval h s"
    if "\<And>a. a \<in> pool_refs mrefs h s \<Longrightarrow> hp_cells h' a = hp_cells h a" for h h' :: "'m heap" and s
    using that deep_copy.frame [OF meta, of h _ h'] deep_copy.frame [OF status, of h _ h']
      pool_spec.frame [of h _ h']
    by (simp add: pool_refs_def pool_val_def)
  show "wp (ControllerPool_DeepCopyInto lib s)
      (\<lambda>s' h'. grows h h' \<and> fresh_copy (pool_refs mrefs) (pool_val mval) h h' s s') h"
    if "pool_refs mrefs h s \<subseteq> {..<hp_next h}" for h :: "'m heap" and s
    using that unfolding ControllerPool_DeepCopyInto_def pool_refs_def [abs_def] Un_subset_iff
    by (elim conjE)
      (rule deep_copy.copy_first [OF meta], assumption,
       rule copy_nexts, assumption, rule deep_copy.lasting_fresh_copy [OF meta], assumption,
       rule deep_copy.copy_next [OF status], assumption,
       intro lasting_intros deep_copy.lasting_fresh_copy [OF meta], assumption,
       simp add: wp_simps fresh_copy_def pool_val_def)
qed

section \<open>The copies of lists\<close>

definition items_DeepCopyInto ::
  "'m meta_lib \<Rightarrow> ('s list \<Rightarrow> 'm cell) \<Rightarrow> ('m cell \<Rightarrow> 's list) \<Rightarrow> ('s \<Rightarrow> ('m, 's) hm) \<Rightarrow> 'm List_mem \<Rightarrow> ('m, 'm List_mem) hm" where
  "items_DeepCopyInto lib wrap unwrap copy l = do {
     meta \<leftarrow> ml_ListMeta lib (lim_Meta l);
     items \<leftarrow> copy_slice wrap unwrap copy (lim_Items l);
     State_Monad.return (l\<lparr>lim_Meta := meta, lim_Items := items\<rparr>)
   }"

definition list_refs ::
  "('m heap \<Rightarrow> 'm \<Rightarrow> addr set) \<Rightarrow> ('m cell \<Rightarrow> 's list) \<Rightarrow> ('m heap \<Rightarrow> 's \<Rightarrow> addr set) \<Rightarrow> 'm heap \<Rightarrow> 'm List_mem \<Rightarrow> addr set" where
  "list_refs mrefs unwrap refs h l = mrefs h (lim_Meta l) \<union> slice_refs unwrap refs h (lim_Items l)"

definition list_val ::
  "('m heap \<Rightarrow> 'm \<Rightarrow> 'l) \<Rightarrow> ('m cell \<Rightarrow> 's list) \<Rightarrow> ('m heap \<Rightarrow> 's \<Rightarrow> 'v) \<Rightarrow> 'm heap \<Rightarrow> 'm List_mem \<Rightarrow> 'l \<times> 'v list" where
  "list_val lval unwrap val h l = (lval h (lim_Meta l), slice_val unwrap val h (lim_Items l))"

lemma items_copies:
  fixes lib :: "'m meta_lib"
  assumes "lib_copies lib mrefs mval lval" and "deep_copy copy refs val"
    and wrap: "\<And>vs. unwrap (wrap vs) = vs"
  shows "deep_copy (items_DeepCopyInto lib wrap unwrap copy) (list_refs mrefs unwrap refs) (list_val lval unwrap val)"
proof
  from assms(1) have meta: "deep_copy (ml_ListMeta lib) mrefs lval" by (simp add: lib_copies_def)
  note slice = deep_copy.in_slice [OF assms(2), of unwrap wrap, OF wrap]
  show "list_refs mrefs unwrap refs h' l = list_refs mrefs unwrap refs h l \<and>
      list_val lval unwrap val h' l = list_val lval unwrap val h l"
    if "\<And>a. a \<in> list_refs mrefs unwrap refs h l \<Longrightarrow> hp_cells h' a = hp_cells h a" for h h' :: "'m heap" and l
    using that deep_copy.frame [OF meta, of h _ h'] deep_copy.frame [OF slice, of h _ h']
    by (simp add: list_refs_def list_val_def)
  show "wp (items_DeepCopyInto lib wrap unwrap copy l) (\<lambda>l' h'. grows h h' \<and>
      fresh_copy (list_refs mrefs unwrap refs) (list_val lval unwrap val) h h' l l') h"
    if "list_refs mrefs unwrap refs h l \<subseteq> {..<hp_next h}" for h :: "'m heap" and l
    using that unfolding items_DeepCopyInto_def list_refs_def [abs_def] Un_subset_iff
    by (elim conjE)
      (rule deep_copy.copy_first [OF meta], assumption,
       rule deep_copy.copy_next [OF slice], assumption, rule deep_copy.lasting_fresh_copy [OF meta], assumption,
       simp add: wp_simps fresh_copy_def list_val_def)
qed

definition SandboxList_DeepCopyInto :: "'m meta_lib \<Rightarrow> 'm List_mem \<Rightarrow> ('m, 'm List_mem) hm" where
  "SandboxList_DeepCopyInto lib = items_DeepCopyInto lib CSandboxes as_sandboxes (Sandbox_DeepCopyInto lib)"

definition ControllerPoolList_DeepCopyInto :: "'m meta_lib \<Rightarrow> 'm List_mem \<Rightarrow> ('m, 'm List_mem) hm" where
  "ControllerPoolList_DeepCopyInto lib = items_DeepCopyInto lib CPools as_pools (ControllerPool_DeepCopyInto lib)"

definition SessionList_DeepCopyInto :: "'m meta_lib \<Rightarrow> 'm List_mem \<Rightarrow> ('m, 'm List_mem) hm" where
  "SessionList_DeepCopyInto lib = items_DeepCopyInto lib CSessions as_sessions (Session_DeepCopyInto lib)"

section \<open>The copies the code calls\<close>

text \<open>
  \<open>DeepCopy\<close> of a nil pointer is nil.  \<open>DeepCopyObject\<close> gives its result as an interface, and nil for
  a nil pointer.
\<close>

definition to_object :: "addr option \<Rightarrow> ('m, addr option) hm" where
  "to_object c = (case c of Some a \<Rightarrow> State_Monad.return (Some a) | None \<Rightarrow> State_Monad.return None)"

lemma to_object_id:
  fixes m :: "('m, addr option) hm"
  shows "State_Monad.bind m to_object = m"
proof -
  have "(to_object :: addr option \<Rightarrow> ('m, addr option) hm) = State_Monad.return"
    by (simp add: fun_eq_iff to_object_def split: option.splits)
  then show ?thesis by simp
qed

definition Sandbox_DeepCopy :: "'m meta_lib \<Rightarrow> addr option \<Rightarrow> ('m, addr option) hm" where
  "Sandbox_DeepCopy lib = copy_ptr CSandbox as_sandbox (Sandbox_DeepCopyInto lib)"

definition Sandbox_DeepCopyObject :: "'m meta_lib \<Rightarrow> addr option \<Rightarrow> ('m, addr option) hm" where
  "Sandbox_DeepCopyObject lib r = do { c \<leftarrow> Sandbox_DeepCopy lib r; to_object c }"

definition SandboxList_DeepCopy :: "'m meta_lib \<Rightarrow> addr option \<Rightarrow> ('m, addr option) hm" where
  "SandboxList_DeepCopy lib = copy_ptr CList as_list (SandboxList_DeepCopyInto lib)"

definition SandboxList_DeepCopyObject :: "'m meta_lib \<Rightarrow> addr option \<Rightarrow> ('m, addr option) hm" where
  "SandboxList_DeepCopyObject lib r = do { c \<leftarrow> SandboxList_DeepCopy lib r; to_object c }"

definition SandboxSpec_DeepCopy :: "addr option \<Rightarrow> ('m, addr option) hm" where
  "SandboxSpec_DeepCopy = copy_ptr CSandboxSpec as_sandbox_spec (SandboxSpec_DeepCopyInto)"

definition ControllerPool_DeepCopy :: "'m meta_lib \<Rightarrow> addr option \<Rightarrow> ('m, addr option) hm" where
  "ControllerPool_DeepCopy lib = copy_ptr CPool as_pool (ControllerPool_DeepCopyInto lib)"

definition ControllerPool_DeepCopyObject :: "'m meta_lib \<Rightarrow> addr option \<Rightarrow> ('m, addr option) hm" where
  "ControllerPool_DeepCopyObject lib r = do { c \<leftarrow> ControllerPool_DeepCopy lib r; to_object c }"

definition ControllerPoolList_DeepCopy :: "'m meta_lib \<Rightarrow> addr option \<Rightarrow> ('m, addr option) hm" where
  "ControllerPoolList_DeepCopy lib = copy_ptr CList as_list (ControllerPoolList_DeepCopyInto lib)"

definition ControllerPoolList_DeepCopyObject :: "'m meta_lib \<Rightarrow> addr option \<Rightarrow> ('m, addr option) hm" where
  "ControllerPoolList_DeepCopyObject lib r = do { c \<leftarrow> ControllerPoolList_DeepCopy lib r; to_object c }"

definition ControllerPoolSpec_DeepCopy :: "addr option \<Rightarrow> ('m, addr option) hm" where
  "ControllerPoolSpec_DeepCopy = copy_ptr CPoolSpec as_pool_spec (ControllerPoolSpec_DeepCopyInto)"

definition ControllerPoolStatus_DeepCopy :: "'m meta_lib \<Rightarrow> addr option \<Rightarrow> ('m, addr option) hm" where
  "ControllerPoolStatus_DeepCopy lib = copy_ptr CPoolStatus as_pool_status (ControllerPoolStatus_DeepCopyInto lib)"

definition Session_DeepCopy :: "'m meta_lib \<Rightarrow> addr option \<Rightarrow> ('m, addr option) hm" where
  "Session_DeepCopy lib = copy_ptr CSession as_session (Session_DeepCopyInto lib)"

definition Session_DeepCopyObject :: "'m meta_lib \<Rightarrow> addr option \<Rightarrow> ('m, addr option) hm" where
  "Session_DeepCopyObject lib r = do { c \<leftarrow> Session_DeepCopy lib r; to_object c }"

definition SessionList_DeepCopy :: "'m meta_lib \<Rightarrow> addr option \<Rightarrow> ('m, addr option) hm" where
  "SessionList_DeepCopy lib = copy_ptr CList as_list (SessionList_DeepCopyInto lib)"

definition SessionList_DeepCopyObject :: "'m meta_lib \<Rightarrow> addr option \<Rightarrow> ('m, addr option) hm" where
  "SessionList_DeepCopyObject lib r = do { c \<leftarrow> SessionList_DeepCopy lib r; to_object c }"

definition SessionSpec_DeepCopy :: "addr option \<Rightarrow> ('m, addr option) hm" where
  "SessionSpec_DeepCopy = copy_ptr CSessionSpec as_session_spec (SessionSpec_DeepCopyInto)"

definition SessionStatus_DeepCopy :: "'m meta_lib \<Rightarrow> addr option \<Rightarrow> ('m, addr option) hm" where
  "SessionStatus_DeepCopy lib = copy_ptr CSessionStatus as_session_status (SessionStatus_DeepCopyInto lib)"

lemmas DeepCopyObject_defs =
  Sandbox_DeepCopyObject_def SandboxList_DeepCopyObject_def ControllerPool_DeepCopyObject_def
  ControllerPoolList_DeepCopyObject_def Session_DeepCopyObject_def SessionList_DeepCopyObject_def

lemmas DeepCopy_defs =
  Sandbox_DeepCopy_def SandboxList_DeepCopy_def ControllerPool_DeepCopy_def
  ControllerPoolList_DeepCopy_def Session_DeepCopy_def SessionList_DeepCopy_def

text \<open>
  \<open>copies_apart copy refs val\<close>: the result of \<open>copy\<close> has the value of its argument, shares no cell with it,
  and neither changes when the other is written through any of its references.
\<close>

definition copies_apart ::
  "('r \<Rightarrow> ('m, 'r) hm) \<Rightarrow> ('m heap \<Rightarrow> 'r \<Rightarrow> addr set) \<Rightarrow> ('m heap \<Rightarrow> 'r \<Rightarrow> 'v) \<Rightarrow> bool" where
  "copies_apart copy refs val \<longleftrightarrow>
     (\<forall>h r r' h'. refs h r \<subseteq> {..<hp_next h} \<longrightarrow> run_state (copy r) h = (r', h') \<longrightarrow>
        val h' r' = val h r \<and> val h' r = val h r \<and> refs h' r' \<inter> refs h' r = {} \<and>
        (\<forall>a c. a \<in> refs h' r \<longrightarrow> val (write_cell a c h') r' = val h r) \<and>
        (\<forall>b c. b \<in> refs h' r' \<longrightarrow> val (write_cell b c h') r = val h r))"

lemma deep_copy_apart: "deep_copy copy refs val \<Longrightarrow> copies_apart copy refs val"
  unfolding copies_apart_def by (intro allI impI conjI; (rule deep_copy.independent; assumption))

text \<open>
  C24. If the library copies metadata, times and conditions deeply, then a copy of a sandbox, a session, a
  pool or a list of them has the value of the original as the rest of the development reads it,
  shares no map, slice or pointer with it, and neither changes when the other is written.
\<close>

theorem objects_copied_apart:
  assumes "lib_copies lib mrefs mval lval"
  shows "copies_apart (Sandbox_DeepCopyObject lib)
      (ptr_refs as_sandbox (sandbox_refs mrefs)) (ptr_val as_sandbox (sandbox_val mval)) \<and>
    copies_apart (Session_DeepCopyObject lib)
      (ptr_refs as_session (session_refs mrefs)) (ptr_val as_session (session_val mval)) \<and>
    copies_apart (ControllerPool_DeepCopyObject lib)
      (ptr_refs as_pool (pool_refs mrefs)) (ptr_val as_pool (pool_val mval)) \<and>
    copies_apart (SandboxList_DeepCopyObject lib)
      (ptr_refs as_list (list_refs mrefs as_sandboxes (sandbox_refs mrefs)))
      (ptr_val as_list (list_val lval as_sandboxes (sandbox_val mval))) \<and>
    copies_apart (SessionList_DeepCopyObject lib)
      (ptr_refs as_list (list_refs mrefs as_sessions (session_refs mrefs)))
      (ptr_val as_list (list_val lval as_sessions (session_val mval))) \<and>
    copies_apart (ControllerPoolList_DeepCopyObject lib)
      (ptr_refs as_list (list_refs mrefs as_pools (pool_refs mrefs)))
      (ptr_val as_list (list_val lval as_pools (pool_val mval)))"
  unfolding DeepCopyObject_defs [abs_def] to_object_id DeepCopy_defs SandboxList_DeepCopyInto_def
    SessionList_DeepCopyInto_def ControllerPoolList_DeepCopyInto_def
  by (intro conjI deep_copy_apart deep_copy.in_ptr items_copies [OF assms]
      sandbox_copies [OF assms] session_copies [OF assms] pool_copies [OF assms])
    (simp_all add: readers)

text \<open>A library whose metadata is a name and a reference to labels, and a sandbox in a store.\<close>

definition demo_copy_meta :: "bytes \<times> addr option \<Rightarrow> (bytes \<times> addr option, bytes \<times> addr option) hm" where
  "demo_copy_meta m = do { l \<leftarrow> copy_cell (snd m); State_Monad.return (fst m, l) }"

definition demo_meta_refs :: "'m heap \<Rightarrow> bytes \<times> addr option \<Rightarrow> addr set" where
  "demo_meta_refs h m = cell_refs h (snd m)"

definition demo_meta_val :: "'m heap \<Rightarrow> bytes \<times> addr option \<Rightarrow> ObjectMeta" where
  "demo_meta_val h m =
     \<lparr>om_Name = fst m, om_Namespace = ''boxy'', om_Labels = cell_val [] as_map h (snd m), om_Annotations = [],
      om_Finalizers = [], om_DeletionTimestamp = None, om_CreationTimestamp = 0\<rparr>"

definition demo_lib :: "(bytes \<times> addr option) meta_lib" where
  "demo_lib = \<lparr>ml_ObjectMeta = demo_copy_meta, ml_ListMeta = demo_copy_meta,
     ml_Time = State_Monad.return, ml_Condition = State_Monad.return\<rparr>"

lemma demo_meta_copies: "deep_copy demo_copy_meta demo_meta_refs demo_meta_val"
proof
  show "demo_meta_refs h' m = demo_meta_refs h m \<and> demo_meta_val h' m = demo_meta_val h m"
    if "\<And>a. a \<in> demo_meta_refs h m \<Longrightarrow> hp_cells h' a = hp_cells h a"
    for h h' :: "(bytes \<times> addr option) heap" and m
    using that plain.frame [of h "snd m" h'] by (simp add: demo_meta_refs_def demo_meta_val_def cell_val_def)
  show "wp (demo_copy_meta m) (\<lambda>m' h'. grows h h' \<and> fresh_copy demo_meta_refs demo_meta_val h h' m m') h"
    if "demo_meta_refs h m \<subseteq> {..<hp_next h}" for h :: "(bytes \<times> addr option) heap" and m
    using that unfolding demo_copy_meta_def demo_meta_refs_def [abs_def]
    by - (rule copy_firsts, assumption, simp add: wp_simps fresh_copy_def demo_meta_val_def cell_val_def)
qed

lemma return_copies: "deep_copy State_Monad.return no_refs itself"
  by unfold_locales (simp_all add: no_refs_def itself_def wp_simps fresh_copy_def)

lemma demo_lib_copies: "lib_copies demo_lib demo_meta_refs demo_meta_val demo_meta_val"
  by (simp add: lib_copies_def demo_lib_def demo_meta_copies return_copies)

definition demo_box :: "(bytes \<times> addr option) Sandbox_mem" where
  "demo_box =
     \<lparr>bxm_Meta = (''box'', Some 0),
      bxm_Spec = \<lparr>bsm_SandboxID = ''box'', bsm_TTLSeconds = 60, bsm_Env = Some 1, bsm_AllowedBinaries = None,
        bsm_VM = None, bsm_Network = None, bsm_Volumes = None, bsm_Patches = None, bsm_SetupScript = [],
        bsm_TeardownScript = [], bsm_ScriptEnv = None\<rparr>\<rparr>"

definition demo_store :: "(bytes \<times> addr option) heap" where
  "demo_store =
     \<lparr>hp_cells = (\<lambda>a. if a = 0 then CMap [(''team'', ''a'')]
                      else if a = 1 then CMap [(''PATH'', ''/bin'')] else CSandbox demo_box),
      hp_next = 3\<rparr>"

abbreviation demo_refs where "demo_refs \<equiv> ptr_refs as_sandbox (sandbox_refs demo_meta_refs)"
abbreviation demo_val where "demo_val \<equiv> ptr_val as_sandbox (sandbox_val demo_meta_val)"

lemma demo_store_refs:
  "demo_refs demo_store (Some 2) = {0, 1, 2}"
  by (auto simp: ptr_refs_def demo_store_def as_sandbox_def sandbox_refs_def demo_box_def demo_meta_refs_def
      cell_refs_def spec_refs_def)

lemma demo_copied:
  "\<exists>h'. run_state (Sandbox_DeepCopyObject demo_lib (Some 2)) demo_store = (Some 5, h') \<and>
     1 \<in> demo_refs h' (Some 2)"
  by (simp add: Sandbox_DeepCopyObject_def to_object_id Sandbox_DeepCopy_def copy_ptr_def deref_def demo_store_def
      as_sandbox_def Sandbox_DeepCopyInto_def demo_lib_def demo_copy_meta_def copy_cell_def alloc_def
      push_cell_def SandboxSpec_DeepCopyInto_def demo_box_def ptr_refs_def sandbox_refs_def spec_refs_def
      cell_refs_def demo_meta_refs_def)

text \<open>Dropping the environment of the original leaves the copy, a new object, as it was.\<close>

theorem objects_copied_apart_witness:
  "lib_copies demo_lib demo_meta_refs demo_meta_val demo_meta_val \<and>
   (\<exists>h'. run_state (Sandbox_DeepCopyObject demo_lib (Some 2)) demo_store = (Some 5, h') \<and>
      demo_val (write_cell 1 (CMap []) h') (Some 5) = demo_val demo_store (Some 2))"
proof -
  have "copies_apart (Sandbox_DeepCopyObject demo_lib) demo_refs demo_val"
    using objects_copied_apart [OF demo_lib_copies] by (rule conjunct1)
  then have "demo_val (write_cell 1 (CMap []) h') (Some 5) = demo_val demo_store (Some 2)"
    if "run_state (Sandbox_DeepCopyObject demo_lib (Some 2)) demo_store = (Some 5, h')"
      "1 \<in> demo_refs h' (Some 2)" for h'
    using that demo_store_refs unfolding copies_apart_def by (fastforce simp: demo_store_def)
  with demo_copied demo_lib_copies show ?thesis by blast
qed

end
