(* ===== verification/Boxy_Config.thy ===== *)
theory Boxy_Config
  imports Operator Router_Auth Controller_Server
begin

text \<open>
  The settings of the three processes, read from their environment: \<open>internal/router/server.go\<close>
  (\<open>ConfigFromEnv\<close>), \<open>cmd/boxy-operator/main.go\<close> and \<open>cmd/boxy-controller/main.go\<close>; how
  they reach the cluster, and their TLS configurations.  The environment is a function; a
  variable that is not set reads as the empty string.
\<close>

type_synonym getenv = "bytes \<Rightarrow> bytes"

section \<open>Reading variables\<close>

text \<open>The three programs have a copy each; that of the operator knows fewer spellings of booleans.\<close>

definition envInt :: "getenv \<Rightarrow> bytes \<Rightarrow> int \<Rightarrow> int" where
  "envInt os_Getenv key def =
     (let v = TrimSpace (os_Getenv key) in
      if v = [] then def
      else (case Atoi v of None \<Rightarrow> def | Some n \<Rightarrow> n))"

definition envStr :: "getenv \<Rightarrow> bytes \<Rightarrow> bytes \<Rightarrow> bytes" where
  "envStr os_Getenv key def = (let v = TrimSpace (os_Getenv key) in if v = [] then def else v)"

definition envBool :: "getenv \<Rightarrow> bytes \<Rightarrow> bool \<Rightarrow> bool" where
  "envBool os_Getenv key def =
     (let v = TrimSpace (ToLower (os_Getenv key)) in
      if v = [] then def
      else if v \<in> set [''1'', ''true'', ''yes'', ''on''] then True
      else if v \<in> set [''0'', ''false'', ''no'', ''off''] then False
      else def)"

definition controller_envBool :: "getenv \<Rightarrow> bytes \<Rightarrow> bool \<Rightarrow> bool" where
  "controller_envBool os_Getenv key def =
     (let v = TrimSpace (ToLower (os_Getenv key)) in
      if v \<in> set [''1'', ''true'', ''yes'', ''on''] then True
      else if v \<in> set [''0'', ''false'', ''no'', ''off''] then False
      else def)"

definition operator_envBool :: "getenv \<Rightarrow> bytes \<Rightarrow> bool \<Rightarrow> bool" where
  "operator_envBool os_Getenv key def =
     (let v = TrimSpace (ToLower (os_Getenv key)) in
      if v \<in> set [''1'', ''true'', ''yes''] then True
      else if v \<in> set [''0'', ''false'', ''no''] then False
      else def)"

text \<open>The conversion \<open>int32(n)\<close> wraps around.\<close>

definition int32 :: "int \<Rightarrow> int" where
  "int32 n = signed_take_bit 31 n"

section \<open>The router\<close>

text \<open>\<open>json_Unmarshal\<close> decodes the default configuration.\<close>

definition ConfigFromEnv ::
  "getenv \<Rightarrow> (bytes \<Rightarrow> go_error + SandboxCreateBody) \<Rightarrow> go_error + Config" where
  "ConfigFromEnv os_Getenv json_Unmarshal =
     (let ns = TrimSpace (os_Getenv ''BOXY_SANDBOX_NAMESPACE'');
          addr = TrimSpace (os_Getenv ''BOXY_LISTEN_ADDR'');
          enabled = envBool os_Getenv ''BOXY_DEFAULT_SANDBOX_ENABLED'' False;
          cfg = \<lparr>
            rf_ListenAddr = (if addr = [] then '':8080'' else addr),
            rf_DevToken = TrimSpace (os_Getenv ''BOXY_ROUTER_TOKEN''),
            rf_AuthCacheTTL = seconds (envInt os_Getenv ''BOXY_AUTH_CACHE_TTL_SECONDS'' 30),
            rf_SandboxNamespace = (if ns = [] then ''default'' else ns),
            rf_MaxBodyBytes = envInt os_Getenv ''BOXY_MAX_BODY_BYTES'' 6291456,
            rf_MaxOutputBytes = envInt os_Getenv ''BOXY_MAX_OUTPUT_BYTES'' 6291456,
            rf_MaxTimeoutSec = envInt os_Getenv ''BOXY_MAX_TIMEOUT_SECONDS'' 3600,
            rf_MaxArgs = envInt os_Getenv ''BOXY_MAX_ARGS'' 256,
            rf_MaxEnvKeys = envInt os_Getenv ''BOXY_MAX_ENV_KEYS'' 64,
            rf_MaxConcurrency = envInt os_Getenv ''BOXY_MAX_CONCURRENCY'' 100,
            rf_MaxSandboxTTLSec = envInt os_Getenv ''BOXY_MAX_SANDBOX_TTL_SECONDS'' 86400,
            rf_MTLSDisabled = envBool os_Getenv ''BOXY_MTLS_DISABLED'' False,
            rf_TLSCAPath = envStr os_Getenv ''BOXY_TLS_CA_PATH'' ''/tls/ca.crt'',
            rf_TLSClientCertPath = envStr os_Getenv ''BOXY_TLS_CLIENT_CERT_PATH'' ''/tls/tls.crt'',
            rf_TLSClientKeyPath = envStr os_Getenv ''BOXY_TLS_CLIENT_KEY_PATH'' ''/tls/tls.key'',
            rf_ControllerToken = envStr os_Getenv ''BOXY_CONTROLLER_TOKEN'' [],
            rf_ControllerPort = int32 (envInt os_Getenv ''BOXY_CONTROLLER_PORT'' 8080),
            rf_DefaultSandboxEnabled = enabled,
            rf_DefaultSandboxConfig = None,
            rf_CreateTimeout = seconds (envInt os_Getenv ''BOXY_CREATE_TIMEOUT_SECONDS'' 30)\<rparr>
      in if \<not> enabled then Inr cfg
         else
           (let raw = TrimSpace (os_Getenv ''BOXY_DEFAULT_SANDBOX_CONFIG'') in
            if raw = []
            then Inl (ErrText ''BOXY_DEFAULT_SANDBOX_CONFIG is required when default sandbox is enabled'')
            else
              (case json_Unmarshal raw of
                 Inl e \<Rightarrow> Inl (wrap_err ''parse BOXY_DEFAULT_SANDBOX_CONFIG: '' e [])
               | Inr body \<Rightarrow>
                   Inr (cfg\<lparr>rf_DefaultSandboxConfig := Some
                     (if sb_SandboxID body = [] then body\<lparr>sb_SandboxID := ''default''\<rparr> else body)\<rparr>))))"

section \<open>The operator\<close>

definition operator_config :: "getenv \<Rightarrow> ReconcilerConfig" where
  "operator_config os_Getenv =
     (let ns = envStr os_Getenv ''BOXY_NAMESPACE'' ''default'';
          stsName = envStr os_Getenv ''BOXY_CONTROLLER_STATEFULSET_NAME'' ''boxy-ctrl'';
          headlessSvc = envStr os_Getenv ''BOXY_CONTROLLER_HEADLESS_SERVICE'' (stsName @ ''-headless'');
          cc = \<lparr>
            cl_MTLSDisabled = operator_envBool os_Getenv ''BOXY_MTLS_DISABLED'' False,
            cl_CACertPath = envStr os_Getenv ''BOXY_TLS_CA_PATH'' ''/tls/ca.crt'',
            cl_ClientCert = envStr os_Getenv ''BOXY_TLS_CLIENT_CERT_PATH'' ''/tls/tls.crt'',
            cl_ClientKey = envStr os_Getenv ''BOXY_TLS_CLIENT_KEY_PATH'' ''/tls/tls.key'',
            cl_ControllerToken = envStr os_Getenv ''BOXY_CONTROLLER_TOKEN'' []\<rparr>
      in \<lparr>rcf_Namespace = ns, rcf_StatefulSetName = stsName, rcf_HeadlessServiceName = headlessSvc,
          rcf_ControllerPoolName = envStr os_Getenv ''BOXY_CONTROLLER_POOL_NAME'' stsName,
          rcf_ControllerPort = int32 (envInt os_Getenv ''BOXY_CONTROLLER_PORT'' 8080),
          rcf_MaxSandboxesPerCtrl = envInt os_Getenv ''BOXY_MAX_SANDBOXES_PER_CONTROLLER'' 20,
          rcf_MaxControllerReplicas = int32 (envInt os_Getenv ''BOXY_MAX_CONTROLLER_REPLICAS'' 50),
          rcf_MinControllerReplicas = int32 (envInt os_Getenv ''BOXY_MIN_CONTROLLER_REPLICAS'' 1),
          rcf_TerminatedRetentionSec = envInt os_Getenv ''BOXY_TERMINATED_RETENTION_SECONDS'' 3600,
          rcf_ScaleDownCooldown = seconds (envInt os_Getenv ''BOXY_SCALE_DOWN_COOLDOWN_SECONDS'' 300),
          rcf_MTLSDisabled = operator_envBool os_Getenv ''BOXY_MTLS_DISABLED'' False,
          rcf_Client = cc\<rparr>)"

section \<open>The controller\<close>

record process_config = ctl_config +
  pc_port :: int
  pc_mtlsDisabled :: bool
  pc_tlsCertPath :: bytes
  pc_tlsKeyPath :: bytes
  pc_tlsCAPath :: bytes
  pc_metricsPort :: int

definition configFromEnv :: "getenv \<Rightarrow> process_config" where
  "configFromEnv os_Getenv = \<lparr>
     cc_controllerToken = envStr os_Getenv ''BOXY_CONTROLLER_TOKEN'' [],
     cc_maxSandboxes = envInt os_Getenv ''BOXY_MAX_SANDBOXES'' 20,
     cc_maxExecConcurrency = envInt os_Getenv ''BOXY_MAX_EXEC_CONCURRENCY'' 50,
     cc_maxOutputBytes = envInt os_Getenv ''BOXY_MAX_OUTPUT_BYTES'' 6291456,
     cc_adapterConfig = \<lparr>
       ac_NsjailPath = envStr os_Getenv ''BOXY_NSJAIL_PATH'' ''/usr/sbin/nsjail'',
       ac_DefaultRootfs = envStr os_Getenv ''BOXY_NSJAIL_ROOTFS'' ''/rootfs/ubuntu-24.04'',
       ac_SandboxRoot = envStr os_Getenv ''BOXY_NSJAIL_SANDBOX_ROOT'' ''/var/lib/boxy/sandboxes'',
       ac_BinariesDir = envStr os_Getenv ''BOXY_NSJAIL_BINARIES_DIR'' ''/usr/local/bin'',
       ac_MaxOutputBytes = envInt os_Getenv ''BOXY_MAX_OUTPUT_BYTES'' 6291456\<rparr>,
     pc_port = envInt os_Getenv ''BOXY_CONTROLLER_PORT'' 8080,
     pc_mtlsDisabled = controller_envBool os_Getenv ''BOXY_MTLS_DISABLED'' False,
     pc_tlsCertPath = envStr os_Getenv ''BOXY_TLS_CERT_PATH'' ''/tls/tls.crt'',
     pc_tlsKeyPath = envStr os_Getenv ''BOXY_TLS_KEY_PATH'' ''/tls/tls.key'',
     pc_tlsCAPath = envStr os_Getenv ''BOXY_TLS_CA_PATH'' ''/tls/ca.crt'',
     pc_metricsPort = envInt os_Getenv ''BOXY_METRICS_PORT'' 9090\<rparr>"

text \<open>Whether a second listener serves the metrics.\<close>

definition separate_metrics :: "process_config \<Rightarrow> bool" where
  "separate_metrics cfg \<longleftrightarrow> pc_metricsPort cfg > 0 \<and> pc_metricsPort cfg \<noteq> pc_port cfg"

section \<open>Access to the cluster\<close>

text \<open>
  Where the configuration of the Kubernetes client comes from (\<open>internal/kube/factory.go\<close>):
  \<open>homeDir\<close> is the home directory, if there is one, \<open>exists\<close> whether a file exists.
\<close>

datatype kube_source = KubeconfigFile bytes | InClusterConfig

definition BuildConfig :: "getenv \<Rightarrow> bytes option \<Rightarrow> (bytes \<Rightarrow> bool) \<Rightarrow> kube_source" where
  "BuildConfig os_Getenv homeDir exists =
     (let kube = os_Getenv ''KUBECONFIG'' in
      if kube \<noteq> [] then KubeconfigFile kube
      else
        (case homeDir of
           None \<Rightarrow> InClusterConfig
         | Some home \<Rightarrow>
             (let def = Join [home, ''.kube'', ''config''] in
              if exists def then KubeconfigFile def else InClusterConfig)))"

section \<open>Mutual TLS\<close>

text \<open>
  The TLS configurations of the client (\<open>internal/controller/client.go\<close>) and of the controller.
  \<open>files\<close> reads a file, \<open>certs\<close> are the certificates a PEM text holds and \<open>keypair\<close> loads a
  certificate with its key; the client panics where the controller returns an error.
\<close>

record ('cert, 'key) tls_lib =
  tl_ReadFile :: "bytes \<Rightarrow> go_error + bytes"
  tl_certs :: "bytes \<Rightarrow> 'cert list"
  tl_LoadX509KeyPair :: "bytes \<Rightarrow> bytes \<Rightarrow> go_error + 'key"

datatype client_auth = NoClientCert | RequireAndVerifyClientCert

record ('cert, 'key) tls_config =
  tc_Certificates :: "'key list"
  tc_RootCAs :: "'cert list"
  tc_ClientCAs :: "'cert list"
  tc_ClientAuth :: client_auth
  tc_ServerName :: bytes
  tc_MinVersion :: int

definition mtlsServerName :: bytes where
  "mtlsServerName = ''boxy-controller''"

definition buildMTLSTransport ::
  "('cert, 'key) tls_lib \<Rightarrow> ClientConfig \<Rightarrow> bytes + ('cert, 'key) tls_config" where
  "buildMTLSTransport lib cfg =
     (case tl_ReadFile lib (cl_CACertPath cfg) of
        Inl e \<Rightarrow> Inl (''read CA cert '' @ cl_CACertPath cfg @ '': '' @ err_msg e)
      | Inr caCert \<Rightarrow>
          (let pool = tl_certs lib caCert in
           if pool = [] then Inl ''failed to append CA cert''
           else
             (case tl_LoadX509KeyPair lib (cl_ClientCert cfg) (cl_ClientKey cfg) of
                Inl e \<Rightarrow> Inl (''load client keypair: '' @ err_msg e)
              | Inr cert \<Rightarrow> Inr \<lparr>tc_Certificates = [cert], tc_RootCAs = pool, tc_ClientCAs = [],
                  tc_ClientAuth = NoClientCert, tc_ServerName = mtlsServerName, tc_MinVersion = 0\<rparr>)))"

definition VersionTLS12 :: int where
  "VersionTLS12 = 0x0303"

definition buildTLSConfig ::
  "('cert, 'key) tls_lib \<Rightarrow> bytes \<Rightarrow> bytes \<Rightarrow> bytes \<Rightarrow> go_error + ('cert, 'key) tls_config" where
  "buildTLSConfig lib certPath keyPath caPath =
     (case tl_LoadX509KeyPair lib certPath keyPath of
        Inl e \<Rightarrow> Inl (wrap_err ''load server keypair: '' e [])
      | Inr cert \<Rightarrow>
          (case tl_ReadFile lib caPath of
             Inl e \<Rightarrow> Inl (wrap_err ''read CA cert: '' e [])
           | Inr caPEM \<Rightarrow>
               (let pool = tl_certs lib caPEM in
                if pool = [] then Inl (ErrText ''parse CA cert: no valid certs found'')
                else Inr \<lparr>tc_Certificates = [cert], tc_RootCAs = [], tc_ClientCAs = pool,
                  tc_ClientAuth = RequireAndVerifyClientCert, tc_ServerName = [],
                  tc_MinVersion = VersionTLS12\<rparr>)))"

text \<open>
  A client and a controller with the same files trust the same certificates, at least one, on both sides.
\<close>

lemma mutual_trust:
  assumes "buildMTLSTransport lib cfg = Inr c" and "buildTLSConfig lib cert key (cl_CACertPath cfg) = Inr s"
  shows "tc_RootCAs c = tc_ClientCAs s" and "tc_RootCAs c \<noteq> []"
    and "tc_ClientAuth s = RequireAndVerifyClientCert" and "tc_Certificates c \<noteq> []"
  using assms
  by (auto simp: buildMTLSTransport_def buildTLSConfig_def Let_def split: sum.splits if_splits)

end
