(* ===== verification/Boxy_Telemetry.thy ===== *)
theory Boxy_Telemetry
  imports Boxy_Config
begin

text \<open>
  Telemetry: setting up the metrics provider (\<open>internal/telemetry/telemetry.go\<close>), with the
  OpenTelemetry library as a parameter, and the readings of the control group of the
  controller (\<open>cmd/boxy-controller/cgroup.go\<close>).
\<close>

section \<open>The provider\<close>

definition telemetry_disabled :: "getenv \<Rightarrow> bool" where
  "telemetry_disabled os_Getenv \<longleftrightarrow>
     TrimSpace (ToLower (os_Getenv ''OTEL_SDK_DISABLED'')) \<in> set [''1'', ''true'', ''yes'', ''on'']"

definition endpointConfigured :: "getenv \<Rightarrow> bool" where
  "endpointConfigured os_Getenv \<longleftrightarrow>
     TrimSpace (os_Getenv ''OTEL_EXPORTER_OTLP_ENDPOINT'') \<noteq> [] \<or>
     TrimSpace (os_Getenv ''OTEL_EXPORTER_OTLP_METRICS_ENDPOINT'') \<noteq> []"

text \<open>
  What the library calls return.  \<open>resource.New\<close> may return a resource together with an
  error; the registry of the Prometheus exporter is a fresh one or that of the caller.
\<close>

datatype registry = FreshRegistry | GivenRegistry

record otel_lib =
  ol_resource_New :: "bytes \<Rightarrow> bool \<times> go_error option"
  ol_otelprom_New :: "registry \<Rightarrow> go_error option"
  ol_otlpmetricgrpc_New :: "go_error option"
  ol_mp_Shutdown :: "go_error option"
  ol_otlp_Shutdown :: "go_error option"

datatype metrics_handler = EmptyHandler | HandlerFor registry
datatype metrics_reader = PromReader | PeriodicReader
datatype meter_provider = NoopProvider | MeterProvider "metrics_reader list"

record Provider =
  pv_meterProvider :: meter_provider
  pv_handler :: metrics_handler
  pv_shutdown :: "go_error option"

text \<open>\<open>given\<close> says whether the options carry a registerer.\<close>

definition telemetry_Init :: "otel_lib \<Rightarrow> getenv \<Rightarrow> bytes \<Rightarrow> bool \<Rightarrow> go_error + Provider" where
  "telemetry_Init lib os_Getenv serviceName given =
     (if TrimSpace serviceName = [] then Inl (ErrText ''telemetry: ServiceName is required'')
      else if telemetry_disabled os_Getenv
      then Inr \<lparr>pv_meterProvider = NoopProvider, pv_handler = EmptyHandler, pv_shutdown = None\<rparr>
      else
        (case ol_resource_New lib serviceName of
           (False, Some e) \<Rightarrow> Inl (wrap_err ''telemetry: build resource: '' e [])
         | _ \<Rightarrow>
             (let reg = (if given then GivenRegistry else FreshRegistry);
                  otlp = endpointConfigured os_Getenv
              in case ol_otelprom_New lib reg of
                   Some e \<Rightarrow> Inl (wrap_err ''telemetry: prometheus exporter: '' e [])
                 | None \<Rightarrow>
                     (case (if otlp then ol_otlpmetricgrpc_New lib else None) of
                        Some e \<Rightarrow> Inl (wrap_err ''telemetry: otlp exporter: '' e [])
                      | None \<Rightarrow> Inr \<lparr>
                          pv_meterProvider = MeterProvider (PromReader # (if otlp then [PeriodicReader] else [])),
                          pv_handler = (if given then EmptyHandler else HandlerFor reg),
                          pv_shutdown =
                            (let err = ol_mp_Shutdown lib in
                             if otlp \<and> ol_otlp_Shutdown lib \<noteq> None \<and> err = None
                             then ol_otlp_Shutdown lib else err)\<rparr>))))"

text \<open>
  The handler serves metrics exactly when telemetry is on and the caller did not bring a
  registry; when telemetry is off nothing can fail, neither here nor on shutdown.
\<close>

lemma telemetry_handler:
  assumes "telemetry_Init lib g name given = Inr p"
  shows "pv_handler p = HandlerFor FreshRegistry \<longleftrightarrow> \<not> telemetry_disabled g \<and> \<not> given"
    and "pv_meterProvider p = NoopProvider \<longleftrightarrow> telemetry_disabled g"
  using assms
  by (auto simp: telemetry_Init_def Let_def split: if_splits prod.splits bool.splits option.splits)

lemma telemetry_off:
  assumes "telemetry_disabled g" and "TrimSpace name \<noteq> []"
  shows "\<exists>p. telemetry_Init lib g name given = Inr p \<and> pv_shutdown p = None"
  using assms by (simp add: telemetry_Init_def)

section \<open>Words and lines\<close>

text \<open>\<open>strings.Fields\<close>: the parts of a string between its white space.\<close>

definition at_space :: "bytes \<Rightarrow> bool" where
  "at_space s \<longleftrightarrow> (\<exists>e \<in> set space_runes. HasPrefix s e)"

fun until_space :: "bytes \<Rightarrow> bytes \<times> bytes" where
  "until_space [] = ([], [])"
| "until_space (c # s) =
     (if at_space (c # s) then ([], c # s) else (let (w, r) = until_space s in (c # w, r)))"

lemma until_space_length: "length (snd (until_space s)) \<le> length s"
  by (induction s) (auto simp: case_prod_beta Let_def)

lemma trim_left_of_length: "length (trim_left_of es s) \<le> length s"
proof (induction es s rule: trim_left_of.induct)
  case (1 es s)
  then show ?case
    by (subst trim_left_of.simps) (fastforce split: option.splits)
qed

function Fields :: "bytes \<Rightarrow> bytes list" where
  "Fields s =
     (case trim_left_of space_runes s of
        [] \<Rightarrow> []
      | c # s' \<Rightarrow> (let (w, r) = until_space s' in (c # w) # Fields r))"
  by pat_completeness auto
termination
proof (relation "measure length")
  fix s c s' x w r
  assume a: "trim_left_of space_runes s = c # s'" "x = until_space s'" "(w, r) = x"
  have "length r \<le> length s'" using a(2,3) until_space_length [of s'] by (metis snd_conv)
  moreover have "length s' < length s" using a(1) trim_left_of_length [of space_runes s] by simp
  ultimately show "(r, s) \<in> measure length" by simp
qed simp

declare Fields.simps [simp del]

text \<open>
  The lines a \<open>bufio.Scanner\<close> returns: without the line end, up to the first one that does not
  fit in its buffer.
\<close>

definition maxTokenSize :: nat where
  "maxTokenSize = 65536"

definition drop_cr :: "bytes \<Rightarrow> bytes" where
  "drop_cr l = (if l \<noteq> [] \<and> last l = CHR 0x0D then butlast l else l)"

function scanner_lines :: "bytes \<Rightarrow> bytes list" where
  "scanner_lines s =
     (if s = [] then []
      else
        (let line = takeWhile (\<lambda>c. c \<noteq> CHR 0x0A) s; rest = dropWhile (\<lambda>c. c \<noteq> CHR 0x0A) s in
         if length line \<ge> maxTokenSize then [] else drop_cr line # scanner_lines (tl rest)))"
  by pat_completeness auto
termination
proof (relation "measure length")
  fix s :: bytes and line rest
  assume "s \<noteq> []" "rest = dropWhile (\<lambda>c. c \<noteq> CHR 0x0A) s"
  then show "(tl rest, s) \<in> measure length"
    using length_dropWhile_le [of "\<lambda>c. c \<noteq> CHR 0x0A" s] by (cases s) (auto simp: le_less_trans)
qed simp

declare scanner_lines.simps [simp del]

section \<open>The control group\<close>

text \<open>
  \<open>None\<close> as the content says that the file cannot be read, \<open>None\<close> as the result that there is no
  value.  The memory gauge observes the value as a signed number.
\<close>

definition readCgroupMemoryBytes :: "bytes option \<Rightarrow> nat option" where
  "readCgroupMemoryBytes file =
     (case file of None \<Rightarrow> None | Some data \<Rightarrow> ParseUint (TrimSpace data))"

definition observed_memory :: "nat \<Rightarrow> int" where
  "observed_memory v = signed_take_bit 63 (int v)"

text \<open>The CPU time in microseconds; the counter observes it in seconds, as a floating point number.\<close>

fun cpu_usec :: "bytes list \<Rightarrow> nat option" where
  "cpu_usec [] = None"
| "cpu_usec (l # ls) =
     (let fields = Fields l in
      if length fields = 2 \<and> fields ! 0 = ''usage_usec'' then ParseUint (fields ! 1) else cpu_usec ls)"

definition readCgroupCPUSeconds :: "bytes option \<Rightarrow> nat option" where
  "readCgroupCPUSeconds file = (case file of None \<Rightarrow> None | Some data \<Rightarrow> cpu_usec (scanner_lines data))"

text \<open>The readings are the numbers the kernel writes.\<close>

lemma until_space_free:
  assumes "list_all space_free_byte w" and "r = [] \<or> at_space r"
  shows "until_space (w @ r) = (w, r)"
  using assms
proof (induction w)
  case Nil
  then show ?case by (cases r) (auto simp: at_space_def)
next
  case (Cons c w)
  have "\<not> at_space ((c # w) @ r)"
  proof
    assume "at_space ((c # w) @ r)"
    then obtain e where e: "e \<in> set space_runes" "take (length e) (c # w @ r) = e"
      by (auto simp: at_space_def HasPrefix_def)
    then obtain d e' where "e = d # e'" using space_runes_nonempty by (meson list.exhaust)
    with e(2) have "hd e = c" by simp
    with space_runes_hd [OF e(1)] Cons.prems show False by simp
  qed
  with Cons show ?case by simp
qed

lemma trim_left_free:
  assumes "space_free_byte c"
  shows "trim_left_of space_runes (c # s) = c # s"
    and "trim_left_of space_runes (CHR '' '' # c # s) = c # s"
proof -
  show free: "trim_left_of space_runes (c # s) = c # s"
    by (rule trim_left_of_id) (use assms space_runes_hd in fastforce)
  have "List.find (\<lambda>e. e \<noteq> [] \<and> take (length e) (CHR '' '' # c # s) = e) space_runes = Some '' ''"
    by (simp add: space_runes_def)
  then show "trim_left_of space_runes (CHR '' '' # c # s) = c # s"
    by (subst trim_left_of.simps) (simp add: free)
qed

lemma digit_space_free: "list_all is_digit s \<Longrightarrow> list_all space_free_byte s"
  by (auto simp: list_all_iff is_digit_def space_free_byte_def)

lemma Fields_pair:
  assumes "list_all space_free_byte v" "list_all space_free_byte w" "v \<noteq> []" "w \<noteq> []"
  shows "Fields (v @ '' '' @ w) = [v, w]"
proof -
  obtain a v' b w' where vw: "v = a # v'" "w = b # w'" using assms(3,4) by (meson list.exhaust)
  have sp: "at_space ('' '' @ w)" by (simp add: at_space_def HasPrefix_def space_runes_def)
  have 1: "until_space (v' @ '' '' @ w) = (v', '' '' @ w)"
    by (rule until_space_free) (use assms sp vw in auto)
  have 2: "until_space w' = (w', [])" using until_space_free [of w' "[]"] assms vw by simp
  have 3: "Fields [] = []" by (simp add: Fields.simps trim_left_of_id)
  have "Fields ('' '' @ w) = [w]"
    by (subst Fields.simps) (use assms vw 2 3 in \<open>simp add: trim_left_free\<close>)
  with 1 show ?thesis
    by (subst Fields.simps) (use assms vw in \<open>simp add: trim_left_free\<close>)
qed

lemma cgroup_readings:
  assumes "n < 2 ^ 64"
  shows "readCgroupMemoryBytes (Some (fmt_nat n)) = Some n"
    and "cpu_usec ((''usage_usec '' @ fmt_nat n) # ls) = Some n"
proof -
  have d: "list_all space_free_byte (fmt_nat n)" by (rule digit_space_free [OF fmt_nat_digits])
  then have "TrimSpace (fmt_nat n) = fmt_nat n"
    by (intro TrimSpace_id) (auto simp: list_all_iff)
  with assms show "readCgroupMemoryBytes (Some (fmt_nat n)) = Some n"
    by (simp add: readCgroupMemoryBytes_def ParseUint_fmt_nat)
  have "Fields (''usage_usec '' @ fmt_nat n) = [''usage_usec'', fmt_nat n]"
    using Fields_pair [of "''usage_usec''" "fmt_nat n"] d by (simp add: space_free_byte_def)
  with assms show "cpu_usec ((''usage_usec '' @ fmt_nat n) # ls) = Some n"
    by (simp add: ParseUint_fmt_nat)
qed

end
