(* ===== verification/Boxy_Metrics.thy ===== *)
theory Boxy_Metrics
  imports Boxy_Telemetry
begin

text \<open>
  The instruments of the three processes: \<open>cmd/boxy-controller/metrics.go\<close> and \<open>cgroup.go\<close>,
  \<open>internal/operator/metrics.go\<close> and \<open>internal/router/metrics.go\<close>, with the meter of the
  library as a parameter; what the callbacks of the observable ones report; and the writer with
  which the router learns the status of an answer.
\<close>

section \<open>Instruments\<close>

text \<open>The boundaries of a histogram are in hundredths of a second.\<close>

datatype instrument_kind =
    Int64Counter
  | Int64UpDownCounter
  | Float64Histogram "nat list"
  | Int64ObservableGauge
  | Float64ObservableCounter

record instrument =
  is_kind :: instrument_kind
  is_name :: bytes
  is_description :: bytes
  is_unit :: bytes

text \<open>
  A meter refuses an instrument with an error or accepts it; the state are the
  instruments asked for, in order.  \<open>mt_RegisterCallback\<close> is given the names of the instruments the
  callback reports on.
\<close>

record meter =
  mt_new :: "instrument \<Rightarrow> go_error option"
  mt_RegisterCallback :: "bytes list \<Rightarrow> go_error option"

type_synonym 'a metered = "(instrument list, 'a) state"

definition new_instrument :: "meter \<Rightarrow> instrument \<Rightarrow> go_error option metered" where
  "new_instrument m i = do {
     _ \<leftarrow> State_Monad.update (\<lambda>is. is @ [i]);
     State_Monad.return (mt_new m i)
   }"

text \<open>Go on with the instrument, or return the error.\<close>

definition with_instrument ::
  "meter \<Rightarrow> instrument \<Rightarrow> (instrument \<Rightarrow> (go_error + 'a) metered) \<Rightarrow> (go_error + 'a) metered" where
  "with_instrument m i next = do {
     err \<leftarrow> new_instrument m i;
     case err of Some e \<Rightarrow> State_Monad.return (Inl e) | None \<Rightarrow> next i
   }"

definition exec_boundaries :: "nat list" where
  "exec_boundaries = [1, 5, 10, 25, 50, 100, 250, 500, 1000, 3000, 6000, 30000]"

section \<open>The controller\<close>

definition pod_memory :: instrument where
  "pod_memory = \<lparr>is_kind = Int64ObservableGauge, is_name = ''boxy.controller.pod.memory.usage'',
     is_description = ''Controller pod cgroup memory.current'', is_unit = ''By''\<rparr>"

definition pod_cpu :: instrument where
  "pod_cpu = \<lparr>is_kind = Float64ObservableCounter, is_name = ''boxy.controller.pod.cpu.time'',
     is_description = ''Controller pod cgroup cumulative CPU time'', is_unit = ''s''\<rparr>"

definition registerPodResourceGauges :: "meter \<Rightarrow> (go_error + unit) metered" where
  "registerPodResourceGauges m =
     with_instrument m pod_memory (\<lambda>memGauge.
     with_instrument m pod_cpu (\<lambda>cpuCounter.
       State_Monad.return
         (case mt_RegisterCallback m [is_name memGauge, is_name cpuCounter] of
            Some e \<Rightarrow> Inl e | None \<Rightarrow> Inr ())))"

text \<open>
  What the callback reports; \<open>files\<close> reads a file of the control group, and the CPU time is in
  microseconds.
\<close>

definition cgroupMemCurrentPath :: bytes where
  "cgroupMemCurrentPath = ''/sys/fs/cgroup/memory.current''"

definition cgroupCPUStatPath :: bytes where
  "cgroupCPUStatPath = ''/sys/fs/cgroup/cpu.stat''"

definition observe_pod :: "(bytes \<Rightarrow> bytes option) \<Rightarrow> (instrument \<times> int) list" where
  "observe_pod files =
     (case readCgroupMemoryBytes (files cgroupMemCurrentPath) of
        None \<Rightarrow> [] | Some v \<Rightarrow> [(pod_memory, observed_memory v)]) @
     (case readCgroupCPUSeconds (files cgroupCPUStatPath) of
        None \<Rightarrow> [] | Some v \<Rightarrow> [(pod_cpu, int v)])"

record controllerMetrics =
  cm_sandboxesActive :: instrument
  cm_execTotal :: instrument
  cm_execDuration :: instrument
  cm_outputBytes :: instrument
  cm_throttledTotal :: instrument

definition newControllerMetrics :: "meter \<Rightarrow> (go_error + controllerMetrics) metered" where
  "newControllerMetrics m =
     with_instrument m \<lparr>is_kind = Int64UpDownCounter, is_name = ''boxy.controller.sandboxes.active'',
       is_description = ''Number of sandboxes currently held by this controller'',
       is_unit = ''{sandbox}''\<rparr> (\<lambda>sandboxesActive.
     with_instrument m \<lparr>is_kind = Int64Counter, is_name = ''boxy.controller.exec'',
       is_description = ''Total exec invocations admitted by this controller'',
       is_unit = ''{exec}''\<rparr> (\<lambda>execTotal.
     with_instrument m \<lparr>is_kind = Float64Histogram exec_boundaries, is_name = ''boxy.controller.exec.duration'',
       is_description = ''Exec wall-clock duration'', is_unit = ''s''\<rparr> (\<lambda>execDuration.
     with_instrument m \<lparr>is_kind = Int64Counter, is_name = ''boxy.controller.exec.output'',
       is_description = ''Total stdout+stderr bytes produced by execs'', is_unit = ''By''\<rparr> (\<lambda>outputBytes.
     with_instrument m \<lparr>is_kind = Int64Counter, is_name = ''boxy.controller.throttled'',
       is_description = ''Exec requests rejected with 429 due to concurrency limit'',
       is_unit = ''{request}''\<rparr> (\<lambda>throttledTotal. do {
         err \<leftarrow> registerPodResourceGauges m;
         State_Monad.return (case err of
           Inl e \<Rightarrow> Inl e
         | Inr _ \<Rightarrow> Inr \<lparr>cm_sandboxesActive = sandboxesActive, cm_execTotal = execTotal,
             cm_execDuration = execDuration, cm_outputBytes = outputBytes,
             cm_throttledTotal = throttledTotal\<rparr>)
       })))))"

section \<open>The operator\<close>

definition replicas_ready :: instrument where
  "replicas_ready = \<lparr>is_kind = Int64ObservableGauge, is_name = ''boxy.operator.controller.replicas.ready'',
     is_description = ''Ready controller replicas in the StatefulSet'', is_unit = ''{replica}''\<rparr>"

definition sandboxes_active :: instrument where
  "sandboxes_active = \<lparr>is_kind = Int64ObservableGauge, is_name = ''boxy.operator.sandboxes.active'',
     is_description = ''Active sandboxes (sessions) across the controller pool'', is_unit = ''{sandbox}''\<rparr>"

text \<open>New metrics start with every count at zero.\<close>

definition NewOperatorMetrics :: "meter \<Rightarrow> (go_error + OperatorMetrics) metered" where
  "NewOperatorMetrics m =
     with_instrument m \<lparr>is_kind = Int64Counter, is_name = ''boxy.operator.scale.up'',
       is_description = ''Controller StatefulSet scale-up operations'', is_unit = ''{operation}''\<rparr> (\<lambda>scaleUp.
     with_instrument m \<lparr>is_kind = Int64Counter, is_name = ''boxy.operator.scale.down'',
       is_description = ''Controller StatefulSet scale-down operations'', is_unit = ''{operation}''\<rparr> (\<lambda>scaleDown.
     with_instrument m replicas_ready (\<lambda>replicas.
     with_instrument m sandboxes_active (\<lambda>active.
       State_Monad.return (Inr \<lparr>mo_scaleUp = 0, mo_scaleDown = 0, mo_readyReplicas = 0,
         mo_activeSandboxes = 0\<rparr>)))))"

definition observe_pool :: "OperatorMetrics \<Rightarrow> (instrument \<times> int) list" where
  "observe_pool om = [(replicas_ready, mo_readyReplicas om), (sandboxes_active, mo_activeSandboxes om)]"

section \<open>The router\<close>

definition concurrency_limit :: instrument where
  "concurrency_limit = \<lparr>is_kind = Int64ObservableGauge, is_name = ''boxy.router.concurrency.limit'',
     is_description = ''Configured max concurrent exec requests (BOXY_MAX_CONCURRENCY)'',
     is_unit = ''{request}''\<rparr>"

record routerMetrics =
  rm_requests :: instrument
  rm_duration :: instrument
  rm_inflight :: instrument

definition newRouterMetrics :: "meter \<Rightarrow> (go_error + routerMetrics) metered" where
  "newRouterMetrics m =
     with_instrument m \<lparr>is_kind = Int64Counter, is_name = ''boxy.router.requests'',
       is_description = ''Total HTTP requests handled by the router'', is_unit = ''{request}''\<rparr> (\<lambda>requests.
     with_instrument m \<lparr>is_kind = Float64Histogram exec_boundaries, is_name = ''boxy.router.request.duration'',
       is_description = ''Router HTTP request duration'', is_unit = ''s''\<rparr> (\<lambda>duration.
     with_instrument m \<lparr>is_kind = Int64UpDownCounter, is_name = ''boxy.router.requests.inflight'',
       is_description = ''In-flight HTTP requests currently being served'',
       is_unit = ''{request}''\<rparr> (\<lambda>inflight.
     with_instrument m concurrency_limit (\<lambda>limit.
       State_Monad.return (Inr \<lparr>rm_requests = requests, rm_duration = duration, rm_inflight = inflight\<rparr>)))))"

definition observe_limit :: "int \<Rightarrow> (instrument \<times> int) list" where
  "observe_limit maxConcurrency = [(concurrency_limit, maxConcurrency)]"

section \<open>The instruments are created\<close>

lemma run_with_instrument [simp]:
  "run_state (with_instrument m i next) is =
     (case mt_new m i of Some e \<Rightarrow> (Inl e, is @ [i]) | None \<Rightarrow> run_state (next i) (is @ [i]))"
  by (simp add: with_instrument_def new_instrument_def State_Monad.update_def State_Monad.get_def
      State_Monad.set_def split: option.splits)

definition willing :: "meter \<Rightarrow> bool" where
  "willing m \<longleftrightarrow> mt_new m = (\<lambda>_. None) \<and> mt_RegisterCallback m = (\<lambda>_. None)"

lemmas metrics_defs = newControllerMetrics_def registerPodResourceGauges_def NewOperatorMetrics_def newRouterMetrics_def

definition created_by :: "(go_error + 'a) metered \<Rightarrow> bytes list" where
  "created_by p = map is_name (snd (run_state p []))"

text \<open>A willing meter gives all instruments, and no two of a process have the same name.\<close>

lemma metrics_created:
  assumes "willing m"
  shows "\<exists>cm. fst (run_state (newControllerMetrics m) []) = Inr cm"
    and "\<exists>om. fst (run_state (NewOperatorMetrics m) []) = Inr om"
    and "\<exists>rm. fst (run_state (newRouterMetrics m) []) = Inr rm"
    and "distinct (created_by (newControllerMetrics m))" and "length (created_by (newControllerMetrics m)) = 7"
    and "distinct (created_by (NewOperatorMetrics m))" and "length (created_by (NewOperatorMetrics m)) = 4"
    and "distinct (created_by (newRouterMetrics m))" and "length (created_by (newRouterMetrics m)) = 4"
  using assms
  by (simp_all add: willing_def metrics_defs created_by_def pod_memory_def pod_cpu_def replicas_ready_def
      sandboxes_active_def concurrency_limit_def)

text \<open>An error is that of the last instrument asked for, or, for the controller, of the callback.\<close>

definition blames :: "meter \<Rightarrow> go_error option \<Rightarrow> (go_error + 'a) metered \<Rightarrow> bool" where
  "blames m callback p \<longleftrightarrow>
     (\<forall>is e. fst (run_state p is) = Inl e \<longrightarrow>
        mt_new m (last (snd (run_state p is))) = Some e \<or> callback = Some e)"

lemma blames_with_instrument:
  "(\<And>i. blames m callback (next i)) \<Longrightarrow> blames m callback (with_instrument m i next)"
  by (auto simp: blames_def split: option.splits)

lemma blames_return: "blames m callback (State_Monad.return (Inr x))"
  by (simp add: blames_def)

lemma blames_pod_gauges:
  "blames m (mt_RegisterCallback m [is_name pod_memory, is_name pod_cpu])
     (do { err \<leftarrow> registerPodResourceGauges m; State_Monad.return (case err of Inl e \<Rightarrow> Inl e | Inr _ \<Rightarrow> Inr x) })"
  by (auto simp: blames_def registerPodResourceGauges_def split: option.splits)

lemma metrics_error:
  "blames m (mt_RegisterCallback m [is_name pod_memory, is_name pod_cpu]) (newControllerMetrics m)"
  "blames m None (NewOperatorMetrics m)"
  "blames m None (newRouterMetrics m)"
  unfolding newControllerMetrics_def NewOperatorMetrics_def newRouterMetrics_def
  by (intro blames_with_instrument blames_pod_gauges blames_return)+

text \<open>After the operator has recorded the state of the pool, a scrape reports it.\<close>

lemma scrape_pool:
  assumes "op_metrics s = Some om"
  shows "\<exists>om'. op_metrics (snd (run_state (SetPoolState ready active) s)) = Some om' \<and>
    observe_pool om' = [(replicas_ready, ready), (sandboxes_active, active)]"
  using assms
  by (simp add: SetPoolState_def on_metrics_def observe_pool_def State_Monad.update_def State_Monad.get_def
      State_Monad.set_def)

section \<open>The status of an answer\<close>

text \<open>
  The writer of \<open>net/http\<close>: the first final status is sent, a write or a flush before it sends 200, an
  informational status is not final, and an answer nothing was written to has status 200.
\<close>

record ResponseWriter =
  rw_wroteHeader :: bool
  rw_status :: int
  rw_body :: bytes

definition new_response :: ResponseWriter where
  "new_response = \<lparr>rw_wroteHeader = False, rw_status = 200, rw_body = []\<rparr>"

definition informational :: "int \<Rightarrow> bool" where
  "informational code \<longleftrightarrow> 100 \<le> code \<and> code \<le> 199 \<and> code \<noteq> 101"

definition rw_WriteHeader :: "int \<Rightarrow> ResponseWriter \<Rightarrow> ResponseWriter" where
  "rw_WriteHeader code w =
     (if rw_wroteHeader w \<or> informational code then w
      else w\<lparr>rw_wroteHeader := True, rw_status := code\<rparr>)"

definition rw_Write :: "bytes \<Rightarrow> ResponseWriter \<Rightarrow> ResponseWriter" where
  "rw_Write b w = (let w = rw_WriteHeader 200 w in w\<lparr>rw_body := rw_body w @ b\<rparr>)"

definition rw_Flush :: "ResponseWriter \<Rightarrow> ResponseWriter" where
  "rw_Flush w = rw_WriteHeader 200 w"

record statusRecorder =
  sr_ResponseWriter :: ResponseWriter
  sr_status :: int
  sr_wroteHeader :: bool

definition new_recorder :: statusRecorder where
  "new_recorder = \<lparr>sr_ResponseWriter = new_response, sr_status = 200, sr_wroteHeader = False\<rparr>"

definition sr_WriteHeader :: "int \<Rightarrow> statusRecorder \<Rightarrow> statusRecorder" where
  "sr_WriteHeader code sr =
     (let sr = (if \<not> sr_wroteHeader sr then sr\<lparr>sr_status := code, sr_wroteHeader := True\<rparr> else sr)
      in sr\<lparr>sr_ResponseWriter := rw_WriteHeader code (sr_ResponseWriter sr)\<rparr>)"

definition sr_Write :: "bytes \<Rightarrow> statusRecorder \<Rightarrow> statusRecorder" where
  "sr_Write b sr =
     (let sr = (if \<not> sr_wroteHeader sr then sr\<lparr>sr_status := 200, sr_wroteHeader := True\<rparr> else sr)
      in sr\<lparr>sr_ResponseWriter := rw_Write b (sr_ResponseWriter sr)\<rparr>)"

definition sr_Flush :: "statusRecorder \<Rightarrow> statusRecorder" where
  "sr_Flush sr = sr\<lparr>sr_ResponseWriter := rw_Flush (sr_ResponseWriter sr)\<rparr>"

datatype write_op = OpWriteHeader int | OpWrite bytes | OpFlush

fun sr_op :: "write_op \<Rightarrow> statusRecorder \<Rightarrow> statusRecorder" where
  "sr_op (OpWriteHeader code) = sr_WriteHeader code"
| "sr_op (OpWrite b) = sr_Write b"
| "sr_op OpFlush = sr_Flush"

fun rw_op :: "write_op \<Rightarrow> ResponseWriter \<Rightarrow> ResponseWriter" where
  "rw_op (OpWriteHeader code) = rw_WriteHeader code"
| "rw_op (OpWrite b) = rw_Write b"
| "rw_op OpFlush = rw_Flush"

lemmas writer_defs = sr_WriteHeader_def sr_Write_def sr_Flush_def rw_WriteHeader_def rw_Write_def rw_Flush_def

text \<open>The recorder passes everything on.\<close>

lemma recorder_transparent:
  "sr_ResponseWriter (fold sr_op ops sr) = fold rw_op ops (sr_ResponseWriter sr)"
proof (induction ops arbitrary: sr)
  case (Cons op ops)
  have "sr_ResponseWriter (sr_op op sr) = rw_op op (sr_ResponseWriter sr)"
    by (cases op) (simp_all add: writer_defs Let_def)
  with Cons.IH show ?case by simp
qed simp

definition recorder_agrees :: "statusRecorder \<Rightarrow> bool" where
  "recorder_agrees sr \<longleftrightarrow> sr_wroteHeader sr \<and> rw_wroteHeader (sr_ResponseWriter sr) \<and>
     sr_status sr = rw_status (sr_ResponseWriter sr)"

lemma recorder_agrees_op: "recorder_agrees sr \<Longrightarrow> recorder_agrees (sr_op op sr)"
  by (cases op) (auto simp: recorder_agrees_def writer_defs Let_def)

lemma recorder_agrees_fold: "recorder_agrees sr \<Longrightarrow> recorder_agrees (fold sr_op ops sr)"
  by (induction ops arbitrary: sr) (simp_all add: recorder_agrees_op)

text \<open>A handler that begins with a final status or with the body.\<close>

fun headed :: "write_op list \<Rightarrow> bool" where
  "headed [] = True"
| "headed (OpWriteHeader code # _) = (\<not> informational code)"
| "headed (OpWrite _ # _) = True"
| "headed (OpFlush # _) = False"

lemma recorder_agrees_first: "headed (op # ops) \<Longrightarrow> recorder_agrees (sr_op op new_recorder)"
  by (cases op) (simp_all add: recorder_agrees_def writer_defs Let_def new_recorder_def new_response_def
      informational_def)

text \<open>
  Whatever a handler of the router writes, the client gets it unchanged; if the handler begins with
  a final status or with the body, the status the metrics record is the status the client gets.
\<close>

theorem recorded_status:
  "sr_ResponseWriter (fold sr_op ops new_recorder) = fold rw_op ops new_response \<and>
   (headed ops \<longrightarrow> sr_status (fold sr_op ops new_recorder) = rw_status (fold rw_op ops new_response))"
proof (intro conjI impI)
  show eq: "sr_ResponseWriter (fold sr_op ops new_recorder) = fold rw_op ops new_response"
    by (simp add: recorder_transparent) (simp add: new_recorder_def)
  assume "headed ops"
  then have "ops = [] \<or> recorder_agrees (fold sr_op ops new_recorder)"
    by (cases ops) (auto intro: recorder_agrees_fold recorder_agrees_first)
  then show "sr_status (fold sr_op ops new_recorder) = rw_status (fold rw_op ops new_response)"
    by (auto simp: recorder_agrees_def eq) (simp add: new_recorder_def new_response_def)
qed

theorem recorded_status_witness:
  "headed [OpWriteHeader 404, OpWrite ''no'', OpWriteHeader 500] \<and>
   sr_status (fold sr_op [OpWriteHeader 404, OpWrite ''no'', OpWriteHeader 500] new_recorder) = 404 \<and>
   rw_status (fold rw_op [OpWriteHeader 404, OpWrite ''no'', OpWriteHeader 500] new_response) = 404"
  using recorded_status [of "[OpWriteHeader 404, OpWrite ''no'', OpWriteHeader 500]"]
  by (simp add: informational_def writer_defs new_response_def Let_def)

text \<open>Beginning with a flush, the client gets 200 and the metrics the status written later.\<close>

lemma flushed_status:
  "sr_status (fold sr_op [OpFlush, OpWriteHeader 500] new_recorder) = 500 \<and>
   rw_status (fold rw_op [OpFlush, OpWriteHeader 500] new_response) = 200"
  by (simp add: informational_def writer_defs new_response_def new_recorder_def Let_def)

end
