(* ===== verification/Boxy_Main.thy ===== *)
theory Boxy_Main
  imports Boxy_Metrics Router_Server
begin

text \<open>
  The main functions of the three processes (\<open>cmd/boxy-router/main.go\<close>,
  \<open>cmd/boxy-operator/main.go\<close> and \<open>cmd/boxy-controller/main.go\<close>) and the access to the cluster
  (\<open>internal/router/k8s.go\<close>, \<open>internal/kube/factory.go\<close>).  A main function gives the list of what it
  does, in order: the libraries it sets up, the listeners and loops it starts in the background, and what it
  does when it is told to stop.  \<open>os.Exit\<close> ends the list, without the deferred calls.
\<close>

section \<open>Access to the cluster\<close>

text \<open>
  What the code calls of the client libraries; \<open>'r\<close> is the type of a client configuration.
\<close>

record 'r kube_lib =
  kb_UserHomeDir :: "bytes option"
  kb_exists :: "bytes \<Rightarrow> bool"
  kb_BuildConfigFromFlags :: "bytes \<Rightarrow> go_error + 'r"
  kb_InClusterConfig :: "go_error + 'r"
  kb_cache_New :: "'r \<Rightarrow> bytes \<Rightarrow> go_error option"
  kb_client_New :: "'r \<Rightarrow> go_error option"
  kb_NewForConfig :: "'r \<Rightarrow> go_error option"

definition rest_config :: "'r kube_lib \<Rightarrow> getenv \<Rightarrow> go_error + 'r" where
  "rest_config lib os_Getenv =
     (case BuildConfig os_Getenv (kb_UserHomeDir lib) (kb_exists lib) of
        KubeconfigFile f \<Rightarrow> kb_BuildConfigFromFlags lib f
      | InClusterConfig \<Rightarrow> kb_InClusterConfig lib)"

definition BuildK8sCache :: "'r kube_lib \<Rightarrow> getenv \<Rightarrow> bytes \<Rightarrow> go_error option" where
  "BuildK8sCache lib os_Getenv namespace =
     (case rest_config lib os_Getenv of Inl e \<Rightarrow> Some e | Inr restCfg \<Rightarrow> kb_cache_New lib restCfg namespace)"

definition BuildK8sClient :: "'r kube_lib \<Rightarrow> getenv \<Rightarrow> go_error option" where
  "BuildK8sClient lib os_Getenv =
     (case rest_config lib os_Getenv of Inl e \<Rightarrow> Some e | Inr restCfg \<Rightarrow> kb_client_New lib restCfg)"

definition BuildClientset :: "'r kube_lib \<Rightarrow> getenv \<Rightarrow> go_error option" where
  "BuildClientset lib os_Getenv =
     (case rest_config lib os_Getenv of Inl e \<Rightarrow> Some e | Inr restCfg \<Rightarrow> kb_NewForConfig lib restCfg)"

definition NewClientset :: "'r kube_lib \<Rightarrow> getenv \<Rightarrow> go_error option" where
  "NewClientset lib os_Getenv =
     (case rest_config lib os_Getenv of
        Inl e \<Rightarrow> Some (wrap_err ''kube config: '' e [])
      | Inr cfg \<Rightarrow> kb_NewForConfig lib cfg)"

section \<open>The scheme\<close>

text \<open>
  The kinds a client knows, each with its group and version: those of the client library, and the custom
  resources (\<open>api/v1alpha1/groupversion_info.go\<close>).
\<close>

type_synonym gvk = "bytes \<times> bytes \<times> bytes"

definition GroupVersion :: "bytes \<times> bytes" where
  "GroupVersion = (''boxy.dev'', ''v1alpha1'')"

definition addKnownTypes :: "gvk list \<Rightarrow> gvk list" where
  "addKnownTypes scheme =
     scheme @ map (\<lambda>kind. (fst GroupVersion, snd GroupVersion, kind))
       [''Sandbox'', ''SandboxList'', ''Session'', ''SessionList'', ''ControllerPool'', ''ControllerPoolList'']"

definition NewScheme :: "gvk list \<Rightarrow> gvk list" where
  "NewScheme clientgoscheme = addKnownTypes ([] @ clientgoscheme)"

section \<open>What a process does\<close>

text \<open>What a listener serves: an API with or without metrics, or health and metrics only.\<close>

datatype service =
    ControllerApi metrics_handler
  | RouterApi "metrics_handler option"
  | HealthAndMetrics metrics_handler

record ('cert, 'key) listener =
  ls_Addr :: bytes
  ls_TLSConfig :: "('cert, 'key) tls_config option"
  ls_Handler :: service

record manager_options =
  mg_LeaderElection :: bool
  mg_LeaderElectionID :: bytes
  mg_LeaderElectionNamespace :: bytes
  mg_HealthProbeBindAddress :: bytes
  mg_MetricsBindAddress :: bytes
  mg_Namespaces :: "bytes list"

text \<open>A reconciler as it is handed to the manager: its name, its kind, and the kinds it watches besides.\<close>

record reconciler =
  rc_Named :: bytes
  rc_For :: bytes
  rc_Watches :: "bytes list"

datatype ('cert, 'key) main_event =
    TelemetryInit bytes bool
  | NewInstruments "instrument list"
  | KubeCache bytes | KubeClient | KubeClientset
  | StartCache | CacheSync bool
  | DefaultSandbox "go_error option"
  | NewManager manager_options
  | SetupReconciler reconciler
  | AddHealthzCheck | AddReadyzCheck
  | StartScaleDownLoop | StartManager
  | Listen "('cert, 'key) listener"
  | AwaitDone
  | ShutdownServer bytes
  | ShutdownTelemetry
  | Exit int

type_synonym ('cert, 'key) main = "('cert, 'key) main_event list"

text \<open>Do something that may fail, and end the process if it does.\<close>

definition stage ::
  "('cert, 'key) main \<Rightarrow> go_error + 'a \<Rightarrow> ('a \<Rightarrow> ('cert, 'key) main) \<Rightarrow> ('cert, 'key) main" where
  "stage done r next = done @ (case r of Inl e \<Rightarrow> [Exit 1] | Inr x \<Rightarrow> next x)"

definition must :: "go_error option \<Rightarrow> go_error + unit" where
  "must err = (case err of None \<Rightarrow> Inr () | Some e \<Rightarrow> Inl e)"

text \<open>\<open>fmt.Sprintf(":%d", port)\<close>\<close>

definition port_addr :: "int \<Rightarrow> bytes" where
  "port_addr port = '':'' @ fmt_int port"

section \<open>The controller\<close>

definition controller_main ::
  "otel_lib \<Rightarrow> (meter_provider \<Rightarrow> bytes \<Rightarrow> meter) \<Rightarrow> ('cert, 'key) tls_lib \<Rightarrow> getenv \<Rightarrow> ('cert, 'key) main" where
  "controller_main otel meters tls os_Getenv =
     (let cfg = configFromEnv os_Getenv in
      stage [TelemetryInit ''boxy-controller'' False] (telemetry_Init otel os_Getenv ''boxy-controller'' False) (\<lambda>tp.
      let (metrics, is) =
            run_state (newControllerMetrics (meters (pv_meterProvider tp) ''boxy.dev/boxy/controller'')) [] in
      stage [NewInstruments is] metrics (\<lambda>_.
      stage [] (if pc_mtlsDisabled cfg then Inr None
                else map_sum id Some (buildTLSConfig tls (pc_tlsCertPath cfg) (pc_tlsKeyPath cfg) (pc_tlsCAPath cfg)))
      (\<lambda>tlsCfg.
        (if separate_metrics cfg
         then [Listen \<lparr>ls_Addr = port_addr (pc_metricsPort cfg), ls_TLSConfig = None,
                 ls_Handler = HealthAndMetrics (pv_handler tp)\<rparr>]
         else []) @
        [Listen \<lparr>ls_Addr = port_addr (pc_port cfg), ls_TLSConfig = tlsCfg,
           ls_Handler = ControllerApi (pv_handler tp)\<rparr>,
         AwaitDone] @
        (if separate_metrics cfg then [ShutdownServer (port_addr (pc_metricsPort cfg))] else []) @
        [ShutdownServer (port_addr (pc_port cfg)), ShutdownTelemetry]))))"

section \<open>The router\<close>

definition router_main ::
  "otel_lib \<Rightarrow> (meter_provider \<Rightarrow> bytes \<Rightarrow> meter) \<Rightarrow> 'r kube_lib \<Rightarrow> bool \<Rightarrow> kube_env \<Rightarrow>
   (bytes \<Rightarrow> go_error + SandboxCreateBody) \<Rightarrow> getenv \<Rightarrow> ('cert, 'key) main" where
  "router_main otel meters kube synced env json_Unmarshal os_Getenv =
     stage [] (ConfigFromEnv os_Getenv json_Unmarshal) (\<lambda>cfg.
     stage [KubeCache (rf_SandboxNamespace cfg)]
       (must (BuildK8sCache kube os_Getenv (rf_SandboxNamespace cfg))) (\<lambda>_.
     stage [KubeClient] (must (BuildK8sClient kube os_Getenv)) (\<lambda>_.
     stage [KubeClientset] (must (BuildClientset kube os_Getenv)) (\<lambda>_.
     stage [TelemetryInit ''boxy-router'' False] (telemetry_Init otel os_Getenv ''boxy-router'' False) (\<lambda>tp.
     stage [StartCache, CacheSync synced]
       (if synced then Inr () else Inl (ErrText ''cache sync failed'')) (\<lambda>_.
       let (metrics, is) =
             run_state (newRouterMetrics (meters (pv_meterProvider tp) ''boxy.dev/boxy/router'')) [];
           err = fst (run_state (EnsureDefaultSandbox env (NewServer cfg)) server_start)
       in
         [NewInstruments is, DefaultSandbox err,
          Listen \<lparr>ls_Addr = rf_ListenAddr cfg, ls_TLSConfig = None,
            ls_Handler = RouterApi (case metrics of Inl e \<Rightarrow> None | Inr rm \<Rightarrow> Some (pv_handler tp))\<rparr>,
          AwaitDone, ShutdownServer (rf_ListenAddr cfg), ShutdownTelemetry]))))))"

section \<open>The operator\<close>

text \<open>
  What the operator calls of the controller runtime: the client configuration, without which it
  exits, creating and starting a manager, and registering reconcilers and checks with it.  The scheme is
  \<open>NewScheme\<close>, and the settings of the reconcilers and of the client of the controllers are those of
  \<open>operator_config\<close>, in Boxy_Config; reading them cannot fail.
\<close>

record runtime_lib =
  rl_GetConfig :: "go_error option"
  rl_NewManager :: "manager_options \<Rightarrow> go_error option"
  rl_Complete :: "reconciler \<Rightarrow> go_error option"
  rl_AddHealthzCheck :: "go_error option"
  rl_AddReadyzCheck :: "go_error option"
  rl_Start :: "go_error option"

definition session_reconciler :: reconciler where
  "session_reconciler = \<lparr>rc_Named = ''session'', rc_For = ''Session'', rc_Watches = []\<rparr>"

definition sandbox_config_reconciler :: reconciler where
  "sandbox_config_reconciler = \<lparr>rc_Named = ''sandboxconfig'', rc_For = ''Sandbox'', rc_Watches = []\<rparr>"

definition pool_reconciler :: reconciler where
  "pool_reconciler = \<lparr>rc_Named = ''controllerpool'', rc_For = ''ControllerPool'', rc_Watches = [''Session'']\<rparr>"

definition operator_options :: "getenv \<Rightarrow> manager_options" where
  "operator_options os_Getenv =
     (let ns = envStr os_Getenv ''BOXY_NAMESPACE'' ''default'' in
      \<lparr>mg_LeaderElection = True, mg_LeaderElectionID = ''boxy-operator-leader'', mg_LeaderElectionNamespace = ns,
       mg_HealthProbeBindAddress = '':8081'',
       mg_MetricsBindAddress = envStr os_Getenv ''BOXY_METRICS_ADDR'' '':8080'',
       mg_Namespaces = [ns]\<rparr>)"

definition operator_main ::
  "otel_lib \<Rightarrow> (meter_provider \<Rightarrow> bytes \<Rightarrow> meter) \<Rightarrow> runtime_lib \<Rightarrow> getenv \<Rightarrow> ('cert, 'key) main" where
  "operator_main otel meters rt os_Getenv =
     stage [TelemetryInit ''boxy-operator'' True] (telemetry_Init otel os_Getenv ''boxy-operator'' True) (\<lambda>tp.
     let (opMetrics, is) =
           run_state (NewOperatorMetrics (meters (pv_meterProvider tp) ''boxy.dev/boxy/operator'')) [] in
     stage [NewInstruments is] opMetrics (\<lambda>_.
     stage [] (must (rl_GetConfig rt)) (\<lambda>_.
     stage [NewManager (operator_options os_Getenv)] (must (rl_NewManager rt (operator_options os_Getenv))) (\<lambda>_.
     stage [SetupReconciler session_reconciler] (must (rl_Complete rt session_reconciler)) (\<lambda>_.
     stage [SetupReconciler sandbox_config_reconciler] (must (rl_Complete rt sandbox_config_reconciler)) (\<lambda>_.
     stage [SetupReconciler pool_reconciler] (must (rl_Complete rt pool_reconciler)) (\<lambda>_.
     stage [AddHealthzCheck] (must (rl_AddHealthzCheck rt)) (\<lambda>_.
     stage [AddReadyzCheck] (must (rl_AddReadyzCheck rt)) (\<lambda>_.
     stage [StartScaleDownLoop, StartManager] (must (rl_Start rt)) (\<lambda>_.
       [ShutdownTelemetry]))))))))))"

section \<open>Starting and stopping\<close>

lemma stage_simps [simp]:
  "stage done (Inl e) next = done @ [Exit 1]"
  "stage done (Inr x) next = done @ next x"
  by (simp_all add: stage_def)

lemma listen_stage [simp]:
  "Listen l \<in> set (stage done r next) \<longleftrightarrow> Listen l \<in> set done \<or> (\<exists>x. r = Inr x \<and> Listen l \<in> set (next x))"
  by (cases r) auto

lemma must_simps [simp]: "must None = Inr ()" "must (Some e) = Inl e"
  by (simp_all add: must_def)

definition listens :: "('cert, 'key) main \<Rightarrow> bytes list" where
  "listens es = List.map_filter (\<lambda>e. case e of Listen l \<Rightarrow> Some (ls_Addr l) | _ \<Rightarrow> None) es"

definition stopped :: "('cert, 'key) main \<Rightarrow> bytes list" where
  "stopped es = List.map_filter (\<lambda>e. case e of ShutdownServer a \<Rightarrow> Some a | _ \<Rightarrow> None) es"

lemma listens_append [simp]: "listens (xs @ ys) = listens xs @ listens ys"
  by (simp add: listens_def List.map_filter_def)

lemma stopped_append [simp]: "stopped (xs @ ys) = stopped xs @ stopped ys"
  by (simp add: stopped_def List.map_filter_def)

text \<open>
  A process either exits before it listens, or it listens, waits, shuts down what it listened on, in
  the same order, and then telemetry.
\<close>

definition exits_unheard :: "('cert, 'key) main \<Rightarrow> bool" where
  "exits_unheard es \<longleftrightarrow> (\<exists>ys. es = ys @ [Exit 1] \<and> listens ys = [])"

definition serves_and_stops :: "('cert, 'key) main \<Rightarrow> bool" where
  "serves_and_stops es \<longleftrightarrow>
     (\<exists>ys zs. es = ys @ [AwaitDone] @ zs @ [ShutdownTelemetry] \<and> listens ys \<noteq> [] \<and> stopped zs = listens ys \<and>
        listens zs = [])"

definition orderly :: "('cert, 'key) main \<Rightarrow> bool" where
  "orderly es \<longleftrightarrow> exits_unheard es \<or> serves_and_stops es"

lemma orderly_exit: "listens done = [] \<Longrightarrow> orderly (done @ [Exit 1])"
  by (auto simp: orderly_def exits_unheard_def)

lemma orderly_append:
  assumes "listens done = []" and "orderly es"
  shows "orderly (done @ es)"
proof -
  have "exits_unheard (done @ es)" if "exits_unheard es"
    using that assms(1) unfolding exits_unheard_def by (metis append.assoc append_Nil listens_append)
  moreover have "serves_and_stops (done @ es)" if "serves_and_stops es"
  proof -
    from that obtain ys zs where "es = ys @ [AwaitDone] @ zs @ [ShutdownTelemetry]" "listens ys \<noteq> []"
      "stopped zs = listens ys" "listens zs = []"
      unfolding serves_and_stops_def by blast
    then show ?thesis
      unfolding serves_and_stops_def using assms(1)
      by (intro exI [of _ "done @ ys"] exI [of _ zs]) simp
  qed
  ultimately show ?thesis using assms(2) by (auto simp: orderly_def)
qed

lemma orderly_stage:
  assumes "listens done = []" and "\<And>x. r = Inr x \<Longrightarrow> orderly (next x)"
  shows "orderly (stage done r next)"
  using assms by (cases r) (auto intro: orderly_exit orderly_append)

lemma orderly_serve:
  assumes "stopped zs = listens ys" and "listens ys \<noteq> []" and "listens zs = []"
  shows "orderly (ys @ [AwaitDone] @ zs @ [ShutdownTelemetry])"
  using assms unfolding orderly_def serves_and_stops_def by blast

lemma listens_simps [simp]:
  "listens [] = []" "listens (Listen l # es) = ls_Addr l # listens es"
  "listens [TelemetryInit s k] = []" "listens [NewInstruments is] = []" "listens [KubeCache ns] = []"
  "listens [KubeClient] = []" "listens [KubeClientset] = []" "listens [StartCache, CacheSync k] = []"
  "listens [ShutdownServer a] = []" "listens [ShutdownServer a, ShutdownServer b] = []"
  "listens (NewInstruments is # es) = listens es" "listens (DefaultSandbox d # es) = listens es"
  by (simp_all add: listens_def List.map_filter_simps)

lemma stopped_simps [simp]: "stopped [] = []" "stopped (ShutdownServer a # es) = a # stopped es"
  by (simp_all add: stopped_def List.map_filter_simps)

lemma orderly_one:
  "ls_Addr l = a \<Longrightarrow> orderly [Listen l, AwaitDone, ShutdownServer a, ShutdownTelemetry]"
  using orderly_serve [of "[ShutdownServer a]" "[Listen l]"] by simp

lemma orderly_two:
  "ls_Addr l = a \<Longrightarrow> ls_Addr k = b \<Longrightarrow>
   orderly [Listen l, Listen k, AwaitDone, ShutdownServer a, ShutdownServer b, ShutdownTelemetry]"
  using orderly_serve [of "[ShutdownServer a, ShutdownServer b]" "[Listen l, Listen k]"] by simp

lemma orderly_routing:
  "ls_Addr l = a \<Longrightarrow>
   orderly [NewInstruments is, DefaultSandbox d, Listen l, AwaitDone, ShutdownServer a, ShutdownTelemetry]"
  using orderly_append [OF _ orderly_one [of l a], of "[NewInstruments is, DefaultSandbox d]"] by simp

text \<open>
  The controller and the router listen only after everything they need is set up, and exit
  otherwise; when told to stop they shut down every listener and then telemetry.
\<close>

theorem processes_orderly:
  "orderly (controller_main otel meters tls os_Getenv) \<and>
   orderly (router_main otel meters kube synced env json_Unmarshal os_Getenv)"
  unfolding controller_main_def router_main_def Let_def case_prod_beta
  by (intro conjI orderly_stage) (simp_all add: orderly_one orderly_two orderly_routing)

lemma map_sum_Inr_conv: "map_sum id f r = Inr y \<longleftrightarrow> (\<exists>x. r = Inr x \<and> y = f x)"
  by (cases r) auto

text \<open>
  C13.  The API of the controller is served with TLS that requires and verifies a client certificate,
  against at least one authority, unless mutual TLS is disabled; what it serves without TLS then is
  health and metrics only.
\<close>

theorem api_behind_mtls:
  assumes "Listen l \<in> set (controller_main otel meters tls os_Getenv)"
    and "\<not> pc_mtlsDisabled (configFromEnv os_Getenv)"
  shows "case ls_TLSConfig l of
      None \<Rightarrow> \<exists>h. ls_Handler l = HealthAndMetrics h
    | Some t \<Rightarrow> (\<exists>h. ls_Handler l = ControllerApi h) \<and> tc_ClientAuth t = RequireAndVerifyClientCert \<and>
        tc_ClientCAs t \<noteq> [] \<and> tc_Certificates t \<noteq> [] \<and> tc_MinVersion t = VersionTLS12"
  using assms
  by (auto simp: controller_main_def Let_def case_prod_beta buildTLSConfig_def map_sum_Inr_conv
      split: sum.splits if_splits)

definition demo_otel :: otel_lib where
  "demo_otel = \<lparr>ol_resource_New = (\<lambda>_. (True, None)), ol_otelprom_New = (\<lambda>_. None), ol_otlpmetricgrpc_New = None,
     ol_mp_Shutdown = None, ol_otlp_Shutdown = None\<rparr>"

definition demo_meter :: meter where
  "demo_meter = \<lparr>mt_new = (\<lambda>_. None), mt_RegisterCallback = (\<lambda>_. None)\<rparr>"

definition demo_tls :: "(nat, nat) tls_lib" where
  "demo_tls = \<lparr>tl_ReadFile = (\<lambda>_. Inr ''pem''), tl_certs = (\<lambda>_. [1]), tl_LoadX509KeyPair = (\<lambda>_ _. Inr 2)\<rparr>"

definition demo_listener :: "(nat, nat) listener" where
  "demo_listener = \<lparr>ls_Addr = port_addr 8080, ls_TLSConfig = Some \<lparr>tc_Certificates = [2], tc_RootCAs = [],
     tc_ClientCAs = [1], tc_ClientAuth = RequireAndVerifyClientCert, tc_ServerName = [],
     tc_MinVersion = VersionTLS12\<rparr>, ls_Handler = ControllerApi (HandlerFor FreshRegistry)\<rparr>"

theorem api_behind_mtls_witness:
  "Listen demo_listener \<in> set (controller_main demo_otel (\<lambda>_ _. demo_meter) demo_tls (\<lambda>_. [])) \<and>
   \<not> pc_mtlsDisabled (configFromEnv (\<lambda>_. [])) \<and>
   (case ls_TLSConfig demo_listener of None \<Rightarrow> False | Some t \<Rightarrow> tc_ClientAuth t = RequireAndVerifyClientCert)"
proof -
  have on: "\<not> pc_mtlsDisabled (configFromEnv (\<lambda>_. []))" by (simp add: configFromEnv_def) code_simp
  have port: "pc_port (configFromEnv (\<lambda>_. [])) = 8080" by (simp add: configFromEnv_def) code_simp
  have tp: "telemetry_Init demo_otel (\<lambda>_. []) ''boxy-controller'' False =
      Inr \<lparr>pv_meterProvider = MeterProvider [PromReader], pv_handler = HandlerFor FreshRegistry, pv_shutdown = None\<rparr>"
    by code_simp
  have "willing demo_meter" by (simp add: willing_def demo_meter_def)
  with metrics_created(1) have metrics: "\<exists>cm. fst (run_state (newControllerMetrics demo_meter) []) = Inr cm"
    by blast
  have listens: "Listen demo_listener \<in> set (controller_main demo_otel (\<lambda>_ _. demo_meter) demo_tls (\<lambda>_. []))"
    using on port tp metrics
    by (auto simp: controller_main_def Let_def case_prod_beta buildTLSConfig_def demo_tls_def demo_listener_def)
  from api_behind_mtls [OF listens on] listens on show ?thesis by (simp add: demo_listener_def)
qed

text \<open>
  The router listens only once its cache is synchronised; failing to create the default sandbox, or the
  instruments, does not keep it from listening.
\<close>

lemma router_listens_synced:
  "Listen l \<in> set (router_main otel meters kube synced env json_Unmarshal os_Getenv) \<Longrightarrow> synced"
  by (auto simp: router_main_def Let_def case_prod_beta split: if_splits)

text \<open>Every kind a reconciler is for, or watches, is known to the scheme.\<close>

lemma reconciled_kinds_known:
  assumes "rc \<in> {session_reconciler, sandbox_config_reconciler, pool_reconciler}"
    and "kind \<in> insert (rc_For rc) (set (rc_Watches rc))"
  shows "(fst GroupVersion, snd GroupVersion, kind) \<in> set (NewScheme clientgoscheme)"
  using assms
  by (auto simp: NewScheme_def addKnownTypes_def session_reconciler_def sandbox_config_reconciler_def pool_reconciler_def)

text \<open>A run of the operator that ends before anything is started, or goes on to \<open>goal\<close>.\<close>

definition unstarted :: "('cert, 'key) main \<Rightarrow> bool" where
  "unstarted es \<longleftrightarrow> StartScaleDownLoop \<notin> set es \<and> StartManager \<notin> set es"

definition refused_or :: "('cert, 'key) main \<Rightarrow> ('cert, 'key) main \<Rightarrow> bool" where
  "refused_or es goal \<longleftrightarrow> (\<exists>done. es = done @ [Exit 1] \<and> unstarted done) \<or> es = goal"

lemma refused_or_stage:
  assumes "unstarted done" and "\<And>x. r = Inr x \<Longrightarrow> refused_or (next x) goal"
  shows "refused_or (stage done r next) (done @ goal)"
proof (cases r)
  case (Inr x)
  from assms(2) [OF this] show ?thesis
    unfolding refused_or_def
  proof (elim disjE exE conjE)
    fix more assume "next x = more @ [Exit 1]" "unstarted more"
    with assms(1) Inr show "(\<exists>es. stage done r next = es @ [Exit 1] \<and> unstarted es) \<or> stage done r next = done @ goal"
      by (intro disjI1 exI [of _ "done @ more"]) (simp add: unstarted_def)
  qed (simp add: Inr)
qed (use assms(1) in \<open>auto simp: refused_or_def\<close>)

lemma refused_or_start:
  "refused_or (stage [StartScaleDownLoop, StartManager] (must r) (\<lambda>_. [ShutdownTelemetry]))
     ([StartScaleDownLoop, StartManager] @ [if r = None then ShutdownTelemetry else Exit 1])"
  by (cases r) (simp_all add: refused_or_def)


end
