(* ===== verification/Spec2Isabelle.thy ===== *)
theory Spec2Isabelle
  imports Api_Validate Controller_Concurrency Exec_Path Operator_Props Router_Cache Router_Answers
    Router_Objects Kube_Deepcopy Boxy_Main
begin

text \<open>
  boxy runs commands for its users in nsjail sandboxes on a Kubernetes cluster.  Three
  programs share the work.  The \<^emph>\<open>router\<close> (\<open>internal/router\<close>) is the public HTTP and MCP
  endpoint: it authenticates and authorizes a caller, validates the request
  (\<open>internal/api\<close>), creates a Session object, waits until it runs, and forwards the command to the
  controller that holds the session.  The \<^emph>\<open>operator\<close> (\<open>internal/operator\<close>) reconciles the
  Session, Sandbox and ControllerPool objects (\<open>api/v1alpha1\<close>): it assigns sessions to
  controllers, creates and deletes their sandboxes there, and scales the controllers.  A
  \<^emph>\<open>controller\<close> (\<open>cmd/boxy-controller\<close>) holds a table of sandboxes and runs each command in
  a fresh jail (\<open>internal/nsjail\<close>).  Router and operator reach it with the client of
  \<open>internal/controller\<close>.

  \<^bold>\<open>Conventions.\<close>  A Go string is a list of bytes, a map the list of its entries, a pointer an
  option, a nil error \<open>None\<close>, and a pair of a value and an error a sum.  A function with effects is a
  computation of the state monad over a record with a \<^emph>\<open>trace\<close>, the list of calls made to code
  outside the repository with their answers.  That code is a record of functions of the
  trace: \<open>os_env\<close> for the operating system, \<open>kube_env\<close> for the API server, the clock, the
  random source and the network.  Where the code has maps, slices and pointers that it copies, Kube_Deepcopy
  has them as addresses of a store, and shows that the copies are values, as everywhere else.  No theorem fixes what it answers, unless a
  hypothesis says so.  Numbers keep their width where it matters: \<open>seconds\<close>, \<open>int32\<close>, the
  memory limit and SHA-256 wrap around.

  \<^bold>\<open>The language and its library.\<close>  Boxy_Prelude: the error values, the fact collections and the
  judgements \<open>wp\<close>, \<open>keeps\<close>, \<open>returns\<close> and \<open>emits\<close>, with rules for the monad, on which
  the proofs about effects rest.  Go_Strings, Go_Utf8, Go_Time, Go_Filepath, Go_Regexp,
  Go_Base64, Go_Sha256: the functions the code calls, with their lemmas.  Event_Policy: the
  judgement that each event of a computation is allowed after the ones before it, and the
  locale of policies with harmless events.

  \<^bold>\<open>Requests\<close> (\<open>internal/api\<close>).  Api_Types has one record per struct; Api_Validate every
  validation function, and the theorems that state which requests are accepted.

  \<^bold>\<open>Controller\<close> (\<open>internal/nsjail\<close>, \<open>cmd/boxy-controller\<close>, \<open>internal/controller\<close>).
  \<^item> Nsjail_Config: \<open>nsjail_config.go\<close>.  A reader of the text format finds in the rendered
    text exactly the fields of the configuration, whatever bytes its strings hold.
  \<^item> Nsjail_Jail: the pure part of \<open>adapter.go\<close>: validation, the jail of a sandbox, the writer
    that caps output.  Writable mounts stay below the sandbox root.
  \<^item> Nsjail_Stream: the two goroutines of \<open>ExecStream\<close>, as schedules of their steps; the events
    are prefixes of the output under every schedule.
  \<^item> Nsjail_Adapter, Nsjail_Adapter_Props: the table and the operations of \<open>adapter.go\<close> and
    \<open>pty_linux.go\<close>, and what each does on every path to the table, the file system and the processes.
  \<^item> Nsjail_Concurrency: creations and deletions interleaved where \<open>Create\<close> gives up the lock.
  \<^item> Controller_Api, Controller_Server, Controller_Server_Props: \<open>server.go\<close> with its routes, token
    and handlers.  The server relies on the adapter through the locale \<open>sandbox_store\<close>, which
    is interpreted on the adapter; capacity, slots and gauge are invariants of the reachable states.
  \<^item> Controller_Concurrency: the requests of one controller interleaved where a handler gives up a lock
    or waits for a process: the number of sandboxes stays below the limit plus the number of
    concurrent creations, a bound that is reached, and the slots are exact.
  \<^item> Controller_Client, Controller_Wire: \<open>client.go\<close>, and client and server put together.

  \<^bold>\<open>Operator\<close> (\<open>internal/operator\<close>).  Kube has the objects of \<open>api/v1alpha1\<close> and the calls.
  Kube_Deepcopy is \<open>zz_generated.deepcopy.go\<close>: a copy shares nothing with its original.  A copy is an
  instance of the locale \<open>deep_copy\<close>, which gives the copies of pointers, slices and structs.
  Operator is \<open>session_reconciler.go\<close>; Operator_Pool is \<open>session_scaler.go\<close>,
  \<open>pool_reconciler.go\<close>, \<open>sandbox_config_reconciler.go\<close> and \<open>metrics.go\<close>.  Operator_Props has the
  abstract machine of the phases of a session, which every reconciliation refines, the bound
  on the sessions of a controller, expiry, finalizers, scaling, and that a session starts.

  \<^bold>\<open>Router\<close> (\<open>internal/router\<close>).  Router_Auth is \<open>auth.go\<close>, Router_Server and
  Router_Sessions are \<open>server.go\<close>, and Router_Mcp is \<open>mcp.go\<close>.  \<open>serve\<close> is the whole server.  Router_Props:
  nothing happens without an authenticated user, and every change was allowed by an access
  review (an interpretation of \<open>event_policy\<close>).  Router_Cache: the token cache, the
  semaphore and the metrics over the life of the server.  Router_Answers: every request is
  answered.  Router_Objects: the objects written are well formed.

  \<^bold>\<open>Processes.\<close>  Boxy_Config: the settings the three programs read, their TLS
  configurations, and \<open>internal/kube/factory.go\<close>.  Boxy_Telemetry: \<open>internal/telemetry\<close> and \<open>cgroup.go\<close>.
  Boxy_Metrics: the instruments of the three \<open>metrics.go\<close>, what a scrape reports, and the recorder of the
  status of an answer.  Boxy_Main: the three \<open>main.go\<close>, \<open>internal/router/k8s.go\<close> and
  \<open>groupversion_info.go\<close>, as the list of what a process does from its start to its end: the API of a
  controller is behind mutual TLS, processes listen after they are set up and stop in order, and the operator
  scales down in every replica.

  \<^bold>\<open>This theory\<close> puts the operator and a controller together: a session is written as running
  exactly when its controller has just created its sandbox, and torn down only after the
  controller does not hold it; the router and the controllers, with Exec_Path: a command that is
  answered with a result ran in the jail of a session its user may use, and one that is accepted by
  everyone on the way is answered with its result; and it compares the settings of the three processes.

  \<^bold>\<open>Fuel.\<close>  The waiting loop of the router (\<open>createAndWaitForSession\<close>) takes a number of rounds;
  \<open>None\<close> means that it still waits.  \<open>wait_rounds\<close>, the create timeout divided by the poll interval
  plus two, is enough for every request when the clock advances (Router_Answers).
  \<open>RunScaleDownLoop\<close> runs forever in the code and takes the number of its ticks here.  All
  other recursion ends by itself.

  \<^bold>\<open>Not modelled.\<close>  JSON encoding and decoding, HTTP, TLS, the MCP protocol, the OpenTelemetry, Kubernetes
  client and controller runtime libraries are parameters: a request arrives decoded, or as not decodable, and
  a library call returns what its parameter says.  Logging is left out.  Floating point numbers (durations
  in metrics) are left out.  In \<open>main\<close>, why a process is told to stop is left out, and so are the
  bounds on the time a shutdown takes.  Type and version of an object (\<open>TypeMeta\<close>) are left out.  The
  handlers of the router are run one after the other; interleaving is modelled for the controller and its
  adapter and for the output streams, where the code gives up its locks.
  The landlock files have no code, and \<open>internal/router/controller_client.go\<close> only has
  aliases.
\<close>

section \<open>The operator and a controller\<close>

text \<open>A response without a body the client decodes, as it arrives over an intact connection.\<close>

definition wire_plain :: "ctl_resp \<Rightarrow> unit do_result" where
  "wire_plain r = Inr \<lparr>hr_Status = rs_Status r, hr_ErrBody = wire_error (rs_Body r), hr_Decoded = Inr ()\<rparr>"

text \<open>The errors of \<open>Create\<close>: none of them has the status that marks a route as stale.\<close>

definition create_error :: "go_error option \<Rightarrow> bool" where
  "create_error e \<longleftrightarrow> (case e of None \<Rightarrow> True | Some x \<Rightarrow> \<exists>c t. x = ErrAdapter c t \<and> c \<in> {400, 409, 500})"

lemma create_error_simps [simp]:
  "create_error None" "create_error (Some (errInternal t))" "create_error (Some (errConflict t))"
  by (simp_all add: create_error_def errInternal_def errConflict_def)

lemma copy_binaries_errors: "returns create_error (copy_binaries os dir binDir bs)"
  by (induction bs) (auto simp only: copy_binaries.simps intro!: returns_intros create_error_simps)

lemma Create_errors: "returns create_error (Create os cfg req)"
proof -
  have "create_error (validateCreateRequest cfg req)"
    using validateCreateRequest_bad_request [of cfg req]
    by (auto simp: bad_request_def create_error_def errBadRequest_def split: option.splits)
  moreover have "returns create_error (create_prepare os cfg req)"
    unfolding create_prepare_def Let_def
    by (intro returns_cases returns_bind_value [OF copy_binaries_errors] returns_bind returns_return; simp)
  moreover have "returns create_error (create_finish os cfg req h)" for h
    unfolding create_finish_def by (intro returns_intros; simp)
  ultimately show ?thesis
    unfolding Create_def
    by (intro returns_cases returns_return returns_bind_value [where R = create_error and m = "create_prepare os cfg req"])
       (auto intro: returns_bind)
qed

lemma create_send:
  assumes "cl_ControllerToken cc = cc_controllerToken cfg"
  shows "NewClient cc (\<lambda>q. f (ctl_answer os cfg s base q))
        (http_NewRequest ''POST'' (base @ ''/v1/sandboxes'') (SendCreate req)) =
      f (fst (run_state (handleCreate os cfg (Some req)) s))"
  by (rule wire_token [OF assms])
     (auto simp: ctl_answer_def ctl_handler_def tokenMiddleware_def wire_request_def mux_serve_def
      ctl_routes_def http_NewRequest_def)

text \<open>
  A call that creates a sandbox: it succeeds exactly when the controller adds the sandbox,
  whose id was not in use, and a failure never marks the route as stale.
\<close>

definition create_call ::
  "os_env \<Rightarrow> ctl_config \<Rightarrow> controller \<Rightarrow> ClientConfig \<Rightarrow> bytes \<Rightarrow> CreateSandboxReq \<Rightarrow> go_error option" where
  "create_call os ctl s cc baseURL req =
     CreateSandbox (NewClient cc (\<lambda>q. wire_plain (ctl_answer os ctl s baseURL q))) baseURL req"

lemma create_call_outcome:
  fixes s :: controller
  assumes "cl_ControllerToken cc = cc_controllerToken ctl"
  shows "case create_call os ctl s cc base req of
      None \<Rightarrow> map_of (na_sandboxes s) (cq_SandboxID req) = None \<and>
        map_of (na_sandboxes (snd (run_state (handleCreate os ctl (Some req)) s))) =
          (map_of (na_sandboxes s))(cq_SandboxID req \<mapsto> new_sandbox (cc_adapterConfig ctl) (create_body req))
    | Some e \<Rightarrow> \<not> IsStaleRouteError (Some e) \<and>
        na_sandboxes (snd (run_state (handleCreate os ctl (Some req)) s)) = na_sandboxes s"
proof -
  obtain r s' where run: "run_state (Create os (cc_adapterConfig ctl) (create_body req)) s = (r, s')" by fastforce
  have table: "case r of None \<Rightarrow> map_of (na_sandboxes s) (cq_SandboxID req) = None \<and>
      map_of (na_sandboxes s') =
        (map_of (na_sandboxes s))(cq_SandboxID req \<mapsto> new_sandbox (cc_adapterConfig ctl) (create_body req))
    | Some e \<Rightarrow> na_sandboxes s' = na_sandboxes s"
    using Create_table [where os = os and cfg = "cc_adapterConfig ctl" and req = "create_body req" and s = s] run
    by (auto simp: create_body_def split: option.splits)
  have err: "create_error r"
    using Create_errors [where os = os and cfg = "cc_adapterConfig ctl" and req = "create_body req"] run
    by (metis returns_def fst_conv)
  obtain resp s1 where h: "run_state (handleCreate os ctl (Some req)) s = (resp, s1)" by fastforce
  have call: "create_call os ctl s cc base req =
      (if rs_Status resp \<ge> 300
       then Some (ErrHTTP ''POST'' (base @ ''/v1/sandboxes'') (rs_Status resp)
         (case wire_error (rs_Body resp) of Some msg \<Rightarrow> TrimSpace msg | None \<Rightarrow> []))
       else None)"
    unfolding create_call_def CreateSandbox_def postJSON_def create_send [OF assms, of wire_plain] h fst_conv
    by (simp add: wire_plain_def newHTTPError_def)
  have "if rs_Status resp \<ge> 300 then rs_Status resp \<noteq> 404 \<and> na_sandboxes s1 = na_sandboxes s
      else r = None \<and> na_sandboxes s1 = na_sandboxes s'"
    using table err run h
    by (auto simp: handleCreate_def Count_def record_metric_def State_Monad.update_def writeErr_def
        writeJSON_def create_error_def writeAdapterErr_def adapterErrToHTTP_def split: if_splits option.splits)
  with table h show ?thesis
    by (auto simp: call IsStaleRouteError_def is_http_error_def split: if_splits)
qed

lemma creating_outcome:
  fixes s :: controller and w :: operator_state
  assumes "cl_ControllerToken (rcf_Client cfg) = cc_controllerToken ctl"
    and "\<And>t. k_Plain env t = (\<lambda>q. wire_plain (ctl_answer os ctl s (sessionControllerURL cfg session) q))"
    and "fst (run_state (fetchSandboxConfig env cfg (ss_SandboxID (se_Spec session))) w) = Inr (Some sb)"
  shows "case run_state (reconcileCreating env cfg session) w of (r, w') \<Rightarrow>
    let req = create_request session sb; i = ss_SessionID (se_Spec session);
        s' = snd (run_state (handleCreate os ctl (Some req)) s)
    in \<exists>l e es. w_trace w' = w_trace w @ [l, CtlCreate (sessionControllerURL cfg session) req e] @ es \<and>
      (case e of
         None \<Rightarrow> map_of (na_sandboxes s) i = None \<and>
           map_of (na_sandboxes s') =
             (map_of (na_sandboxes s))(i \<mapsto> new_sandbox (cc_adapterConfig ctl) (create_body req)) \<and>
           (\<exists>x fs. es = UpdateSessionStatus (now_running session) x # fs)
       | Some err \<Rightarrow> na_sandboxes s' = na_sandboxes s \<and> es = [] \<and> r = Inr (requeue_after (seconds 5)))"
proof -
  let ?url = "sessionControllerURL cfg session" and ?req = "create_request session sb"
  let ?e = "create_call os ctl s (rcf_Client cfg) ?url ?req"
  have call: "run_state (ctl_CreateSandbox env (rcf_Client cfg) ?url ?req) v =
      (?e, v\<lparr>w_trace := w_trace v @ [CtlCreate ?url ?req ?e]\<rparr>)" for v :: operator_state
    by (simp add: ctl_CreateSandbox_def create_call_def assms(2))
  obtain l w1 where fetch: "run_state (fetchSandboxConfig env cfg (ss_SandboxID (se_Spec session))) w =
      (Inr (Some sb), w1)" and l: "w_trace w1 = w_trace w @ [l]"
    using assms(3) by (auto simp: fetchSandboxConfig_def list_sandboxes_def)
  have i: "cq_SandboxID ?req = ss_SessionID (se_Spec session)" by (simp add: create_request_def)
  show ?thesis
  proof (cases ?e)
    case None
    with create_call_outcome [OF assms(1), where os = os and s = s and base = ?url and req = ?req] fetch l i show ?thesis
      by (auto simp: reconcileCreating_def call Let_def update_session_status_def time_Now_def split: sum.splits option.splits)
  next
    case (Some e)
    with create_call_outcome [OF assms(1), where os = os and s = s and base = ?url and req = ?req] fetch l i show ?thesis
      by (auto simp: reconcileCreating_def call Let_def)
  qed
qed

text \<open>
  C5.  The operator drives a controller that answers over an intact connection with the same
  token: a reconciliation of a session that is being created, whose configuration exists,
  sends the request made from the configuration and writes that the session runs exactly
  when the controller has just added the sandbox, with the limits of the configuration, under
  the id of the session, which was not in use.  When the controller refuses, for lack
  of room, because of an invalid request, a failing setup script or an id it holds already,
  its table is unchanged, nothing is written, and the session is retried in five seconds.
\<close>

theorem session_runs_iff_created:
  fixes s :: controller and w :: operator_state
  assumes "cl_ControllerToken (rcf_Client cfg) = cc_controllerToken ctl"
    and "\<And>t. k_Plain env t = (\<lambda>q. wire_plain (ctl_answer os ctl s (sessionControllerURL cfg session) q))"
    and "fst (run_state (fetchSandboxConfig env cfg (ss_SandboxID (se_Spec session))) w) = Inr (Some sb)"
  shows "case run_state (reconcileCreating env cfg session) w of (r, w') \<Rightarrow>
    let req = create_request session sb; i = ss_SessionID (se_Spec session);
        s' = snd (run_state (handleCreate os ctl (Some req)) s)
    in \<exists>l e es. w_trace w' = w_trace w @ [l, CtlCreate (sessionControllerURL cfg session) req e] @ es \<and>
      (case e of
         None \<Rightarrow> map_of (na_sandboxes s) i = None \<and>
           map_of (na_sandboxes s') =
             (map_of (na_sandboxes s))(i \<mapsto> new_sandbox (cc_adapterConfig ctl) (create_body req)) \<and>
           (\<exists>x fs. es = UpdateSessionStatus (now_running session) x # fs)
       | Some err \<Rightarrow> na_sandboxes s' = na_sandboxes s \<and> es = [] \<and> r = Inr (requeue_after (seconds 5)))"
  using assms by (rule creating_outcome)

definition demo_ctl :: ctl_config where
  "demo_ctl = demo_ctl_cfg\<lparr>cc_controllerToken := [], cc_maxSandboxes := 2\<rparr>"

definition wired_env :: "controller \<Rightarrow> kube_env" where
  "wired_env s = demo_env\<lparr>k_Plain := (\<lambda>t q. wire_plain (ctl_answer demo_os demo_ctl s
     (sessionControllerURL demo_rcf (demo_session ''a'')) q))\<rparr>"

definition demo_created :: controller where
  "demo_created = snd (run_state (handleCreate demo_os demo_ctl (Some (create_request (demo_session ''a'') demo_sandbox))) newServer)"

theorem session_runs_iff_created_witness:
  "\<exists>l e es. w_trace (snd (run_state (reconcileCreating (wired_env newServer) demo_rcf (demo_session ''a'')) demo_operator)) =
       [l, CtlCreate (sessionControllerURL demo_rcf (demo_session ''a'')) (create_request (demo_session ''a'') demo_sandbox) e] @ es \<and>
     e = None \<and> map_of (na_sandboxes demo_created) ''a'' \<noteq> None \<and>
     (\<exists>x fs. es = UpdateSessionStatus (now_running (demo_session ''a'')) x # fs)"
proof -
  have 1: "cl_ControllerToken (rcf_Client demo_rcf) = cc_controllerToken demo_ctl" by code_simp
  have 2: "fst (run_state (fetchSandboxConfig (wired_env newServer) demo_rcf
      (ss_SandboxID (se_Spec (demo_session ''a'')))) demo_operator) = Inr (Some demo_sandbox)" by code_simp
  have 3: "w_trace demo_operator = []" "map_of (na_sandboxes demo_created) ''a'' \<noteq> None" by code_simp+
  have "na_sandboxes demo_created \<noteq> na_sandboxes newServer" by code_simp
  with session_runs_iff_created [OF 1 _ 2, where os = demo_os and s = newServer] 3 show ?thesis
    by (auto simp: wired_env_def Let_def case_prod_beta demo_created_def split: option.splits)
qed

text \<open>
  A session whose sandbox the controller holds already, as when the status could not be
  written after the sandbox was created, stays where it is: every retry is refused.
\<close>

theorem create_retry_refused:
  fixes s :: controller and w :: operator_state
  assumes "cl_ControllerToken (rcf_Client cfg) = cc_controllerToken ctl"
    and "\<And>t. k_Plain env t = (\<lambda>q. wire_plain (ctl_answer os ctl s (sessionControllerURL cfg session) q))"
    and "fst (run_state (fetchSandboxConfig env cfg (ss_SandboxID (se_Spec session))) w) = Inr (Some sb)"
    and "map_of (na_sandboxes s) (ss_SessionID (se_Spec session)) \<noteq> None"
  shows "case run_state (reconcileCreating env cfg session) w of (r, w') \<Rightarrow>
    r = Inr (requeue_after (seconds 5)) \<and>
    (\<exists>l e. w_trace w' = w_trace w @ [l, CtlCreate (sessionControllerURL cfg session) (create_request session sb) e])"
  using creating_outcome [OF assms(1-3)] assms(4) by (fastforce simp: Let_def split: option.splits)

lemma delete_send:
  assumes "cl_ControllerToken cc = cc_controllerToken cfg"
  shows "NewClient cc (\<lambda>q. f (ctl_answer os cfg s base q))
        (http_NewRequest ''DELETE'' (base @ ''/v1/sandboxes'') (SendDelete req)) =
      f (fst (run_state (handleDelete os (Some req)) s))"
  by (rule wire_token [OF assms])
     (auto simp: ctl_answer_def ctl_handler_def tokenMiddleware_def wire_request_def mux_serve_def
      ctl_routes_def http_NewRequest_def)

text \<open>
  A call that deletes a sandbox: whatever it returns, the controller does not hold the sandbox
  afterwards, and an error means that it did not hold it before.
\<close>

definition delete_call ::
  "os_env \<Rightarrow> ctl_config \<Rightarrow> controller \<Rightarrow> ClientConfig \<Rightarrow> bytes \<Rightarrow> DeleteSandboxReq \<Rightarrow> go_error option" where
  "delete_call os ctl s cc baseURL req =
     DeleteSandbox (NewClient cc (\<lambda>q. wire_plain (ctl_answer os ctl s baseURL q))) baseURL req"

lemma Delete_table:
  fixes s :: controller
  shows "case run_state (Delete os i) s of (r, s') \<Rightarrow>
    r = (if map_of (na_sandboxes s) i = None then Some (errNotFound i) else None) \<and>
    map_of (na_sandboxes s') = (map_of (na_sandboxes s))(i := None)"
proof (cases "map_of (na_sandboxes s) i")
  case None
  then show ?thesis by (auto simp: Delete_def)
next
  case (Some sb)
  have "wp (Delete os i) (\<lambda>r s'. r = None \<and> na_sandboxes s' = AList.delete i (na_sandboxes s)) s"
    using Some by (auto simp: Delete_def wp_simps runHookScript_def remove_all_def Let_def)
  with Some show ?thesis by (auto simp: wp_def case_prod_beta delete_conv')
qed

lemma delete_call_outcome:
  fixes s :: controller
  assumes "cl_ControllerToken cc = cc_controllerToken ctl" and "TrimSpace (dq_SandboxID req) \<noteq> []"
  shows "(delete_call os ctl s cc base req = None \<or> IsStaleRouteError (delete_call os ctl s cc base req)) \<and>
    map_of (na_sandboxes (snd (run_state (handleDelete os (Some req)) s))) =
      (map_of (na_sandboxes s))(dq_SandboxID req := None)"
proof -
  obtain r s' where run: "run_state (Delete os (dq_SandboxID req)) s = (r, s')" by fastforce
  obtain resp s1 where h: "run_state (handleDelete os (Some req)) s = (resp, s1)" by fastforce
  have call: "delete_call os ctl s cc base req =
      (if rs_Status resp \<ge> 300
       then Some (ErrHTTP ''DELETE'' (base @ ''/v1/sandboxes'') (rs_Status resp)
         (case wire_error (rs_Body resp) of Some msg \<Rightarrow> TrimSpace msg | None \<Rightarrow> []))
       else None)"
    unfolding delete_call_def DeleteSandbox_def deleteJSON_def delete_send [OF assms(1), of wire_plain] h fst_conv
    by (simp add: wire_plain_def newHTTPError_def)
  have "(rs_Status resp = 204 \<or> rs_Status resp = 404) \<and> na_sandboxes s1 = na_sandboxes s'"
    using Delete_table [where os = os and i = "dq_SandboxID req" and s = s] run h assms(2)
    by (auto simp: handleDelete_def record_metric_def State_Monad.update_def writeAdapterErr_def
        adapterErrToHTTP_def errNotFound_def writeErr_def writeJSON_def split: if_splits)
  with Delete_table [where os = os and i = "dq_SandboxID req" and s = s] run h show ?thesis
    by (auto simp: call IsStaleRouteError_def is_http_error_def)
qed


definition demo_bound :: Session where
  "demo_bound = (now_running (demo_session ''a''))\<lparr>
     se_Meta := AddFinalizer FinalizerSessionCleanup (se_Meta (demo_session ''a'')),
     se_Status := (se_Status (now_running (demo_session ''a'')))\<lparr>st_ControllerAddress := ''10.0.0.1''\<rparr>\<rparr>"

definition bound_env :: "controller \<Rightarrow> kube_env" where
  "bound_env s = demo_env\<lparr>k_Plain := (\<lambda>t q. wire_plain (ctl_answer demo_os demo_ctl s
     (sessionControllerURL demo_rcf demo_bound) q))\<rparr>"


section \<open>The router and the controllers\<close>

text \<open>
  C2.  Whenever an exec request to the router is answered with a result, over intact
  connections and with the same token on both sides: the status is 200; the request passed
  the validation; it was sent to the controller of a running session that the user may use, under
  the id of that session; that controller holds the sandbox and had a free slot; the result
  is what its adapter returned, cut to the limit and carried as JSON text; and without a
  terminal the adapter ran exactly one process, nsjail on the configuration of that sandbox.
\<close>

theorem exec_end_to_end:
  assumes "cl_ControllerToken (client_config cfg) = cc_controllerToken ctl" and "exec_wired env os ctl ctls"
  shows "case run_state (handleSessionExec env cfg fuel (Some u) r) w of
      (None, w') \<Rightarrow> True
    | (Some resp, w') \<Rightarrow>
        (case ro_Body resp of
           RExec x \<Rightarrow> ro_Status resp = 200 \<and>
             (\<exists>body sess fs res. exec_accepted cfg r body \<and> usable cfg u sess (set fs) \<and>
                (let url = controllerURLFromSession cfg sess;
                     req = \<lparr>xq_SandboxID = ss_SessionID (se_Spec sess), xq_Command = er_Command body,
                       xq_Args = er_Args body, xq_Env = er_Env body, xq_TimeoutSeconds = er_TimeoutSeconds body,
                       xq_PTY = er_PTY body\<rparr> in
                 w_trace w' = w_trace w @ fs @ [CtlExec url req (Inr res), Spawn sess] \<and>
                 ran_in_jail os ctl (ctls url) req res \<and>
                 x = \<lparr>xr_ExitCode = xs_ExitCode res, xr_Stdout = xs_Stdout res, xr_Stderr = xs_Stderr res,
                      xr_TimedOut = xs_TimedOut res\<rparr>))
         | _ \<Rightarrow> True)"
proof -
  obtain a w' where run: "run_state (handleSessionExec env cfg fuel (Some u) r) w = (a, w')" by fastforce
  show ?thesis
  proof (cases a)
    case (Some resp)
    with exec_path [OF assms run [unfolded Some]] run show ?thesis
      by (simp add: exec_req_def split: rt_body.split)
  qed (simp add: run)
qed

text \<open>
  C14.  An exec request that names a running session of its sandbox configuration, by a user
  who may update the session, is answered with the output and the exit code of the command
  when the router and the controller have a free slot and the adapter has a result: status
  200, the id of the session in the header, and no session created.
\<close>

theorem exec_served:
  assumes "cl_ControllerToken (client_config cfg) = cc_controllerToken ctl" and "exec_wired env os ctl ctls"
    and "exec_accepted cfg r body" and "int (bi_Needed (rq_ExecBody r)) \<le> rf_MaxBodyBytes cfg"
    and "int (rt_sem w) < rf_MaxConcurrency cfg"
    and "i = TrimSpace (er_SessionID body)" and "ValidateSessionID i = None"
    and "k_ListSessions env (w_trace w) (rf_SandboxNamespace cfg) [(LabelSessionID, i)] = Inr [sess]"
    and "ss_SessionID (se_Spec sess) = i" and "ss_SandboxID (se_Spec sess) = er_SandboxID body"
    and "om_DeletionTimestamp (se_Meta sess) = None" and "phase sess = SandboxPhaseRunning"
    and "ui_Username u \<noteq> []" and "\<And>t. k_ReviewAccess env t \<lparr>ar_User = u, ar_Namespace = rf_SandboxNamespace cfg,
        ar_Group = ''boxy.dev'', ar_Resource = ''sessions'', ar_Verb = ''update'',
        ar_Name = om_Name (se_Meta sess)\<rparr> = Inr (True, [])"
    and "req = exec_req sess body (er_PTY body)" and "c = ctls (controllerURLFromSession cfg sess)"
    and "exec_admitted ctl c req" and "fst (run_state (adapter_Exec os ctl req) (slot_taken c)) = Inr y"
  shows "fst (run_state (handleSessionExec env cfg fuel (Some u) r) w) =
    Some \<lparr>ro_Status = 200,
      ro_Header = [(''Content-Type'', ''application/json''), (''X-Boxy-Session-Id'', i)],
      ro_Body = RExec \<lparr>xr_ExitCode = xr_ExitCode y,
        xr_Stdout = json_text (truncateOutput (cc_maxOutputBytes ctl) (xr_Stdout y)),
        xr_Stderr = json_text (truncateOutput (cc_maxOutputBytes ctl) (xr_Stderr y)),
        xr_TimedOut = xr_TimedOut y\<rparr>\<rparr>"
proof -
  have i: "i \<noteq> []" using assms(7) by (auto simp: ValidateSessionID_def validateLabelBackedName_None dest: valid_name_nonempty)
  have call: "client_Exec (NewClient (client_config cfg) (k_Exec env t)) (controllerURLFromSession cfg sess)
      (exec_req sess body (er_PTY body)) = Inr (carried ctl y)" for t
    unfolding wired_client_Exec [OF assms(2)] exec_call_result [OF assms(1)]
    using assms(15-18) by auto
  show ?thesis
    using assms(3-14) i
    by (simp add: handleSessionExec_def with_sem_def exec_session_def decodeBody_def exec_accepted_def
        with_session_id_def lookupSession_def rt_list_sessions_def requireResourceAccess_def authorizeResource_def
        ctl_Exec_def call spawn_touch_def reply_def exec_headers_def carried_def Let_def State_Monad.update_def)
qed

text \<open>One controller that holds the sandbox of session \<open>a\<close>, and a request to run \<open>ls\<close> in it.\<close>

definition demo_router :: Config where
  "demo_router = \<lparr>rf_ListenAddr = [], rf_DevToken = [], rf_AuthCacheTTL = 0, rf_SandboxNamespace = ''boxy'',
     rf_MaxBodyBytes = 100, rf_MaxOutputBytes = 8, rf_MaxTimeoutSec = 60, rf_MaxArgs = 4, rf_MaxEnvKeys = 4,
     rf_MaxConcurrency = 1, rf_MaxSandboxTTLSec = 60, rf_MTLSDisabled = True, rf_TLSCAPath = [],
     rf_TLSClientCertPath = [], rf_TLSClientKeyPath = [], rf_ControllerToken = [], rf_ControllerPort = 8080,
     rf_DefaultSandboxEnabled = False, rf_DefaultSandboxConfig = None, rf_CreateTimeout = 0\<rparr>"

definition routed_env :: kube_env where
  "routed_env = demo_env\<lparr>k_ListSessions := (\<lambda>t ns l. Inr [demo_bound]),
     k_Exec := (\<lambda>t q. wire_exec (ctl_answer demo_os demo_ctl demo_created
       (take (length (hq_URL q) - length ''/v1/exec'') (hq_URL q)) q))\<rparr>"

definition demo_ls :: rt_request where
  "demo_ls = \<lparr>rq_Meth = ''POST'', rq_Segments = [], rq_Authorization = [], rq_QuerySandbox = [],
     rq_QueryOwner = [], rq_QueryPhase = [], rq_XSandboxId = [], rq_XSessionId = [],
     rq_ExecBody = \<lparr>bi_Needed = 9, bi_Value = Some \<lparr>er_SandboxID = ''py'', er_SessionID = ''a'', er_Owner = [],
       er_Command = ''ls'', er_Args = [], er_Env = [], er_TimeoutSeconds = 5, er_PTY = False\<rparr>\<rparr>,
     rq_SessionBody = \<lparr>bi_Needed = 0, bi_Value = None\<rparr>, rq_SandboxBody = \<lparr>bi_Needed = 0, bi_Value = None\<rparr>\<rparr>"

lemma routed_wired: "exec_wired routed_env demo_os demo_ctl (\<lambda>_. demo_created)"
  by (simp add: exec_wired_def routed_env_def)

lemma demo_router_token: "cl_ControllerToken (client_config demo_router) = cc_controllerToken demo_ctl"
  by code_simp

theorem exec_end_to_end_witness:
  "\<exists>resp w' x body sess fs res.
     run_state (handleSessionExec routed_env demo_router 0 (Some demo_user) demo_ls) server_start = (Some resp, w') \<and>
     ro_Status resp = 200 \<and> ro_Body resp = RExec x \<and> exec_accepted demo_router demo_ls body \<and>
     usable demo_router demo_user sess (set fs) \<and>
     ran_in_jail demo_os demo_ctl demo_created
       \<lparr>xq_SandboxID = ss_SessionID (se_Spec sess), xq_Command = er_Command body, xq_Args = er_Args body,
        xq_Env = er_Env body, xq_TimeoutSeconds = er_TimeoutSeconds body, xq_PTY = er_PTY body\<rparr> res"
proof -
  let ?run = "run_state (handleSessionExec routed_env demo_router 0 (Some demo_user) demo_ls) server_start"
  have "case fst ?run of None \<Rightarrow> False | Some resp \<Rightarrow>
      (case ro_Body resp of RExec x \<Rightarrow> xr_Stdout x = ''abc'' | _ \<Rightarrow> False)" by code_simp
  then obtain resp w' x where "?run = (Some resp, w')" "ro_Body resp = RExec x"
    by (cases ?run) (auto split: option.splits rt_body.splits)
  with exec_end_to_end [OF demo_router_token routed_wired, where fuel = 0 and u = demo_user and r = demo_ls
      and w = server_start] show ?thesis by (auto simp: Let_def)
qed

theorem exec_served_witness:
  "fst (run_state (handleSessionExec routed_env demo_router 0 (Some demo_user) demo_ls) server_start) =
    Some \<lparr>ro_Status = 200,
      ro_Header = [(''Content-Type'', ''application/json''), (''X-Boxy-Session-Id'', ''a'')],
      ro_Body = RExec \<lparr>xr_ExitCode = 0, xr_Stdout = ''abc'', xr_Stderr = [], xr_TimedOut = False\<rparr>\<rparr>"
proof -
  define body where "body = the (bi_Value (rq_ExecBody demo_ls))"
  let ?req = "exec_req demo_bound body (er_PTY body)"
  define y :: ExecResponseBody where
    "y = \<lparr>xr_ExitCode = 0, xr_Stdout = ''abc'', xr_Stderr = [], xr_TimedOut = False\<rparr>"
  have 1: "exec_accepted demo_router demo_ls body"
    "int (bi_Needed (rq_ExecBody demo_ls)) \<le> rf_MaxBodyBytes demo_router"
    "int (rt_sem server_start) < rf_MaxConcurrency demo_router"
    "''a'' = TrimSpace (er_SessionID body)" "ValidateSessionID ''a'' = None"
    "k_ListSessions routed_env (w_trace server_start) (rf_SandboxNamespace demo_router) [(LabelSessionID, ''a'')] =
       Inr [demo_bound]"
    "ss_SessionID (se_Spec demo_bound) = ''a''" "ss_SandboxID (se_Spec demo_bound) = er_SandboxID body"
    "om_DeletionTimestamp (se_Meta demo_bound) = None" "phase demo_bound = SandboxPhaseRunning"
    "ui_Username demo_user \<noteq> []" "exec_admitted demo_ctl demo_created ?req"
    unfolding body_def by code_simp+
  have 2: "k_ReviewAccess routed_env t a = Inr (True, [])" for t a
    by (simp add: routed_env_def demo_env_def)
  have 3: "fst (run_state (adapter_Exec demo_os demo_ctl ?req) (slot_taken demo_created)) = Inr y"
    unfolding body_def y_def by code_simp
  have 4: "json_text (truncateOutput (cc_maxOutputBytes demo_ctl) ''abc'') = ''abc''"
    "json_text (truncateOutput (cc_maxOutputBytes demo_ctl) []) = []" by code_simp+
  show ?thesis
    using exec_served [OF demo_router_token routed_wired 1(1-11) 2 refl refl 1(12) 3, where fuel = 0]
    by (simp add: y_def 4)
qed

section \<open>The settings of the three processes\<close>

text \<open>
  Given the same variables, the router, the operator and the controller agree on the
  controller token and the controller port, and the router and the controller on whether
  mutual TLS is off.  The operator agrees with them on that exactly if the variable is not spelled
  \<open>on\<close>, and then its client of the controllers is configured like that of the router.
\<close>

theorem shared_settings:
  "case ConfigFromEnv os_Getenv json_Unmarshal of
     Inl e \<Rightarrow> True
   | Inr router \<Rightarrow>
       let operator = operator_config os_Getenv; controller = configFromEnv os_Getenv in
       cl_ControllerToken (client_config router) = cc_controllerToken controller \<and>
       cl_ControllerToken (rcf_Client operator) = cc_controllerToken controller \<and>
       rf_ControllerPort router = rcf_ControllerPort operator \<and>
       rcf_ControllerPort operator = int32 (pc_port controller) \<and>
       rf_MTLSDisabled router = pc_mtlsDisabled controller \<and>
       rcf_MTLSDisabled operator = cl_MTLSDisabled (rcf_Client operator) \<and>
       (rcf_MTLSDisabled operator = pc_mtlsDisabled controller \<longleftrightarrow>
          TrimSpace (ToLower (os_Getenv ''BOXY_MTLS_DISABLED'')) \<noteq> ''on'') \<and>
       (rcf_MTLSDisabled operator = rf_MTLSDisabled router \<longleftrightarrow> rcf_Client operator = client_config router)"
proof (cases "ConfigFromEnv os_Getenv json_Unmarshal")
  case (Inr router)
  then have router: "rf_ControllerToken router = envStr os_Getenv ''BOXY_CONTROLLER_TOKEN'' []"
    "rf_ControllerPort router = int32 (envInt os_Getenv ''BOXY_CONTROLLER_PORT'' 8080)"
    "rf_MTLSDisabled router = envBool os_Getenv ''BOXY_MTLS_DISABLED'' False"
    "rf_TLSCAPath router = envStr os_Getenv ''BOXY_TLS_CA_PATH'' ''/tls/ca.crt''"
    "rf_TLSClientCertPath router = envStr os_Getenv ''BOXY_TLS_CLIENT_CERT_PATH'' ''/tls/tls.crt''"
    "rf_TLSClientKeyPath router = envStr os_Getenv ''BOXY_TLS_CLIENT_KEY_PATH'' ''/tls/tls.key''"
    by (auto simp: ConfigFromEnv_def Let_def split: if_splits sum.splits)
  have bools: "envBool g k False = controller_envBool g k False"
    "operator_envBool g k False = controller_envBool g k False \<longleftrightarrow> TrimSpace (ToLower (g k)) \<noteq> ''on''" for g k
    by (auto simp: envBool_def controller_envBool_def operator_envBool_def Let_def)
  show ?thesis
    by (simp add: Inr router bools operator_config_def configFromEnv_def client_config_def Let_def)
qed simp

end
